(* ===== verification/Rust_Text.thy ===== *)
theory Rust_Text
  imports Prelude
begin

text \<open>
  The part of Rust's \<open>str\<close>, \<open>char\<close> and formatting library the crate uses. A \<open>char\<close> is its Unicode
  scalar value, a \<open>String\<close> the list of its chars; \<open>utf8\<close> gives the bytes. Literals of the source are
  written \<open>lit ''...''\<close>.
\<close>

type_synonym rchar = nat
type_synonym rstr = "nat list"

definition lit :: "string \<Rightarrow> rstr" where
  "lit s = map of_char s"

lemma lit_simps [simp]: "lit [] = []" "lit (c # cs) = of_char c # lit cs"
  by (simp_all add: lit_def)

lemma length_lit [simp]: "length (lit s) = length s"
  by (simp add: lit_def)

declare lit_simps(2) [simp del]

lemmas lit_eval = lit_simps

section \<open>Character classes and trimming\<close>

text \<open>\<open>char::is_whitespace\<close>: the Unicode property \<open>White_Space\<close>.\<close>

definition is_whitespace :: "rchar \<Rightarrow> bool" where
  "is_whitespace c \<longleftrightarrow> (9 \<le> c \<and> c \<le> 13) \<or> c = 32 \<or> c = 133 \<or> c = 160 \<or> c = 5760
     \<or> (8192 \<le> c \<and> c \<le> 8202) \<or> c = 8232 \<or> c = 8233 \<or> c = 8239 \<or> c = 8287 \<or> c = 12288"

definition trim_start_matches :: "(rchar \<Rightarrow> bool) \<Rightarrow> rstr \<Rightarrow> rstr" where
  "trim_start_matches p s = dropWhile p s"

definition trim_end_matches :: "(rchar \<Rightarrow> bool) \<Rightarrow> rstr \<Rightarrow> rstr" where
  "trim_end_matches p s = rev (dropWhile p (rev s))"

definition trim :: "rstr \<Rightarrow> rstr" where
  "trim s = trim_end_matches is_whitespace (trim_start_matches is_whitespace s)"

definition to_ascii_lowercase :: "rchar \<Rightarrow> rchar" where
  "to_ascii_lowercase c = (if 65 \<le> c \<and> c \<le> 90 then c + 32 else c)"

definition eq_ignore_ascii_case :: "rstr \<Rightarrow> rstr \<Rightarrow> bool" where
  "eq_ignore_ascii_case a b \<longleftrightarrow> map to_ascii_lowercase a = map to_ascii_lowercase b"

lemma eq_ignore_ascii_case_refl [simp]: "eq_ignore_ascii_case a a"
  by (simp add: eq_ignore_ascii_case_def)

lemma trim_end_id: "s = [] \<or> \<not> p (last s) \<Longrightarrow> trim_end_matches p s = s"
  by (cases s rule: rev_cases) (auto simp: trim_end_matches_def)

lemma trim_start_id: "s = [] \<or> \<not> p (hd s) \<Longrightarrow> trim_start_matches p s = s"
  by (cases s) (auto simp: trim_start_matches_def)

lemma trim_id: "s = [] \<or> (\<not> is_whitespace (hd s) \<and> \<not> is_whitespace (last s)) \<Longrightarrow> trim s = s"
  unfolding trim_def by (auto simp: trim_start_id trim_end_id)

lemma trim_edges: "trim s \<noteq> [] \<Longrightarrow> \<not> is_whitespace (hd (trim s)) \<and> \<not> is_whitespace (last (trim s))"
proof -
  let ?u = "dropWhile is_whitespace s"
  let ?d = "dropWhile is_whitespace (rev ?u)"
  assume ne: "trim s \<noteq> []"
  have t: "trim s = rev ?d" by (simp add: trim_def trim_end_matches_def trim_start_matches_def)
  with ne have d: "?d \<noteq> []" by auto
  have "rev (takeWhile is_whitespace (rev ?u) @ ?d) = ?u" by simp
  then have "?u = rev ?d @ rev (takeWhile is_whitespace (rev ?u))" by (simp del: takeWhile_dropWhile_id)
  with d have "?u \<noteq> []" "hd (rev ?d) = hd ?u" by (metis append_is_Nil_conv rev_is_Nil_conv, metis hd_append2 rev_is_Nil_conv)
  then have "\<not> is_whitespace (hd (rev ?d))" by (metis hd_dropWhile)
  moreover have "\<not> is_whitespace (last (rev ?d))" using d by (simp add: last_rev hd_dropWhile)
  ultimately show ?thesis by (simp add: t)
qed

lemma trim_trim [simp]: "trim (trim s) = trim s"
  by (rule trim_id) (use trim_edges in blast)

lemma set_trim: "set (trim s) \<subseteq> set s"
  unfolding trim_def trim_end_matches_def trim_start_matches_def
  by (auto dest!: set_dropWhileD)

lemma trim_append_spaces: "\<forall>c \<in> set w. is_whitespace c \<Longrightarrow> trim (t @ w) = trim t"
proof -
  assume w: "\<forall>c \<in> set w. is_whitespace c"
  have drop: "dropWhile is_whitespace v = []" if "\<forall>c \<in> set v. is_whitespace c" for v
    using that by (simp add: dropWhile_eq_Nil_conv)
  show ?thesis
  proof (cases "\<forall>c \<in> set t. is_whitespace c")
    case True
    with w show ?thesis
      by (simp add: trim_def trim_end_matches_def trim_start_matches_def drop dropWhile_append)
  next
    case False
    with w show ?thesis
      by (auto simp: trim_def trim_end_matches_def trim_start_matches_def dropWhile_append drop)
  qed
qed

section \<open>Splitting\<close>

text \<open>\<open>str::split(sep)\<close> for a char: always at least one piece.\<close>

fun split_on :: "rchar \<Rightarrow> rstr \<Rightarrow> rstr list" where
  "split_on sep [] = [[]]"
| "split_on sep (c # s) =
     (if c = sep then [] # split_on sep s
      else (case split_on sep s of p # ps \<Rightarrow> (c # p) # ps | [] \<Rightarrow> [[c]]))"

lemma split_on_nonempty [simp]: "split_on sep s \<noteq> []"
  by (cases s) (auto split: list.splits)

text \<open>\<open>str::split_whitespace\<close>: the maximal runs of non-whitespace chars.\<close>

fun words_aux :: "rstr \<Rightarrow> rstr \<Rightarrow> rstr list" where
  "words_aux cur [] = (if cur = [] then [] else [rev cur])"
| "words_aux cur (c # s) =
     (if is_whitespace c then (if cur = [] then words_aux [] s else rev cur # words_aux [] s)
      else words_aux (c # cur) s)"

definition split_whitespace :: "rstr \<Rightarrow> rstr list" where
  "split_whitespace s = words_aux [] s"

lemma words_aux_word:
  "list_all (\<lambda>c. \<not> is_whitespace c) w \<Longrightarrow> words_aux cur (w @ s) = words_aux (rev w @ cur) s"
  by (induction w arbitrary: cur) auto

text \<open>Pieces joined by a separator (\<open>[T]::join\<close>), and splitting them again.\<close>

fun join :: "rstr \<Rightarrow> rstr list \<Rightarrow> rstr" where
  "join sep [] = []"
| "join sep [s] = s"
| "join sep (s # t # r) = s @ sep @ join sep (t # r)"

lemma split_on_piece: "sep \<notin> set a \<Longrightarrow> split_on sep (a @ sep # s) = a # split_on sep s"
  by (induction a) auto

lemma split_on_single: "sep \<notin> set a \<Longrightarrow> split_on sep a = [a]"
  by (induction a) auto

lemma split_on_join: "ps \<noteq> [] \<Longrightarrow> \<forall>p \<in> set ps. sep \<notin> set p \<Longrightarrow> split_on sep (join [sep] ps) = ps"
  by (induction "[sep]" ps rule: join.induct) (simp_all add: split_on_piece split_on_single)

lemma words_aux_join:
  "\<forall>w \<in> set ws. w \<noteq> [] \<and> list_all (\<lambda>c. \<not> is_whitespace c) w \<Longrightarrow> split_whitespace (join [32] ws) = ws"
proof (induction "[32] :: rstr" ws rule: join.induct)
  case (3 s t r)
  have sp: "is_whitespace 32" by (simp add: is_whitespace_def)
  from 3 show ?case
    by (simp add: split_whitespace_def words_aux_word sp)
next
  case (2 s)
  then show ?case
    using words_aux_word [of s "[]" "[]"] by (simp add: split_whitespace_def)
qed (simp add: split_whitespace_def)

section \<open>UTF-8\<close>

text \<open>
  \<open>String::from_utf8_lossy\<close>: valid sequences are decoded; each maximal invalid prefix becomes one
  U+FFFD, as the standard library's \<open>Utf8Chunks\<close> splits them. \<open>second_ok\<close> is the range of the byte after
  a lead byte (it excludes overlong forms, surrogates and values above U+10FFFF).
\<close>

definition cont :: "u8 \<Rightarrow> bool" where
  "cont b \<longleftrightarrow> 128 \<le> b \<and> b \<le> 191"

definition second_ok :: "u8 \<Rightarrow> u8 \<Rightarrow> bool" where
  "second_ok a b \<longleftrightarrow>
     (if a = 224 then 160 \<le> b \<and> b \<le> 191
      else if a = 237 then 128 \<le> b \<and> b \<le> 159
      else if a = 240 then 144 \<le> b \<and> b \<le> 191
      else if a = 244 then 128 \<le> b \<and> b \<le> 143
      else cont b)"

definition utf8_width :: "u8 \<Rightarrow> nat" where
  "utf8_width a = (if a \<le> 127 then 1 else if 194 \<le> a \<and> a \<le> 223 then 2
     else if 224 \<le> a \<and> a \<le> 239 then 3 else if 240 \<le> a \<and> a \<le> 244 then 4 else 0)"

definition low6 :: "u8 \<Rightarrow> nat" where
  "low6 b = unat b - 128"

text \<open>Decodes one chunk: the char it stands for and the number of bytes it takes.\<close>

definition utf8_chunk :: "u8 \<Rightarrow> bytes \<Rightarrow> rchar \<times> nat" where
  "utf8_chunk a r =
     (let bad = 65533; w = utf8_width a in
      if w = 1 then (unat a, 1)
      else if w = 0 \<or> r = [] then (bad, 1)
      else if w = 2 then
        (if cont (r ! 0) then ((unat a - 192) * 64 + low6 (r ! 0), 2) else (bad, 1))
      else if \<not> second_ok a (r ! 0) then (bad, 1)
      else if length r < 2 \<or> \<not> cont (r ! 1) then (bad, 2)
      else if w = 3 then ((unat a - 224) * 4096 + low6 (r ! 0) * 64 + low6 (r ! 1), 3)
      else if length r < 3 \<or> \<not> cont (r ! 2) then (bad, 3)
      else ((unat a - 240) * 262144 + low6 (r ! 0) * 4096 + low6 (r ! 1) * 64 + low6 (r ! 2), 4))"

function from_utf8_lossy :: "bytes \<Rightarrow> rstr" where
  "from_utf8_lossy [] = []"
| "from_utf8_lossy (a # r) =
     fst (utf8_chunk a r) # from_utf8_lossy (drop (snd (utf8_chunk a r) - 1) r)"
  by pat_completeness auto
termination
  by (relation "measure length") auto

lemma utf8_chunk_ascii [simp]: "a \<le> 127 \<Longrightarrow> utf8_chunk a r = (unat a, 1)"
  by (simp add: utf8_chunk_def utf8_width_def Let_def)

text \<open>ASCII text is decoded byte by byte.\<close>

lemma from_utf8_lossy_ascii: "\<forall>b \<in> set bs. b \<le> 127 \<Longrightarrow> from_utf8_lossy bs = map unat bs"
  by (induction bs) auto

text \<open>Bytes of a char, and of a string, as \<open>str::as_bytes\<close> gives them.\<close>

definition utf8_len :: "rchar \<Rightarrow> nat" where
  "utf8_len c = (if c < 128 then 1 else if c < 2048 then 2 else if c < 65536 then 3 else 4)"

definition encode_char :: "rchar \<Rightarrow> bytes" where
  "encode_char c =
     (if c < 128 then [of_nat c]
      else if c < 2048 then [of_nat (192 + c div 64), of_nat (128 + c mod 64)]
      else if c < 65536 then
        [of_nat (224 + c div 4096), of_nat (128 + c div 64 mod 64), of_nat (128 + c mod 64)]
      else
        [of_nat (240 + c div 262144), of_nat (128 + c div 4096 mod 64),
         of_nat (128 + c div 64 mod 64), of_nat (128 + c mod 64)])"

definition as_bytes :: "rstr \<Rightarrow> bytes" where
  "as_bytes s = concat (map encode_char s)"

text \<open>
  \<open>str::get(..n)\<close> and the rest: the first \<open>n\<close> bytes, \<open>None\<close> past the end or inside a char.
\<close>

fun split_at_byte :: "nat \<Rightarrow> rstr \<Rightarrow> (rstr \<times> rstr) option" where
  "split_at_byte n [] = (if n = 0 then Some ([], []) else None)"
| "split_at_byte n (c # s) =
     (if n = 0 then Some ([], c # s)
      else if n < utf8_len c then None
      else map_option (\<lambda>(h, t). (c # h, t)) (split_at_byte (n - utf8_len c) s))"

lemma split_at_byte_append: "split_at_byte n s = Some (h, t) \<Longrightarrow> s = h @ t"
  by (induction n s arbitrary: h t rule: split_at_byte.induct) (auto split: if_splits)

section \<open>Numbers\<close>

text \<open>\<open>char::to_digit(radix)\<close> for radix at most 36.\<close>

definition to_digit :: "nat \<Rightarrow> rchar \<Rightarrow> nat option" where
  "to_digit radix c =
     (let d = (if 48 \<le> c \<and> c \<le> 57 then c - 48
               else if 97 \<le> c \<and> c \<le> 122 then c - 87
               else if 65 \<le> c \<and> c \<le> 90 then c - 55
               else 36)
      in if d < radix then Some d else None)"

fun parse_digits :: "nat \<Rightarrow> nat \<Rightarrow> nat \<Rightarrow> rstr \<Rightarrow> nat option" where
  "parse_digits radix limit acc [] = Some acc"
| "parse_digits radix limit acc (c # s) =
     (case to_digit radix c of
        None \<Rightarrow> None
      | Some d \<Rightarrow> (if acc * radix + d < limit then parse_digits radix limit (acc * radix + d) s else None))"

text \<open>
  \<open>from_str_radix\<close> of an unsigned type whose values are below \<open>limit\<close>: an optional \<open>+\<close>, at least one
  digit, every intermediate value in range. \<open>str::parse\<close> is radix 10.
\<close>

definition from_str_radix :: "nat \<Rightarrow> nat \<Rightarrow> rstr \<Rightarrow> nat option" where
  "from_str_radix radix limit s =
     (case s of
        [] \<Rightarrow> None
      | c # r \<Rightarrow> (if c = 43 then (if r = [] then None else parse_digits radix limit 0 r)
                  else parse_digits radix limit 0 s))"

definition digit_char :: "bool \<Rightarrow> nat \<Rightarrow> rchar" where
  "digit_char upper d = (if d < 10 then 48 + d else if upper then 55 + d else 87 + d)"

fun radix_digits :: "nat \<Rightarrow> nat \<Rightarrow> nat list" where
  "radix_digits b n = (if b < 2 \<or> n < b then [n] else radix_digits b (n div b) @ [n mod b])"

declare radix_digits.simps [simp del]

text \<open>The formats \<open>{}\<close>, \<open>{:#x}\<close>, \<open>{:#04x}\<close> and \<open>{:02X}\<close> of unsigned integers.\<close>

definition fmt_dec :: "nat \<Rightarrow> rstr" where
  "fmt_dec n = map (digit_char False) (radix_digits 10 n)"

definition pad_zero :: "nat \<Rightarrow> rstr \<Rightarrow> rstr" where
  "pad_zero w s = replicate (w - length s) 48 @ s"

definition fmt_hex :: "nat \<Rightarrow> rstr" where
  "fmt_hex n = lit ''0x'' @ map (digit_char False) (radix_digits 16 n)"

definition fmt_hex_pad :: "nat \<Rightarrow> nat \<Rightarrow> rstr" where
  "fmt_hex_pad w n = lit ''0x'' @ pad_zero (w - 2) (map (digit_char False) (radix_digits 16 n))"

definition fmt_02X :: "nat \<Rightarrow> rstr" where
  "fmt_02X n = pad_zero 2 (map (digit_char True) (radix_digits 16 n))"

lemma radix_digits_bound: "2 \<le> b \<Longrightarrow> d \<in> set (radix_digits b n) \<Longrightarrow> d < b"
proof (induction b n rule: radix_digits.induct)
  case (1 b n)
  then show ?case
    by (auto simp: radix_digits.simps [of b n] split: if_splits)
qed

lemma radix_digits_nonempty [simp]: "radix_digits b n \<noteq> []"
  by (subst radix_digits.simps) simp

lemma to_digit_digit_char [simp]:
  "d < radix \<Longrightarrow> radix \<le> 36 \<Longrightarrow> to_digit radix (digit_char upper d) = Some d"
  by (auto simp: to_digit_def digit_char_def)

lemma digit_char_not_plus [simp]: "digit_char upper d \<noteq> 43"
  by (auto simp: digit_char_def)

lemma digit_char_not_whitespace [simp]: "d < 36 \<Longrightarrow> \<not> is_whitespace (digit_char upper d)"
  by (auto simp: digit_char_def is_whitespace_def)

text \<open>The value of a digit list, most significant first.\<close>

definition digits_value :: "nat \<Rightarrow> nat \<Rightarrow> nat list \<Rightarrow> nat" where
  "digits_value b acc ds = foldl (\<lambda>a d. a * b + d) acc ds"

lemma digits_value_mono: "1 \<le> b \<Longrightarrow> acc \<le> digits_value b acc ds"
proof (induction ds arbitrary: acc)
  case (Cons d ds)
  have "acc \<le> acc * b + d" using Cons.prems by (simp add: trans_le_add1)
  also have "\<dots> \<le> digits_value b (acc * b + d) ds" using Cons.prems by (rule Cons.IH)
  finally show ?case by (simp add: digits_value_def)
qed (simp add: digits_value_def)

lemma parse_digits_map:
  assumes "1 \<le> radix" "radix \<le> 36" "\<forall>d \<in> set ds. d < radix" "digits_value radix acc ds < limit"
  shows "parse_digits radix limit acc (map (digit_char upper) ds) = Some (digits_value radix acc ds)"
  using assms
proof (induction ds arbitrary: acc)
  case (Cons d ds)
  have step: "digits_value radix acc (d # ds) = digits_value radix (acc * radix + d) ds"
    by (simp add: digits_value_def)
  have "acc * radix + d \<le> digits_value radix (acc * radix + d) ds"
    using Cons.prems(1) by (rule digits_value_mono)
  with Cons.prems(4) step have "acc * radix + d < limit" by simp
  with Cons show ?case by (simp add: step)
qed (simp add: digits_value_def)

lemma digits_value_radix_digits: "2 \<le> b \<Longrightarrow> digits_value b 0 (radix_digits b n) = n"
proof (induction b n rule: radix_digits.induct)
  case (1 b n)
  show ?case
  proof (cases "n < b")
    case True
    then show ?thesis by (subst radix_digits.simps) (simp add: digits_value_def)
  next
    case False
    with 1 have "digits_value b 0 (radix_digits b (n div b)) = n div b" by simp
    with False 1(2) show ?thesis
      by (subst radix_digits.simps) (simp add: digits_value_def)
  qed
qed

lemma from_str_radix_map:
  assumes "1 \<le> radix" "radix \<le> 36" "ds \<noteq> []" "\<forall>d \<in> set ds. d < radix" "digits_value radix 0 ds < limit"
  shows "from_str_radix radix limit (map (digit_char upper) ds) = Some (digits_value radix 0 ds)"
proof -
  obtain d r where ds: "ds = d # r" using assms(3) by (cases ds) auto
  have "from_str_radix radix limit (map (digit_char upper) ds)
      = parse_digits radix limit 0 (map (digit_char upper) ds)"
    by (simp add: from_str_radix_def ds)
  then show ?thesis using assms parse_digits_map by simp
qed

text \<open>Printing in decimal and parsing back.\<close>

lemma parse_fmt_dec: "n < limit \<Longrightarrow> from_str_radix 10 limit (fmt_dec n) = Some n"
  unfolding fmt_dec_def
  by (subst from_str_radix_map) (auto simp: digits_value_radix_digits dest: radix_digits_bound [rotated])

lemma fmt_02X_byte: "n < 256 \<Longrightarrow> fmt_02X n = [digit_char True (n div 16), digit_char True (n mod 16)]"
proof -
  assume n: "n < 256"
  show ?thesis
  proof (cases "n < 16")
    case True
    then show ?thesis
      by (simp add: fmt_02X_def radix_digits.simps [of 16 n] pad_zero_def)
        (simp add: digit_char_def)
  next
    case False
    with n have "n div 16 < 16" by linarith
    then have "radix_digits 16 (n div 16) = [n div 16]"
      by (subst radix_digits.simps) simp
    with False show ?thesis
      by (simp add: fmt_02X_def radix_digits.simps [of 16 n] pad_zero_def)
  qed
qed

lemma parse_fmt_02X: "n < 256 \<Longrightarrow> from_str_radix 16 256 (fmt_02X n) = Some n"
proof -
  assume n: "n < 256"
  let ?ds = "[n div 16, n mod 16]"
  have v: "digits_value 16 0 ?ds = n" by (simp add: digits_value_def)
  have "from_str_radix 16 256 (map (digit_char True) ?ds) = Some (digits_value 16 0 ?ds)"
    by (rule from_str_radix_map) (use n v in auto)
  with n v show ?thesis by (simp add: fmt_02X_byte)
qed

text \<open>Facts about printed decimals.\<close>

lemma fmt_dec_digits: "c \<in> set (fmt_dec n) \<Longrightarrow> 48 \<le> c \<and> c \<le> 57"
  by (auto simp: fmt_dec_def digit_char_def dest!: radix_digits_bound [rotated])

lemma fmt_dec_nonempty [simp]: "fmt_dec n \<noteq> []"
  by (simp add: fmt_dec_def)

lemma trim_fmt_dec_like:
  assumes "\<forall>c \<in> set s. \<not> is_whitespace c"
  shows "trim s = s"
  by (rule trim_id) (use assms in \<open>cases s rule: rev_cases; auto simp: hd_append\<close>)

lemma fmt_dec_byte:
  assumes "n < 256"
  shows "fmt_dec n = (if n < 10 then [48 + n] else if n < 100 then [48 + n div 10, 48 + n mod 10]
    else [48 + n div 100, 48 + n div 10 mod 10, 48 + n mod 10])"
proof -
  have d: "n div 10 div 10 = n div 100" by (simp add: div_mult2_eq [symmetric])
  have "n div 100 < 10" "n div 10 < 10 \<longleftrightarrow> n < 100" using assms by linarith+
  then show ?thesis
    by (simp add: fmt_dec_def radix_digits.simps [of 10 n] radix_digits.simps [of 10 "n div 10"]
        radix_digits.simps [of 10 "n div 100"] d digit_char_def)
qed

lemma parse_digits_None: "\<exists>c \<in> set s. to_digit radix c = None \<Longrightarrow> parse_digits radix limit acc s = None"
  by (induction s arbitrary: acc) (auto split: option.splits)

lemma from_str_radix_None:
  "c \<in> set s \<Longrightarrow> to_digit radix c = None \<Longrightarrow> c \<noteq> 43 \<Longrightarrow> from_str_radix radix limit s = None"
  by (auto simp: from_str_radix_def simp del: parse_digits.simps split: list.split intro!: parse_digits_None)

end
