(* ===== verification/Wire_Code.thy ===== *)
theory Wire_Code
  imports Rust_Text
begin

text \<open>
  The \<open>wire_code!\<close> macro (src/src/code.rs): a newtype over an integer wire code with named constants.
  Each use of the macro is one datatype here, with its table of constants in source order; the methods
  the macro generates (\<open>name\<close>, \<open>Debug\<close>, \<open>Display\<close>, the conversions) are functions of that table.
\<close>

section \<open>What the macro generates\<close>

text \<open>\<open>name\<close>: the \<open>match\<close> arms in source order.\<close>

definition wire_code_name :: "(string \<times> 'r) list \<Rightarrow> 'r \<Rightarrow> string option" where
  "wire_code_name table v = map_option fst (find (\<lambda>(n, k). k = v) table)"

text \<open>\<open>Debug\<close> and \<open>Display\<close>: \<open>NAME(0x1)\<close>, or \<open>Type(0x7)\<close> for codes outside the table.\<close>

definition wire_code_display :: "string \<Rightarrow> (string \<times> 'r::len word) list \<Rightarrow> 'r word \<Rightarrow> rstr" where
  "wire_code_display tyname table v =
     (case wire_code_name table v of
        Some n \<Rightarrow> lit n @ lit ''('' @ fmt_hex (unat v) @ lit '')''
      | None \<Rightarrow> lit tyname @ lit ''('' @ fmt_hex (unat v) @ lit '')'')"

lemma wire_code_name_mem:
  "distinct (map snd table) \<Longrightarrow> (n, v) \<in> set table \<Longrightarrow> wire_code_name table v = Some n"
proof (induction table)
  case (Cons e table)
  then show ?case
    by (cases e) (force simp: wire_code_name_def)
qed simp

lemma wire_code_name_None:
  "v \<notin> set (map snd table) \<Longrightarrow> wire_code_name table v = None"
  by (induction table) (auto simp: wire_code_name_def)

section \<open>The code types\<close>

subsection \<open>\<open>CipDataType\<close> (src/src/cip/types.rs)\<close>

datatype CipDataType = CipDataType (cip_data_type_raw: u8)

definition cip_data_type_table :: "(string \<times> u8) list" where
  "cip_data_type_table =
    [(''ANY'', 0x00), (''BOOL'', 0xC1), (''SINT'', 0xC2), (''INT'', 0xC3), (''DINT'', 0xC4),
     (''LINT'', 0xC5), (''USINT'', 0xC6), (''UINT'', 0xC7), (''UDINT'', 0xC8), (''ULINT'', 0xC9),
     (''REAL'', 0xCA), (''LREAL'', 0xCB), (''STIME'', 0xCC), (''DATE'', 0xCD), (''TIME_OF_DAY'', 0xCE),
     (''DATE_AND_TIME'', 0xCF), (''STRING'', 0xD0), (''BYTE'', 0xD1), (''WORD'', 0xD2),
     (''DWORD'', 0xD3), (''LWORD'', 0xD4), (''STRING2'', 0xD5), (''FTIME'', 0xD6), (''LTIME'', 0xD7),
     (''ITIME'', 0xD8), (''STRINGN'', 0xD9), (''SHORT_STRING'', 0xDA), (''TIME'', 0xDB),
     (''EPATH'', 0xDC), (''ENG_UNIT'', 0xDD), (''USINT_USINT'', 0xA0), (''USINT6'', 0xA2),
     (''MEMBER_LIST'', 0xA3), (''BYTE_ARRAY'', 0xA4)]"

definition display_cip_data_type :: "CipDataType \<Rightarrow> rstr" where
  "display_cip_data_type c = wire_code_display ''CipDataType'' cip_data_type_table (cip_data_type_raw c)"

subsection \<open>\<open>ServiceCode\<close> (src/src/cip/types.rs)\<close>

datatype ServiceCode = ServiceCode (service_code_raw: u8)

definition service_code_table :: "(string \<times> u8) list" where
  "service_code_table =
    [(''NONE'', 0x00), (''GET_ATTRIBUTE_ALL'', 0x01), (''SET_ATTRIBUTE_ALL'', 0x02),
     (''GET_ATTRIBUTE_LIST'', 0x03), (''SET_ATTRIBUTE_LIST'', 0x04), (''RESET'', 0x05),
     (''START'', 0x06), (''STOP'', 0x07), (''CREATE_OBJECT_INSTANCE'', 0x08),
     (''DELETE_OBJECT_INSTANCE'', 0x09), (''MULTIPLE_SERVICE_PACKET'', 0x0A),
     (''APPLY_ATTRIBUTES'', 0x0D), (''GET_ATTRIBUTE_SINGLE'', 0x0E), (''SET_ATTRIBUTE_SINGLE'', 0x10),
     (''FIND_NEXT_OBJECT_INSTANCE'', 0x11), (''ERROR_RESPONSE'', 0x14), (''RESTORE'', 0x15),
     (''SAVE'', 0x16), (''NO_OPERATION'', 0x17), (''GET_MEMBER'', 0x18), (''SET_MEMBER'', 0x19),
     (''INSERT_MEMBER'', 0x1A), (''REMOVE_MEMBER'', 0x1B), (''GROUP_SYNC'', 0x1C)]"

definition display_service_code :: "ServiceCode \<Rightarrow> rstr" where
  "display_service_code c = wire_code_display ''ServiceCode'' service_code_table (service_code_raw c)"

subsection \<open>\<open>GeneralStatusCode\<close> (src/src/cip/types.rs)\<close>

datatype GeneralStatusCode = GeneralStatusCode (general_status_code_raw: u8)

definition general_status_code_table :: "(string \<times> u8) list" where
  "general_status_code_table =
    [(''SUCCESS'', 0x00), (''CONNECTION_FAILURE'', 0x01), (''RESOURCE_UNAVAILABLE'', 0x02),
     (''INVALID_PARAMETER_VALUE'', 0x03), (''PATH_SEGMENT_ERROR'', 0x04),
     (''PATH_DESTINATION_UNKNOWN'', 0x05), (''PARTIAL_TRANSFER'', 0x06), (''CONNECTION_LOST'', 0x07),
     (''SERVICE_NOT_SUPPORTED'', 0x08), (''INVALID_ATTRIBUTE_VALUE'', 0x09),
     (''ATTRIBUTE_LIST_ERROR'', 0x0A), (''ALREADY_IN_REQUESTED_MODE_OR_STATE'', 0x0B),
     (''OBJECT_STATE_CONFLICT'', 0x0C), (''OBJECT_ALREADY_EXISTS'', 0x0D),
     (''ATTRIBUTE_NOT_SETTABLE'', 0x0E), (''PRIVILEGE_VIOLATION'', 0x0F),
     (''DEVICE_STATE_CONFLICT'', 0x10), (''REPLY_DATA_TOO_LARGE'', 0x11),
     (''FRAGMENTATION_OF_PRIMITIVE_VALUE'', 0x12), (''NOT_ENOUGH_DATA'', 0x13),
     (''ATTRIBUTE_NOT_SUPPORTED'', 0x14), (''TOO_MUCH_DATA'', 0x15), (''OBJECT_DOES_NOT_EXIST'', 0x16),
     (''SVCFRAG_SEQNC_NOT_IN_PROGRESS'', 0x17), (''NO_STORED_ATTRIBUTE_DATA'', 0x18),
     (''STORE_OPERATION_FAILURE'', 0x19), (''ROUTING_FAILURE_REQUEST_SIZE'', 0x1A),
     (''ROUTING_FAILURE_RESPONSE_SIZE'', 0x1B), (''MISSING_ATTRIBUTE_LIST_ENTRY'', 0x1C),
     (''INVALID_ATTRIBUTE_LIST'', 0x1D), (''EMBEDDED_SERVICE_ERROR'', 0x1E),
     (''VENDOR_SPECIFIC'', 0x1F), (''INVALID_PARAMETER'', 0x20), (''WRITE_ONCE_WRITTEN'', 0x21),
     (''INVALID_REPLY_RECEIVED'', 0x22), (''KEY_FAILURE_IN_PATH'', 0x25),
     (''PATH_SIZE_INVALID'', 0x26), (''UNEXPECTED_ATTRIBUTE'', 0x27), (''INVALID_MEMBER_ID'', 0x28),
     (''MEMBER_NOT_SETTABLE'', 0x29)]"

definition display_general_status_code :: "GeneralStatusCode \<Rightarrow> rstr" where
  "display_general_status_code c = wire_code_display ''GeneralStatusCode'' general_status_code_table (general_status_code_raw c)"

subsection \<open>\<open>EncapsCommand\<close> (src/src/eip/encaps.rs)\<close>

datatype EncapsCommand = EncapsCommand (encaps_command_raw: u16)

definition encaps_command_table :: "(string \<times> u16) list" where
  "encaps_command_table =
    [(''NOP'', 0x0000), (''LIST_SERVICES'', 0x0004), (''LIST_IDENTITY'', 0x0063),
     (''LIST_INTERFACES'', 0x0064), (''REGISTER_SESSION'', 0x0065), (''UN_REGISTER_SESSION'', 0x0066),
     (''SEND_RR_DATA'', 0x006F), (''SEND_UNIT_DATA'', 0x0070), (''INDICATE_STATUS'', 0x0072),
     (''CANCEL'', 0x0073)]"

definition display_encaps_command :: "EncapsCommand \<Rightarrow> rstr" where
  "display_encaps_command c = wire_code_display ''EncapsCommand'' encaps_command_table (encaps_command_raw c)"

subsection \<open>\<open>EncapsStatus\<close> (src/src/eip/encaps.rs)\<close>

datatype EncapsStatus = EncapsStatus (encaps_status_raw: u32)

definition encaps_status_table :: "(string \<times> u32) list" where
  "encaps_status_table =
    [(''SUCCESS'', 0x0000), (''UNSUPPORTED_COMMAND'', 0x0001), (''INSUFFICIENT_MEMORY'', 0x0002),
     (''INVALID_FORMAT_OR_DATA'', 0x0003), (''INVALID_SESSION_HANDLE'', 0x0064),
     (''UNSUPPORTED_PROTOCOL_VERSION'', 0x0069)]"

definition display_encaps_status :: "EncapsStatus \<Rightarrow> rstr" where
  "display_encaps_status c = wire_code_display ''EncapsStatus'' encaps_status_table (encaps_status_raw c)"

subsection \<open>\<open>CommonPacketItemId\<close> (src/src/eip/cpf.rs)\<close>

datatype CommonPacketItemId = CommonPacketItemId (common_packet_item_id_raw: u16)

definition common_packet_item_id_table :: "(string \<times> u16) list" where
  "common_packet_item_id_table =
    [(''NULL_ADDRESS'', 0x0000), (''LIST_IDENTITY'', 0x000C), (''CONNECTION_ADDRESS'', 0x00A1),
     (''CONNECTED_TRANSPORT_PACKET'', 0x00B1), (''UNCONNECTED_MESSAGE'', 0x00B2),
     (''O2T_SOCKADDR_INFO'', 0x8000), (''T2O_SOCKADDR_INFO'', 0x8001), (''SEQUENCED_ADDRESS'', 0x8002)]"

definition display_common_packet_item_id :: "CommonPacketItemId \<Rightarrow> rstr" where
  "display_common_packet_item_id c = wire_code_display ''CommonPacketItemId'' common_packet_item_id_table (common_packet_item_id_raw c)"

subsection \<open>\<open>FileObjectStateCode\<close> (src/src/objects/file.rs)\<close>

datatype FileObjectStateCode = FileObjectStateCode (file_object_state_code_raw: u8)

definition file_object_state_code_table :: "(string \<times> u8) list" where
  "file_object_state_code_table =
    [(''NONEXISTENT'', 0), (''FILE_EMPTY'', 1), (''FILE_LOADED'', 2),
     (''TRANSFER_UPLOAD_INITIATED'', 3), (''TRANSFER_DOWNLOAD_INITIATED'', 4),
     (''TRANSFER_UPLOAD_IN_PROGRESS'', 5), (''TRANSFER_DOWNLOAD_IN_PROGRESS'', 6), (''UNKNOWN'', 255)]"

definition display_file_object_state_code :: "FileObjectStateCode \<Rightarrow> rstr" where
  "display_file_object_state_code c = wire_code_display ''FileObjectStateCode'' file_object_state_code_table (file_object_state_code_raw c)"

subsection \<open>\<open>TransferPacketType\<close> (src/src/objects/file.rs)\<close>

datatype TransferPacketType = TransferPacketType (transfer_packet_type_raw: u8)

definition transfer_packet_type_table :: "(string \<times> u8) list" where
  "transfer_packet_type_table =
    [(''FIRST'', 0), (''MIDDLE'', 1), (''LAST'', 2), (''ABORT'', 3), (''FIRST_AND_LAST'', 4)]"

definition display_transfer_packet_type :: "TransferPacketType \<Rightarrow> rstr" where
  "display_transfer_packet_type c = wire_code_display ''TransferPacketType'' transfer_packet_type_table (transfer_packet_type_raw c)"

subsection \<open>\<open>DpiFaultCommand\<close> (src/src/vendor/ra/powerflex525/fault_manager.rs)\<close>

datatype DpiFaultCommand = DpiFaultCommand (dpi_fault_command_raw: u8)

definition dpi_fault_command_table :: "(string \<times> u8) list" where
  "dpi_fault_command_table =
    [(''NO_OPERATION'', 0), (''CLEAR_FAULT'', 1), (''CLEAR_FAULT_QUEUE'', 2), (''RESET_DEVICE'', 3)]"

definition display_dpi_fault_command :: "DpiFaultCommand \<Rightarrow> rstr" where
  "display_dpi_fault_command c = wire_code_display ''DpiFaultCommand'' dpi_fault_command_table (dpi_fault_command_raw c)"

section \<open>Constants the code names\<close>

abbreviation CDT_ANY :: CipDataType where "CDT_ANY \<equiv> CipDataType 0x00"
abbreviation SC_GET_ATTRIBUTE_ALL :: ServiceCode where "SC_GET_ATTRIBUTE_ALL \<equiv> ServiceCode 0x01"
abbreviation SC_GET_ATTRIBUTE_SINGLE :: ServiceCode where "SC_GET_ATTRIBUTE_SINGLE \<equiv> ServiceCode 0x0E"
abbreviation SC_SET_ATTRIBUTE_SINGLE :: ServiceCode where "SC_SET_ATTRIBUTE_SINGLE \<equiv> ServiceCode 0x10"
abbreviation GSC_SUCCESS :: GeneralStatusCode where "GSC_SUCCESS \<equiv> GeneralStatusCode 0x00"
abbreviation GSC_INVALID_PARAMETER :: GeneralStatusCode where "GSC_INVALID_PARAMETER \<equiv> GeneralStatusCode 0x20"
abbreviation GSC_INVALID_REPLY_RECEIVED :: GeneralStatusCode where "GSC_INVALID_REPLY_RECEIVED \<equiv> GeneralStatusCode 0x22"
abbreviation EC_NOP :: EncapsCommand where "EC_NOP \<equiv> EncapsCommand 0x0000"
abbreviation EC_LIST_SERVICES :: EncapsCommand where "EC_LIST_SERVICES \<equiv> EncapsCommand 0x0004"
abbreviation EC_LIST_IDENTITY :: EncapsCommand where "EC_LIST_IDENTITY \<equiv> EncapsCommand 0x0063"
abbreviation EC_LIST_INTERFACES :: EncapsCommand where "EC_LIST_INTERFACES \<equiv> EncapsCommand 0x0064"
abbreviation EC_REGISTER_SESSION :: EncapsCommand where "EC_REGISTER_SESSION \<equiv> EncapsCommand 0x0065"
abbreviation EC_UN_REGISTER_SESSION :: EncapsCommand where "EC_UN_REGISTER_SESSION \<equiv> EncapsCommand 0x0066"
abbreviation EC_SEND_RR_DATA :: EncapsCommand where "EC_SEND_RR_DATA \<equiv> EncapsCommand 0x006F"
abbreviation EC_SEND_UNIT_DATA :: EncapsCommand where "EC_SEND_UNIT_DATA \<equiv> EncapsCommand 0x0070"
abbreviation EC_INDICATE_STATUS :: EncapsCommand where "EC_INDICATE_STATUS \<equiv> EncapsCommand 0x0072"
abbreviation EC_CANCEL :: EncapsCommand where "EC_CANCEL \<equiv> EncapsCommand 0x0073"
abbreviation ES_SUCCESS :: EncapsStatus where "ES_SUCCESS \<equiv> EncapsStatus 0x0000"
abbreviation CPI_NULL_ADDRESS :: CommonPacketItemId where "CPI_NULL_ADDRESS \<equiv> CommonPacketItemId 0x0000"
abbreviation CPI_LIST_IDENTITY :: CommonPacketItemId where "CPI_LIST_IDENTITY \<equiv> CommonPacketItemId 0x000C"
abbreviation CPI_CONNECTION_ADDRESS :: CommonPacketItemId where "CPI_CONNECTION_ADDRESS \<equiv> CommonPacketItemId 0x00A1"
abbreviation CPI_CONNECTED_TRANSPORT_PACKET :: CommonPacketItemId where "CPI_CONNECTED_TRANSPORT_PACKET \<equiv> CommonPacketItemId 0x00B1"
abbreviation CPI_UNCONNECTED_MESSAGE :: CommonPacketItemId where "CPI_UNCONNECTED_MESSAGE \<equiv> CommonPacketItemId 0x00B2"
abbreviation CPI_O2T_SOCKADDR_INFO :: CommonPacketItemId where "CPI_O2T_SOCKADDR_INFO \<equiv> CommonPacketItemId 0x8000"
abbreviation CPI_T2O_SOCKADDR_INFO :: CommonPacketItemId where "CPI_T2O_SOCKADDR_INFO \<equiv> CommonPacketItemId 0x8001"
abbreviation CPI_SEQUENCED_ADDRESS :: CommonPacketItemId where "CPI_SEQUENCED_ADDRESS \<equiv> CommonPacketItemId 0x8002"
abbreviation FOS_NONEXISTENT :: FileObjectStateCode where "FOS_NONEXISTENT \<equiv> FileObjectStateCode 0"
abbreviation FOS_FILE_EMPTY :: FileObjectStateCode where "FOS_FILE_EMPTY \<equiv> FileObjectStateCode 1"
abbreviation FOS_FILE_LOADED :: FileObjectStateCode where "FOS_FILE_LOADED \<equiv> FileObjectStateCode 2"
abbreviation FOS_TRANSFER_UPLOAD_INITIATED :: FileObjectStateCode where "FOS_TRANSFER_UPLOAD_INITIATED \<equiv> FileObjectStateCode 3"
abbreviation FOS_TRANSFER_DOWNLOAD_INITIATED :: FileObjectStateCode where "FOS_TRANSFER_DOWNLOAD_INITIATED \<equiv> FileObjectStateCode 4"
abbreviation FOS_TRANSFER_UPLOAD_IN_PROGRESS :: FileObjectStateCode where "FOS_TRANSFER_UPLOAD_IN_PROGRESS \<equiv> FileObjectStateCode 5"
abbreviation FOS_TRANSFER_DOWNLOAD_IN_PROGRESS :: FileObjectStateCode where "FOS_TRANSFER_DOWNLOAD_IN_PROGRESS \<equiv> FileObjectStateCode 6"
abbreviation FOS_UNKNOWN :: FileObjectStateCode where "FOS_UNKNOWN \<equiv> FileObjectStateCode 255"
abbreviation TPT_FIRST :: TransferPacketType where "TPT_FIRST \<equiv> TransferPacketType 0"
abbreviation TPT_MIDDLE :: TransferPacketType where "TPT_MIDDLE \<equiv> TransferPacketType 1"
abbreviation TPT_LAST :: TransferPacketType where "TPT_LAST \<equiv> TransferPacketType 2"
abbreviation TPT_ABORT :: TransferPacketType where "TPT_ABORT \<equiv> TransferPacketType 3"
abbreviation TPT_FIRST_AND_LAST :: TransferPacketType where "TPT_FIRST_AND_LAST \<equiv> TransferPacketType 4"
abbreviation DFC_NO_OPERATION :: DpiFaultCommand where "DFC_NO_OPERATION \<equiv> DpiFaultCommand 0"
abbreviation DFC_CLEAR_FAULT :: DpiFaultCommand where "DFC_CLEAR_FAULT \<equiv> DpiFaultCommand 1"
abbreviation DFC_CLEAR_FAULT_QUEUE :: DpiFaultCommand where "DFC_CLEAR_FAULT_QUEUE \<equiv> DpiFaultCommand 2"
abbreviation DFC_RESET_DEVICE :: DpiFaultCommand where "DFC_RESET_DEVICE \<equiv> DpiFaultCommand 3"

text \<open>Service codes added outside the macro (\<open>connection_manager/mod.rs\<close>, \<open>objects/file.rs\<close>).\<close>

abbreviation SC_FORWARD_CLOSE :: ServiceCode where "SC_FORWARD_CLOSE \<equiv> ServiceCode 0x4E"
abbreviation SC_FORWARD_OPEN :: ServiceCode where "SC_FORWARD_OPEN \<equiv> ServiceCode 0x54"
abbreviation SC_LARGE_FORWARD_OPEN :: ServiceCode where "SC_LARGE_FORWARD_OPEN \<equiv> ServiceCode 0x5B"
abbreviation SC_INITIATE_UPLOAD :: ServiceCode where "SC_INITIATE_UPLOAD \<equiv> ServiceCode 0x4B"
abbreviation SC_UPLOAD_TRANSFER :: ServiceCode where "SC_UPLOAD_TRANSFER \<equiv> ServiceCode 0x4F"

section \<open>Derived order\<close>

text \<open>\<open>#[derive(PartialOrd, Ord)]\<close> on a newtype compares the raw codes.\<close>

instantiation ServiceCode :: linorder
begin

definition less_eq_ServiceCode :: "ServiceCode \<Rightarrow> ServiceCode \<Rightarrow> bool" where
  "less_eq_ServiceCode a b \<longleftrightarrow> service_code_raw a \<le> service_code_raw b"

definition less_ServiceCode :: "ServiceCode \<Rightarrow> ServiceCode \<Rightarrow> bool" where
  "less_ServiceCode a b \<longleftrightarrow> service_code_raw a < service_code_raw b"

instance
  by standard
    (auto simp: less_eq_ServiceCode_def less_ServiceCode_def intro: ServiceCode.expand)

end

instantiation GeneralStatusCode :: linorder
begin

definition less_eq_GeneralStatusCode :: "GeneralStatusCode \<Rightarrow> GeneralStatusCode \<Rightarrow> bool" where
  "less_eq_GeneralStatusCode a b \<longleftrightarrow> general_status_code_raw a \<le> general_status_code_raw b"

definition less_GeneralStatusCode :: "GeneralStatusCode \<Rightarrow> GeneralStatusCode \<Rightarrow> bool" where
  "less_GeneralStatusCode a b \<longleftrightarrow> general_status_code_raw a < general_status_code_raw b"

instance
  by standard
    (auto simp: less_eq_GeneralStatusCode_def less_GeneralStatusCode_def intro: GeneralStatusCode.expand)

end

section \<open>The tables are consistent\<close>

text \<open>No table lists one code or one name twice, so every constant shows under its own name.\<close>

definition consistent_table :: "(string \<times> 'r) list \<Rightarrow> bool" where
  "consistent_table t \<longleftrightarrow> distinct (map snd t) \<and> distinct (map fst t)"

lemma consistent_cip_data_type: "consistent_table cip_data_type_table"
  by (simp add: consistent_table_def cip_data_type_table_def)

lemma consistent_service_code: "consistent_table service_code_table"
  by (simp add: consistent_table_def service_code_table_def)

lemma consistent_general_status_code: "consistent_table general_status_code_table"
  by (simp add: consistent_table_def general_status_code_table_def)

lemma consistent_encaps_command: "consistent_table encaps_command_table"
  by (simp add: consistent_table_def encaps_command_table_def)

lemma consistent_encaps_status: "consistent_table encaps_status_table"
  by (simp add: consistent_table_def encaps_status_table_def)

lemma consistent_common_packet_item_id: "consistent_table common_packet_item_id_table"
  by (simp add: consistent_table_def common_packet_item_id_table_def)

lemma consistent_file_object_state_code: "consistent_table file_object_state_code_table"
  by (simp add: consistent_table_def file_object_state_code_table_def)

lemma consistent_transfer_packet_type: "consistent_table transfer_packet_type_table"
  by (simp add: consistent_table_def transfer_packet_type_table_def)

lemma consistent_dpi_fault_command: "consistent_table dpi_fault_command_table"
  by (simp add: consistent_table_def dpi_fault_command_table_def)

end
