(* ===== verification/Errors.thy ===== *)
theory Errors
  imports Wire_Code
begin

text \<open>
  The crate's error type (src/src/error.rs). \<open>Panicked\<close> is not a variant of \<open>Error\<close>: it stands for a panic
  of the calling thread (a failed slice index, an unchecked read past the end), so that the model can
  show where the code cannot panic.
\<close>

datatype io_kind = WouldBlock | TimedOut | Interrupted | ConnectionReset | UnexpectedEof | OtherIo nat

datatype error =
    Io io_kind rstr
  | Truncated nat nat
  | InvalidPacket rstr
  | Encaps EncapsStatus
  | WrongSessionHandle u32 u32
  | Cip rstr GeneralStatusCode "u16 list"
  | InvalidInput rstr
  | Eds rstr
  | IoThreadStopped
  | Unsupported rstr
  | Panicked

type_synonym 'a result = "error + 'a"

text \<open>\<open>bytes::TryGetError\<close> and its conversion into \<open>Error::Truncated\<close>.\<close>

record try_get_error =
  requested :: nat
  available :: nat

definition from_try_get_error :: "try_get_error \<Rightarrow> error" where
  "from_try_get_error e = Truncated (requested e) (available e)"

text \<open>\<open>{additional:04x?}\<close>: the debug form of a vector of 16-bit codes in four-digit hex.\<close>

definition fmt_hex_vec :: "u16 list \<Rightarrow> rstr" where
  "fmt_hex_vec xs = lit ''['' @
     join (lit '', '') (map (\<lambda>x. pad_zero 4 (map (digit_char False) (radix_digits 16 (unat x)))) xs) @ lit '']''"

text \<open>The \<open>#[error(...)]\<close> formats of the variants.\<close>

fun display_error :: "error \<Rightarrow> rstr" where
  "display_error (Io k s) = lit ''I/O error: '' @ s"
| "display_error (Truncated r a) =
     lit ''not enough data: needed '' @ fmt_dec r @ lit '' bytes, '' @ fmt_dec a @ lit '' available''"
| "display_error (InvalidPacket s) = lit ''invalid packet: '' @ s"
| "display_error (Encaps st) = lit ''encapsulation error: '' @ display_encaps_status st"
| "display_error (WrongSessionHandle e r) =
     lit ''wrong session handle: expected '' @ fmt_hex_pad 10 (unat e) @ lit '', received '' @ fmt_hex_pad 10 (unat r)"
| "display_error (Cip c st add) =
     c @ lit '': CIP status '' @ display_general_status_code st @ lit '', additional status '' @ fmt_hex_vec add"
| "display_error (InvalidInput s) = lit ''invalid input: '' @ s"
| "display_error (Eds s) = lit ''EDS: '' @ s"
| "display_error IoThreadStopped = lit ''IO thread is not running''"
| "display_error (Unsupported s) = s"
| "display_error Panicked = []"

end
