(* ===== verification/Bytes_Buf.thy ===== *)
theory Bytes_Buf
  imports Errors
begin

text \<open>
  The byte buffers of the third-party crate \<open>bytes\<close> (\<open>Buf\<close> on \<open>&[u8]\<close>, \<open>BufMut\<close> on \<open>Vec<u8>\<close>), and the crate's
  own helpers on top of them (src/src/codec.rs).

  The crate \<open>bytes\<close> is not part of the repository, so its methods are a parameter: a record of type
  \<open>bytes_api\<close>, which every encoder and decoder of the model takes as its first argument. The locale
  \<open>bytes_crate\<close> states the documented behaviour the code relies on; \<open>slice_bytes\<close> is an instance.
  A reader is given a buffer and returns a value and the advanced buffer. The panicking accessors
  (\<open>get_u16_le\<close> and so on) return \<open>None\<close> where they would panic.
\<close>

section \<open>Little- and big-endian integers\<close>

definition to_le :: "nat \<Rightarrow> 'a::len word \<Rightarrow> bytes" where
  "to_le n w = map (\<lambda>i. ucast (drop_bit (8 * i) w)) [0..<n]"

fun of_le :: "bytes \<Rightarrow> 'a::len word" where
  "of_le [] = 0"
| "of_le (b # bs) = ucast b OR push_bit 8 (of_le bs)"

definition to_be :: "nat \<Rightarrow> 'a::len word \<Rightarrow> bytes" where
  "to_be n w = rev (to_le n w)"

definition of_be :: "bytes \<Rightarrow> 'a::len word" where
  "of_be bs = of_le (rev bs)"

abbreviation le16 :: "u16 \<Rightarrow> bytes" where "le16 \<equiv> to_le 2"
abbreviation le32 :: "u32 \<Rightarrow> bytes" where "le32 \<equiv> to_le 4"
abbreviation le64 :: "u64 \<Rightarrow> bytes" where "le64 \<equiv> to_le 8"

lemma length_to_le [simp]: "length (to_le n w) = n"
  by (simp add: to_le_def)

lemma length_to_be [simp]: "length (to_be n w) = n"
  by (simp add: to_be_def)

lemma to_le_0 [simp]: "to_le 0 w = []"
  by (simp add: to_le_def)

lemma to_le_Suc: "to_le (Suc n) w = ucast w # to_le n (drop_bit 8 w)"
  unfolding to_le_def by (simp add: upt_conv_Cons map_Suc_upt [symmetric] comp_def add.commute del: upt_Suc)

lemma bit_of_le:
  "bit (of_le bs :: 'a::len word) k \<longleftrightarrow> k < LENGTH('a) \<and> k div 8 < length bs \<and> bit (bs ! (k div 8)) (k mod 8)"
proof (induction bs arbitrary: k)
  case (Cons b bs)
  have step: "bit (of_le (b # bs) :: 'a word) k \<longleftrightarrow>
      (k < LENGTH('a) \<and> bit b k) \<or> (8 \<le> k \<and> k < LENGTH('a) \<and> bit (of_le bs :: 'a word) (k - 8))"
    by (simp add: bit_or_iff bit_unsigned_iff bit_push_bit_iff)
  show ?case
  proof (cases "k < 8")
    case True
    then show ?thesis using step by simp
  next
    case False
    then obtain j where k: "k = j + 8" by (metis add.commute le_Suc_ex not_less)
    have "\<not> bit b (j + 8)" using bit_imp_le_length [of b "j + 8"] by auto
    moreover have "(j + 8) div 8 = Suc (j div 8)" "(j + 8) mod 8 = j mod 8" by simp_all
    ultimately show ?thesis unfolding step by (auto simp: Cons.IH k simp del: of_le.simps)
  qed
qed simp

lemma of_le_to_le: "LENGTH('a) \<le> 8 * n \<Longrightarrow> of_le (to_le n w) = (w :: 'a::len word)"
proof (rule bit_word_eqI)
  fix k assume n: "LENGTH('a) \<le> 8 * n" and k: "k < LENGTH('a)"
  then have "k div 8 < n" by linarith
  with k show "bit (of_le (to_le n w) :: 'a word) k = bit w k"
    by (simp add: bit_of_le) (simp add: to_le_def bit_simps)
qed

lemma to_le_of_le: "8 * length bs \<le> LENGTH('a) \<Longrightarrow> to_le (length bs) (of_le bs :: 'a::len word) = bs"
proof (rule nth_equalityI)
  fix i assume len: "8 * length bs \<le> LENGTH('a)" and "i < length (to_le (length bs) (of_le bs :: 'a word))"
  then have i: "i < length bs" by simp
  show "to_le (length bs) (of_le bs :: 'a word) ! i = bs ! i"
  proof (rule bit_word_eqI)
    fix k assume "k < LENGTH(8)"
    then have k: "k < 8" by simp
    with i len have "8 * i + k < LENGTH('a)" by linarith
    with i k show "bit (to_le (length bs) (of_le bs :: 'a word) ! i) k = bit (bs ! i) k"
      by (simp add: to_le_def bit_simps bit_of_le add.commute)
  qed
qed simp

lemma of_be_to_be: "LENGTH('a) \<le> 8 * n \<Longrightarrow> of_be (to_be n w) = (w :: 'a::len word)"
  by (simp add: of_be_def to_be_def of_le_to_le)

lemma to_le_inject: "LENGTH('a) \<le> 8 * n \<Longrightarrow> to_le n v = to_le n w \<Longrightarrow> v = (w :: 'a::len word)"
  by (metis of_le_to_le)

section \<open>The interface of the crate \<open>bytes\<close>\<close>

type_synonym 'a reader = "bytes \<Rightarrow> error + 'a \<times> bytes"
type_synonym 'a try_reader = "bytes \<Rightarrow> try_get_error + 'a \<times> bytes"

record bytes_api =
  try_get_u8 :: "u8 try_reader"
  try_get_u16_le :: "u16 try_reader"
  try_get_i16_le :: "u16 try_reader"
  try_get_u32_le :: "u32 try_reader"
  try_get_u64_le :: "u64 try_reader"
  try_copy_to_slice :: "nat \<Rightarrow> bytes try_reader"
  get_u8 :: "bytes \<Rightarrow> (u8 \<times> bytes) option"
  get_u16 :: "bytes \<Rightarrow> (u16 \<times> bytes) option"
  get_u16_le :: "bytes \<Rightarrow> (u16 \<times> bytes) option"
  get_u32 :: "bytes \<Rightarrow> (u32 \<times> bytes) option"
  get_u32_le :: "bytes \<Rightarrow> (u32 \<times> bytes) option"
  copy_to_slice :: "nat \<Rightarrow> bytes \<Rightarrow> (bytes \<times> bytes) option"
  advance :: "nat \<Rightarrow> bytes \<Rightarrow> (unit \<times> bytes) option"
  put_u8 :: "u8 \<Rightarrow> bytes \<Rightarrow> bytes"
  put_u16 :: "u16 \<Rightarrow> bytes \<Rightarrow> bytes"
  put_u16_le :: "u16 \<Rightarrow> bytes \<Rightarrow> bytes"
  put_u32_le :: "u32 \<Rightarrow> bytes \<Rightarrow> bytes"
  put_slice :: "bytes \<Rightarrow> bytes \<Rightarrow> bytes"
  put_bytes :: "u8 \<Rightarrow> nat \<Rightarrow> bytes \<Rightarrow> bytes"

text \<open>
  Documented behaviour: a \<open>try_get\<close> of \<open>n\<close> bytes fails with the sizes when fewer remain, and otherwise
  takes them; the plain accessors panic instead; the writers append.
\<close>

definition try_take :: "nat \<Rightarrow> (bytes \<Rightarrow> 'a) \<Rightarrow> 'a try_reader" where
  "try_take n f buf = (if length buf < n then Inl \<lparr>requested = n, available = length buf\<rparr>
                       else Inr (f (take n buf), drop n buf))"

definition take_or_panic :: "nat \<Rightarrow> (bytes \<Rightarrow> 'a) \<Rightarrow> bytes \<Rightarrow> ('a \<times> bytes) option" where
  "take_or_panic n f buf = (if length buf < n then None else Some (f (take n buf), drop n buf))"

locale bytes_crate =
  fixes B :: bytes_api
  assumes try_get_u8: "try_get_u8 B = try_take 1 hd"
    and try_get_u16_le: "try_get_u16_le B = try_take 2 of_le"
    and try_get_i16_le: "try_get_i16_le B = try_take 2 of_le"
    and try_get_u32_le: "try_get_u32_le B = try_take 4 of_le"
    and try_get_u64_le: "try_get_u64_le B = try_take 8 of_le"
    and try_copy_to_slice: "try_copy_to_slice B n = try_take n (\<lambda>bs. bs)"
    and get_u8: "get_u8 B = take_or_panic 1 hd"
    and get_u16: "get_u16 B = take_or_panic 2 of_be"
    and get_u16_le: "get_u16_le B = take_or_panic 2 of_le"
    and get_u32: "get_u32 B = take_or_panic 4 of_be"
    and get_u32_le: "get_u32_le B = take_or_panic 4 of_le"
    and copy_to_slice: "copy_to_slice B n = take_or_panic n (\<lambda>bs. bs)"
    and advance: "advance B n = take_or_panic n (\<lambda>_. ())"
    and put_u8: "put_u8 B x out = out @ [x]"
    and put_u16: "put_u16 B y out = out @ to_be 2 y"
    and put_u16_le: "put_u16_le B y out = out @ le16 y"
    and put_u32_le: "put_u32_le B z out = out @ le32 z"
    and put_slice: "put_slice B bs out = out @ bs"
    and put_bytes: "put_bytes B x k out = out @ replicate k x"

definition slice_bytes :: bytes_api where
  "slice_bytes = \<lparr>
     try_get_u8 = try_take 1 hd, try_get_u16_le = try_take 2 of_le, try_get_i16_le = try_take 2 of_le, try_get_u32_le = try_take 4 of_le,
     try_get_u64_le = try_take 8 of_le, try_copy_to_slice = (\<lambda>n. try_take n (\<lambda>bs. bs)),
     get_u8 = take_or_panic 1 hd, get_u16 = take_or_panic 2 of_be, get_u16_le = take_or_panic 2 of_le,
     get_u32 = take_or_panic 4 of_be, get_u32_le = take_or_panic 4 of_le,
     copy_to_slice = (\<lambda>n. take_or_panic n (\<lambda>bs. bs)), advance = (\<lambda>n. take_or_panic n (\<lambda>_. ())),
     put_u8 = (\<lambda>x out. out @ [x]), put_u16 = (\<lambda>x out. out @ to_be 2 x),
     put_u16_le = (\<lambda>x out. out @ le16 x), put_u32_le = (\<lambda>x out. out @ le32 x),
     put_slice = (\<lambda>bs out. out @ bs), put_bytes = (\<lambda>x k out. out @ replicate k x)\<rparr>"

section \<open>Sequencing readers\<close>

text \<open>
  \<open>try_q r f\<close> is \<open>let x = buf.r()?; f(x)\<close> for a fallible accessor, whose error is converted by \<open>?\<close>;
  \<open>panic_q\<close> the same for a panicking one; \<open>read_q\<close> for a reader of this crate.
\<close>

definition try_q :: "'a try_reader \<Rightarrow> ('a \<Rightarrow> 'b reader) \<Rightarrow> 'b reader" where
  "try_q r f buf = (case r buf of Inl e \<Rightarrow> Inl (from_try_get_error e) | Inr (x, buf') \<Rightarrow> f x buf')"

definition panic_q :: "(bytes \<Rightarrow> ('a \<times> bytes) option) \<Rightarrow> ('a \<Rightarrow> 'b reader) \<Rightarrow> 'b reader" where
  "panic_q r f buf = (case r buf of None \<Rightarrow> Inl Panicked | Some (x, buf') \<Rightarrow> f x buf')"

definition read_q :: "'a reader \<Rightarrow> ('a \<Rightarrow> 'b reader) \<Rightarrow> 'b reader" where
  "read_q r f buf = (case r buf of Inl e \<Rightarrow> Inl e | Inr (x, buf') \<Rightarrow> f x buf')"

definition done_q :: "'a \<Rightarrow> 'a reader" where
  "done_q x buf = Inr (x, buf)"

definition fail_q :: "error \<Rightarrow> 'a reader" where
  "fail_q e buf = Inl e"

text \<open>\<open>rest_q f\<close> continues with the bytes that remain (\<open>buf.len()\<close>, \<open>buf.is_empty()\<close>, \<open>&buf[..n]\<close>).\<close>

definition rest_q :: "(bytes \<Rightarrow> 'b reader) \<Rightarrow> 'b reader" where
  "rest_q f buf = f buf buf"

text \<open>Runs a reader on a whole buffer and drops what is left of it.\<close>

definition run_reader :: "'a reader \<Rightarrow> bytes \<Rightarrow> 'a result" where
  "run_reader r buf = map_sum id fst (r buf)"

lemma reader_simps [simp]:
  "done_q x buf = Inr (x, buf)"
  "fail_q e buf = Inl e"
  "rest_q f buf = f buf buf"
  by (simp_all add: done_q_def fail_q_def rest_q_def)

section \<open>codec.rs\<close>

text \<open>\<open>try_get_vec\<close>, \<open>try_get_short_string\<close> and \<open>try_skip\<close> of \<open>BufExt\<close>.\<close>

definition try_get_vec :: "bytes_api \<Rightarrow> nat \<Rightarrow> bytes reader" where
  "try_get_vec B len = try_q (try_copy_to_slice B len) done_q"

definition try_get_short_string :: "bytes_api \<Rightarrow> rstr reader" where
  "try_get_short_string B =
     try_q (try_get_u8 B) (\<lambda>len. read_q (try_get_vec B (unat len)) (\<lambda>v. done_q (from_utf8_lossy v)))"

definition try_skip :: "bytes_api \<Rightarrow> nat \<Rightarrow> unit reader" where
  "try_skip B len = rest_q (\<lambda>buf.
     if length buf < len then fail_q (Truncated len (length buf))
     else panic_q (advance B len) done_q)"

section \<open>Laws of the interface\<close>

lemma try_take_short: "length buf < n \<Longrightarrow> try_take n f buf = Inl \<lparr>requested = n, available = length buf\<rparr>"
  by (simp add: try_take_def)

lemma try_take_long: "n \<le> length buf \<Longrightarrow> try_take n f buf = Inr (f (take n buf), drop n buf)"
  by (simp add: try_take_def)

lemma try_take_append [simp]: "length xs = n \<Longrightarrow> try_take n f (xs @ r) = Inr (f xs, r)"
  by (simp add: try_take_def)

lemma take_or_panic_append [simp]: "length xs = n \<Longrightarrow> take_or_panic n f (xs @ r) = Some (f xs, r)"
  by (simp add: take_or_panic_def)

context bytes_crate
begin

lemmas writers [simp] = put_u8 put_u16 put_u16_le put_u32_le put_slice put_bytes

lemma try_readers [simp, codec_simps]:
  "try_get_u8 B (b # r) = Inr (b, r)"
  "try_get_u16_le B (le16 x @ r) = Inr (x, r)"
  "try_get_i16_le B (le16 x @ r) = Inr (x, r)"
  "try_get_u32_le B (le32 y @ r) = Inr (y, r)"
  "try_get_u64_le B (le64 z @ r) = Inr (z, r)"
  by (simp_all add: try_get_u8 try_get_u16_le try_get_i16_le try_get_u32_le try_get_u64_le of_le_to_le)
     (simp add: try_take_def)

lemma try_readers_all [simp, codec_simps]:
  "try_get_u16_le B (le16 x) = Inr (x, [])"
  "try_get_i16_le B (le16 x) = Inr (x, [])"
  "try_get_u32_le B (le32 y) = Inr (y, [])"
  "try_get_u64_le B (le64 z) = Inr (z, [])"
  using try_readers(2,3) [of x "[]"] try_readers(4) [of y "[]"] try_readers(5) [of z "[]"] by simp_all

lemma panic_readers [simp, codec_simps]:
  "get_u8 B (b # r) = Some (b, r)"
  "get_u16_le B (le16 x @ r) = Some (x, r)"
  "get_u32_le B (le32 y @ r) = Some (y, r)"
  "get_u16 B (to_be 2 x @ r) = Some (x, r)"
  "get_u32 B (to_be 4 y @ r) = Some (y, r)"
  by (simp_all add: get_u8 get_u16_le get_u32_le get_u16 get_u32 of_le_to_le of_be_to_be)
     (simp add: take_or_panic_def)

lemma try_get_vec_append [simp, codec_simps]:
  "length xs = n \<Longrightarrow> try_get_vec B n (xs @ r) = Inr (xs, r)"
  by (simp add: try_get_vec_def try_q_def try_copy_to_slice)

lemma try_get_vec_long: "n \<le> length buf \<Longrightarrow> try_get_vec B n buf = Inr (take n buf, drop n buf)"
  by (simp add: try_get_vec_def try_q_def try_copy_to_slice try_take_long)

lemma try_get_vec_short: "length buf < n \<Longrightarrow> try_get_vec B n buf = Inl (Truncated n (length buf))"
  by (simp add: try_get_vec_def try_q_def try_copy_to_slice try_take_short from_try_get_error_def)

lemma try_skip_eq:
  "try_skip B n buf = (if length buf < n then Inl (Truncated n (length buf)) else Inr ((), drop n buf))"
  by (simp add: try_skip_def panic_q_def advance take_or_panic_def)

text \<open>Short strings: a length byte, then the bytes; a missing byte is an error.\<close>

lemma try_get_short_string_ascii:
  assumes "length s < 256" "\<forall>b \<in> set s. b \<le> 127"
  shows "try_get_short_string B (of_nat (length s) # s @ r) = Inr (map unat s, r)"
  using assms
  by (simp add: try_get_short_string_def try_q_def read_q_def unat_of_nat_small from_utf8_lossy_ascii)

lemma try_get_short_string_truncated:
  "length s < unat n \<Longrightarrow> try_get_short_string B (n # s) = Inl (Truncated (unat n) (length s))"
  by (simp add: try_get_short_string_def try_q_def read_q_def try_get_vec_short)

end

interpretation slice: bytes_crate slice_bytes
  by unfold_locales (simp_all add: slice_bytes_def)

end
