(* ===== verification/Wire_Format.thy ===== *)
theory Wire_Format
  imports Bytes_Buf
begin

text \<open>
  The contract an encoder and its decoder share: decoding what was encoded, followed by anything, gives
  the value back and leaves the rest. Injectivity, prefix-freeness and the round trip of counted lists
  follow once, for every format of the crate.
\<close>

text \<open>Reads \<open>n\<close> values one after the other.\<close>

fun read_many :: "'a reader \<Rightarrow> nat \<Rightarrow> 'a list reader" where
  "read_many r 0 buf = Inr ([], buf)"
| "read_many r (Suc n) buf = read_q r (\<lambda>x. read_q (read_many r n) (\<lambda>xs. done_q (x # xs))) buf"

locale wire_format =
  fixes enc :: "'a \<Rightarrow> bytes"
    and dec :: "'a reader"
    and valid :: "'a \<Rightarrow> bool"
  assumes dec_enc: "valid x \<Longrightarrow> dec (enc x @ r) = Inr (x, r)"
begin

lemma dec_enc_all: "valid x \<Longrightarrow> dec (enc x) = Inr (x, [])"
  using dec_enc [of x "[]"] by simp

lemma prefix_free:
  assumes "valid x" "valid y" "enc x @ r = enc y @ r'"
  shows "x = y \<and> r = r'"
  by (metis assms dec_enc Inr_inject Pair_inject)

lemma enc_inject: "valid x \<Longrightarrow> valid y \<Longrightarrow> enc x = enc y \<Longrightarrow> x = y"
  by (rule conjunct1 [OF prefix_free [where r = "[]" and r' = "[]"]]) simp_all

lemma read_many_enc:
  "\<forall>x \<in> set xs. valid x \<Longrightarrow> read_many dec (length xs) (concat (map enc xs) @ r) = Inr (xs, r)"
  by (induction xs) (simp_all add: read_q_def dec_enc)

lemma counted_inject:
  assumes "\<forall>x \<in> set xs. valid x" "\<forall>y \<in> set ys. valid y" "length xs = length ys"
    and "concat (map enc xs) = concat (map enc ys)"
  shows "xs = ys"
  by (metis assms read_many_enc Inr_inject Pair_inject)

end

text \<open>A fixed-width format also knows how many bytes it takes, so a short buffer is recognised.\<close>

locale fixed_width_format = wire_format enc dec valid
  for enc :: "'a \<Rightarrow> bytes" and dec :: "'a reader" and valid :: "'a \<Rightarrow> bool" +
  fixes width :: nat
  assumes enc_width: "valid x \<Longrightarrow> length (enc x) = width"
    and dec_short: "length buf < width \<Longrightarrow> \<exists>e. dec buf = Inl e"
begin

lemma concat_width: "\<forall>x \<in> set xs. valid x \<Longrightarrow> length (concat (map enc xs)) = width * length xs"
  by (induction xs) (simp_all add: enc_width)

lemma dec_proper_prefix:
  assumes "valid x" "n < width"
  shows "\<exists>e. dec (take n (enc x)) = Inl e"
  by (rule dec_short) (use assms in \<open>simp add: enc_width\<close>)

end

end
