(* ===== verification/Epath.thy ===== *)
theory Epath
  imports Wire_Format
begin

text \<open>
  Logical paths (src/src/cip/epath.rs) and revisions (src/src/cip/revision.rs).
\<close>

section \<open>EPath\<close>

datatype SegmentSize = Bits16 | Bits8

record EPath =
  class_id :: u16
  instance_id :: "u16 option"
  attribute_id :: "u16 option"

definition epath_default :: EPath where
  "epath_default = \<lparr>class_id = 0, instance_id = None, attribute_id = None\<rparr>"

definition epath_class :: "u16 \<Rightarrow> EPath" where
  "epath_class c = \<lparr>class_id = c, instance_id = None, attribute_id = None\<rparr>"

definition epath_instance :: "u16 \<Rightarrow> u16 \<Rightarrow> EPath" where
  "epath_instance c i = \<lparr>class_id = c, instance_id = Some i, attribute_id = None\<rparr>"

definition epath_attribute :: "u16 \<Rightarrow> u16 \<Rightarrow> u16 \<Rightarrow> EPath" where
  "epath_attribute c i a = \<lparr>class_id = c, instance_id = Some i, attribute_id = Some a\<rparr>"

abbreviation CLASS_8 :: u8 where "CLASS_8 \<equiv> 0x20"
abbreviation CLASS_16 :: u8 where "CLASS_16 \<equiv> 0x21"
abbreviation INSTANCE_8 :: u8 where "INSTANCE_8 \<equiv> 0x24"
abbreviation INSTANCE_16 :: u8 where "INSTANCE_16 \<equiv> 0x25"
abbreviation ATTRIBUTE_8 :: u8 where "ATTRIBUTE_8 \<equiv> 0x30"
abbreviation ATTRIBUTE_16 :: u8 where "ATTRIBUTE_16 \<equiv> 0x31"

definition put_segment :: "bytes_api \<Rightarrow> bytes \<Rightarrow> u8 \<Rightarrow> u8 \<Rightarrow> u16 \<Rightarrow> SegmentSize \<Rightarrow> bytes" where
  "put_segment B out seg8 seg16 value sz =
     (if sz = Bits8 \<and> value \<le> 255 then
        let out = put_u8 B seg8 out;
            out = put_u8 B (ucast value) out
        in out
      else
        let out = put_u8 B seg16 out;
            out = put_u8 B 0 out;
            out = put_u16_le B value out
        in out)"

definition epath_encode :: "bytes_api \<Rightarrow> EPath \<Rightarrow> SegmentSize \<Rightarrow> bytes" where
  "epath_encode B p sz =
     (let out = [];
          out = put_segment B out CLASS_8 CLASS_16 (class_id p) sz;
          out = (case instance_id p of None \<Rightarrow> out
                 | Some i \<Rightarrow> put_segment B out INSTANCE_8 INSTANCE_16 i sz);
          out = (case attribute_id p of None \<Rightarrow> out
                 | Some a \<Rightarrow> put_segment B out ATTRIBUTE_8 ATTRIBUTE_16 a sz)
      in out)"

text \<open>
  One iteration of the decoding loop. The loop runs while bytes remain; its progress depends on the
  accessors of \<open>bytes\<close>, so it is a partial function, and \<open>None\<close> means that it does not return.
\<close>

definition epath_segment :: "bytes_api \<Rightarrow> EPath \<Rightarrow> EPath reader" where
  "epath_segment B path =
     try_q (try_get_u8 B) (\<lambda>segment.
     read_q
       (if segment = CLASS_8 \<or> segment = INSTANCE_8 \<or> segment = ATTRIBUTE_8 then
          try_q (try_get_u8 B) (\<lambda>v. done_q (ucast v :: u16))
        else if segment = CLASS_16 \<or> segment = INSTANCE_16 \<or> segment = ATTRIBUTE_16 then
          try_q (try_get_u8 B) (\<lambda>_. try_q (try_get_u16_le B) done_q)
        else fail_q (InvalidPacket (lit ''unknown EPATH segment '' @ fmt_hex_pad 4 (unat segment))))
       (\<lambda>value. done_q
         (if segment = CLASS_8 \<or> segment = CLASS_16 then path\<lparr>class_id := value\<rparr>
          else if segment = INSTANCE_8 \<or> segment = INSTANCE_16 then path\<lparr>instance_id := Some value\<rparr>
          else path\<lparr>attribute_id := Some value\<rparr>)))"

partial_function (option) epath_decode_loop :: "bytes_api \<Rightarrow> bytes \<Rightarrow> EPath \<Rightarrow> EPath result option" where
  "epath_decode_loop B data path =
     (if data = [] then Some (Inr path)
      else case epath_segment B path data of
             Inl e \<Rightarrow> Some (Inl e)
           | Inr (path', data') \<Rightarrow> epath_decode_loop B data' path')"

text \<open>The equation of the loop computes; paths of a test are decoded by it.\<close>

declare epath_decode_loop.simps [code]

definition epath_decode :: "bytes_api \<Rightarrow> bytes \<Rightarrow> EPath result option" where
  "epath_decode B data = epath_decode_loop B data epath_default"

text \<open>\<open>Display\<close>: \<open>[classId=1 objectId=2 attributeId=3]\<close>.\<close>

definition display_epath :: "EPath \<Rightarrow> rstr" where
  "display_epath p =
     lit ''[classId='' @ fmt_dec (unat (class_id p)) @
     (case instance_id p of None \<Rightarrow> [] | Some i \<Rightarrow> lit '' objectId='' @ fmt_dec (unat i)) @
     (case attribute_id p of None \<Rightarrow> [] | Some a \<Rightarrow> lit '' attributeId='' @ fmt_dec (unat a)) @
     lit '']''"

section \<open>Properties of paths\<close>

text \<open>The 8-bit form keeps the value when it fits.\<close>

lemma ucast_u8_u16: "value \<le> 255 \<Longrightarrow> ucast (ucast (value :: u16) :: u8) = value"
  by (simp add: word_unat_eq_iff unsigned_ucast_eq unsigned_take_bit_eq word_le_nat_alt take_bit_nat_eq_self)

definition segment_bytes :: "u8 \<Rightarrow> u8 \<Rightarrow> u16 \<Rightarrow> SegmentSize \<Rightarrow> bytes" where
  "segment_bytes seg8 seg16 value sz =
     (if sz = Bits8 \<and> value \<le> 255 then [seg8, ucast value] else [seg16, 0] @ le16 value)"

lemma segment_bytes_nonempty [simp]: "segment_bytes a b v sz \<noteq> []"
  by (simp add: segment_bytes_def)

lemma length_segment_bytes: "length (segment_bytes a b v sz) = 2 \<or> length (segment_bytes a b v sz) = 4"
  by (simp add: segment_bytes_def)

lemma even_length_segment_bytes [simp]: "even (length (segment_bytes a b v sz))"
  by (simp add: segment_bytes_def)

definition epath_bytes :: "EPath \<Rightarrow> SegmentSize \<Rightarrow> bytes" where
  "epath_bytes p sz = segment_bytes CLASS_8 CLASS_16 (class_id p) sz @
     (case instance_id p of None \<Rightarrow> [] | Some i \<Rightarrow> segment_bytes INSTANCE_8 INSTANCE_16 i sz) @
     (case attribute_id p of None \<Rightarrow> [] | Some a \<Rightarrow> segment_bytes ATTRIBUTE_8 ATTRIBUTE_16 a sz)"

context bytes_crate
begin

lemma put_segment_eq: "put_segment B out a b v sz = out @ segment_bytes a b v sz"
  by (simp add: put_segment_def segment_bytes_def Let_def)

lemma epath_encode_eq: "epath_encode B p sz = epath_bytes p sz"
  by (simp add: epath_encode_def epath_bytes_def put_segment_eq Let_def split: option.splits)

lemma epath_segment_steps:
  "epath_segment B p (segment_bytes CLASS_8 CLASS_16 v sz @ r) = Inr (p\<lparr>class_id := v\<rparr>, r)"
  "epath_segment B p (segment_bytes INSTANCE_8 INSTANCE_16 v sz @ r) = Inr (p\<lparr>instance_id := Some v\<rparr>, r)"
  "epath_segment B p (segment_bytes ATTRIBUTE_8 ATTRIBUTE_16 v sz @ r) = Inr (p\<lparr>attribute_id := Some v\<rparr>, r)"
  by (simp_all add: epath_segment_def segment_bytes_def try_q_def read_q_def ucast_u8_u16)

lemma decode_loop_step:
  "epath_segment B p data = Inr (p', data') \<Longrightarrow> data \<noteq> [] \<Longrightarrow>
   epath_decode_loop B data p = epath_decode_loop B data' p'"
  by (subst epath_decode_loop.simps) simp

lemma decode_loop_Nil [simp]: "epath_decode_loop B [] p = Some (Inr p)"
  by (subst epath_decode_loop.simps) simp

lemma decode_loop_segments:
  "epath_decode_loop B (segment_bytes CLASS_8 CLASS_16 v sz @ r) p = epath_decode_loop B r (p\<lparr>class_id := v\<rparr>)"
  "epath_decode_loop B (segment_bytes INSTANCE_8 INSTANCE_16 v sz @ r) p =
     epath_decode_loop B r (p\<lparr>instance_id := Some v\<rparr>)"
  "epath_decode_loop B (segment_bytes ATTRIBUTE_8 ATTRIBUTE_16 v sz @ r) p =
     epath_decode_loop B r (p\<lparr>attribute_id := Some v\<rparr>)"
  by (simp_all add: decode_loop_step [OF epath_segment_steps(1)]
      decode_loop_step [OF epath_segment_steps(2)] decode_loop_step [OF epath_segment_steps(3)])

lemmas decode_loop_last =
  decode_loop_segments(2) [where r = "[]", simplified] decode_loop_segments(3) [where r = "[]", simplified]

lemma epath_decode_bytes: "epath_decode B (epath_bytes p sz) = Some (Inr p)"
  by (cases p) (simp add: epath_decode_def epath_bytes_def epath_default_def decode_loop_segments
      decode_loop_last split: option.splits)

text \<open>Every iteration takes at least one byte, so the loop returns on every input.\<close>

lemma epath_segment_shrinks: "epath_segment B p data = Inr (p', data') \<Longrightarrow> length data' < length data"
  by (auto simp: epath_segment_def try_q_def read_q_def try_get_u8 try_get_u16_le try_take_def
      split: if_splits)

lemma epath_decode_loop_returns: "\<exists>r. epath_decode_loop B data p = Some r"
proof (induction data arbitrary: p rule: length_induct)
  case (1 data)
  show ?case
    by (subst epath_decode_loop.simps)
      (auto split: sum.splits prod.splits dest: epath_segment_shrinks intro: 1 [rule_format])
qed

lemma epath_segment_no_panic: "epath_segment B p data \<noteq> Inl Panicked"
  by (auto simp: epath_segment_def try_q_def read_q_def try_get_u8 try_get_u16_le try_take_def
      from_try_get_error_def)

end

lemma length_epath_bytes: "length (epath_bytes p sz) \<le> 12" "even (length (epath_bytes p sz))"
  by (auto simp: epath_bytes_def segment_bytes_def split: option.splits)

lemma length_epath_bytes_16:
  "length (epath_bytes p Bits16) = 4 * (1 + (if instance_id p = None then 0 else 1) + (if attribute_id p = None then 0 else 1))"
  by (auto simp: epath_bytes_def segment_bytes_def)

text \<open>Encoding a path with either segment size and decoding it gives the path back: no field is
  lost, an ID that fits in a byte survives the 8-bit form, and the loop returns.\<close>
theorem epath_roundtrip:
  assumes "bytes_crate B"
  shows "epath_decode B (epath_encode B p sz) = Some (Ok p)"
  using assms by (simp add: bytes_crate.epath_encode_eq bytes_crate.epath_decode_bytes)

theorem epath_roundtrip_witness:
  "epath_decode slice_bytes (epath_encode slice_bytes (epath_attribute 4 300 1) Bits8)
     = Some (Ok (epath_attribute 4 300 1))"
  by (rule epath_roundtrip) (rule slice.bytes_crate_axioms)

section \<open>CipRevision\<close>

record CipRevision =
  major :: u8
  minor :: u8

definition revision_new :: "u8 \<Rightarrow> u8 \<Rightarrow> CipRevision" where
  "revision_new ma mi = \<lparr>major = ma, minor = mi\<rparr>"

definition revision_default :: CipRevision where
  "revision_default = \<lparr>major = 0, minor = 0\<rparr>"

definition revision_decode :: "bytes_api \<Rightarrow> CipRevision reader" where
  "revision_decode B = try_q (try_get_u8 B) (\<lambda>ma. try_q (try_get_u8 B) (\<lambda>mi. done_q \<lparr>major = ma, minor = mi\<rparr>))"

definition revision_encode :: "bytes_api \<Rightarrow> CipRevision \<Rightarrow> bytes \<Rightarrow> bytes" where
  "revision_encode B r buf = (let buf = put_u8 B (major r) buf; buf = put_u8 B (minor r) buf in buf)"

definition display_revision :: "CipRevision \<Rightarrow> rstr" where
  "display_revision r = fmt_dec (unat (major r)) @ lit ''.'' @ fmt_dec (unat (minor r))"

sublocale bytes_crate \<subseteq> revision: fixed_width_format "\<lambda>r. revision_encode B r []" "revision_decode B" "\<lambda>_. True" 2
proof
  fix buf :: bytes
  assume "length buf < 2"
  then show "\<exists>e. revision_decode B buf = Inl e"
    by (auto simp: revision_decode_def try_q_def try_get_u8 try_take_def Suc_le_eq)
qed (simp_all add: revision_decode_def revision_encode_def try_q_def)

end
