(* ===== verification/Encapsulation.thy ===== *)
theory Encapsulation
  imports Wire_Format
begin

text \<open>
  The encapsulation layer: the 24-byte header (src/src/eip/encaps.rs), the common packet format
  (src/src/eip/cpf.rs) and socket addresses (src/src/eip/sockaddr.rs).
\<close>

section \<open>encaps.rs\<close>

abbreviation HEADER_SIZE :: nat where "HEADER_SIZE \<equiv> 24"

record EncapsPacket =
  command :: EncapsCommand
  session_handle :: u32
  status :: EncapsStatus
  sender_context :: bytes
  options :: u32
  data :: bytes

definition encaps_new :: "EncapsCommand \<Rightarrow> u32 \<Rightarrow> bytes \<Rightarrow> EncapsPacket" where
  "encaps_new c h d = \<lparr>command = c, session_handle = h, status = EncapsStatus 0,
     sender_context = replicate 8 0, options = 0, data = d\<rparr>"

definition register_session :: EncapsPacket where
  "register_session = encaps_new EC_REGISTER_SESSION 0 [1, 0, 0, 0]"

definition unregister_session :: "u32 \<Rightarrow> EncapsPacket" where
  "unregister_session h = encaps_new EC_UN_REGISTER_SESSION h []"

definition send_rr_data :: "bytes_api \<Rightarrow> u32 \<Rightarrow> u16 \<Rightarrow> bytes \<Rightarrow> EncapsPacket" where
  "send_rr_data B h timeout cpf =
     (let d = [];
          d = put_u32_le B 0 d;
          d = put_u16_le B timeout d;
          d = put_slice B cpf d
      in encaps_new EC_SEND_RR_DATA h d)"

definition list_identity :: EncapsPacket where
  "list_identity = encaps_new EC_LIST_IDENTITY 0 []"

definition encaps_encode :: "bytes_api \<Rightarrow> EncapsPacket \<Rightarrow> bytes" where
  "encaps_encode B p =
     (let out = [];
          out = put_u16_le B (encaps_command_raw (command p)) out;
          out = put_u16_le B (of_nat (length (data p))) out;
          out = put_u32_le B (session_handle p) out;
          out = put_u32_le B (encaps_status_raw (status p)) out;
          out = put_slice B (sender_context p) out;
          out = put_u32_le B (options p) out;
          out = put_slice B (data p) out
      in out)"

definition encaps_read :: "bytes_api \<Rightarrow> EncapsPacket reader" where
  "encaps_read B =
     panic_q (get_u16_le B) (\<lambda>command. panic_q (get_u16_le B) (\<lambda>len.
     panic_q (get_u32_le B) (\<lambda>session_handle. panic_q (get_u32_le B) (\<lambda>status.
     panic_q (copy_to_slice B 8) (\<lambda>sender_context. panic_q (get_u32_le B) (\<lambda>options.
     rest_q (\<lambda>buf.
       if length buf \<noteq> unat len then
         fail_q (InvalidPacket (lit ''encapsulation data must be '' @ fmt_dec (unat len) @
           lit '' bytes, got '' @ fmt_dec (length buf)))
       else done_q \<lparr>command = EncapsCommand command, session_handle = session_handle,
         status = EncapsStatus status, sender_context = sender_context, options = options, data = buf\<rparr>)))))))"

definition encaps_decode :: "bytes_api \<Rightarrow> bytes \<Rightarrow> EncapsPacket result" where
  "encaps_decode B d =
     (if length d < HEADER_SIZE then
        Err (InvalidPacket (lit ''encapsulation header must be 24 bytes, got '' @ fmt_dec (length d)))
      else run_reader (encaps_read B) d)"

definition length_from_header :: "bytes \<Rightarrow> nat" where
  "length_from_header header = unat (of_le [header ! 2, header ! 3] :: u16)"

text \<open>The header a packet is encoded with, and the packets the 16-bit length field can describe.\<close>

definition encaps_header :: "EncapsPacket \<Rightarrow> bytes" where
  "encaps_header p = le16 (encaps_command_raw (command p)) @ le16 (of_nat (length (data p))) @
     le32 (session_handle p) @ le32 (encaps_status_raw (status p)) @ sender_context p @ le32 (options p)"

definition encaps_ok :: "EncapsPacket \<Rightarrow> bool" where
  "encaps_ok p \<longleftrightarrow> length (sender_context p) = 8 \<and> length (data p) < 65536"

lemma encaps_ok_new [simp]: "encaps_ok (encaps_new c h d) \<longleftrightarrow> length d < 65536"
  by (simp add: encaps_ok_def encaps_new_def)

lemma length_encaps_header: "encaps_ok p \<Longrightarrow> length (encaps_header p) = HEADER_SIZE"
  by (simp add: encaps_header_def encaps_ok_def)

lemma to_le_2: "le16 w = [ucast w, ucast (drop_bit 8 w)]"
  by (simp add: to_le_def upt_rec)

lemma length_from_header_header:
  assumes "encaps_ok p"
  shows "length_from_header (encaps_header p @ r) = length (data p)"
proof -
  let ?n = "of_nat (length (data p)) :: u16"
  have "[(encaps_header p @ r) ! 2, (encaps_header p @ r) ! 3] = le16 ?n"
    by (simp add: encaps_header_def to_le_2)
  then show ?thesis
    using assms by (simp add: length_from_header_def of_le_to_le encaps_ok_def unat_of_nat_small)
qed

context bytes_crate
begin

lemma encaps_encode_eq: "encaps_encode B p = encaps_header p @ data p"
  by (simp add: encaps_encode_def encaps_header_def Let_def)

lemma encaps_decode_encode:
  assumes "encaps_ok p"
  shows "encaps_decode B (encaps_encode B p) = Inr p"
proof -
  have "encaps_read B (encaps_header p @ data p) = Inr (p, data p)"
    using assms
    by (cases p)
      (auto simp: encaps_read_def encaps_header_def panic_q_def copy_to_slice encaps_ok_def unat_of_nat_small)
  moreover have "\<not> length (encaps_header p @ data p) < HEADER_SIZE"
    using assms by (simp add: length_encaps_header)
  ultimately show ?thesis
    by (simp add: encaps_encode_eq encaps_decode_def run_reader_def)
qed

lemma encaps_decode_no_panic: "encaps_decode B d \<noteq> Inl Panicked"
  by (auto simp: encaps_decode_def run_reader_def encaps_read_def panic_q_def get_u16_le get_u32_le
      copy_to_slice take_or_panic_def)

text \<open>The decoder accepts exactly the buffers whose length field counts the bytes after the header.\<close>

lemma encaps_decode_ok_iff:
  "is_ok (encaps_decode B d) \<longleftrightarrow> HEADER_SIZE \<le> length d \<and> length_from_header d = length d - HEADER_SIZE"
proof (cases "length d < HEADER_SIZE")
  case False
  then have "of_le (take 2 (drop 2 d)) = (of_le [d ! 2, d ! 3] :: u16)"
    by (simp add: take_Suc_conv_app_nth numeral_2_eq_2 numeral_3_eq_3)
  with False show ?thesis
    by (auto simp: encaps_decode_def run_reader_def encaps_read_def panic_q_def get_u16_le get_u32_le
        copy_to_slice take_or_panic_def length_from_header_def)
qed (simp add: encaps_decode_def)

end

text \<open>Decoding an encoded packet whose data fits the 16-bit length field gives the packet back.\<close>
theorem encaps_roundtrip:
  assumes "bytes_crate B" "encaps_ok p"
  shows "encaps_decode B (encaps_encode B p) = Ok p"
  using assms by (rule bytes_crate.encaps_decode_encode)

theorem encaps_roundtrip_witness:
  "encaps_decode slice_bytes (encaps_encode slice_bytes register_session) = Ok register_session"
  by (rule encaps_roundtrip [OF slice.bytes_crate_axioms]) (simp add: register_session_def)

section \<open>sockaddr.rs\<close>

datatype Ipv4Addr = Ipv4Addr (ip_bits: u32)

text \<open>\<open>Ord\<close> of \<open>Ipv4Addr\<close> compares the octets from the first: the order of the big-endian number.\<close>

instantiation Ipv4Addr :: linorder
begin

definition less_eq_Ipv4Addr :: "Ipv4Addr \<Rightarrow> Ipv4Addr \<Rightarrow> bool" where
  "less_eq_Ipv4Addr a b \<longleftrightarrow> ip_bits a \<le> ip_bits b"

definition less_Ipv4Addr :: "Ipv4Addr \<Rightarrow> Ipv4Addr \<Rightarrow> bool" where
  "less_Ipv4Addr a b \<longleftrightarrow> ip_bits a < ip_bits b"

instance
  by standard (auto simp: less_eq_Ipv4Addr_def less_Ipv4Addr_def intro: Ipv4Addr.expand)

end

definition octets :: "Ipv4Addr \<Rightarrow> bytes" where
  "octets a = to_be 4 (ip_bits a)"

definition ipv4 :: "u8 \<Rightarrow> u8 \<Rightarrow> u8 \<Rightarrow> u8 \<Rightarrow> Ipv4Addr" where
  "ipv4 a b c d = Ipv4Addr (of_be [a, b, c, d])"

record SocketAddrV4 =
  sa_ip :: Ipv4Addr
  sa_port :: u16

abbreviation SOCKADDR_SIZE :: nat where "SOCKADDR_SIZE \<equiv> 16"

definition encode_sockaddr :: "bytes_api \<Rightarrow> SocketAddrV4 \<Rightarrow> bytes \<Rightarrow> bytes" where
  "encode_sockaddr B addr out =
     (let out = put_u16 B 2 out;
          out = put_u16 B (sa_port addr) out;
          out = put_slice B (octets (sa_ip addr)) out;
          out = put_bytes B 0 8 out
      in out)"

definition decode_sockaddr :: "bytes_api \<Rightarrow> SocketAddrV4 reader" where
  "decode_sockaddr B = rest_q (\<lambda>buf.
     if length buf < SOCKADDR_SIZE then fail_q (Truncated SOCKADDR_SIZE (length buf))
     else panic_q (get_u16 B) (\<lambda>_. panic_q (get_u16 B) (\<lambda>port. panic_q (get_u32 B) (\<lambda>ip.
       panic_q (advance B 8) (\<lambda>_. done_q \<lparr>sa_ip = Ipv4Addr ip, sa_port = port\<rparr>)))))"

context bytes_crate
begin

lemma decode_sockaddr_encode: "decode_sockaddr B (encode_sockaddr B a [] @ r) = Inr (a, r)"
  by (cases a, cases "sa_ip a")
    (simp add: decode_sockaddr_def encode_sockaddr_def octets_def panic_q_def advance Let_def)

lemma decode_sockaddr_short:
  "length buf < SOCKADDR_SIZE \<Longrightarrow> decode_sockaddr B buf = Inl (Truncated SOCKADDR_SIZE (length buf))"
  by (simp add: decode_sockaddr_def)

lemma decode_sockaddr_no_panic: "decode_sockaddr B buf \<noteq> Inl Panicked"
  by (auto simp: decode_sockaddr_def panic_q_def get_u16 get_u32 advance take_or_panic_def)

end

sublocale bytes_crate \<subseteq> sockaddr:
  fixed_width_format "\<lambda>a. encode_sockaddr B a []" "decode_sockaddr B" "\<lambda>_. True" SOCKADDR_SIZE
proof
  show "length (encode_sockaddr B a []) = SOCKADDR_SIZE" for a
    by (simp add: encode_sockaddr_def octets_def Let_def)
  show "\<exists>e. decode_sockaddr B buf = Inl e" if "length buf < SOCKADDR_SIZE" for buf
    using that by (simp add: decode_sockaddr_short)
qed (rule decode_sockaddr_encode)

section \<open>cpf.rs\<close>

record CommonPacketItem =
  type_id :: CommonPacketItemId
  item_data :: bytes

definition item_new :: "CommonPacketItemId \<Rightarrow> bytes \<Rightarrow> CommonPacketItem" where
  "item_new t d = \<lparr>type_id = t, item_data = d\<rparr>"

definition null_address :: CommonPacketItem where
  "null_address = \<lparr>type_id = CommonPacketItemId 0, item_data = []\<rparr>"

definition unconnected_data :: "bytes \<Rightarrow> CommonPacketItem" where
  "unconnected_data d = item_new CPI_UNCONNECTED_MESSAGE d"

definition connected_data :: "bytes \<Rightarrow> CommonPacketItem" where
  "connected_data d = item_new CPI_CONNECTED_TRANSPORT_PACKET d"

definition sequenced_address :: "bytes_api \<Rightarrow> u32 \<Rightarrow> u32 \<Rightarrow> CommonPacketItem" where
  "sequenced_address B conn_id seq_num =
     (let d = [];
          d = put_u32_le B conn_id d;
          d = put_u32_le B seq_num d
      in item_new CPI_SEQUENCED_ADDRESS d)"

definition item_encode_into :: "bytes_api \<Rightarrow> CommonPacketItem \<Rightarrow> bytes \<Rightarrow> bytes" where
  "item_encode_into B item out =
     (let out = put_u16_le B (common_packet_item_id_raw (type_id item)) out;
          out = put_u16_le B (of_nat (length (item_data item))) out;
          out = put_slice B (item_data item) out
      in out)"

definition item_encode :: "bytes_api \<Rightarrow> CommonPacketItem \<Rightarrow> bytes" where
  "item_encode B item = item_encode_into B item []"

record CommonPacket =
  cp_items :: "CommonPacketItem list"

definition common_packet_new :: "CommonPacketItem list \<Rightarrow> CommonPacket" where
  "common_packet_new items = \<lparr>cp_items = items\<rparr>"

definition cpf_encode :: "bytes_api \<Rightarrow> CommonPacket \<Rightarrow> bytes" where
  "cpf_encode B p =
     (let out = put_u16_le B (of_nat (length (cp_items p))) []
      in fold (item_encode_into B) (cp_items p) out)"

text \<open>One iteration of the decoding loop, and the loop: it stops early when the buffer is empty.\<close>

definition item_decode :: "bytes_api \<Rightarrow> CommonPacketItem reader" where
  "item_decode B =
     try_q (try_get_u16_le B) (\<lambda>t. try_q (try_get_u16_le B) (\<lambda>len buf.
       case try_get_vec B (unat len) buf of
         Inl _ \<Rightarrow> Inl (InvalidPacket (lit ''common packet item is truncated''))
       | Inr (d, buf') \<Rightarrow> Inr (\<lparr>type_id = CommonPacketItemId t, item_data = d\<rparr>, buf')))"

fun items_decode :: "bytes_api \<Rightarrow> nat \<Rightarrow> CommonPacketItem list \<Rightarrow> CommonPacketItem list reader" where
  "items_decode B 0 items buf = Inr (items, buf)"
| "items_decode B (Suc n) items buf =
     (if buf = [] then Inr (items, buf)
      else read_q (item_decode B) (\<lambda>item. items_decode B n (items @ [item])) buf)"

definition cpf_decode :: "bytes_api \<Rightarrow> bytes \<Rightarrow> CommonPacket result" where
  "cpf_decode B buf = run_reader
     (try_q (try_get_u16_le B) (\<lambda>count.
      read_q (items_decode B (unat count) []) (\<lambda>items. done_q \<lparr>cp_items = items\<rparr>))) buf"

text \<open>An implicit packet: the sequenced address item and the connected data item.\<close>

record ConnectedPacket =
  connection_id :: u32
  sequence_number :: u32
  cp_data :: bytes

definition decode_connected_packet :: "bytes_api \<Rightarrow> bytes \<Rightarrow> ConnectedPacket result" where
  "decode_connected_packet B buf = run_reader
     (try_q (try_get_u16_le B) (\<lambda>count.
      if count < 2 then
        fail_q (InvalidPacket (lit ''implicit packet has '' @ fmt_dec (unat count) @ lit '' items, expected 2''))
      else
      try_q (try_get_u16_le B) (\<lambda>addr_type. try_q (try_get_u16_le B) (\<lambda>addr_len.
      if CommonPacketItemId addr_type \<noteq> CPI_SEQUENCED_ADDRESS \<or> addr_len \<noteq> 8 then
        fail_q (InvalidPacket (lit ''implicit packet address item is '' @
          display_common_packet_item_id (CommonPacketItemId addr_type) @ lit '' with length '' @
          fmt_dec (unat addr_len)))
      else
      try_q (try_get_u32_le B) (\<lambda>connection_id. try_q (try_get_u32_le B) (\<lambda>sequence_number.
      try_q (try_get_u16_le B) (\<lambda>data_type.
      if CommonPacketItemId data_type \<noteq> CPI_CONNECTED_TRANSPORT_PACKET then
        fail_q (InvalidPacket (lit ''implicit packet data item is '' @
          display_common_packet_item_id (CommonPacketItemId data_type)))
      else
      try_q (try_get_u16_le B) (\<lambda>len. rest_q (\<lambda>buf.
      if length buf < unat len then fail_q (Truncated (unat len) (length buf))
      else done_q \<lparr>connection_id = connection_id, sequence_number = sequence_number,
        cp_data = take (unat len) buf\<rparr>)))))))))
     buf"

definition encode_connected_packet :: "bytes_api \<Rightarrow> u32 \<Rightarrow> u32 \<Rightarrow> bytes list \<Rightarrow> bytes" where
  "encode_connected_packet B conn_id seq_num parts =
     (let len = sum_list (map length parts);
          out = [];
          out = put_u16_le B 2 out;
          out = put_u16_le B (common_packet_item_id_raw CPI_SEQUENCED_ADDRESS) out;
          out = put_u16_le B 8 out;
          out = put_u32_le B conn_id out;
          out = put_u32_le B seq_num out;
          out = put_u16_le B (common_packet_item_id_raw CPI_CONNECTED_TRANSPORT_PACKET) out;
          out = put_u16_le B (of_nat len) out
      in fold (put_slice B) parts out)"

text \<open>Items and packets the 16-bit length and count fields can describe.\<close>

definition item_ok :: "CommonPacketItem \<Rightarrow> bool" where
  "item_ok item \<longleftrightarrow> length (item_data item) < 65536"

definition cpf_ok :: "CommonPacket \<Rightarrow> bool" where
  "cpf_ok p \<longleftrightarrow> length (cp_items p) < 65536 \<and> (\<forall>item \<in> set (cp_items p). item_ok item)"

definition item_bytes :: "CommonPacketItem \<Rightarrow> bytes" where
  "item_bytes item = le16 (common_packet_item_id_raw (type_id item)) @
     le16 (of_nat (length (item_data item))) @ item_data item"

lemma item_bytes_nonempty [simp]: "item_bytes item \<noteq> []"
  by (simp add: item_bytes_def to_le_2)

lemma length_item_bytes [simp]: "length (item_bytes item) = 4 + length (item_data item)"
  by (simp add: item_bytes_def)

context bytes_crate
begin

lemma item_encode_into_eq: "item_encode_into B item out = out @ item_bytes item"
  by (simp add: item_encode_into_def item_bytes_def Let_def)

lemma item_encode_eq [simp]: "item_encode B item = item_bytes item"
  by (simp add: item_encode_def item_encode_into_eq)

lemma fold_item_encode: "fold (item_encode_into B) items out = out @ concat (map item_bytes items)"
  by (induction items arbitrary: out) (simp_all add: item_encode_into_eq)

lemma cpf_encode_eq: "cpf_encode B p = le16 (of_nat (length (cp_items p))) @ concat (map item_bytes (cp_items p))"
  by (simp add: cpf_encode_def fold_item_encode Let_def)

lemma item_decode_encode: "item_ok item \<Longrightarrow> item_decode B (item_bytes item @ r) = Inr (item, r)"
  by (cases item; cases "type_id item")
    (simp add: item_decode_def item_bytes_def item_ok_def try_q_def unat_of_nat_small)

lemma items_decode_encode:
  "\<forall>item \<in> set items. item_ok item \<Longrightarrow>
   items_decode B (length items) acc (concat (map item_bytes items) @ r) = Inr (acc @ items, r)"
proof (induction items arbitrary: acc)
  case (Cons item items)
  then show ?case by (simp add: read_q_def item_decode_encode)
qed simp

lemma cpf_decode_encode:
  assumes "cpf_ok p"
  shows "cpf_decode B (cpf_encode B p @ r) = Inr p"
  using assms
  by (cases p) (simp add: cpf_decode_def cpf_encode_eq run_reader_def try_q_def read_q_def cpf_ok_def
      unat_of_nat_small items_decode_encode)

lemma item_decode_no_panic: "item_decode B buf \<noteq> Inl Panicked"
  by (auto simp: item_decode_def try_q_def try_get_u16_le try_take_def from_try_get_error_def
      split: sum.splits prod.splits)

lemma items_decode_no_panic: "items_decode B n items buf \<noteq> Inl Panicked"
proof (induction n arbitrary: items buf)
  case (Suc n)
  show ?case
    using item_decode_no_panic Suc by (auto simp: read_q_def split: sum.splits)
qed simp

lemma cpf_decode_no_panic: "cpf_decode B buf \<noteq> Inl Panicked"
  using items_decode_no_panic
  by (auto simp: cpf_decode_def run_reader_def try_q_def read_q_def try_get_u16_le try_take_def
      from_try_get_error_def split: sum.splits)

end

sublocale bytes_crate \<subseteq> item: wire_format "item_encode B" "item_decode B" item_ok
  by unfold_locales (simp add: item_decode_encode)

text \<open>Decoding an encoded common packet gives its items back, whatever bytes follow the last one.\<close>
theorem cpf_roundtrip:
  assumes "bytes_crate B" "cpf_ok p"
  shows "cpf_decode B (cpf_encode B p @ trailing) = Ok p"
  using assms by (rule bytes_crate.cpf_decode_encode)

theorem cpf_roundtrip_witness:
  "cpf_decode slice_bytes (cpf_encode slice_bytes
      \<lparr>cp_items = [null_address, unconnected_data [1, 2, 3]]\<rparr> @ [9])
     = Ok \<lparr>cp_items = [null_address, unconnected_data [1, 2, 3]]\<rparr>"
  by (rule cpf_roundtrip [OF slice.bytes_crate_axioms])
    (simp add: cpf_ok_def item_ok_def null_address_def unconnected_data_def item_new_def)

section \<open>Implicit packets\<close>

context bytes_crate
begin

lemma fold_put_slice: "fold (put_slice B) parts out = out @ concat parts"
  by (induction parts arbitrary: out) simp_all

lemma encode_connected_packet_eq:
  "encode_connected_packet B cid sn parts =
     le16 2 @ le16 0x8002 @ le16 8 @ le32 cid @ le32 sn @ le16 0xB1 @ le16 (of_nat (length (concat parts))) @
     concat parts"
  by (simp add: encode_connected_packet_def fold_put_slice Let_def length_concat)

text \<open>The in-place encoder writes what the generic item encoder writes.\<close>

lemma encode_connected_packet_cpf:
  "encode_connected_packet B cid sn parts =
     cpf_encode B \<lparr>cp_items = [sequenced_address B cid sn, connected_data (concat parts)]\<rparr>"
  by (simp add: encode_connected_packet_eq cpf_encode_eq item_bytes_def sequenced_address_def
      connected_data_def item_new_def Let_def)

lemma decode_connected_packet_encode:
  assumes "length (concat parts) < 65536"
  shows "decode_connected_packet B (encode_connected_packet B cid sn parts @ r) =
     Inr \<lparr>connection_id = cid, sequence_number = sn, cp_data = concat parts\<rparr>"
  using assms
  by (simp add: decode_connected_packet_def encode_connected_packet_eq run_reader_def try_q_def
      unat_of_nat_small)

lemma decode_connected_packet_no_panic: "decode_connected_packet B buf \<noteq> Inl Panicked"
  by (auto simp: decode_connected_packet_def run_reader_def try_q_def try_get_u16_le try_get_u32_le
      try_take_def from_try_get_error_def)

end

text \<open>C35: The allocation-free encoder for implicit packets produces the bytes of the generic common packet
  encoder on the two items it stands for.\<close>
theorem connected_packet_equals_cpf:
  assumes "bytes_crate B"
  shows "encode_connected_packet B cid sn parts =
     cpf_encode B \<lparr>cp_items = [sequenced_address B cid sn, connected_data (concat parts)]\<rparr>"
  using assms by (rule bytes_crate.encode_connected_packet_cpf)

theorem connected_packet_equals_cpf_witness:
  "encode_connected_packet slice_bytes 0x11223344 7 [[1, 0], [0xAA, 0xBB]] =
     cpf_encode slice_bytes \<lparr>cp_items = [sequenced_address slice_bytes 0x11223344 7, connected_data [1, 0, 0xAA, 0xBB]]\<rparr>"
  using connected_packet_equals_cpf [OF slice.bytes_crate_axioms, of "0x11223344" 7 "[[1, 0], [0xAA, 0xBB]]"]
  by simp

end
