(* ===== verification/Message_Router.thy ===== *)
theory Message_Router
  imports Epath Encapsulation
begin

text \<open>
  Message router requests and responses (src/src/cip/message_router.rs), the \<open>Session\<close> trait
  (src/src/session.rs) and the explicit request/response exchange over it (src/src/message_router.rs).
\<close>

section \<open>Requests\<close>

definition encode_request :: "bytes_api \<Rightarrow> ServiceCode \<Rightarrow> EPath \<Rightarrow> bytes \<Rightarrow> SegmentSize \<Rightarrow> bytes" where
  "encode_request B sc path d sz =
     (let path = epath_encode B path sz;
          out = [];
          out = put_u8 B (service_code_raw sc) out;
          out = put_u8 B (of_nat (length path div 2)) out;
          out = put_slice B path out;
          out = put_slice B d out
      in out)"

section \<open>Responses\<close>

record MessageRouterResponse =
  service :: ServiceCode
  general_status :: GeneralStatusCode
  additional_status :: "u16 list"
  resp_data :: bytes
  additional_packet_items :: "CommonPacketItem list"

text \<open>\<open>(0..n).map(|_| buf.get_u16_le())\<close>.\<close>

fun get_u16s :: "bytes_api \<Rightarrow> nat \<Rightarrow> u16 list reader" where
  "get_u16s B 0 buf = Inr ([], buf)"
| "get_u16s B (Suc n) buf =
     panic_q (get_u16_le B) (\<lambda>x. read_q (get_u16s B n) (\<lambda>xs. done_q (x # xs))) buf"

definition response_read :: "bytes_api \<Rightarrow> MessageRouterResponse reader" where
  "response_read B =
     panic_q (get_u8 B) (\<lambda>service. panic_q (get_u8 B) (\<lambda>_. panic_q (get_u8 B) (\<lambda>general_status.
     panic_q (get_u8 B) (\<lambda>additional_size. rest_q (\<lambda>buf.
       if unat additional_size * 2 > length buf then
         fail_q (InvalidPacket (lit ''additional status has wrong size''))
       else
       read_q (get_u16s B (unat additional_size)) (\<lambda>additional_status. rest_q (\<lambda>buf.
       read_q (try_get_vec B (length buf)) (\<lambda>d.
         done_q \<lparr>service = ServiceCode service, general_status = GeneralStatusCode general_status,
           additional_status = additional_status, resp_data = d, additional_packet_items = []\<rparr>))))))))"

definition response_decode :: "bytes_api \<Rightarrow> bytes \<Rightarrow> MessageRouterResponse result" where
  "response_decode B d =
     (if length d < 4 then
        Err (InvalidPacket (lit ''message router response must have at least 4 bytes''))
      else run_reader (response_read B) d)"

definition is_success :: "MessageRouterResponse \<Rightarrow> bool" where
  "is_success r \<longleftrightarrow> general_status r = GSC_SUCCESS"

definition check :: "rstr \<Rightarrow> MessageRouterResponse \<Rightarrow> MessageRouterResponse result" where
  "check ctxt r = (if is_success r then Ok r else Err (Cip ctxt (general_status r) (additional_status r)))"

text \<open>The bytes of a response, as a target sends them.\<close>

definition response_bytes :: "u8 \<Rightarrow> u8 \<Rightarrow> u8 \<Rightarrow> u16 list \<Rightarrow> bytes \<Rightarrow> bytes" where
  "response_bytes sc reserved st add d = [sc, reserved, st, of_nat (length add)] @ concat (map le16 add) @ d"

lemma length_concat_le16 [simp]: "length (concat (map le16 xs)) = 2 * length xs"
  by (induction xs) simp_all

context bytes_crate
begin

lemma encode_request_eq:
  "encode_request B sc path d sz =
     service_code_raw sc # of_nat (length (epath_bytes path sz) div 2) # epath_bytes path sz @ d"
  by (simp add: encode_request_def epath_encode_eq Let_def)

lemma get_u16s_append [simp]: "get_u16s B (length xs) (concat (map le16 xs) @ r) = Inr (xs, r)"
  by (induction xs) (simp_all add: panic_q_def read_q_def)

lemma get_u16s_total:
  "2 * n \<le> length buf \<Longrightarrow> \<exists>xs. length xs = n \<and> get_u16s B n buf = Inr (xs, drop (2 * n) buf)"
proof (induction n arbitrary: buf)
  case (Suc n)
  then have "2 * n \<le> length (drop 2 buf)" by simp
  from Suc.IH [OF this] obtain xs
    where "length xs = n" "get_u16s B n (drop 2 buf) = Inr (xs, drop (2 * n) (drop 2 buf))" by blast
  with Suc.prems show ?case
    by (auto simp: panic_q_def read_q_def get_u16_le take_or_panic_def intro: exI [of _ "x # xs" for x])
qed simp

lemma response_decode_bytes:
  assumes "length add < 256"
  shows "response_decode B (response_bytes sc rsv st add d) =
     Inr \<lparr>service = ServiceCode sc, general_status = GeneralStatusCode st, additional_status = add,
       resp_data = d, additional_packet_items = []\<rparr>"
  using assms try_get_vec_append [of d "length d" "[]"]
  by (simp add: response_decode_def response_bytes_def run_reader_def response_read_def panic_q_def
      read_q_def unat_of_nat_small)

lemma response_decode_no_panic: "response_decode B d \<noteq> Inl Panicked"
proof (cases "length d < 4")
  case False
  then obtain a b c e r where d: "d = a # b # c # e # r"
    by (auto simp: not_less numeral_eq_Suc Suc_le_length_iff)
  show ?thesis
  proof (cases "unat e * 2 > length r")
    case False
    then obtain xs where "get_u16s B (unat e) r = Inr (xs, drop (2 * unat e) r)"
      using get_u16s_total [of "unat e" r] by (auto simp: mult.commute)
    with False show ?thesis
      by (simp add: response_decode_def run_reader_def response_read_def panic_q_def read_q_def d
          try_get_vec_long)
  qed (simp add: response_decode_def run_reader_def response_read_def panic_q_def d)
qed (simp add: response_decode_def)

end

text \<open>A response a target sends (any service, status, up to 255 additional status words, any data)
  decodes to exactly its fields.\<close>
theorem response_roundtrip:
  assumes "bytes_crate B" "length add < 256"
  shows "response_decode B (response_bytes sc rsv st add d) =
     Ok \<lparr>service = ServiceCode sc, general_status = GeneralStatusCode st, additional_status = add,
       resp_data = d, additional_packet_items = []\<rparr>"
  using assms by (rule bytes_crate.response_decode_bytes)

theorem response_roundtrip_witness:
  "response_decode slice_bytes (response_bytes 0x8E 0 0x1F [0x1234] [0xAA]) =
     Ok \<lparr>service = ServiceCode 0x8E, general_status = GeneralStatusCode 0x1F, additional_status = [0x1234],
       resp_data = [0xAA], additional_packet_items = []\<rparr>"
  by (rule response_roundtrip [OF slice.bytes_crate_axioms]) simp

section \<open>The \<open>Session\<close> trait\<close>

record 's session =
  send_and_receive :: "EncapsPacket \<Rightarrow> ('s, error, EncapsPacket) action"
  handle_of :: "'s \<Rightarrow> u32"
  remote_addr :: "'s \<Rightarrow> SocketAddrV4"

section \<open>message_router.rs\<close>

record MessageRouter =
  segment_size :: SegmentSize

definition router_new :: MessageRouter where
  "router_new = \<lparr>segment_size = Bits16\<rparr>"

definition with_8bit_path_segments :: MessageRouter where
  "with_8bit_path_segments = \<lparr>segment_size = Bits8\<rparr>"

definition router_segment_size :: "MessageRouter \<Rightarrow> SegmentSize" where
  "router_segment_size R = segment_size R"

text \<open>The router for controllers that reject 16-bit segments (src/src/vendor/yaskawa/mp3300iec.rs).\<close>

definition mp3300iec_message_router :: MessageRouter where
  "mp3300iec_message_router = with_8bit_path_segments"

text \<open>The request as it is handed to the session, and what is made of the reply's data.\<close>

definition request_packet ::
  "bytes_api \<Rightarrow> MessageRouter \<Rightarrow> u32 \<Rightarrow> ServiceCode \<Rightarrow> EPath \<Rightarrow> bytes \<Rightarrow> CommonPacketItem list \<Rightarrow> EncapsPacket" where
  "request_packet B R handle sc path d additional_items =
     (let request = encode_request B sc path d (segment_size R);
          items = null_address # unconnected_data request # additional_items
      in send_rr_data B handle 0 (cpf_encode B \<lparr>cp_items = items\<rparr>))"

definition reply_response :: "bytes_api \<Rightarrow> bytes \<Rightarrow> MessageRouterResponse result" where
  "reply_response B d =
     rbind (try_skip B 6 d) (\<lambda>(_, buf).
     rbind (cpf_decode B buf) (\<lambda>packet.
     case drop 1 (cp_items packet) of
       [] \<Rightarrow> Err (InvalidPacket (lit ''SendRRData reply has no data item''))
     | data_item # items \<Rightarrow>
         rbind (response_decode B (item_data data_item)) (\<lambda>response.
         Ok (response\<lparr>additional_packet_items := items\<rparr>))))"

definition send_request_with_items ::
  "bytes_api \<Rightarrow> 's session \<Rightarrow> MessageRouter \<Rightarrow> ServiceCode \<Rightarrow> EPath \<Rightarrow> bytes \<Rightarrow> CommonPacketItem list
     \<Rightarrow> ('s, error, MessageRouterResponse) action" where
  "send_request_with_items B S R sc path d additional_items s =
     sbind (send_and_receive S (request_packet B R (handle_of S s) sc path d additional_items))
       (\<lambda>reply. slift (reply_response B (data reply))) s"

definition send_request ::
  "bytes_api \<Rightarrow> 's session \<Rightarrow> MessageRouter \<Rightarrow> ServiceCode \<Rightarrow> EPath \<Rightarrow> bytes
     \<Rightarrow> ('s, error, MessageRouterResponse) action" where
  "send_request B S R sc path d = send_request_with_items B S R sc path d []"

text \<open>\<open>send_request(...)?.check(ctxt)?\<close>, the form every object uses.\<close>

definition request_checked ::
  "bytes_api \<Rightarrow> 's session \<Rightarrow> MessageRouter \<Rightarrow> ServiceCode \<Rightarrow> EPath \<Rightarrow> bytes \<Rightarrow> rstr
     \<Rightarrow> ('s, error, MessageRouterResponse) action" where
  "request_checked B S R sc path d ctxt =
     sbind (send_request B S R sc path d) (\<lambda>reply. slift (check ctxt reply))"

text \<open>The reply data a target answers with: six bytes, a null address, the response, further items.\<close>

definition reply_bytes :: "bytes_api \<Rightarrow> bytes \<Rightarrow> CommonPacketItem list \<Rightarrow> bytes" where
  "reply_bytes B resp extra = replicate 6 0 @ cpf_encode B \<lparr>cp_items = null_address # unconnected_data resp # extra\<rparr>"

lemma null_address_ok [simp]: "item_ok null_address"
  by (simp add: null_address_def item_ok_def)

lemma unconnected_data_ok [simp]: "item_ok (unconnected_data d) \<longleftrightarrow> length d < 65536"
  by (simp add: unconnected_data_def item_new_def item_ok_def)

lemma item_data_unconnected [simp]: "item_data (unconnected_data d) = d"
  by (simp add: unconnected_data_def item_new_def)

context bytes_crate
begin

lemma reply_response_bytes:
  assumes "length (response_bytes sc rsv st add d) < 65536" "length add < 256"
    and "\<forall>item \<in> set extra. item_ok item" "length extra < 65534"
  shows "reply_response B (reply_bytes B (response_bytes sc rsv st add d) extra) =
     Inr \<lparr>service = ServiceCode sc, general_status = GeneralStatusCode st, additional_status = add,
       resp_data = d, additional_packet_items = extra\<rparr>"
proof -
  let ?p = "\<lparr>cp_items = null_address # unconnected_data (response_bytes sc rsv st add d) # extra\<rparr>"
  have "cpf_ok ?p" using assms by (simp add: cpf_ok_def)
  then have "cpf_decode B (cpf_encode B ?p) = Inr ?p"
    using cpf_decode_encode [of ?p "[]"] by simp
  then show ?thesis
    using assms by (simp add: reply_response_def reply_bytes_def try_skip_eq response_decode_bytes)
qed

lemma reply_response_no_panic: "reply_response B d \<noteq> Inl Panicked"
  using cpf_decode_no_panic response_decode_no_panic
  by (auto simp: reply_response_def rbind_eq_Inl try_skip_eq split: list.splits if_splits)

text \<open>What a target finds in the request packet: the two items, and in the second the encoded request.\<close>

lemma request_packet_items:
  assumes "length d < 65000" "\<forall>item \<in> set items. item_ok item" "length items < 65534"
  shows "cpf_decode B (drop 6 (data (request_packet B R h sc path d items))) =
     Inr \<lparr>cp_items = null_address # unconnected_data (encode_request B sc path d (segment_size R)) # items\<rparr>"
proof -
  let ?p = "\<lparr>cp_items = null_address # unconnected_data (encode_request B sc path d (segment_size R)) # items\<rparr>"
  have "length (encode_request B sc path d (segment_size R)) < 65536"
    using assms(1) length_epath_bytes [of path "segment_size R"] by (simp add: encode_request_eq)
  then have "cpf_ok ?p" using assms by (simp add: cpf_ok_def)
  then show ?thesis
    using cpf_decode_encode [of ?p "[]"]
    by (simp add: request_packet_def send_rr_data_def encaps_new_def Let_def)
qed

end

section \<open>The contract of a session\<close>

text \<open>
  What a session's users rely on: a reply that is delivered carries the success status, and the session
  keeps its handle and its remote address.
\<close>

definition same_session :: "'s session \<Rightarrow> ('s \<Rightarrow> bool) \<Rightarrow> 's \<Rightarrow> 's \<Rightarrow> bool" where
  "same_session S sinv s s' \<longleftrightarrow> sinv s' \<and> handle_of S s' = handle_of S s \<and> remote_addr S s' = remote_addr S s"

locale session_contract =
  fixes S :: "'s session"
    and sinv :: "'s \<Rightarrow> bool"
  assumes reply_success: "sinv s \<Longrightarrow> send_and_receive S p s = (Inr r, s') \<Longrightarrow> status r = ES_SUCCESS"
    and keeps_inv: "sinv s \<Longrightarrow> send_and_receive S p s = (r', s') \<Longrightarrow> sinv s'"
    and keeps_handle: "sinv s \<Longrightarrow> send_and_receive S p s = (r', s') \<Longrightarrow> handle_of S s' = handle_of S s"
    and keeps_remote: "sinv s \<Longrightarrow> send_and_receive S p s = (r', s') \<Longrightarrow> remote_addr S s' = remote_addr S s"
begin

lemma same_session_trans: "same_session S sinv s s' \<Longrightarrow> same_session S sinv s' s'' \<Longrightarrow> same_session S sinv s s''"
  by (simp add: same_session_def)

lemma send_request_keeps:
  assumes "sinv s" "send_request B S R sc path d s = (r, s')"
  shows "same_session S sinv s s'"
proof -
  obtain r0 s0 where *: "send_and_receive S (request_packet B R (handle_of S s) sc path d []) s = (r0, s0)"
    by (meson surj_pair)
  with assms(2) have "s0 = s'"
    by (auto simp: send_request_def send_request_with_items_def sbind_def split: sum.splits)
  with * assms(1) show ?thesis
    using keeps_inv keeps_handle keeps_remote by (auto simp: same_session_def)
qed

lemma request_checked_keeps:
  assumes "sinv s" "request_checked B S R sc path d c s = (r, s')"
  shows "same_session S sinv s s'"
  using assms send_request_keeps [OF assms(1)]
  by (auto simp: request_checked_def sbind_def split: prod.splits sum.splits)

end

end
