(* ===== verification/Tcp_Session.thy ===== *)
theory Tcp_Session
  imports Message_Router
begin

text \<open>
  The TCP session (src/src/session.rs), the provider of the session contract the library uses; the mock session
  of the tests is the other one (Mock_Session).

  The operating system's side of a \<open>TcpStream\<close> is a script: what each read finds (\<open>Arrived\<close> some bytes, an
  error, or the end of the stream when the script is empty) and what each \<open>write_all\<close> returns (success
  once the script is empty). \<open>read_exact\<close> is the standard library's loop over \<open>read\<close>.
\<close>

section \<open>The stream\<close>

datatype arrival = Arrived bytes | ReadError io_kind

record tcp_stream =
  written :: bytes
  arrivals :: "arrival list"
  write_results :: "io_kind option list"

fun read_exact :: "nat \<Rightarrow> arrival list \<Rightarrow> (error + bytes) \<times> arrival list" where
  "read_exact 0 evs = (Inr [], evs)"
| "read_exact (Suc n) [] = (Inl (Io UnexpectedEof (lit ''failed to fill whole buffer'')), [])"
| "read_exact (Suc n) (ReadError k # evs) =
     (if k = Interrupted then read_exact (Suc n) evs else (Inl (Io k []), evs))"
| "read_exact (Suc n) (Arrived bs # evs) =
     (if bs = [] then (Inl (Io UnexpectedEof (lit ''failed to fill whole buffer'')), Arrived [] # evs)
      else if Suc n < length bs then (Inr (take (Suc n) bs), Arrived (drop (Suc n) bs) # evs)
      else (case read_exact (Suc n - length bs) evs of
              (Inl e, evs') \<Rightarrow> (Inl e, evs')
            | (Inr r, evs') \<Rightarrow> (Inr (bs @ r), evs')))"

definition stream_read_exact :: "nat \<Rightarrow> (tcp_stream, error, bytes) action" where
  "stream_read_exact n st = (case read_exact n (arrivals st) of (r, evs) \<Rightarrow> (r, st\<lparr>arrivals := evs\<rparr>))"

definition stream_write_all :: "bytes \<Rightarrow> (tcp_stream, error, unit) action" where
  "stream_write_all bs st =
     (case write_results st of
        Some k # rs \<Rightarrow> (Inl (Io k []), st\<lparr>write_results := rs\<rparr>)
      | None # rs \<Rightarrow> (Inr (), st\<lparr>write_results := rs, written := written st @ bs\<rparr>)
      | [] \<Rightarrow> (Inr (), st\<lparr>written := written st @ bs\<rparr>))"

section \<open>SessionInfo\<close>

record SessionInfo =
  stream :: tcp_stream
  si_handle :: u32
  si_remote :: SocketAddrV4

text \<open>The exchange on the locked stream: write the packet, read a header, then the data it announces.\<close>

definition tcp_exchange :: "bytes_api \<Rightarrow> EncapsPacket \<Rightarrow> (tcp_stream, error, bytes) action" where
  "tcp_exchange B packet =
     sbind (stream_write_all (encaps_encode B packet)) (\<lambda>_.
     sbind (stream_read_exact HEADER_SIZE) (\<lambda>header.
     sbind (stream_read_exact (length_from_header header)) (\<lambda>body.
     sret (header @ body))))"

definition check_reply :: "u32 \<Rightarrow> EncapsPacket \<Rightarrow> EncapsPacket result" where
  "check_reply handle reply =
     (if status reply \<noteq> ES_SUCCESS then Err (Encaps (status reply))
      else if handle \<noteq> 0 \<and> session_handle reply \<noteq> handle then
        Err (WrongSessionHandle handle (session_handle reply))
      else Ok reply)"

definition tcp_send_and_receive :: "bytes_api \<Rightarrow> EncapsPacket \<Rightarrow> (SessionInfo, error, EncapsPacket) action" where
  "tcp_send_and_receive B packet s =
     (case tcp_exchange B packet (stream s) of
        (Inl e, st) \<Rightarrow> (Inl e, s\<lparr>stream := st\<rparr>)
      | (Inr d, st) \<Rightarrow> (rbind (encaps_decode B d) (check_reply (si_handle s)), s\<lparr>stream := st\<rparr>))"

definition tcp_session :: "bytes_api \<Rightarrow> SessionInfo session" where
  "tcp_session B = \<lparr>send_and_receive = tcp_send_and_receive B, handle_of = si_handle, remote_addr = si_remote\<rparr>"

text \<open>\<open>Drop\<close>: unregister, whatever the result.\<close>

definition session_drop :: "bytes_api \<Rightarrow> SessionInfo \<Rightarrow> tcp_stream" where
  "session_drop B s = snd (stream_write_all (encaps_encode B (unregister_session (si_handle s))) (stream s))"

text \<open>
  \<open>connect_timeout\<close>: the first IPv4 address the name resolves to, the TCP connect, then registration. When
  registration fails the unfinished session is dropped; the stream it leaves is returned with the error.
\<close>

datatype SocketAddr = V4 SocketAddrV4 | V6

fun find_v4 :: "SocketAddr list \<Rightarrow> SocketAddrV4 option" where
  "find_v4 [] = None"
| "find_v4 (V4 a # _) = Some a"
| "find_v4 (V6 # r) = find_v4 r"

definition connect_timeout ::
  "bytes_api \<Rightarrow> rstr \<Rightarrow> (error + SocketAddr list) \<Rightarrow> (SocketAddrV4 \<Rightarrow> error + tcp_stream)
     \<Rightarrow> (error \<times> tcp_stream option) + SessionInfo" where
  "connect_timeout B host resolve tcp_connect =
     (case resolve of
        Inl e \<Rightarrow> Inl (e, None)
      | Inr addrs \<Rightarrow>
          (case find_v4 addrs of
             None \<Rightarrow> Inl (Unsupported (host @ lit '' has no IPv4 address''), None)
           | Some remote \<Rightarrow>
               (case tcp_connect remote of
                  Inl e \<Rightarrow> Inl (e, None)
                | Inr st \<Rightarrow>
                    let session = \<lparr>stream = st, si_handle = 0, si_remote = remote\<rparr> in
                    (case tcp_send_and_receive B register_session session of
                       (Inl e, session) \<Rightarrow> Inl (e, Some (session_drop B session))
                     | (Inr reply, session) \<Rightarrow> Inr (session\<lparr>si_handle := session_handle reply\<rparr>)))))"

text \<open>\<open>connect\<close> uses a timeout of one second; what the TCP connect does with a timeout is the script's.\<close>

definition DEFAULT_TIMEOUT :: nat where
  "DEFAULT_TIMEOUT = 1000000000"

definition session_connect ::
  "bytes_api \<Rightarrow> rstr \<Rightarrow> (error + SocketAddr list) \<Rightarrow> (nat \<Rightarrow> SocketAddrV4 \<Rightarrow> error + tcp_stream)
     \<Rightarrow> (error \<times> tcp_stream option) + SessionInfo" where
  "session_connect B host resolve tcp_connect = connect_timeout B host resolve (tcp_connect DEFAULT_TIMEOUT)"

section \<open>Properties\<close>

lemma check_reply_Inr: "check_reply h r = Inr r' \<longleftrightarrow> r' = r \<and> status r = ES_SUCCESS \<and> (h = 0 \<or> session_handle r = h)"
  by (auto simp: check_reply_def)

lemma tcp_keeps_fields:
  "tcp_send_and_receive B p s = (r, s') \<Longrightarrow> si_handle s' = si_handle s \<and> si_remote s' = si_remote s"
  by (auto simp: tcp_send_and_receive_def split: prod.splits sum.splits)

lemma tcp_reply_checked:
  assumes "tcp_send_and_receive B p s = (Inr r, s')"
  shows "status r = ES_SUCCESS \<and> (si_handle s = 0 \<or> session_handle r = si_handle s)"
  using assms
  by (auto simp: tcp_send_and_receive_def rbind_eq_Inr check_reply_Inr split: prod.splits sum.splits)

interpretation tcp: session_contract "tcp_session B" "\<lambda>_. True"
  by unfold_locales (auto simp: tcp_session_def dest: tcp_reply_checked tcp_keeps_fields)

text \<open>Reading bytes that have arrived, in however many pieces.\<close>

lemma read_exact_arrived:
  assumes "[] \<notin> set bss"
  shows "n \<le> length (concat bss) \<Longrightarrow>
    \<exists>bss'. [] \<notin> set bss' \<and> concat bss' = drop n (concat bss) \<and>
      read_exact n (map Arrived bss @ evs) = (Inr (take n (concat bss)), map Arrived bss' @ evs)"
  using assms
proof (induction bss arbitrary: n)
  case Nil
  then show ?case by (auto intro: exI [of _ "[]"])
next
  case (Cons bs bss)
  show ?case
  proof (cases n)
    case 0
    with Cons.prems show ?thesis by (intro exI [of _ "bs # bss"]) auto
  next
    case (Suc m)
    show ?thesis
    proof (cases "n < length bs")
      case True
      with Cons.prems Suc show ?thesis by (intro exI [of _ "drop n bs # bss"]) auto
    next
      case False
      with Cons.prems have "n - length bs \<le> length (concat bss)" "[] \<notin> set bss" by auto
      from Cons.IH [OF this] obtain bss' where
        "[] \<notin> set bss'" "concat bss' = drop (n - length bs) (concat bss)"
        "read_exact (n - length bs) (map Arrived bss @ evs) = (Inr (take (n - length bs) (concat bss)), map Arrived bss' @ evs)"
        by blast
      with Cons.prems Suc False show ?thesis by (intro exI [of _ bss']) auto
    qed
  qed
qed

text \<open>The next reply is whatever complete packet comes first on the stream.\<close>

context bytes_crate
begin

lemma tcp_send_and_receive_reply:
  assumes "write_results (stream s) = []" "encaps_ok reply"
    and "arrivals (stream s) = map Arrived bss @ evs" "[] \<notin> set bss"
    and "concat bss = encaps_encode B reply @ later"
  shows "\<exists>bss'. [] \<notin> set bss' \<and> concat bss' = later \<and>
    tcp_send_and_receive B packet s =
      (check_reply (si_handle s) reply,
       s\<lparr>stream := (stream s)\<lparr>written := written (stream s) @ encaps_encode B packet,
         arrivals := map Arrived bss' @ evs\<rparr>\<rparr>)"
proof -
  let ?h = "encaps_header reply"
  have len: "length ?h = HEADER_SIZE" using assms(2) by (rule length_encaps_header)
  have cat: "concat bss = ?h @ data reply @ later" using assms(5) by (simp add: encaps_encode_eq)
  have "HEADER_SIZE \<le> length (concat bss)" by (simp add: cat len)
  from read_exact_arrived [OF assms(4) this, of evs] obtain b1 where b1: "[] \<notin> set b1"
    "concat b1 = data reply @ later" "read_exact HEADER_SIZE (map Arrived bss @ evs) = (Inr ?h, map Arrived b1 @ evs)"
    by (auto simp: cat len)
  have lenh: "length_from_header ?h = length (data reply)"
    using length_from_header_header [OF assms(2), of "[]"] by simp
  have "length (data reply) \<le> length (concat b1)" by (simp add: b1)
  from read_exact_arrived [OF b1(1) this, of evs] obtain b2 where b2: "[] \<notin> set b2" "concat b2 = later"
    "read_exact (length (data reply)) (map Arrived b1 @ evs) = (Inr (data reply), map Arrived b2 @ evs)"
    by (auto simp: b1)
  have "encaps_decode B (?h @ data reply) = Inr reply"
    using encaps_decode_encode [OF assms(2)] by (simp add: encaps_encode_eq)
  with b1 b2 lenh assms(1,3) show ?thesis
    by (intro exI [of _ b2]) (simp add: tcp_send_and_receive_def tcp_exchange_def sbind_def
        stream_write_all_def stream_read_exact_def)
qed

end

section \<open>What a reply must be\<close>

text \<open>All the bytes that arrive on a stream, in whatever pieces and with whatever errors between them.\<close>

fun arrived :: "arrival list \<Rightarrow> bytes" where
  "arrived [] = []"
| "arrived (Arrived bs # evs) = bs @ arrived evs"
| "arrived (ReadError k # evs) = arrived evs"

lemma arrived_pieces [simp]: "arrived (map Arrived bss @ evs) = concat bss @ arrived evs"
  by (induction bss) simp_all

text \<open>A successful read takes the next bytes that arrive, as many as were asked for.\<close>

lemma read_exact_takes:
  "read_exact n evs = (Inr r, evs') \<Longrightarrow> arrived evs = r @ arrived evs' \<and> length r = n"
proof (induction n evs arbitrary: r evs' rule: read_exact.induct)
  case (4 n bs evs)
  show ?case
  proof (cases "Suc n < length bs")
    case True
    then have "r = take (Suc n) bs" "evs' = Arrived (drop (Suc n) bs) # evs" using "4.prems" by (auto split: if_splits)
    with True show ?thesis by (simp flip: append_assoc)
  next
    case False
    with "4.prems" have bs: "bs \<noteq> []" by auto
    with "4.prems" False obtain r' where r': "read_exact (Suc n - length bs) evs = (Inr r', evs')" "r = bs @ r'"
      by (auto split: prod.splits sum.splits)
    with "4.IH" [OF bs False r'(1)] False show ?thesis by simp
  qed
qed (auto split: if_splits)

lemma length_from_header_prefix: "length h = HEADER_SIZE \<Longrightarrow> length_from_header (h @ r) = length_from_header h"
  by (simp add: length_from_header_def nth_append)

lemma stream_read_exact_Inr:
  "stream_read_exact n st = (Inr r, st') \<longleftrightarrow>
     (\<exists>evs. read_exact n (arrivals st) = (Inr r, evs) \<and> st' = st\<lparr>arrivals := evs\<rparr>)"
  by (auto simp: stream_read_exact_def split: prod.split)

lemma tcp_exchange_takes:
  assumes "tcp_exchange B packet st = (Inr d, st')"
  shows "arrived (arrivals st) = d @ arrived (arrivals st') \<and> length d = HEADER_SIZE + length_from_header d
    \<and> written st' = written st @ encaps_encode B packet"
proof -
  obtain st1 where w: "stream_write_all (encaps_encode B packet) st = (Inr (), st1)"
    "written st1 = written st @ encaps_encode B packet" "arrivals st1 = arrivals st"
    using assms by (auto simp: tcp_exchange_def sbind_eq_Inr stream_write_all_def split: list.splits option.splits)
  obtain h e1 body e2 where r: "read_exact HEADER_SIZE (arrivals st) = (Inr h, e1)"
    "read_exact (length_from_header h) e1 = (Inr body, e2)" "d = h @ body" "st' = st1\<lparr>arrivals := e2\<rparr>"
    using assms w by (auto simp: tcp_exchange_def sbind_eq_Inr stream_read_exact_Inr)
  from read_exact_takes [OF r(1)] read_exact_takes [OF r(2)] w(2) length_from_header_prefix [of h body] r(3,4)
  show ?thesis by simp
qed

text \<open>C2: What a TCP session makes of the replies of a target. It hands out a reply only if it has written the whole
  request, and the bytes that arrived next, a header and as many bytes as it announces, no more and no fewer, decode to
  that reply, with status success and, once the session is registered (its own handle is not zero), with the session's
  handle; registering, with handle zero, takes any handle, since that is how the session gets its own. A complete reply with
  another status, or with a foreign handle for a registered session, is an error that names the status or both handles,
  however the bytes are cut into pieces, and it is taken off the stream, so that it cannot answer a later request.\<close>
theorem tcp_reply_is_checked:
  assumes "send_and_receive (tcp_session B) packet s = (Ok reply, s')"
    and "bytes_crate B" "write_results (stream t) = []" "encaps_ok bad"
    and "status bad \<noteq> ES_SUCCESS \<or> si_handle t \<noteq> 0 \<and> session_handle bad \<noteq> si_handle t"
    and "arrivals (stream t) = map Arrived bss @ evs" "[] \<notin> set bss" "concat bss = encaps_encode B bad @ later"
  shows "(\<exists>d. arrived (arrivals (stream s)) = d @ arrived (arrivals (stream s')) \<and> encaps_decode B d = Ok reply
      \<and> length d = HEADER_SIZE + length_from_header d)
    \<and> written (stream s') = written (stream s) @ encaps_encode B packet
    \<and> status reply = ES_SUCCESS \<and> (si_handle s \<noteq> 0 \<longrightarrow> session_handle reply = si_handle s) \<and> si_handle s' = si_handle s
    \<and> (\<exists>t'. send_and_receive (tcp_session B) packet t =
        (Err (if status bad \<noteq> ES_SUCCESS then Encaps (status bad) else WrongSessionHandle (si_handle t) (session_handle bad)), t')
      \<and> arrived (arrivals (stream t')) = later @ arrived evs)"
proof -
  have s: "tcp_send_and_receive B packet s = (Ok reply, s')" using assms(1) by (simp add: tcp_session_def)
  then obtain d st where d: "tcp_exchange B packet (stream s) = (Inr d, st)" "encaps_decode B d = Ok reply" "s' = s\<lparr>stream := st\<rparr>"
    by (auto simp: tcp_send_and_receive_def rbind_eq_Inr check_reply_Inr split: prod.splits sum.splits)
  have "check_reply (si_handle t) bad =
      Inl (if status bad \<noteq> ES_SUCCESS then Encaps (status bad) else WrongSessionHandle (si_handle t) (session_handle bad))"
    using assms(5) by (auto simp: check_reply_def)
  with bytes_crate.tcp_send_and_receive_reply [OF assms(2-4,6-8), of packet]
  have "\<exists>t'. send_and_receive (tcp_session B) packet t =
        (Err (if status bad \<noteq> ES_SUCCESS then Encaps (status bad) else WrongSessionHandle (si_handle t) (session_handle bad)), t')
      \<and> arrived (arrivals (stream t')) = later @ arrived evs"
    by (auto simp: tcp_session_def)
  with tcp_exchange_takes [OF d(1)] d(2,3) tcp_reply_checked [OF s] show ?thesis by auto
qed

definition example_stream :: "arrival list \<Rightarrow> tcp_stream" where
  "example_stream evs = \<lparr>written = [], arrivals = evs, write_results = []\<rparr>"

definition example_remote :: SocketAddrV4 where
  "example_remote = \<lparr>sa_ip = Ipv4Addr 0x7F000001, sa_port = 44818\<rparr>"

definition example_session :: "u32 \<Rightarrow> arrival list \<Rightarrow> SessionInfo" where
  "example_session h evs = \<lparr>stream = example_stream evs, si_handle = h, si_remote = example_remote\<rparr>"

definition example_reply :: "u32 \<Rightarrow> bytes \<Rightarrow> EncapsPacket" where
  "example_reply h d = encaps_new EC_SEND_RR_DATA h d"

lemma example_reply_simps [simp]:
  "encaps_ok (example_reply h d) \<longleftrightarrow> length d < 65536"
  "status (example_reply h d) = ES_SUCCESS"
  "session_handle (example_reply h d) = h"
  "check_reply h (example_reply h d) = Inr (example_reply h d)"
  unfolding example_reply_def by (simp_all only: encaps_ok_new) (simp_all add: encaps_new_def check_reply_def)

lemma example_session_simps [simp]:
  "si_handle (example_session h evs) = h"
  "arrivals (stream (example_session h evs)) = evs"
  "written (stream (example_session h evs)) = []"
  "write_results (stream (example_session h evs)) = []"
  by (simp_all add: example_session_def example_stream_def)

text \<open>A reply that arrives complete, cut into pieces of any size, is returned as sent, and exactly the
  encoded request was written; what follows it stays on the stream for the next call.\<close>
theorem tcp_exchange_delivers:
  assumes "bytes_crate B" "write_results (stream s) = []"
    and "encaps_ok reply" "status reply = ES_SUCCESS" "session_handle reply = si_handle s"
    and "arrivals (stream s) = map Arrived bss @ evs" "[] \<notin> set bss"
    and "concat bss = encaps_encode B reply @ later"
  shows "\<exists>bss' s'. tcp_send_and_receive B packet s = (Ok reply, s')
    \<and> written (stream s') = written (stream s) @ encaps_encode B packet
    \<and> arrivals (stream s') = map Arrived bss' @ evs \<and> concat bss' = later"
proof -
  have ok: "check_reply (si_handle s) reply = Inr reply"
    using assms(4,5) by (simp add: check_reply_def)
  from bytes_crate.tcp_send_and_receive_reply [OF assms(1-3,6-8), of packet] obtain bss'
    where "concat bss' = later" "tcp_send_and_receive B packet s = (check_reply (si_handle s) reply,
       s\<lparr>stream := (stream s)\<lparr>written := written (stream s) @ encaps_encode B packet,
         arrivals := map Arrived bss' @ evs\<rparr>\<rparr>)" by blast
  with ok show ?thesis by (intro exI [of _ bss']) simp
qed

lemma encoded_nonempty: "bytes_crate B \<Longrightarrow> encaps_encode B p \<noteq> []" "bytes_crate B \<Longrightarrow> [] \<noteq> encaps_encode B p"
  by (simp_all add: bytes_crate.encaps_encode_eq encaps_header_def to_le_2)

theorem tcp_exchange_delivers_witness:
  "\<exists>bss' s'. tcp_send_and_receive slice_bytes register_session
      (example_session 7 [Arrived (take 5 (encaps_encode slice_bytes (example_reply 7 [1, 2]))),
        Arrived (drop 5 (encaps_encode slice_bytes (example_reply 7 [1, 2])) @ [9]), ReadError TimedOut])
      = (Ok (example_reply 7 [1, 2]), s')
    \<and> written (stream s') = encaps_encode slice_bytes register_session
    \<and> arrivals (stream s') = map Arrived bss' @ [ReadError TimedOut] \<and> concat bss' = [9]"
  using tcp_exchange_delivers [OF slice.bytes_crate_axioms, where reply = "example_reply 7 [1, 2]" and
      bss = "[take 5 (encaps_encode slice_bytes (example_reply 7 [1, 2])),
        drop 5 (encaps_encode slice_bytes (example_reply 7 [1, 2])) @ [9]]" and later = "[9]" and
      evs = "[ReadError TimedOut]" and packet = register_session and
      s = "example_session 7 [Arrived (take 5 (encaps_encode slice_bytes (example_reply 7 [1, 2]))),
        Arrived (drop 5 (encaps_encode slice_bytes (example_reply 7 [1, 2])) @ [9]), ReadError TimedOut]"]
  by (simp add: encoded_nonempty [OF slice.bytes_crate_axioms] del: slice.encaps_encode_eq)

theorem tcp_reply_is_checked_witness:
  "\<exists>s' d t'. send_and_receive (tcp_session slice_bytes) register_session
       (example_session 7 [Arrived (encaps_encode slice_bytes (example_reply 7 [1, 2]))]) = (Ok (example_reply 7 [1, 2]), s')
    \<and> encaps_encode slice_bytes (example_reply 7 [1, 2]) = d @ arrived (arrivals (stream s'))
    \<and> encaps_decode slice_bytes d = Ok (example_reply 7 [1, 2])
    \<and> written (stream s') = encaps_encode slice_bytes register_session
    \<and> send_and_receive (tcp_session slice_bytes) register_session
       (example_session 7 [Arrived (encaps_encode slice_bytes (example_reply 8 [1, 2])), ReadError TimedOut])
      = (Err (WrongSessionHandle 7 8), t') \<and> arrived (arrivals (stream t')) = []"
proof -
  let ?s = "example_session 7 [Arrived (encaps_encode slice_bytes (example_reply 7 [1, 2]))]"
  let ?t = "example_session 7 [Arrived (encaps_encode slice_bytes (example_reply 8 [1, 2])), ReadError TimedOut]"
  have pieces: "[] \<notin> set [encaps_encode slice_bytes (example_reply h [1, 2])]" for h
    by (simp add: encoded_nonempty [OF slice.bytes_crate_axioms])
  obtain s' where s': "send_and_receive (tcp_session slice_bytes) register_session ?s = (Ok (example_reply 7 [1, 2]), s')"
    using slice.tcp_send_and_receive_reply [OF _ _ _ pieces [of 7], of ?s "example_reply 7 [1, 2]" "[]" "[]" register_session]
    by (auto simp: tcp_session_def)
  have "write_results (stream ?t) = []" "encaps_ok (example_reply 8 [1, 2])"
    "status (example_reply 8 [1, 2]) \<noteq> ES_SUCCESS \<or> si_handle ?t \<noteq> 0 \<and> session_handle (example_reply 8 [1, 2]) \<noteq> si_handle ?t"
    "arrivals (stream ?t) = map Arrived [encaps_encode slice_bytes (example_reply 8 [1, 2])] @ [ReadError TimedOut]"
    by simp_all
  from tcp_reply_is_checked [OF s' slice.bytes_crate_axioms this pieces, of "[]"] s' show ?thesis
    by (auto simp del: slice.encaps_encode_eq)
qed

text \<open>C36: The session does not match replies to requests: when the reply to one request comes only after
  the read timed out, the next request, whatever it asks, is answered with that late reply.\<close>
theorem late_reply_answers_next_request:
  assumes "bytes_crate B" "write_results (stream s) = []"
    and "encaps_ok reply" "status reply = ES_SUCCESS" "session_handle reply = si_handle s"
    and "arrivals (stream s) = ReadError TimedOut # map Arrived bss" "[] \<notin> set bss"
    and "concat bss = encaps_encode B reply @ later"
    and "tcp_send_and_receive B first s = (r1, s1)"
  shows "r1 = Err (Io TimedOut []) \<and> fst (tcp_send_and_receive B second s1) = Ok reply"
proof -
  have ok: "check_reply (si_handle s) reply = Inr reply"
    using assms(4,5) by (simp add: check_reply_def)
  have r1: "r1 = Inl (Io TimedOut [])"
    and s1: "s1 = s\<lparr>stream := (stream s)\<lparr>written := written (stream s) @ encaps_encode B first,
      arrivals := map Arrived bss\<rparr>\<rparr>"
    using assms(2,6,9)
    by (auto simp: tcp_send_and_receive_def tcp_exchange_def sbind_def stream_write_all_def
        stream_read_exact_def numeral_eq_Suc)
  have "\<exists>b. tcp_send_and_receive B second s1 = (check_reply (si_handle s1) reply, b)"
    using bytes_crate.tcp_send_and_receive_reply [OF assms(1) _ assms(3) _ assms(7,8), of s1 "[]" second]
      assms(2) by (auto simp: s1)
  with ok r1 show ?thesis by (auto simp: s1)
qed

theorem late_reply_answers_next_request_witness:
  "fst (tcp_send_and_receive slice_bytes (unregister_session 7)
     (snd (tcp_send_and_receive slice_bytes register_session
       (example_session 7 [ReadError TimedOut, Arrived (encaps_encode slice_bytes (example_reply 7 [1]))]))))
   = Ok (example_reply 7 [1])"
proof -
  let ?s = "example_session 7 [ReadError TimedOut, Arrived (encaps_encode slice_bytes (example_reply 7 [1]))]"
  obtain r1 s1 where *: "tcp_send_and_receive slice_bytes register_session ?s = (r1, s1)"
    by (meson surj_pair)
  have "[] \<notin> set [encaps_encode slice_bytes (example_reply 7 [1])]"
    by (simp add: encoded_nonempty [OF slice.bytes_crate_axioms])
  from late_reply_answers_next_request [OF slice.bytes_crate_axioms _ _ _ _ _ this _ *,
      of "example_reply 7 [1]" "[]" "unregister_session 7"]
  show ?thesis by (simp add: *)
qed

end
