(* ===== verification/Mock_Session.thy ===== *)
theory Mock_Session
  imports Message_Router
begin

text \<open>
  The session the crate's tests use (src/src/test_support.rs): it decodes each request as a device would,
  records it and answers from a queue. It is a second provider of the session contract, and the concrete
  device the witnesses of the development run against.
\<close>

record Request =
  rq_service :: ServiceCode
  rq_path :: EPath
  rq_data :: bytes

type_synonym Reply = "GeneralStatusCode \<times> bytes \<times> CommonPacketItem list"

record MockSession =
  replies :: "Reply list"
  requests :: "Request list"
  mock_remote :: SocketAddrV4

definition mock_new :: MockSession where
  "mock_new = \<lparr>replies = [], requests = [], mock_remote = \<lparr>sa_ip = ipv4 127 0 0 1, sa_port = 44818\<rparr>\<rparr>"

definition with_remote :: "SocketAddrV4 \<Rightarrow> MockSession \<Rightarrow> MockSession" where
  "with_remote r m = m\<lparr>mock_remote := r\<rparr>"

definition mock_reply_status :: "GeneralStatusCode \<Rightarrow> bytes \<Rightarrow> MockSession \<Rightarrow> MockSession" where
  "mock_reply_status st d m = m\<lparr>replies := replies m @ [(st, d, [])]\<rparr>"

definition mock_reply :: "bytes \<Rightarrow> MockSession \<Rightarrow> MockSession" where
  "mock_reply d m = mock_reply_status GSC_SUCCESS d m"

definition mock_reply_with_items :: "bytes \<Rightarrow> CommonPacketItem list \<Rightarrow> MockSession \<Rightarrow> MockSession" where
  "mock_reply_with_items d items m = m\<lparr>replies := replies m @ [(GSC_SUCCESS, d, items)]\<rparr>"

text \<open>
  The request out of the packet: \<open>mr[1]\<close> words of path after two bytes, then the data. An index or slice
  out of range panics, and so, in this model, does a path whose decoding does not return.
\<close>

definition mock_request :: "bytes_api \<Rightarrow> EncapsPacket \<Rightarrow> Request result" where
  "mock_request B packet =
     (if length (data packet) < 6 then Err Panicked else
      rbind (cpf_decode B (drop 6 (data packet))) (\<lambda>cpf.
      if length (cp_items cpf) < 2 then Err Panicked else
      let mr = item_data (cp_items cpf ! 1) in
      if length mr < 2 then Err Panicked else
      let path_len = unat (mr ! 1) * 2 in
      if length mr < 2 + path_len then Err Panicked else
      case epath_decode B (take path_len (drop 2 mr)) of
        None \<Rightarrow> Err Panicked
      | Some p \<Rightarrow> rbind p (\<lambda>path.
          Ok \<lparr>rq_service = ServiceCode (mr ! 0), rq_path = path, rq_data = drop (2 + path_len) mr\<rparr>)))"

definition mock_send :: "bytes_api \<Rightarrow> EncapsPacket \<Rightarrow> (MockSession, error, EncapsPacket) action" where
  "mock_send B packet m =
     (case mock_request B packet of
        Inl e \<Rightarrow> (Inl e, m)
      | Inr rq \<Rightarrow>
          let m = m\<lparr>requests := requests m @ [rq]\<rparr> in
          (case replies m of
             [] \<Rightarrow> (Inl (Unsupported (lit ''mock session has no reply queued'')), m)
           | (st, d, extra) # rest \<Rightarrow>
               let response = [service_code_raw (rq_service rq) OR 0x80, 0, general_status_code_raw st, 0] @ d;
                   cpf = \<lparr>cp_items = [null_address, unconnected_data response] @ extra\<rparr>;
                   reply_data = replicate 6 0 @ cpf_encode B cpf
               in (Inr (encaps_new (command packet) (session_handle packet) reply_data), m\<lparr>replies := rest\<rparr>)))"

definition mock_session :: "bytes_api \<Rightarrow> MockSession session" where
  "mock_session B = \<lparr>send_and_receive = mock_send B, handle_of = (\<lambda>_. 1), remote_addr = mock_remote\<rparr>"

interpretation mock: session_contract "mock_session B" "\<lambda>_. True"
  by unfold_locales
    (auto simp: mock_session_def mock_send_def encaps_new_def Let_def split: sum.splits list.splits)

context bytes_crate
begin

lemma mock_request_packet:
  assumes "length d < 65000"
  shows "mock_request B (request_packet B R h sc path d []) =
     Inr \<lparr>rq_service = sc, rq_path = path, rq_data = d\<rparr>"
proof -
  let ?pb = "epath_bytes path (segment_size R)"
  have "length ?pb div 2 < 256"
    using length_epath_bytes(1) [of path "segment_size R"] by simp
  then have words: "unat (of_nat (length ?pb div 2) :: u8) * 2 = length ?pb"
    using length_epath_bytes(2) [of path "segment_size R"] by (simp add: unat_of_nat_small)
  have len: "\<not> length (data (request_packet B R h sc path d [])) < 6"
    by (simp add: request_packet_def send_rr_data_def encaps_new_def Let_def)
  have items: "cpf_decode B (drop 6 (data (request_packet B R h sc path d []))) =
     Inr \<lparr>cp_items = [null_address, unconnected_data (encode_request B sc path d (segment_size R))]\<rparr>"
    using request_packet_items [of d "[]"] assms by simp
  show ?thesis
    unfolding mock_request_def items
    using len words epath_decode_bytes [of path "segment_size R"]
    by (cases sc) (simp add: encode_request_eq Let_def)
qed

lemma mock_send_request:
  assumes "length d < 65000" "replies m = (st, d', extra) # rest" "length d' < 65000"
    and "\<forall>item \<in> set extra. item_ok item" "length extra < 65534"
  shows "send_request B (mock_session B) R sc path d m =
     (Inr \<lparr>service = ServiceCode (service_code_raw sc OR 0x80), general_status = st, additional_status = [],
        resp_data = d', additional_packet_items = extra\<rparr>,
      m\<lparr>replies := rest, requests := requests m @ [\<lparr>rq_service = sc, rq_path = path, rq_data = d\<rparr>]\<rparr>)"
proof -
  let ?sc = "service_code_raw sc OR 0x80"
  have "length (response_bytes ?sc 0 (general_status_code_raw st) [] d') < 65536"
    using assms(3) by (simp add: response_bytes_def)
  from reply_response_bytes [OF this _ assms(4,5)]
  have "reply_response B (replicate 6 0 @ cpf_encode B \<lparr>cp_items = [null_address,
      unconnected_data ([?sc, 0, general_status_code_raw st, 0] @ d')] @ extra\<rparr>) =
     Inr \<lparr>service = ServiceCode ?sc, general_status = st, additional_status = [],
        resp_data = d', additional_packet_items = extra\<rparr>"
    by (simp add: reply_bytes_def response_bytes_def)
  then show ?thesis
    using assms(1,2)
    by (simp add: send_request_def send_request_with_items_def mock_session_def mock_send_def sbind_def
        mock_request_packet encaps_new_def)
qed

lemma mock_request_checked:
  assumes "length d < 65000" "replies m = (GSC_SUCCESS, d', extra) # rest" "length d' < 65000"
    and "\<forall>item \<in> set extra. item_ok item" "length extra < 65534"
  shows "request_checked B (mock_session B) R sc path d ctxt m =
     (Inr \<lparr>service = ServiceCode (service_code_raw sc OR 0x80), general_status = GSC_SUCCESS, additional_status = [],
        resp_data = d', additional_packet_items = extra\<rparr>,
      m\<lparr>replies := rest, requests := requests m @ [\<lparr>rq_service = sc, rq_path = path, rq_data = d\<rparr>]\<rparr>)"
  using mock_send_request [OF assms, of R sc path]
  by (simp add: request_checked_def sbind_def check_def is_success_def)

end

text \<open>C1: The explicit request path end to end: the packet built for a request (any service, path, segment
  size, session and data below the CPF size limit) is understood by a device that decodes the encapsulated
  items, the path length and the path as exactly that service, path and data, and the device's answer comes
  back as the response with its status, data and further items.\<close>
theorem explicit_request_end_to_end:
  assumes "bytes_crate B" "length d < 65000" "replies m = (st, d', extra) # rest" "length d' < 65000"
    and "\<forall>item \<in> set extra. item_ok item" "length extra < 65534"
  shows "send_request B (mock_session B) R sc path d m =
     (Ok \<lparr>service = ServiceCode (service_code_raw sc OR 0x80), general_status = st, additional_status = [],
        resp_data = d', additional_packet_items = extra\<rparr>,
      m\<lparr>replies := rest, requests := requests m @ [\<lparr>rq_service = sc, rq_path = path, rq_data = d\<rparr>]\<rparr>)"
  using assms by (rule bytes_crate.mock_send_request)

theorem explicit_request_end_to_end_witness:
  "send_request slice_bytes (mock_session slice_bytes) with_8bit_path_segments SC_GET_ATTRIBUTE_SINGLE
     (epath_attribute 1 1 7) [] (mock_reply [5, 6] mock_new) =
   (Ok \<lparr>service = ServiceCode 0x8E, general_status = GSC_SUCCESS, additional_status = [],
        resp_data = [5, 6], additional_packet_items = []\<rparr>,
    mock_new\<lparr>requests := [\<lparr>rq_service = SC_GET_ATTRIBUTE_SINGLE, rq_path = epath_attribute 1 1 7, rq_data = []\<rparr>]\<rparr>)"
  using explicit_request_end_to_end [OF slice.bytes_crate_axioms, of "[]" "mock_reply [5, 6] mock_new"
      GSC_SUCCESS "[5, 6]" "[]" "[]" with_8bit_path_segments SC_GET_ATTRIBUTE_SINGLE "epath_attribute 1 1 7"]
  by (simp add: mock_reply_def mock_reply_status_def mock_new_def)

end
