(* ===== verification/Tcp_Request.thy ===== *)
theory Tcp_Request
  imports Tcp_Session Mock_Session
begin

text \<open>
  The life of a TCP session from its bytes (src/src/session.rs with message\_router.rs): what \<open>connect\<close>, a request and
  the drop write to the stream, read by a device, and what they make of the bytes that arrive.
\<close>

section \<open>A device at the other end\<close>

text \<open>The answer of a device to a request, as the packet it sends, and the request it reads from a packet's bytes.\<close>

definition answer_packet :: "bytes_api \<Rightarrow> u32 \<Rightarrow> ServiceCode \<Rightarrow> u8 \<Rightarrow> u16 list \<Rightarrow> bytes \<Rightarrow> CommonPacketItem list \<Rightarrow> EncapsPacket" where
  "answer_packet B h sc st add d extra =
     encaps_new EC_SEND_RR_DATA h (reply_bytes B (response_bytes (service_code_raw sc OR 0x80) 0 st add d) extra)"

definition device_reads :: "bytes_api \<Rightarrow> u32 \<Rightarrow> bytes \<Rightarrow> Request result" where
  "device_reads B h bs =
     rbind (encaps_decode B bs) (\<lambda>packet.
       if session_handle packet = h \<and> command packet = EC_SEND_RR_DATA then mock_request B packet else Err Panicked)"

definition answer_of :: "ServiceCode \<Rightarrow> u8 \<Rightarrow> u16 list \<Rightarrow> bytes \<Rightarrow> CommonPacketItem list \<Rightarrow> MessageRouterResponse" where
  "answer_of sc st add d extra = \<lparr>service = ServiceCode (service_code_raw sc OR 0x80), general_status = GeneralStatusCode st,
     additional_status = add, resp_data = d, additional_packet_items = extra\<rparr>"

text \<open>An answer that fits a packet.\<close>

definition answer_ok :: "bytes_api \<Rightarrow> u32 \<Rightarrow> ServiceCode \<Rightarrow> u8 \<Rightarrow> u16 list \<Rightarrow> bytes \<Rightarrow> CommonPacketItem list \<Rightarrow> bool" where
  "answer_ok B h sc st add d extra \<longleftrightarrow> length add < 256 \<and> list_all item_ok extra \<and> length extra < 65534 \<and>
     length (response_bytes (service_code_raw sc OR 0x80) 0 st add d) < 65536 \<and> encaps_ok (answer_packet B h sc st add d extra)"

context bytes_crate
begin

lemma request_fits_packet:
  assumes "length d < 65000"
  shows "encaps_ok (request_packet B R h sc path d [])"
  using assms length_epath_bytes(1) [of path "segment_size R"]
  by (simp add: request_packet_def send_rr_data_def Let_def cpf_encode_eq encode_request_eq null_address_def
      unconnected_data_def item_new_def)

lemma device_reads_request:
  assumes "length d < 65000"
  shows "device_reads B h (encaps_encode B (request_packet B R h sc path d [])) =
     Ok \<lparr>rq_service = sc, rq_path = path, rq_data = d\<rparr>"
  using encaps_decode_encode [OF request_fits_packet [OF assms]] mock_request_packet [OF assms]
  by (simp add: device_reads_def) (simp add: request_packet_def send_rr_data_def encaps_new_def Let_def)

lemma tcp_request:
  assumes "write_results (stream s) = []" "length d < 65000" "answer_ok B (si_handle s) sc st add d' extra"
    and "arrivals (stream s) = map Arrived bss @ evs" "[] \<notin> set bss"
    and "concat bss = encaps_encode B (answer_packet B (si_handle s) sc st add d' extra) @ later"
  shows "\<exists>bss' s'. send_request B (tcp_session B) R sc path d s = (Ok (answer_of sc st add d' extra), s')
    \<and> s' = s\<lparr>stream := (stream s)\<lparr>written := written (stream s) @ encaps_encode B (request_packet B R (si_handle s) sc path d []),
         arrivals := map Arrived bss' @ evs\<rparr>\<rparr> \<and> [] \<notin> set bss' \<and> concat bss' = later"
proof -
  let ?p = "answer_packet B (si_handle s) sc st add d' extra"
  have ok: "encaps_ok ?p" "check_reply (si_handle s) ?p = Inr ?p"
    using assms(3) by (simp_all add: answer_ok_def) (simp add: answer_packet_def encaps_new_def check_reply_def)
  have resp: "reply_response B (data ?p) = Inr (answer_of sc st add d' extra)"
    using reply_response_bytes [of "service_code_raw sc OR 0x80" 0 st add d' extra] assms(3)
    by (simp add: answer_ok_def list_all_iff answer_packet_def answer_of_def encaps_new_def)
  from tcp_send_and_receive_reply [OF assms(1) ok(1) assms(4-6), of "request_packet B R (si_handle s) sc path d []"]
  show ?thesis
    by (auto simp: send_request_def send_request_with_items_def tcp_session_def sbind_def ok(2) resp)
qed

end

section \<open>From connect to drop\<close>

text \<open>C19: A TCP session from bytes to bytes. The name resolves to an IPv4 address, the TCP connect succeeds, and
  what arrives, cut anywhere, is first a registration reply with handle \<open>h\<close> and then the answer of a device (any
  status, additional status words, data and further items that fit). Then \<open>connect\<close> gives a session with
  that handle and address, a request returns exactly the device's answer, and after the drop the bytes written are the
  registration, one packet from which a device with handle \<open>h\<close> reads exactly the service, path and data of
  the request in either segment size, and the unregistration of \<open>h\<close>; what arrives later is left.\<close>
theorem tcp_session_end_to_end:
  assumes "bytes_crate B" "find_v4 addrs = Some remote" "tcp_connect remote = Ok st" "written st = []" "write_results st = []"
    and "arrivals st = map Arrived bss @ evs" "[] \<notin> set bss"
    and "concat bss = encaps_encode B (encaps_new EC_REGISTER_SESSION h reg) @ encaps_encode B (answer_packet B h sc gs add d' extra) @ later"
    and "length reg < 65536" "length d < 65000" "answer_ok B h sc gs add d' extra"
  shows "\<exists>s s' pkt bss'. connect_timeout B host (Ok addrs) tcp_connect = Ok s \<and> si_handle s = h \<and> si_remote s = remote
    \<and> send_request B (tcp_session B) R sc path d s = (Ok (answer_of sc gs add d' extra), s')
    \<and> written (session_drop B s') = encaps_encode B register_session @ pkt @ encaps_encode B (unregister_session h)
    \<and> device_reads B h pkt = Ok \<lparr>rq_service = sc, rq_path = path, rq_data = d\<rparr>
    \<and> arrivals (session_drop B s') = map Arrived bss' @ evs \<and> [] \<notin> set bss' \<and> concat bss' = later"
proof -
  let ?reg = "encaps_new EC_REGISTER_SESSION h reg"
  let ?s0 = "\<lparr>stream = st, si_handle = 0, si_remote = remote\<rparr>"
  have reg: "encaps_ok ?reg" "check_reply 0 ?reg = Inr ?reg" "session_handle ?reg = h"
    using assms(9) by (simp_all add: encaps_new_def check_reply_def encaps_ok_def)
  obtain b1 where b1: "[] \<notin> set b1" "concat b1 = encaps_encode B (answer_packet B h sc gs add d' extra) @ later"
    "tcp_send_and_receive B register_session ?s0 = (Inr ?reg, ?s0\<lparr>stream := st\<lparr>written := encaps_encode B register_session,
       arrivals := map Arrived b1 @ evs\<rparr>\<rparr>)"
    using bytes_crate.tcp_send_and_receive_reply [OF assms(1) _ reg(1) _ assms(7,8), of ?s0 evs register_session] assms(4-6) reg(2)
    by auto
  define s where "s = \<lparr>stream = st\<lparr>written := encaps_encode B register_session, arrivals := map Arrived b1 @ evs\<rparr>,
     si_handle = h, si_remote = remote\<rparr>"
  have connect: "connect_timeout B host (Ok addrs) tcp_connect = Ok s"
    using b1(3) assms(2,3) reg(3) by (simp add: connect_timeout_def s_def)
  have s: "write_results (stream s) = []" "si_handle s = h" "si_remote s = remote" "arrivals (stream s) = map Arrived b1 @ evs"
    "written (stream s) = encaps_encode B register_session"
    using assms(5) by (simp_all add: s_def)
  obtain b2 s' where "send_request B (tcp_session B) R sc path d s = (Ok (answer_of sc gs add d' extra), s')"
    "s' = s\<lparr>stream := (stream s)\<lparr>written := written (stream s) @ encaps_encode B (request_packet B R h sc path d []),
       arrivals := map Arrived b2 @ evs\<rparr>\<rparr>" "[] \<notin> set b2" "concat b2 = later"
    using bytes_crate.tcp_request [OF assms(1) s(1) assms(10) _ s(4) b1(1), of sc gs add d' extra later R path] assms(11) b1(2) s(2)
    by auto
  then show ?thesis
    using connect s bytes_crate.device_reads_request [OF assms(1,10), of h R sc path]
    by (intro exI [of _ s] exI [of _ s'] exI [of _ "encaps_encode B (request_packet B R h sc path d [])"] exI [of _ b2])
      (simp add: session_drop_def stream_write_all_def)
qed

definition sample_register :: bytes where
  "sample_register = encaps_encode slice_bytes (encaps_new EC_REGISTER_SESSION 7 [1, 0, 0, 0])"

definition sample_answer :: bytes where
  "sample_answer = encaps_encode slice_bytes (answer_packet slice_bytes 7 SC_GET_ATTRIBUTE_SINGLE 0x1F [0x1234] [5, 6] [])"

lemma tcp_session_end_to_end_witness:
  "\<exists>s s' pkt. connect_timeout slice_bytes (lit ''plc'') (Ok [V6, V4 example_remote])
       (\<lambda>_. Ok (example_stream [Arrived (take 5 sample_register), Arrived (drop 5 sample_register @ sample_answer), ReadError TimedOut])) = Ok s
    \<and> send_request slice_bytes (tcp_session slice_bytes) router_new SC_GET_ATTRIBUTE_SINGLE (epath_attribute 1 1 7) [] s
        = (Ok (answer_of SC_GET_ATTRIBUTE_SINGLE 0x1F [0x1234] [5, 6] []), s')
    \<and> written (session_drop slice_bytes s') = encaps_encode slice_bytes register_session @ pkt @ encaps_encode slice_bytes (unregister_session 7)
    \<and> device_reads slice_bytes 7 pkt = Ok \<lparr>rq_service = SC_GET_ATTRIBUTE_SINGLE, rq_path = epath_attribute 1 1 7, rq_data = []\<rparr>
    \<and> arrivals (session_drop slice_bytes s') = [ReadError TimedOut]"
proof -
  have ne: "sample_register \<noteq> []" "sample_answer \<noteq> []"
    using encoded_nonempty [OF slice.bytes_crate_axioms] by (simp_all add: sample_register_def sample_answer_def)
  have ok: "answer_ok slice_bytes 7 SC_GET_ATTRIBUTE_SINGLE 0x1F [0x1234] [5, 6] []"
    by (simp add: answer_ok_def answer_packet_def reply_bytes_def slice.cpf_encode_eq response_bytes_def null_address_def
        unconnected_data_def item_new_def)
  have pieces: "bss = []" if "[] \<notin> set bss" "\<forall>xs \<in> set bss. xs = []" for bss :: "bytes list"
    using that by (cases bss) auto
  let ?st = "example_stream (map Arrived [take 5 sample_register, drop 5 sample_register @ sample_answer] @ [ReadError TimedOut])"
  have "concat [take 5 sample_register, drop 5 sample_register @ sample_answer] =
      encaps_encode slice_bytes (encaps_new EC_REGISTER_SESSION 7 [1, 0, 0, 0]) @
      encaps_encode slice_bytes (answer_packet slice_bytes 7 SC_GET_ATTRIBUTE_SINGLE 0x1F [0x1234] [5, 6] []) @ []"
    by (simp add: sample_register_def sample_answer_def)
  from tcp_session_end_to_end [OF slice.bytes_crate_axioms, of "[V6, V4 example_remote]" example_remote "\<lambda>_. Ok ?st" ?st
      "[take 5 sample_register, drop 5 sample_register @ sample_answer]" "[ReadError TimedOut]", OF _ _ _ _ _ _ this, of "[]"
      "lit ''plc''" router_new "epath_attribute 1 1 7"] ok ne
  show ?thesis using pieces by (auto simp: example_stream_def)
qed

end
