(* ===== verification/Conn_Params.thy ===== *)
theory Conn_Params
  imports Wire_Format
begin

text \<open>
  Network connection parameters and the transport byte of a Forward Open
  (src/src/cip/connection_manager/params.rs). Enum discriminants, which the code uses in casts, are the
  \<open>*_code\<close> functions.
\<close>

datatype ConnectionType = CT_Null | CT_Multicast | CT_PointToPoint | CT_Reserved
datatype Priority = Prio_Low | Prio_High | Prio_Scheduled | Prio_Urgent
datatype SizeType = Fixed | Variable

fun connection_type_code :: "ConnectionType \<Rightarrow> u32" where
  "connection_type_code CT_Null = 0"
| "connection_type_code CT_Multicast = 1"
| "connection_type_code CT_PointToPoint = 2"
| "connection_type_code CT_Reserved = 3"

fun priority_code :: "Priority \<Rightarrow> u32" where
  "priority_code Prio_Low = 0"
| "priority_code Prio_High = 1"
| "priority_code Prio_Scheduled = 2"
| "priority_code Prio_Urgent = 3"

fun size_type_code :: "SizeType \<Rightarrow> u32" where
  "size_type_code Fixed = 0"
| "size_type_code Variable = 1"

record NetworkParams =
  redundant_owner :: bool
  connection_type :: ConnectionType
  priority :: Priority
  size_type :: SizeType
  np_size :: u16

abbreviation MAX_SMALL_SIZE :: u16 where "MAX_SMALL_SIZE \<equiv> 0x1FF"

definition params_encode :: "NetworkParams \<Rightarrow> bool \<Rightarrow> u32" where
  "params_encode p large =
     (let shift = (if large then 16 else 0);
          sz = (if large then ucast (np_size p) else ucast (np_size p AND MAX_SMALL_SIZE));
          flags = push_bit 15 (of_bool (redundant_owner p)) OR push_bit 13 (connection_type_code (connection_type p))
            OR push_bit 10 (priority_code (priority p)) OR push_bit 9 (size_type_code (size_type p))
      in push_bit shift flags OR sz)"

definition params_decode :: "u32 \<Rightarrow> bool \<Rightarrow> NetworkParams" where
  "params_decode raw large =
     (let (flags, sz) = (if large then (drop_bit 16 raw, raw AND 0xFFFF) else (raw, raw AND ucast MAX_SMALL_SIZE));
          ct = drop_bit 13 flags AND 3;
          pr = drop_bit 10 flags AND 3
      in \<lparr>redundant_owner = flags AND push_bit 15 1 \<noteq> 0,
          connection_type = (if ct = 0 then CT_Null else if ct = 1 then CT_Multicast
            else if ct = 2 then CT_PointToPoint else CT_Reserved),
          priority = (if pr = 0 then Prio_Low else if pr = 1 then Prio_High
            else if pr = 2 then Prio_Scheduled else Prio_Urgent),
          size_type = (if flags AND push_bit 9 1 \<noteq> 0 then Variable else Fixed),
          np_size = ucast sz\<rparr>)"

datatype TransportClass = Class0 | Class1 | Class2 | Class3
datatype Trigger = Cyclic | ChangeOfState | Application

fun transport_class_code :: "TransportClass \<Rightarrow> u8" where
  "transport_class_code Class0 = 0"
| "transport_class_code Class1 = 1"
| "transport_class_code Class2 = 2"
| "transport_class_code Class3 = 3"

fun trigger_code :: "Trigger \<Rightarrow> u8" where
  "trigger_code Cyclic = 0"
| "trigger_code ChangeOfState = 1"
| "trigger_code Application = 2"

definition has_sequence_count :: "TransportClass \<Rightarrow> bool" where
  "has_sequence_count c \<longleftrightarrow> c \<noteq> Class0"

record TransportTrigger =
  tt_class :: TransportClass
  tt_trigger :: Trigger
  tt_server :: bool

definition transport_encode :: "TransportTrigger \<Rightarrow> u8" where
  "transport_encode t =
     push_bit 7 (of_bool (tt_server t)) OR push_bit 4 (trigger_code (tt_trigger t)) OR transport_class_code (tt_class t)"

definition transport_decode :: "u8 \<Rightarrow> TransportTrigger" where
  "transport_decode raw =
     (let c = raw AND 0x0F; g = drop_bit 4 raw AND 0x07
      in \<lparr>tt_class = (if c = 0 then Class0 else if c = 1 then Class1 else if c = 2 then Class2 else Class3),
          tt_trigger = (if g = 1 then ChangeOfState else if g = 2 then Application else Cyclic),
          tt_server = (raw AND 0x80 \<noteq> 0)\<rparr>)"

section \<open>Round trips\<close>

lemma transport_decode_encode: "transport_decode (transport_encode t) = t"
  by (cases t; cases "tt_class t"; cases "tt_trigger t"; cases "tt_server t")
    (simp_all add: transport_decode_def transport_encode_def Let_def)

text \<open>
  The decoder reads the flags from the bits above the size: bits 9 to 15 of the small form, 25 to 31 of
  the large one.
\<close>

definition params_of_flags :: "u32 \<Rightarrow> u16 \<Rightarrow> NetworkParams" where
  "params_of_flags f sz =
     (let ct = drop_bit 4 f AND 3; pr = drop_bit 1 f AND 3
      in \<lparr>redundant_owner = bit f 6,
          connection_type = (if ct = 0 then CT_Null else if ct = 1 then CT_Multicast
            else if ct = 2 then CT_PointToPoint else CT_Reserved),
          priority = (if pr = 0 then Prio_Low else if pr = 1 then Prio_High
            else if pr = 2 then Prio_Scheduled else Prio_Urgent),
          size_type = (if bit f 0 then Variable else Fixed), np_size = sz\<rparr>)"

definition params_flags :: "NetworkParams \<Rightarrow> u32" where
  "params_flags p = push_bit 15 (of_bool (redundant_owner p)) OR push_bit 13 (connection_type_code (connection_type p))
     OR push_bit 10 (priority_code (priority p)) OR push_bit 9 (size_type_code (size_type p))"

lemma params_of_flags_flags: "params_of_flags (drop_bit 9 (params_flags p)) sz = p\<lparr>np_size := sz\<rparr>"
  by (cases p; cases "connection_type p"; cases "priority p"; cases "size_type p"; cases "redundant_owner p")
    (simp_all add: params_of_flags_def params_flags_def Let_def)

lemma params_flags_above: "drop_bit 16 (params_flags p) = 0"
  by (cases "connection_type p"; cases "priority p"; cases "size_type p"; cases "redundant_owner p")
    (simp_all add: params_flags_def)

lemma word_and_exp: "(w :: u32) AND push_bit n 1 \<noteq> 0 \<longleftrightarrow> bit w n"
  by (metis and_exp_eq_0_iff_not_bit push_bit_of_1)

lemma params_decode_small: "params_decode raw False = params_of_flags (drop_bit 9 raw) (ucast (raw AND 0x1FF))"
  unfolding params_decode_def params_of_flags_def word_and_exp
  by (simp add: Let_def bit_drop_bit_eq)

lemma params_decode_large: "params_decode raw True = params_of_flags (drop_bit 25 raw) (ucast (raw AND 0xFFFF))"
  unfolding params_decode_def params_of_flags_def word_and_exp
  by (simp add: Let_def bit_drop_bit_eq)

lemma mask_9: "(0x1FF :: 'a::len word) = mask 9" and mask_16: "(0xFFFF :: 'a::len word) = mask 16"
  by (simp_all add: mask_eq_exp_minus_1)

lemma params_encode_small: "params_encode p False = params_flags p OR ucast (take_bit 9 (np_size p))"
  by (simp add: params_encode_def params_flags_def Let_def mask_9 take_bit_eq_mask)

lemma params_encode_large: "params_encode p True = push_bit 16 (params_flags p) OR ucast (np_size p)"
  by (simp add: params_encode_def params_flags_def Let_def)

lemma params_flags_low: "n < 9 \<Longrightarrow> \<not> bit (params_flags p) n"
  by (simp add: params_flags_def bit_or_iff bit_push_bit_iff)

lemma params_flags_high: "16 \<le> n \<Longrightarrow> \<not> bit (params_flags p) n"
proof -
  assume "16 \<le> n"
  then obtain k where n: "n = 16 + k" using le_Suc_ex by blast
  have "bit (drop_bit 16 (params_flags p)) k = bit (params_flags p) n"
    by (simp add: bit_drop_bit_eq n)
  then show ?thesis by (simp add: params_flags_above)
qed

lemma ucast_u16_u32: "ucast (ucast (s :: u16) :: u32) = s"
  by (rule bit_word_eqI) (simp add: bit_simps)

lemma params_decode_encode_small:
  "params_decode (params_encode p False) False = p\<lparr>np_size := take_bit 9 (np_size p)\<rparr>"
proof -
  have d: "drop_bit 9 (params_encode p False) = drop_bit 9 (params_flags p)"
    by (rule bit_word_eqI) (auto simp: params_encode_small bit_simps)
  have "params_encode p False AND 0x1FF = ucast (take_bit 9 (np_size p))"
    unfolding mask_9
    by (rule bit_word_eqI) (auto simp: params_encode_small bit_simps params_flags_low)
  then have s: "ucast (params_encode p False AND 0x1FF) = take_bit 9 (np_size p)"
    by (simp add: ucast_u16_u32)
  show ?thesis by (simp add: params_decode_small d s params_of_flags_flags)
qed

lemma params_decode_encode_large: "params_decode (params_encode p True) True = p"
proof -
  have d: "drop_bit 25 (params_encode p True) = drop_bit 9 (params_flags p)"
  proof (rule bit_word_eqI)
    fix n
    have "\<not> bit (np_size p) (25 + n)" using bit_imp_le_length [of "np_size p" "25 + n"] by auto
    then show "bit (drop_bit 25 (params_encode p True)) n \<longleftrightarrow> bit (drop_bit 9 (params_flags p)) n"
      using params_flags_high [of "9 + n" p]
      by (cases "n < 7") (auto simp: params_encode_large bit_simps)
  qed
  have "params_encode p True AND 0xFFFF = ucast (np_size p)"
    unfolding mask_16
    by (rule bit_word_eqI) (auto simp: params_encode_large bit_simps dest: bit_imp_le_length)
  then have s: "ucast (params_encode p True AND 0xFFFF) = np_size p"
    by (simp add: ucast_u16_u32)
  show ?thesis by (simp add: params_decode_large d s params_of_flags_flags)
qed

text \<open>Network parameters survive the 32-bit form of the Large Forward Open unchanged; the 16-bit form
  keeps every flag and the size modulo 512; and the transport byte survives unchanged.\<close>
theorem params_roundtrip:
  "params_decode (params_encode p True) True = p
   \<and> params_decode (params_encode p False) False = p\<lparr>np_size := of_nat (unat (np_size p) mod 512)\<rparr>
   \<and> transport_decode (transport_encode t) = t"
proof -
  have "take_bit 9 (np_size p) = of_nat (unat (np_size p) mod 512)"
    by (rule word_unat_eq_iff [THEN iffD2])
      (simp only: unsigned_take_bit_eq unat_of_nat, simp add: take_bit_nat_def)
  then show ?thesis
    by (simp add: params_decode_encode_large params_decode_encode_small transport_decode_encode)
qed

end
