(* ===== verification/Conn_Path.thy ===== *)
theory Conn_Path
  imports Wire_Format
begin

text \<open>
  Connection paths (src/src/cip/connection_manager/path.rs): the builders, the route syntax, and the hex
  notation of EDS files.
\<close>

section \<open>The path and its builders\<close>

datatype ConnectionPath = ConnectionPath (path_bytes: bytes)

record ElectronicKey =
  key_vendor_id :: u16
  key_device_type :: u16
  key_product_code :: u16
  key_major_revision :: u8
  key_minor_revision :: u8
  key_compatibility :: bool

abbreviation CPATH_CLASS_8 :: u8 where "CPATH_CLASS_8 \<equiv> 0x20"
abbreviation CPATH_INSTANCE_8 :: u8 where "CPATH_INSTANCE_8 \<equiv> 0x24"
abbreviation CONNECTION_POINT_8 :: u8 where "CONNECTION_POINT_8 \<equiv> 0x2C"
abbreviation ELECTRONIC_KEY :: u8 where "ELECTRONIC_KEY \<equiv> 0x34"
abbreviation KEY_FORMAT :: u8 where "KEY_FORMAT \<equiv> 0x04"
abbreviation ASSEMBLY_CLASS :: u16 where "ASSEMBLY_CLASS \<equiv> 0x04"

definition cpath_new :: ConnectionPath where
  "cpath_new = ConnectionPath []"

definition cpath_logical :: "bytes_api \<Rightarrow> u8 \<Rightarrow> u16 \<Rightarrow> ConnectionPath \<Rightarrow> ConnectionPath" where
  "cpath_logical B segment_8 ident p =
     ConnectionPath
      (if ident \<le> 255 then
         let out = put_u8 B segment_8 (path_bytes p);
             out = put_u8 B (ucast ident) out
         in out
       else
         let out = put_u8 B (segment_8 OR 0x01) (path_bytes p);
             out = put_u8 B 0 out;
             out = put_u16_le B ident out
         in out)"

definition cpath_class :: "bytes_api \<Rightarrow> u16 \<Rightarrow> ConnectionPath \<Rightarrow> ConnectionPath" where
  "cpath_class B ident p = cpath_logical B CPATH_CLASS_8 ident p"

definition cpath_instance :: "bytes_api \<Rightarrow> u16 \<Rightarrow> ConnectionPath \<Rightarrow> ConnectionPath" where
  "cpath_instance B ident p = cpath_logical B CPATH_INSTANCE_8 ident p"

definition connection_point :: "bytes_api \<Rightarrow> u16 \<Rightarrow> ConnectionPath \<Rightarrow> ConnectionPath" where
  "connection_point B ident p = cpath_logical B CONNECTION_POINT_8 ident p"

definition cpath_assembly :: "bytes_api \<Rightarrow> u16 \<Rightarrow> u16 \<Rightarrow> u16 \<Rightarrow> ConnectionPath" where
  "cpath_assembly B config output input =
     connection_point B input (connection_point B output
       (cpath_instance B config (cpath_class B ASSEMBLY_CLASS cpath_new)))"

definition cpath_port :: "bytes_api \<Rightarrow> u16 \<Rightarrow> bytes \<Rightarrow> ConnectionPath \<Rightarrow> ConnectionPath" where
  "cpath_port B port link_address p =
     (let extended_port = port \<ge> 15;
          extended_link = length link_address \<noteq> 1;
          segment = (if extended_port then 0x0F else ucast port);
          segment = (if extended_link then segment OR 0x10 else segment);
          start = length (path_bytes p);
          out = put_u8 B segment (path_bytes p);
          out = (if extended_link then put_u8 B (of_nat (length link_address)) out else out);
          out = (if extended_port then put_u16_le B port out else out);
          out = put_slice B link_address out;
          out = (if odd (length out - start) then put_u8 B 0 out else out)
      in ConnectionPath out)"

definition backplane_slot :: "bytes_api \<Rightarrow> u8 \<Rightarrow> ConnectionPath \<Rightarrow> ConnectionPath" where
  "backplane_slot B slot p = cpath_port B 1 [slot] p"

definition electronic_key :: "bytes_api \<Rightarrow> ElectronicKey \<Rightarrow> ConnectionPath \<Rightarrow> ConnectionPath" where
  "electronic_key B key p =
     (let out = put_u8 B ELECTRONIC_KEY (path_bytes p);
          out = put_u8 B KEY_FORMAT out;
          out = put_u16_le B (key_vendor_id key) out;
          out = put_u16_le B (key_device_type key) out;
          out = put_u16_le B (key_product_code key) out;
          out = put_u8 B ((key_major_revision key AND 0x7F) OR (if key_compatibility key then 0x80 else 0)) out;
          out = put_u8 B (key_minor_revision key) out
      in ConnectionPath out)"

text \<open>\<open>then\<close>: appends another path.\<close>

definition cpath_then :: "ConnectionPath \<Rightarrow> ConnectionPath \<Rightarrow> ConnectionPath" where
  "cpath_then p other = ConnectionPath (path_bytes p @ path_bytes other)"

definition cpath_as_bytes :: "ConnectionPath \<Rightarrow> bytes" where
  "cpath_as_bytes p = path_bytes p"

definition cpath_into_bytes :: "ConnectionPath \<Rightarrow> bytes" where
  "cpath_into_bytes p = path_bytes p"

definition cpath_from_vec :: "bytes \<Rightarrow> ConnectionPath" where
  "cpath_from_vec bs = ConnectionPath bs"

definition vec_from_cpath :: "ConnectionPath \<Rightarrow> bytes" where
  "vec_from_cpath p = path_bytes p"

section \<open>Routes\<close>

text \<open>
  \<open>str::parse::<Ipv4Addr>\<close>: at most 15 chars, four decimal numbers below 256 separated by dots, each of one
  to three digits without a leading zero.
\<close>

definition ipv4_octet :: "rstr \<Rightarrow> nat option" where
  "ipv4_octet s =
     (if s = [] \<or> 3 < length s \<or> (1 < length s \<and> hd s = 48) then None
      else parse_digits 10 256 0 s)"

definition parse_ipv4 :: "rstr \<Rightarrow> (nat list) option" where
  "parse_ipv4 s =
     (if 15 < length s then None
      else let parts = map ipv4_octet (split_on 46 s)
        in if length parts = 4 \<and> None \<notin> set parts then Some (map the parts) else None)"

fun route_hops :: "bytes_api \<Rightarrow> (rstr \<times> rstr) list \<Rightarrow> ConnectionPath \<Rightarrow> ConnectionPath result" where
  "route_hops B [] path = Ok path"
| "route_hops B ((p, l) # hops) path =
     (case from_str_radix 10 65536 p of
        None \<Rightarrow> Err (InvalidInput ([39] @ p @ [39] @ lit '' is not a port number''))
      | Some port \<Rightarrow>
          if port = 0 then Err (InvalidInput ([39] @ p @ [39] @ lit '' is not a port number''))
          else (case from_str_radix 10 256 l of
              Some link \<Rightarrow> route_hops B hops (cpath_port B (of_nat port) [of_nat link] path)
            | None \<Rightarrow>
                if parse_ipv4 l \<noteq> None then route_hops B hops (cpath_port B (of_nat port) (as_bytes l) path)
                else Err (InvalidInput ([39] @ l @ [39] @ lit '' is not a slot number or IPv4 address''))))"

definition cpath_route :: "bytes_api \<Rightarrow> rstr \<Rightarrow> ConnectionPath result" where
  "cpath_route B spec =
     (let tokens = filter (\<lambda>t. t \<noteq> []) (map trim (split_on 44 spec))
      in if odd (length tokens) then
           Err (InvalidInput (lit ''route '' @ [39] @ spec @ [39] @ lit '' must be port,link pairs''))
         else route_hops B (pairs tokens) cpath_new)"

section \<open>The hex notation\<close>

definition display_cpath :: "ConnectionPath \<Rightarrow> rstr" where
  "display_cpath p = join [32] (map (\<lambda>b. fmt_02X (unat b)) (path_bytes p))"

definition cpath_from_str :: "rstr \<Rightarrow> ConnectionPath result" where
  "cpath_from_str s =
     rbind (collect (map (\<lambda>t. ok_or (map_option of_nat (from_str_radix 16 256 t))
         (InvalidInput ([39] @ t @ [39] @ lit '' is not a hex byte in path '' @
            [39] @ s @ [39])))
       (split_whitespace s)))
     (\<lambda>bs. Ok (ConnectionPath bs))"

section \<open>What the builders append\<close>

definition logical_bytes :: "u8 \<Rightarrow> u16 \<Rightarrow> bytes" where
  "logical_bytes seg ident = (if ident \<le> 255 then [seg, ucast ident] else [seg OR 0x01, 0] @ le16 ident)"

text \<open>A port segment: the head, the link, and a pad byte when the two have an odd length.\<close>

definition port_head :: "u16 \<Rightarrow> bytes \<Rightarrow> bytes" where
  "port_head port link =
     [(if length link \<noteq> 1 then (if port \<ge> 15 then 0x0F else ucast port) OR 0x10
       else if port \<ge> 15 then 0x0F else ucast port)] @
     (if length link \<noteq> 1 then [of_nat (length link)] else []) @ (if port \<ge> 15 then le16 port else [])"

definition port_bytes :: "u16 \<Rightarrow> bytes \<Rightarrow> bytes" where
  "port_bytes port link = port_head port link @ link @ (if odd (length (port_head port link @ link)) then [0] else [])"

lemma even_logical_bytes [simp]: "even (length (logical_bytes seg ident))"
  by (simp add: logical_bytes_def)

lemma even_port_bytes [simp]: "even (length (port_bytes port link))"
  by (simp add: port_bytes_def)

context bytes_crate
begin

lemma cpath_logical_eq: "path_bytes (cpath_logical B seg ident p) = path_bytes p @ logical_bytes seg ident"
  by (simp add: cpath_logical_def logical_bytes_def Let_def)

lemma cpath_port_eq: "path_bytes (cpath_port B port link p) = path_bytes p @ port_bytes port link"
  by (simp add: cpath_port_def port_bytes_def port_head_def Let_def)

lemma cpath_assembly_eq:
  "path_bytes (cpath_assembly B c out inp) = logical_bytes 0x20 4 @ logical_bytes 0x24 c @
     logical_bytes 0x2C out @ logical_bytes 0x2C inp"
  by (simp add: cpath_assembly_def connection_point_def cpath_instance_def cpath_class_def cpath_new_def
      cpath_logical_eq)

lemma even_electronic_key:
  "even (length (path_bytes (electronic_key B key p))) = even (length (path_bytes p))"
  by (simp add: electronic_key_def Let_def)

end

section \<open>Reading a port segment back\<close>

text \<open>
  What a router makes of a port segment, by the CIP encoding: the low four bits name the port (15: a 16-bit
  port number follows), bit 4 says that a length byte precedes the link address, and the segment is
  padded to an even length.
\<close>

definition read_port :: "bytes \<Rightarrow> (u16 \<times> bytes \<times> bytes) option" where
  "read_port bs =
     (case bs of [] \<Rightarrow> None | seg # r0 \<Rightarrow>
        let ext_link = bit seg 4; ext_port = (seg AND 0x0F = 0x0F);
            (n, r1) = (if ext_link then (unat (hd r0), tl r0) else (1, r0));
            (port, r2) = (if ext_port then (of_le (take 2 r1), drop 2 r1) else (ucast (seg AND 0x0F), r1));
            used = 1 + (if ext_link then 1 else 0) + (if ext_port then 2 else 0) + n
        in Some (port, take n r2, drop (n + used mod 2) r2))"

lemma small_port_bits:
  assumes "(port :: u16) < 15"
  shows "(ucast port :: u8) AND 0x0F = ucast port" "(ucast port OR 0x10 :: u8) AND 0x0F = ucast port"
    "\<not> bit (ucast port :: u8) 4" "(ucast port :: u8) \<noteq> 0x0F" "ucast (ucast port :: u8) = port"
proof -
  define n where "n = unat port"
  have n: "port = of_nat n" "n < 15"
    using assms by (simp_all add: n_def word_less_nat_alt)
  then have "n \<in> {0,1,2,3,4,5,6,7,8,9,10,11,12,13,14}"
    unfolding insert_iff empty_iff by presburger
  with n show "(ucast port :: u8) AND 0x0F = ucast port" "(ucast port OR 0x10 :: u8) AND 0x0F = ucast port"
    "\<not> bit (ucast port :: u8) 4" "(ucast port :: u8) \<noteq> 0x0F" "ucast (ucast port :: u8) = port"
    by auto
qed

lemma read_port_bytes:
  assumes "length link < 256"
  shows "read_port (port_bytes port link @ r) = Some (port, link, r)"
proof (cases "port \<ge> 15")
  case True
  with assms show ?thesis
    by (cases "length link = 1"; cases "odd (length link)")
      (auto simp: read_port_def port_bytes_def port_head_def Let_def unat_of_nat_small of_le_to_le mod2_eq_if)
next
  case False
  with assms show ?thesis
    by (cases "length link = 1"; cases "odd (length link)")
      (auto simp: read_port_def port_bytes_def port_head_def Let_def unat_of_nat_small small_port_bits
        not_le bit_or_iff mod2_eq_if)
qed

text \<open>Successive port segments.\<close>

fun read_ports :: "nat \<Rightarrow> bytes \<Rightarrow> (u16 \<times> bytes) list option" where
  "read_ports 0 bs = Some []"
| "read_ports (Suc n) bs =
     (case read_port bs of None \<Rightarrow> None
      | Some (port, link, r) \<Rightarrow> map_option ((#) (port, link)) (read_ports n r))"

definition hops_bytes :: "(u16 \<times> bytes) list \<Rightarrow> bytes" where
  "hops_bytes hops = concat (map (\<lambda>(port, link). port_bytes port link) hops)"

lemma read_ports_bytes:
  "\<forall>(port, link) \<in> set hops. length link < 256 \<Longrightarrow> read_ports (length hops) (hops_bytes hops) = Some hops"
  by (induction hops) (auto simp: hops_bytes_def read_port_bytes)

section \<open>Routes as text\<close>

datatype link = Slot u8 | Address u8 u8 u8 u8

fun link_text :: "link \<Rightarrow> rstr" where
  "link_text (Slot n) = fmt_dec (unat n)"
| "link_text (Address a b c d) = join [46] (map (\<lambda>x. fmt_dec (unat x)) [a, b, c, d])"

fun link_bytes :: "link \<Rightarrow> bytes" where
  "link_bytes (Slot n) = [n]"
| "link_bytes (Address a b c d) = as_bytes (link_text (Address a b c d))"

definition hop_texts :: "(u16 \<times> link) list \<Rightarrow> (rstr \<times> rstr) list" where
  "hop_texts hops = map (\<lambda>(port, l). (fmt_dec (unat port), link_text l)) hops"

text \<open>The route as the user writes it: \<open>port,link,port,link,...\<close>.\<close>

definition route_text :: "(u16 \<times> link) list \<Rightarrow> rstr" where
  "route_text hops = join [44] (concat (map (\<lambda>(p, l). [p, l]) (hop_texts hops)))"

lemma u8_text_bound: "unat (x :: u8) < 256"
  using unsigned_less [of x] by simp

lemma length_fmt_dec_u8: "length (fmt_dec (unat (x :: u8))) \<le> 3"
  by (simp add: fmt_dec_byte [OF u8_text_bound])

lemma ipv4_octet_fmt_dec: "ipv4_octet (fmt_dec (unat (x :: u8))) = Some (unat x)"
proof -
  have "from_str_radix 10 256 (fmt_dec (unat x)) = Some (unat x)"
    by (rule parse_fmt_dec [OF u8_text_bound])
  moreover have "hd (fmt_dec (unat x)) \<noteq> 43"
    using fmt_dec_digits [OF hd_in_set [OF fmt_dec_nonempty], of "unat x"] by auto
  ultimately have "parse_digits 10 256 0 (fmt_dec (unat x)) = Some (unat x)"
    by (simp add: from_str_radix_def split: list.splits)
  moreover have "1 < length (fmt_dec (unat x)) \<Longrightarrow> hd (fmt_dec (unat x)) \<noteq> 48"
    using u8_text_bound [of x] by (auto simp: fmt_dec_byte [OF u8_text_bound] split: if_splits)
  ultimately show ?thesis
    using length_fmt_dec_u8 [of x] by (auto simp: ipv4_octet_def)
qed

lemma dot_not_in_fmt_dec: "46 \<notin> set (fmt_dec n)" "44 \<notin> set (fmt_dec n)"
  using fmt_dec_digits by force+

lemma parse_ipv4_text: "parse_ipv4 (link_text (Address a b c d)) = Some (map unat [a, b, c, d])"
proof -
  have "length (link_text (Address a b c d)) \<le> 15"
    using length_fmt_dec_u8 [of a] length_fmt_dec_u8 [of b] length_fmt_dec_u8 [of c] length_fmt_dec_u8 [of d]
    by simp
  moreover have "split_on 46 (link_text (Address a b c d)) = map (\<lambda>x. fmt_dec (unat x)) [a, b, c, d]"
    unfolding link_text.simps by (rule split_on_join) (simp_all add: dot_not_in_fmt_dec)
  ultimately show ?thesis
    by (simp add: parse_ipv4_def ipv4_octet_fmt_dec)
qed

lemma address_not_u8: "from_str_radix 10 256 (link_text (Address a b c d)) = None"
  by (rule from_str_radix_None [of 46]) (simp_all add: to_digit_def)

lemma slot_text: "from_str_radix 10 256 (fmt_dec (unat (n :: u8))) = Some (unat n)"
  by (rule parse_fmt_dec [OF u8_text_bound])

lemma port_text: "from_str_radix 10 65536 (fmt_dec (unat (p :: u16))) = Some (unat p)"
  by (rule parse_fmt_dec) (use unsigned_less [of p] in simp)

lemma length_link_bytes: "length (link_bytes l) < 256"
proof (cases l)
  case (Address a b c d)
  have enc: "length (as_bytes s) = length s" if "\<forall>x \<in> set s. x < 128" for s
    using that by (induction s) (simp_all add: as_bytes_def encode_char_def)
  have "\<forall>x \<in> set (link_text l). x < 128"
    using fmt_dec_digits unfolding Address by fastforce
  moreover have "length (link_text l) \<le> 15"
    using length_fmt_dec_u8 [of a] length_fmt_dec_u8 [of b] length_fmt_dec_u8 [of c] length_fmt_dec_u8 [of d]
    by (simp add: Address)
  ultimately show ?thesis using enc by (simp add: Address)
qed simp

lemma link_text_tokens: "44 \<notin> set (link_text l) \<and> link_text l \<noteq> [] \<and> (\<forall>c \<in> set (link_text l). \<not> is_whitespace c)"
proof (cases l)
  case (Slot n)
  then show ?thesis by (auto simp: dot_not_in_fmt_dec is_whitespace_def dest: fmt_dec_digits)
next
  case (Address a b c d)
  then show ?thesis by (auto simp: dot_not_in_fmt_dec is_whitespace_def dest: fmt_dec_digits)
qed

lemma port_text_tokens: "44 \<notin> set (fmt_dec n) \<and> fmt_dec n \<noteq> [] \<and> (\<forall>c \<in> set (fmt_dec n). \<not> is_whitespace c)"
  by (auto simp: dot_not_in_fmt_dec is_whitespace_def dest: fmt_dec_digits)

lemma pairs_concat: "pairs (concat (map (\<lambda>(p, l). [p, l]) hs)) = hs"
  by (induction hs) auto

lemma length_concat_pairs: "length (concat (map (\<lambda>(p, l). [p, l]) hs)) = 2 * length hs"
  by (induction hs) auto

lemma route_tokens:
  assumes "hops \<noteq> []"
  shows "filter (\<lambda>t. t \<noteq> []) (map trim (split_on 44 (route_text hops)))
    = concat (map (\<lambda>(p, l). [p, l]) (hop_texts hops))"
proof -
  let ?ts = "concat (map (\<lambda>(p, l). [p, l]) (hop_texts hops))"
  have ok: "\<forall>t \<in> set ?ts. 44 \<notin> set t \<and> t \<noteq> [] \<and> (\<forall>c \<in> set t. \<not> is_whitespace c)"
    using link_text_tokens port_text_tokens by (auto simp: hop_texts_def)
  have "?ts \<noteq> []" using assms by (cases hops) (auto simp: hop_texts_def)
  then have "split_on 44 (route_text hops) = ?ts"
    unfolding route_text_def using ok by (intro split_on_join) auto
  moreover have "map trim ?ts = ?ts"
    using ok by (intro map_idI) (auto intro!: trim_fmt_dec_like simp del: set_concat)
  moreover have "filter (\<lambda>t. t \<noteq> []) ?ts = ?ts"
    using ok by (intro filter_True) (auto simp del: set_concat)
  ultimately show ?thesis by simp
qed

context bytes_crate
begin

lemma route_hops_text:
  "\<forall>(port, l) \<in> set hops. port \<noteq> 0 \<Longrightarrow>
   \<exists>path. route_hops B (hop_texts hops) p = Ok path
     \<and> path_bytes path = path_bytes p @ hops_bytes (map (\<lambda>(port, l). (port, link_bytes l)) hops)"
proof (induction hops arbitrary: p)
  case Nil
  show ?case by (simp add: hop_texts_def hops_bytes_def)
next
  case (Cons h hops)
  obtain port l where h: "h = (port, l)" by (cases h)
  have step: "route_hops B (hop_texts (h # hops)) p
      = route_hops B (hop_texts hops) (cpath_port B port (link_bytes l) p)"
  proof (cases l)
    case (Slot n)
    with Cons.prems show ?thesis
      by (simp add: h hop_texts_def port_text slot_text unat_eq_zero)
  next
    case (Address a b c d)
    with Cons.prems parse_ipv4_text [of a b c d] address_not_u8 [of a b c d] show ?thesis
      by (simp add: h hop_texts_def port_text unat_eq_zero del: link_text.simps)
  qed
  from Cons.IH [of "cpath_port B port (link_bytes l) p"] Cons.prems
  show ?case by (auto simp: step [unfolded h] hops_bytes_def cpath_port_eq h)
qed

end

section \<open>Properties\<close>

text \<open>C34: A route written as \<open>port,link,...\<close> (ports 1 to 65535, links slot numbers or IPv4 addresses)
  parses, and the path it gives consists of exactly those port segments: a router that reads the path
  segment by segment finds every port and link address, and nothing is left over. Ports from 15 up take
  the extended form, addresses the length byte, and odd segments their pad.\<close>
theorem route_roundtrip:
  assumes "bytes_crate B" "\<forall>(port, l) \<in> set hops. port \<noteq> 0"
  shows "\<exists>path. cpath_route B (route_text hops) = Ok path
    \<and> even (length (path_bytes path))
    \<and> path_bytes path = hops_bytes (map (\<lambda>(port, l). (port, link_bytes l)) hops)
    \<and> read_ports (length hops) (path_bytes path) = Some (map (\<lambda>(port, l). (port, link_bytes l)) hops)"
proof -
  let ?hs = "map (\<lambda>(port, l). (port, link_bytes l)) hops"
  obtain path where path: "route_hops B (hop_texts hops) cpath_new = Ok path"
    "path_bytes path = hops_bytes ?hs"
    using bytes_crate.route_hops_text [OF assms, of cpath_new] by (auto simp: cpath_new_def)
  have "cpath_route B (route_text hops) = route_hops B (hop_texts hops) cpath_new"
  proof (cases "hops = []")
    case True
    then show ?thesis by (simp add: cpath_route_def route_text_def hop_texts_def trim_def
        trim_start_matches_def trim_end_matches_def)
  next
    case False
    then show ?thesis by (simp add: cpath_route_def route_tokens length_concat_pairs pairs_concat del: length_concat)
  qed
  moreover have "even (length (hops_bytes ?hs))"
    by (induction hops) (auto simp: hops_bytes_def)
  moreover have "read_ports (length ?hs) (hops_bytes ?hs) = Some ?hs"
    by (rule read_ports_bytes) (auto simp: length_link_bytes)
  ultimately show ?thesis using path by simp
qed

text \<open>Backplane slot 0, then Ethernet port 2 to 10.0.0.5, then slot 3 of port 300.\<close>
lemma route_roundtrip_witness:
  "\<exists>path. cpath_route slice_bytes (route_text [(1, Slot 0), (2, Address 10 0 0 5), (300, Slot 3)]) = Ok path
    \<and> read_ports 3 (path_bytes path) = Some [(1, [0]), (2, link_bytes (Address 10 0 0 5)), (300, [3])]"
  using route_roundtrip [OF slice.bytes_crate_axioms,
      of "[(1, Slot 0), (2, Address 10 0 0 5), (300, Slot 3)]"]
  by (auto simp del: link_bytes.simps(2) link_text.simps read_ports.simps simp add: numeral_3_eq_3)

text \<open>The hex notation of EDS files is a faithful text form of a path: printing a path and parsing the
  text gives the path back, whatever its bytes.\<close>
theorem path_hex_roundtrip:
  "cpath_from_str (display_cpath p) = Ok p"
proof -
  have b: "unat (b :: u8) < 256" for b using unsigned_less [of b] by simp
  have digit_not_space: "\<not> is_whitespace (digit_char True (unat b div 16))"
    "\<not> is_whitespace (digit_char True (unat b mod 16))" for b :: u8
    using b [of b] by (intro digit_char_not_whitespace; linarith)+
  have ws: "split_whitespace (display_cpath p) = map (\<lambda>b. fmt_02X (unat b)) (path_bytes p)"
    unfolding display_cpath_def using digit_not_space
    by (intro words_aux_join) (auto simp: fmt_02X_byte [OF b] list_all_iff)
  show ?thesis
    unfolding cpath_from_str_def ws
    by (simp add: comp_def parse_fmt_02X [OF b] collect_map_Inr [where g = "\<lambda>b. b", simplified])
qed

lemma ucast_down_le255: "(a :: u16) \<le> 255 \<Longrightarrow> ucast (ucast a :: u8) = a"
  by (rule word_unat_eq_iff [THEN iffD2]) (simp add: unsigned_ucast_eq unsigned_take_bit_eq word_le_nat_alt take_bit_nat_eq_self)

lemma logical_bytes_prefix:
  assumes "seg OR 1 \<noteq> seg"
  shows "logical_bytes seg a @ r = logical_bytes seg b @ r' \<longleftrightarrow> a = b \<and> r = r'"
proof -
  have "ucast a = (ucast b :: u8) \<Longrightarrow> a \<le> 255 \<Longrightarrow> b \<le> 255 \<Longrightarrow> a = b"
    by (metis (no_types) ucast_down_le255)
  moreover have "le16 a @ r = le16 b @ r' \<longleftrightarrow> a = b \<and> r = r'"
    using to_le_inject [of 2 a b] by auto
  ultimately show ?thesis
    using assms by (auto simp: logical_bytes_def)
qed

text \<open>\<open>ConnectionPath::assembly\<close> names, in this order, class 4, the configuration instance and the two
  connection points; ids up to 255 take two bytes and larger ones four, and no two choices of ids give
  the same path.\<close>
theorem assembly_path_layout:
  assumes "bytes_crate B"
  shows "path_bytes (cpath_assembly B c out inp) = [0x20, 0x04] @ logical_bytes 0x24 c
      @ logical_bytes 0x2C out @ logical_bytes 0x2C inp
    \<and> (cpath_assembly B c out inp = cpath_assembly B c' out' inp' \<longleftrightarrow> c = c' \<and> out = out' \<and> inp = inp')"
proof -
  have lay: "path_bytes (cpath_assembly B c out inp) = [0x20, 0x04] @ logical_bytes 0x24 c
      @ logical_bytes 0x2C out @ logical_bytes 0x2C inp" for c out inp
    using assms by (simp add: bytes_crate.cpath_assembly_eq) (simp add: logical_bytes_def)
  have "path_bytes (cpath_assembly B c out inp) = path_bytes (cpath_assembly B c' out' inp')
    \<longleftrightarrow> c = c' \<and> out = out' \<and> inp = inp'"
    unfolding lay
    using logical_bytes_prefix [of "0x2C" inp "[]" inp' "[]"]
    by (simp add: logical_bytes_prefix)
  then show ?thesis using lay by (metis ConnectionPath.expand)
qed

lemma assembly_path_layout_witness:
  "path_bytes (cpath_assembly slice_bytes 151 150 300) = [0x20, 0x04, 0x24, 0x97, 0x2C, 0x96, 0x2D, 0, 0x2C, 0x01]"
  using assembly_path_layout [OF slice.bytes_crate_axioms, of 151 150 300 0 0 0]
  by (simp add: logical_bytes_def to_le_def upt_rec)

end
