(* ===== verification/Forward_Open.thy ===== *)
theory Forward_Open
  imports Conn_Params Conn_Path
begin

text \<open>
  The configuration of an I/O connection (the second half of
  src/src/cip/connection_manager/params.rs), and the Forward Open and Forward Close bodies
  (forward_open.rs, forward_close.rs). A \<open>Duration\<close> is its number of nanoseconds.
\<close>

section \<open>Connection configuration\<close>

type_synonym duration = nat

definition from_micros :: "nat \<Rightarrow> duration" where
  "from_micros n = n * 1000"

record Direction =
  dir_size :: u16
  dir_rpi :: duration
  dir_connection_type :: ConnectionType
  dir_priority :: Priority
  dir_size_type :: SizeType
  dir_run_idle_header :: bool

definition direction_new :: "u16 \<Rightarrow> duration \<Rightarrow> Direction" where
  "direction_new sz rpi = \<lparr>dir_size = sz, dir_rpi = rpi, dir_connection_type = CT_PointToPoint,
     dir_priority = Prio_Scheduled, dir_size_type = Fixed, dir_run_idle_header = False\<rparr>"

definition with_run_idle_header :: "Direction \<Rightarrow> Direction" where
  "with_run_idle_header d = d\<lparr>dir_run_idle_header := True\<rparr>"

abbreviation MAX_CONFIG_DATA :: nat where "MAX_CONFIG_DATA \<equiv> 510"

record ConnectionConfig =
  cc_path :: ConnectionPath
  cc_config_data :: bytes
  cc_o2t :: Direction
  cc_t2o :: Direction
  cc_transport_class :: TransportClass
  cc_trigger :: Trigger
  cc_timeout_multiplier :: u8
  cc_originator_vendor_id :: u16
  cc_originator_serial_number :: u32

definition config_new :: "ConnectionPath \<Rightarrow> Direction \<Rightarrow> Direction \<Rightarrow> ConnectionConfig" where
  "config_new path o2t t2o = \<lparr>cc_path = path, cc_config_data = [], cc_o2t = o2t, cc_t2o = t2o,
     cc_transport_class = Class1, cc_trigger = Cyclic, cc_timeout_multiplier = 0,
     cc_originator_vendor_id = 0, cc_originator_serial_number = 0\<rparr>"

definition wire_size :: "ConnectionConfig \<Rightarrow> Direction \<Rightarrow> nat" where
  "wire_size c dir =
     (let sequence = (if has_sequence_count (cc_transport_class c) then 2 else 0);
          header = (if dir_run_idle_header dir then 4 else 0)
      in sequence + header + unat (dir_size dir))"

definition encoded_path :: "ConnectionConfig \<Rightarrow> bytes" where
  "encoded_path c =
     (let out = path_bytes (cc_path c) in
      if cc_config_data c \<noteq> [] then
        let d = take (min (length (cc_config_data c)) MAX_CONFIG_DATA) (cc_config_data c);
            words = div_ceil (length d) 2;
            out = out @ [0x80];
            out = out @ [of_nat words];
            out = out @ d
        in out @ replicate (words * 2 - length d) 0
      else out)"

section \<open>Forward Open\<close>

record ForwardOpenRequest =
  fo_priority_time_tick :: u8
  fo_timeout_ticks :: u8
  fo_o2t_connection_id :: u32
  fo_t2o_connection_id :: u32
  fo_serial :: u16
  fo_vendor :: u16
  fo_orig_serial :: u32
  fo_multiplier :: u8
  fo_o2t_rpi :: u32
  fo_o2t_params :: NetworkParams
  fo_t2o_rpi :: u32
  fo_t2o_params :: NetworkParams
  fo_transport :: TransportTrigger
  fo_path :: bytes

definition put_params :: "bytes_api \<Rightarrow> NetworkParams \<Rightarrow> bool \<Rightarrow> bytes \<Rightarrow> bytes" where
  "put_params B params large out =
     (if large then put_u32_le B (params_encode params True) out
      else put_u16_le B (ucast (params_encode params False)) out)"

definition forward_open_encode :: "bytes_api \<Rightarrow> ForwardOpenRequest \<Rightarrow> bool \<Rightarrow> bytes" where
  "forward_open_encode B r large =
     (let out = [];
          out = put_u8 B (fo_priority_time_tick r) out;
          out = put_u8 B (fo_timeout_ticks r) out;
          out = put_u32_le B (fo_o2t_connection_id r) out;
          out = put_u32_le B (fo_t2o_connection_id r) out;
          out = put_u16_le B (fo_serial r) out;
          out = put_u16_le B (fo_vendor r) out;
          out = put_u32_le B (fo_orig_serial r) out;
          out = put_u8 B (fo_multiplier r) out;
          out = put_bytes B 0 3 out;
          out = put_u32_le B (fo_o2t_rpi r) out;
          out = put_params B (fo_o2t_params r) large out;
          out = put_u32_le B (fo_t2o_rpi r) out;
          out = put_params B (fo_t2o_params r) large out;
          out = put_u8 B (transport_encode (fo_transport r)) out;
          out = put_u8 B (of_nat (div_ceil (length (fo_path r)) 2)) out;
          out = put_slice B (fo_path r) out
      in out)"

record ForwardOpenResponse =
  fr_o2t_id :: u32
  fr_t2o_id :: u32
  fr_serial :: u16
  fr_vendor :: u16
  fr_orig_serial :: u32
  fr_o2t_api :: u32
  fr_t2o_api :: u32
  fr_application_reply :: bytes

definition forward_open_response_read :: "bytes_api \<Rightarrow> ForwardOpenResponse reader" where
  "forward_open_response_read B =
     try_q (try_get_u32_le B) (\<lambda>o2t_id. try_q (try_get_u32_le B) (\<lambda>t2o_id.
     try_q (try_get_u16_le B) (\<lambda>serial. try_q (try_get_u16_le B) (\<lambda>vendor.
     try_q (try_get_u32_le B) (\<lambda>orig_serial.
     try_q (try_get_u32_le B) (\<lambda>o2t_api. try_q (try_get_u32_le B) (\<lambda>t2o_api.
     try_q (try_get_u8 B) (\<lambda>reply_words. try_q (try_get_u8 B) (\<lambda>_.
     read_q (try_get_vec B (unat reply_words * 2)) (\<lambda>application_reply.
     done_q \<lparr>fr_o2t_id = o2t_id, fr_t2o_id = t2o_id, fr_serial = serial, fr_vendor = vendor,
       fr_orig_serial = orig_serial, fr_o2t_api = o2t_api, fr_t2o_api = t2o_api,
       fr_application_reply = application_reply\<rparr>))))))))))"

definition forward_open_response_decode :: "bytes_api \<Rightarrow> bytes \<Rightarrow> ForwardOpenResponse result" where
  "forward_open_response_decode B buf = run_reader (forward_open_response_read B) buf"

section \<open>Forward Close\<close>

record ForwardCloseRequest =
  fc_serial :: u16
  fc_vendor :: u16
  fc_orig_serial :: u32
  fc_path :: bytes

definition forward_close_encode :: "bytes_api \<Rightarrow> ForwardCloseRequest \<Rightarrow> bytes" where
  "forward_close_encode B r =
     (let out = [];
          out = put_u8 B 0 out;
          out = put_u8 B 0 out;
          out = put_u16_le B (fc_serial r) out;
          out = put_u16_le B (fc_vendor r) out;
          out = put_u32_le B (fc_orig_serial r) out;
          out = put_u8 B (of_nat (div_ceil (length (fc_path r)) 2)) out;
          out = put_u8 B 0 out;
          out = put_slice B (fc_path r) out
      in out)"

section \<open>How a target reads the requests\<close>

text \<open>
  The CIP layout of the two request bodies from the target's side: a size byte counts the words of the
  path that follows. Reserved bytes are skipped.
\<close>

definition read_params :: "bytes_api \<Rightarrow> bool \<Rightarrow> NetworkParams reader" where
  "read_params B large =
     (if large then try_q (try_get_u32_le B) (\<lambda>raw. done_q (params_decode raw True))
      else try_q (try_get_u16_le B) (\<lambda>raw. done_q (params_decode (ucast raw) False)))"

definition target_reads_open :: "bytes_api \<Rightarrow> bool \<Rightarrow> ForwardOpenRequest reader" where
  "target_reads_open B large =
     try_q (try_get_u8 B) (\<lambda>tick. try_q (try_get_u8 B) (\<lambda>ticks.
     try_q (try_get_u32_le B) (\<lambda>o2t_id. try_q (try_get_u32_le B) (\<lambda>t2o_id.
     try_q (try_get_u16_le B) (\<lambda>serial. try_q (try_get_u16_le B) (\<lambda>vendor.
     try_q (try_get_u32_le B) (\<lambda>orig_serial. try_q (try_get_u8 B) (\<lambda>multiplier.
     read_q (try_get_vec B 3) (\<lambda>_.
     try_q (try_get_u32_le B) (\<lambda>o2t_rpi. read_q (read_params B large) (\<lambda>o2t_params.
     try_q (try_get_u32_le B) (\<lambda>t2o_rpi. read_q (read_params B large) (\<lambda>t2o_params.
     try_q (try_get_u8 B) (\<lambda>transport. try_q (try_get_u8 B) (\<lambda>words.
     read_q (try_get_vec B (unat words * 2)) (\<lambda>path.
     done_q \<lparr>fo_priority_time_tick = tick, fo_timeout_ticks = ticks, fo_o2t_connection_id = o2t_id,
       fo_t2o_connection_id = t2o_id, fo_serial = serial, fo_vendor = vendor, fo_orig_serial = orig_serial,
       fo_multiplier = multiplier, fo_o2t_rpi = o2t_rpi, fo_o2t_params = o2t_params, fo_t2o_rpi = t2o_rpi,
       fo_t2o_params = t2o_params, fo_transport = transport_decode transport, fo_path = path\<rparr>))))))))))))))))"

definition target_reads_close :: "bytes_api \<Rightarrow> ForwardCloseRequest reader" where
  "target_reads_close B =
     try_q (try_get_u8 B) (\<lambda>_. try_q (try_get_u8 B) (\<lambda>_.
     try_q (try_get_u16_le B) (\<lambda>serial. try_q (try_get_u16_le B) (\<lambda>vendor.
     try_q (try_get_u32_le B) (\<lambda>orig_serial. try_q (try_get_u8 B) (\<lambda>words. try_q (try_get_u8 B) (\<lambda>_.
     read_q (try_get_vec B (unat words * 2)) (\<lambda>path.
     done_q \<lparr>fc_serial = serial, fc_vendor = vendor, fc_orig_serial = orig_serial, fc_path = path\<rparr>))))))))"

text \<open>Paths the size byte can describe, and requests whose sizes fit the chosen form.\<close>

definition path_fits :: "bytes \<Rightarrow> bool" where
  "path_fits path \<longleftrightarrow> even (length path) \<and> length path \<le> 510"

definition request_fits :: "bool \<Rightarrow> ForwardOpenRequest \<Rightarrow> bool" where
  "request_fits large r \<longleftrightarrow> path_fits (fo_path r)
     \<and> (large \<or> (np_size (fo_o2t_params r) \<le> MAX_SMALL_SIZE \<and> np_size (fo_t2o_params r) \<le> MAX_SMALL_SIZE))"

lemma path_fits_words: "path_fits path \<Longrightarrow> unat (of_nat (div_ceil (length path) 2) :: u8) * 2 = length path"
  by (auto simp: path_fits_def div_ceil_even unat_of_nat_small)

lemma ucast_small_params: "ucast (ucast (params_encode p False) :: u16) = params_encode p False"
proof -
  have "\<not> bit (params_encode p False) k" if "16 \<le> k" for k
    using that params_flags_high [of k p] bit_imp_le_length [of "np_size p" k]
    by (auto simp: params_encode_small bit_simps)
  then show ?thesis by (intro bit_word_eqI) (auto simp: bit_simps simp flip: not_le)
qed

lemma params_small_roundtrip:
  assumes "np_size p \<le> MAX_SMALL_SIZE"
  shows "params_decode (params_encode p False) False = p"
proof -
  have "take_bit 9 (np_size p) = np_size p"
    using assms by (intro word_unat_eq_iff [THEN iffD2])
      (simp add: unsigned_take_bit_eq word_le_nat_alt take_bit_nat_eq_self)
  then show ?thesis by (simp add: params_decode_encode_small)
qed

context bytes_crate
begin

lemma read_params_put:
  "large \<or> np_size p \<le> MAX_SMALL_SIZE \<Longrightarrow> \<exists>e. (\<forall>out. put_params B p large out = out @ e)
     \<and> length e = (if large then 4 else 2) \<and> (\<forall>r. read_params B large (e @ r) = Inr (p, r))"
  by (cases large)
    (auto simp: read_params_def put_params_def try_q_def params_decode_encode_large ucast_small_params
      params_small_roundtrip)

lemma target_reads_open_encode:
  assumes "request_fits large r"
  shows "target_reads_open B large (forward_open_encode B r large @ rest) = Inr (r, rest)"
proof -
  obtain e1 where e1: "\<And>out. put_params B (fo_o2t_params r) large out = out @ e1"
    "\<And>s. read_params B large (e1 @ s) = Inr (fo_o2t_params r, s)"
    using assms read_params_put unfolding request_fits_def by meson
  obtain e2 where e2: "\<And>out. put_params B (fo_t2o_params r) large out = out @ e2"
    "\<And>s. read_params B large (e2 @ s) = Inr (fo_t2o_params r, s)"
    using assms read_params_put unfolding request_fits_def by meson
  have p: "unat (of_nat (div_ceil (length (fo_path r)) 2) :: u8) * 2 = length (fo_path r)"
    using assms by (auto simp: request_fits_def path_fits_words)
  have three: "try_get_vec B 3 ([0, 0, 0] @ s) = Inr ([0, 0, 0], s)" for s
    by (rule try_get_vec_append) simp
  have "target_reads_open B large (forward_open_encode B r large @ rest) =
      Inr (\<lparr>fo_priority_time_tick = fo_priority_time_tick r, fo_timeout_ticks = fo_timeout_ticks r,
        fo_o2t_connection_id = fo_o2t_connection_id r, fo_t2o_connection_id = fo_t2o_connection_id r,
        fo_serial = fo_serial r, fo_vendor = fo_vendor r, fo_orig_serial = fo_orig_serial r,
        fo_multiplier = fo_multiplier r, fo_o2t_rpi = fo_o2t_rpi r, fo_o2t_params = fo_o2t_params r,
        fo_t2o_rpi = fo_t2o_rpi r, fo_t2o_params = fo_t2o_params r, fo_transport = fo_transport r,
        fo_path = fo_path r\<rparr>, rest)"
    using three
    by (simp add: target_reads_open_def forward_open_encode_def Let_def try_q_def read_q_def
        e1 e2 p numeral_3_eq_3 transport_decode_encode)
  then show ?thesis by (cases r) simp
qed

end

text \<open>A Forward Open reply as a target sends it.\<close>

definition response_wire :: "ForwardOpenResponse \<Rightarrow> u8 \<Rightarrow> bytes" where
  "response_wire r reserved =
     le32 (fr_o2t_id r) @ le32 (fr_t2o_id r) @ le16 (fr_serial r) @ le16 (fr_vendor r) @
     le32 (fr_orig_serial r) @ le32 (fr_o2t_api r) @ le32 (fr_t2o_api r) @
     [of_nat (length (fr_application_reply r) div 2), reserved] @ fr_application_reply r"

context bytes_crate
begin

lemma forward_open_response_read_wire:
  assumes "path_fits (fr_application_reply r)"
  shows "forward_open_response_read B (response_wire r rsv @ rest) = Inr (r, rest)"
proof -
  have "unat (of_nat (length (fr_application_reply r) div 2) :: u8) * 2 = length (fr_application_reply r)"
    using path_fits_words [OF assms] assms by (simp add: path_fits_def div_ceil_even)
  then have "forward_open_response_read B (response_wire r rsv @ rest) =
    Inr (\<lparr>fr_o2t_id = fr_o2t_id r, fr_t2o_id = fr_t2o_id r, fr_serial = fr_serial r, fr_vendor = fr_vendor r,
       fr_orig_serial = fr_orig_serial r, fr_o2t_api = fr_o2t_api r, fr_t2o_api = fr_t2o_api r,
       fr_application_reply = fr_application_reply r\<rparr>, rest)"
    by (simp add: forward_open_response_read_def response_wire_def try_q_def read_q_def)
  then show ?thesis by (cases r) simp
qed

lemma forward_open_response_no_panic: "forward_open_response_decode B buf \<noteq> Inl Panicked"
  by (auto simp: forward_open_response_decode_def run_reader_def forward_open_response_read_def try_q_def
      read_q_def try_get_vec_def try_get_u8 try_get_u16_le try_get_u32_le try_copy_to_slice try_take_def
      from_try_get_error_def)

lemma target_reads_close_encode:
  assumes "path_fits (fc_path r)"
  shows "target_reads_close B (forward_close_encode B r @ rest) = Inr (r, rest)"
proof -
  have "target_reads_close B (forward_close_encode B r @ rest) =
    Inr (\<lparr>fc_serial = fc_serial r, fc_vendor = fc_vendor r, fc_orig_serial = fc_orig_serial r,
      fc_path = fc_path r\<rparr>, rest)"
    using path_fits_words [OF assms]
    by (simp add: target_reads_close_def forward_close_encode_def Let_def try_q_def read_q_def)
  then show ?thesis by (cases r) simp
qed

end

sublocale bytes_crate \<subseteq> open_small:
  wire_format "\<lambda>r. forward_open_encode B r False" "target_reads_open B False" "request_fits False"
  by unfold_locales (rule target_reads_open_encode)

sublocale bytes_crate \<subseteq> open_large:
  wire_format "\<lambda>r. forward_open_encode B r True" "target_reads_open B True" "request_fits True"
  by unfold_locales (rule target_reads_open_encode)

sublocale bytes_crate \<subseteq> open_reply:
  wire_format "\<lambda>r. response_wire r 0" "forward_open_response_read B" "\<lambda>r. path_fits (fr_application_reply r)"
  by unfold_locales (rule forward_open_response_read_wire)

sublocale bytes_crate \<subseteq> close_request:
  wire_format "forward_close_encode B" "target_reads_close B" "\<lambda>r. path_fits (fc_path r)"
  by unfold_locales (rule target_reads_close_encode)

section \<open>Properties\<close>

text \<open>C25: A Forward Open or Large Forward Open body is read by the target as exactly the request: every
  identifier, interval, both directions' network parameters, the transport and the path, provided the
  path is an even number of bytes up to 255 words and, in the small form, both sizes are at most 511.
  In particular two different such requests never have the same body.\<close>
theorem forward_open_roundtrip:
  assumes "bytes_crate B" "request_fits large r"
  shows "target_reads_open B large (forward_open_encode B r large @ rest) = Ok (r, rest)
    \<and> (request_fits large r' \<longrightarrow> forward_open_encode B r' large = forward_open_encode B r large \<longrightarrow> r' = r)"
  using bytes_crate.target_reads_open_encode [OF assms] assms(2)
    bytes_crate.target_reads_open_encode [OF assms, of "[]"]
    bytes_crate.target_reads_open_encode [OF assms(1), of large r' "[]"]
  by auto

definition sample_request :: ForwardOpenRequest where
  "sample_request = \<lparr>fo_priority_time_tick = 0x0A, fo_timeout_ticks = 0x0E, fo_o2t_connection_id = 0,
     fo_t2o_connection_id = 0x12340001, fo_serial = 1, fo_vendor = 342, fo_orig_serial = 0x12345,
     fo_multiplier = 1, fo_o2t_rpi = 10000, fo_o2t_params = params_decode 0x4822 False, fo_t2o_rpi = 10000,
     fo_t2o_params = params_decode 0x4822 False, fo_transport = transport_decode 1,
     fo_path = [0x20, 0x04, 0x24, 0x01]\<rparr>"

lemma sample_request_fits: "request_fits large sample_request"
  by (simp add: request_fits_def sample_request_def path_fits_def params_decode_def Let_def)

lemma forward_open_roundtrip_witness:
  "target_reads_open slice_bytes False (forward_open_encode slice_bytes sample_request False) =
     Ok (sample_request, [])"
  using forward_open_roundtrip [OF slice.bytes_crate_axioms sample_request_fits, of False "[]"] by simp

text \<open>A Forward Open reply from a target decodes to exactly its fields whatever the reserved byte and
  whatever follows it, and no bytes a target may send make the decoder panic.\<close>
theorem forward_open_response_roundtrip:
  assumes "bytes_crate B"
  shows "(path_fits (fr_application_reply r) \<longrightarrow> forward_open_response_decode B (response_wire r rsv @ rest) = Ok r)
    \<and> forward_open_response_decode B buf \<noteq> Err Panicked"
  using bytes_crate.forward_open_response_read_wire [OF assms]
    bytes_crate.forward_open_response_no_panic [OF assms]
  by (simp add: forward_open_response_decode_def run_reader_def)

lemma forward_open_response_roundtrip_witness:
  "forward_open_response_decode slice_bytes (response_wire \<lparr>fr_o2t_id = 0xAABBCCDD, fr_t2o_id = 1, fr_serial = 1,
     fr_vendor = 342, fr_orig_serial = 5, fr_o2t_api = 10000, fr_t2o_api = 20000, fr_application_reply = [9, 8]\<rparr> 0
     @ [7]) = Ok \<lparr>fr_o2t_id = 0xAABBCCDD, fr_t2o_id = 1, fr_serial = 1,
     fr_vendor = 342, fr_orig_serial = 5, fr_o2t_api = 10000, fr_t2o_api = 20000, fr_application_reply = [9, 8]\<rparr>"
  using forward_open_response_roundtrip [OF slice.bytes_crate_axioms] by (simp add: path_fits_def)

text \<open>A Forward Close body is read by the target as exactly the connection's serial number, vendor id,
  originator serial number and path.\<close>
theorem forward_close_roundtrip:
  assumes "bytes_crate B" "path_fits (fc_path r)"
  shows "target_reads_close B (forward_close_encode B r @ rest) = Ok (r, rest)"
  using assms by (rule bytes_crate.target_reads_close_encode)

lemma forward_close_roundtrip_witness:
  "target_reads_close slice_bytes (forward_close_encode slice_bytes
     \<lparr>fc_serial = 7, fc_vendor = 342, fc_orig_serial = 9, fc_path = [0x20, 0x04, 0x24, 0x01]\<rparr>) =
   Ok (\<lparr>fc_serial = 7, fc_vendor = 342, fc_orig_serial = 9, fc_path = [0x20, 0x04, 0x24, 0x01]\<rparr>, [])"
  using forward_close_roundtrip [OF slice.bytes_crate_axioms, of _ "[]"] by (simp add: path_fits_def)

lemma encoded_path_data:
  assumes "cc_config_data c \<noteq> []" "length (cc_config_data c) \<le> MAX_CONFIG_DATA"
  shows "encoded_path c = path_bytes (cc_path c) @ [0x80, of_nat (div_ceil (length (cc_config_data c)) 2)]
    @ cc_config_data c @ (if odd (length (cc_config_data c)) then [0] else [])"
proof -
  have "div_ceil n 2 * 2 - n = (if odd n then 1 else 0)" for n
    by (simp add: div_ceil_2) presburger
  then show ?thesis
    using assms by (simp add: encoded_path_def Let_def)
qed

text \<open>C26: Configuration data travels as a simple data segment behind the path: the segment's length byte
  counts its words for every accepted length (up to 510 bytes), the data is unchanged, and the whole path
  keeps an even length. But the path-size byte of the request counts one word for the segment's own
  header too, so for 509 or 510 bytes of data it wraps and equals the size byte of the request without
  any data: the target is told that the path ends before the data segment.\<close>
theorem config_data_segment:
  assumes "cc_config_data c \<noteq> []" "length (cc_config_data c) \<le> MAX_CONFIG_DATA" "even (length (path_bytes (cc_path c)))"
  defines "n \<equiv> length (cc_config_data c)"
  defines "plain \<equiv> c\<lparr>cc_config_data := []\<rparr>"
  shows "encoded_path c = encoded_path plain @ [0x80, of_nat (div_ceil n 2)] @ cc_config_data c
      @ (if odd n then [0] else [])
    \<and> unat (of_nat (div_ceil n 2) :: u8) = div_ceil n 2
    \<and> even (length (encoded_path c))
    \<and> (n \<ge> 509 \<longrightarrow> (of_nat (div_ceil (length (encoded_path c)) 2) :: u8)
        = of_nat (div_ceil (length (encoded_path plain)) 2))"
proof -
  have e: "encoded_path c = encoded_path plain @ [0x80, of_nat (div_ceil n 2)] @ cc_config_data c
      @ (if odd n then [0] else [])"
    using encoded_path_data [OF assms(1,2)] by (simp add: encoded_path_def n_def plain_def)
  have plain: "even (length (encoded_path plain))"
    using assms(3) by (simp add: encoded_path_def plain_def)
  have even: "even (length (encoded_path c))"
    using plain unfolding e n_def by simp
  have "div_ceil n 2 < 256" using assms(2) by (simp add: div_ceil_2 n_def)
  then have w: "unat (of_nat (div_ceil n 2) :: u8) = div_ceil n 2" by (simp add: unat_of_nat_small)
  have "(of_nat (div_ceil (length (encoded_path c)) 2) :: u8) = of_nat (div_ceil (length (encoded_path plain)) 2)"
    if "n \<ge> 509"
  proof -
    have "n = 509 \<or> n = 510" using that assms(2) n_def by linarith
    then have "length (encoded_path c) = length (encoded_path plain) + 512"
      unfolding e n_def by auto
    then have "div_ceil (length (encoded_path c)) 2 = div_ceil (length (encoded_path plain)) 2 + 256"
      by (simp add: div_ceil_2)
    then have "(of_nat (div_ceil (length (encoded_path c)) 2) :: u8)
        = of_nat (div_ceil (length (encoded_path plain)) 2) + of_nat 256"
      by (metis of_nat_add)
    then show ?thesis by simp
  qed
  with e w even show ?thesis by blast
qed

definition sample_config :: "nat \<Rightarrow> ConnectionConfig" where
  "sample_config n = (config_new (ConnectionPath [0x20, 0x04, 0x24, 0x97, 0x2C, 0x96, 0x2C, 0x64])
     (direction_new 32 10000000) (direction_new 32 10000000))\<lparr>cc_config_data := replicate n 7\<rparr>"

lemma config_data_segment_witness:
  "(of_nat (div_ceil (length (encoded_path (sample_config 510))) 2) :: u8) = 4"
  using config_data_segment [of "sample_config 510"]
  by (simp add: sample_config_def config_new_def encoded_path_def div_ceil_def Let_def)

end
