(* ===== verification/Io_Connection.thy ===== *)
theory Io_Connection
  imports Encapsulation
begin

text \<open>
  The state of one I/O connection on the IO thread (src/src/io/connection.rs): the send schedule, the
  sequence numbers and the receive timeout. An \<open>Instant\<close> is a number of nanoseconds since some start, a
  \<open>Duration\<close> a number of nanoseconds; overflow of their 64-bit seconds is not modelled. Logging is left out,
  the flags that limit it are kept.
\<close>

section \<open>State\<close>

type_synonym instant = nat

record InputData =
  in_sequence_number :: u32
  in_sequence_count :: u16
  in_run_idle_header :: u32
  in_data :: bytes

record ConnectionKey =
  key_peer_ip :: Ipv4Addr
  key_t2o_id :: u32

record IoConnectionConfig =
  io_o2t_id :: u32
  io_t2o_id :: u32
  io_serial_number :: u16
  io_o2t_api :: nat
  io_timeout :: nat
  io_o2t_size :: nat
  io_t2o_size :: nat
  io_o2t_fixed :: bool
  io_t2o_fixed :: bool
  io_has_sequence_count :: bool
  io_o2t_real_time_format :: bool
  io_t2o_real_time_format :: bool
  io_destination :: SocketAddrV4
  io_peer_ip :: Ipv4Addr

definition io_key :: "IoConnectionConfig \<Rightarrow> ConnectionKey" where
  "io_key cfg = \<lparr>key_peer_ip = io_peer_ip cfg, key_t2o_id = io_t2o_id cfg\<rparr>"

record IoConnection =
  ic_cfg :: IoConnectionConfig
  ic_output :: bytes
  ic_run :: bool
  ic_o2t_sequence_number :: u32
  ic_sequence_count :: u16
  ic_next_send :: instant
  ic_last_receive :: instant
  ic_o2t_size_warned :: bool
  ic_t2o_size_warned :: bool

section \<open>Operations\<close>

definition conn_new :: "IoConnectionConfig \<Rightarrow> instant \<Rightarrow> IoConnection" where
  "conn_new cfg now = \<lparr>ic_cfg = cfg, ic_output = replicate (io_o2t_size cfg) 0, ic_run = True,
     ic_o2t_sequence_number = 0, ic_sequence_count = 0, ic_next_send = now, ic_last_receive = now,
     ic_o2t_size_warned = False, ic_t2o_size_warned = False\<rparr>"

definition conn_config :: "IoConnection \<Rightarrow> IoConnectionConfig" where
  "conn_config c = ic_cfg c"

text \<open>\<open>output_mut\<close> lends the output to a function that changes it in place.\<close>

definition output_mut :: "(bytes \<Rightarrow> bytes) \<Rightarrow> IoConnection \<Rightarrow> IoConnection" where
  "output_mut f c = c\<lparr>ic_output := f (ic_output c)\<rparr>"

definition set_output :: "bytes \<Rightarrow> IoConnection \<Rightarrow> IoConnection" where
  "set_output d c = c\<lparr>ic_output := d\<rparr>"

definition set_run :: "bool \<Rightarrow> IoConnection \<Rightarrow> IoConnection" where
  "set_run run c = c\<lparr>ic_run := run\<rparr>"

definition timeout_at :: "IoConnection \<Rightarrow> instant" where
  "timeout_at c = ic_last_receive c + io_timeout (ic_cfg c)"

definition is_timed_out :: "IoConnection \<Rightarrow> instant \<Rightarrow> bool" where
  "is_timed_out c now \<longleftrightarrow> now \<ge> timeout_at c"

definition is_send_due :: "IoConnection \<Rightarrow> instant \<Rightarrow> bool" where
  "is_send_due c now \<longleftrightarrow> now \<ge> ic_next_send c"

definition next_deadline :: "IoConnection \<Rightarrow> instant" where
  "next_deadline c = min (ic_next_send c) (timeout_at c)"

text \<open>The schedule at the start of \<open>build_packet\<close>; \<open>missed as u32\<close> keeps the low 32 bits.\<close>

definition advance_schedule :: "nat \<Rightarrow> instant \<Rightarrow> instant \<Rightarrow> instant" where
  "advance_schedule api now next_send =
     (let next_send = next_send + api in
      if next_send \<le> now then
        let missed = (now - next_send) div max api 1 + 1
        in next_send + api * unat (of_nat missed :: u32)
      else next_send)"

text \<open>\<open>build_packet\<close>: the packet to send, \<open>None\<close> where it returns false.\<close>

definition build_packet :: "bytes_api \<Rightarrow> instant \<Rightarrow> IoConnection \<Rightarrow> bytes option \<times> IoConnection" where
  "build_packet B now c =
     (let cfg = ic_cfg c;
          c = c\<lparr>ic_next_send := advance_schedule (io_o2t_api cfg) now (ic_next_send c)\<rparr>
      in if io_o2t_fixed cfg \<and> length (ic_output c) \<noteq> io_o2t_size cfg then
           (None, c\<lparr>ic_o2t_size_warned := True\<rparr>)
         else
           let c = c\<lparr>ic_o2t_size_warned := False\<rparr>;
               c = c\<lparr>ic_o2t_sequence_number := ic_o2t_sequence_number c + 1\<rparr>;
               c = (if io_has_sequence_count cfg then c\<lparr>ic_sequence_count := ic_sequence_count c + 1\<rparr> else c);
               part0 = (if io_has_sequence_count cfg then le16 (ic_sequence_count c) else []);
               part1 = (if io_o2t_real_time_format cfg then le32 (of_bool (ic_run c)) else [])
           in (Some (encode_connected_packet B (io_o2t_id cfg) (ic_o2t_sequence_number c)
                 [part0, part1, ic_output c]), c))"

text \<open>
  \<open>on_receive\<close>: the input to pass on, \<open>None\<close> for packets that are ignored. \<open>receive_header\<close> reads the
  sequence count and the run/idle header, 0 where the connection has none.
\<close>

definition receive_header :: "bytes_api \<Rightarrow> IoConnectionConfig \<Rightarrow> (u16 \<times> u32) reader" where
  "receive_header B cfg =
     read_q (if io_has_sequence_count cfg then try_q (try_get_u16_le B) done_q else done_q 0) (\<lambda>sequence_count.
     read_q (if io_t2o_real_time_format cfg then try_q (try_get_u32_le B) done_q else done_q 0) (\<lambda>run_idle_header.
     done_q (sequence_count, run_idle_header)))"

definition on_receive :: "bytes_api \<Rightarrow> ConnectedPacket \<Rightarrow> instant \<Rightarrow> IoConnection \<Rightarrow> InputData option \<times> IoConnection" where
  "on_receive B packet now c =
     (case receive_header B (ic_cfg c) (cp_data packet) of
        Inl _ \<Rightarrow> (None, c)
      | Inr ((sequence_count, run_idle_header), buf) \<Rightarrow>
          if io_t2o_fixed (ic_cfg c) \<and> length buf \<noteq> io_t2o_size (ic_cfg c) then
            (None, c\<lparr>ic_t2o_size_warned := True\<rparr>)
          else
            (Some \<lparr>in_sequence_number = sequence_number packet, in_sequence_count = sequence_count,
               in_run_idle_header = run_idle_header, in_data = buf\<rparr>,
             c\<lparr>ic_t2o_size_warned := False, ic_last_receive := now\<rparr>))"

section \<open>The schedule\<close>

lemma advance_schedule_phase: "\<exists>k. advance_schedule api now next_send = next_send + api * Suc k"
proof (cases "next_send + api \<le> now")
  case True
  then show ?thesis by (auto simp: advance_schedule_def Let_def intro: exI [of _ "unat (_ :: u32)"])
next
  case False
  then show ?thesis by (auto simp: advance_schedule_def Let_def intro: exI [of _ 0])
qed

lemma advance_schedule_after:
  assumes "0 < api" "(now - (next_send + api)) div api + 1 < 2 ^ 32"
  shows "now < advance_schedule api now next_send"
    and "advance_schedule api now next_send \<le> max (next_send + api) (now + api)"
proof -
  let ?n = "next_send + api" and ?q = "(now - (next_send + api)) div api"
  have m: "unat (of_nat (?q + 1) :: u32) = ?q + 1"
    using assms(2) by (intro unat_of_nat_small) simp
  have below: "api * ?q \<le> now - ?n"
    by (metis mult.commute div_times_less_eq_dividend)
  have above: "now - ?n < api * (?q + 1)"
    using assms(1) by (simp add: dividend_less_div_times mult.commute [of api])
  have r: "advance_schedule api now next_send = (if ?n \<le> now then ?n + api * (?q + 1) else ?n)"
  proof -
    have "max api 1 = api" using assms(1) by simp
    with m show ?thesis by (simp only: advance_schedule_def Let_def)
  qed
  show "now < advance_schedule api now next_send"
    using above unfolding r by auto
  show "advance_schedule api now next_send \<le> max ?n (now + api)"
  proof (cases "?n \<le> now")
    case True
    then have "?n + api * ?q \<le> now" using below by linarith
    then show ?thesis using True unfolding r by (simp add: distrib_left)
  qed (simp add: r)
qed

lemma build_packet_schedule:
  "build_packet B now c = (r, c') \<Longrightarrow> ic_next_send c' = advance_schedule (io_o2t_api (ic_cfg c)) now (ic_next_send c)"
  by (auto simp: build_packet_def Let_def split: if_splits)

lemma build_packet_keeps:
  "build_packet B now c = (r, c') \<Longrightarrow>
   ic_cfg c' = ic_cfg c \<and> ic_output c' = ic_output c \<and> ic_run c' = ic_run c \<and> ic_last_receive c' = ic_last_receive c"
  by (auto simp: build_packet_def Let_def split: if_splits)

lemma build_packet_none_iff:
  "fst (build_packet B now c) = None \<longleftrightarrow>
     io_o2t_fixed (ic_cfg c) \<and> length (ic_output c) \<noteq> io_o2t_size (ic_cfg c)"
  by (simp add: build_packet_def Let_def)

lemma build_packet_none:
  "build_packet B now c = (None, c') \<Longrightarrow>
   ic_o2t_sequence_number c' = ic_o2t_sequence_number c \<and> ic_sequence_count c' = ic_sequence_count c"
  by (auto simp: build_packet_def Let_def split: if_splits)

text \<open>What a packet holds in front of the output, and the state after sending it.\<close>

definition send_header :: "IoConnection \<Rightarrow> bytes" where
  "send_header c = (if io_has_sequence_count (ic_cfg c) then le16 (ic_sequence_count c + 1) else []) @
     (if io_o2t_real_time_format (ic_cfg c) then le32 (of_bool (ic_run c)) else [])"

lemma length_send_header: "length (send_header c) \<le> 6"
  by (simp add: send_header_def)

definition send_parts :: "IoConnection \<Rightarrow> bytes list" where
  "send_parts c = [if io_has_sequence_count (ic_cfg c) then le16 (ic_sequence_count c + 1) else [],
     if io_o2t_real_time_format (ic_cfg c) then le32 (of_bool (ic_run c)) else [], ic_output c]"

lemma concat_send_parts: "concat (send_parts c) = send_header c @ ic_output c"
  by (simp add: send_parts_def send_header_def)

lemma build_packet_some:
  assumes "build_packet B now c = (Some pkt, c')"
  shows "pkt = encode_connected_packet B (io_o2t_id (ic_cfg c)) (ic_o2t_sequence_number c + 1) (send_parts c)"
    and "ic_o2t_sequence_number c' = ic_o2t_sequence_number c + 1"
    and "ic_sequence_count c' = ic_sequence_count c + (if io_has_sequence_count (ic_cfg c) then 1 else 0)"
  using assms by (auto simp: build_packet_def send_parts_def Let_def split: if_splits)

section \<open>Reception\<close>

text \<open>Prefix and payload a connection expects in the data item.\<close>

definition receive_prefix :: "IoConnectionConfig \<Rightarrow> nat" where
  "receive_prefix cfg = (if io_has_sequence_count cfg then 2 else 0) + (if io_t2o_real_time_format cfg then 4 else 0)"

definition acceptable :: "IoConnectionConfig \<Rightarrow> bytes \<Rightarrow> bool" where
  "acceptable cfg d \<longleftrightarrow> receive_prefix cfg \<le> length d
     \<and> (io_t2o_fixed cfg \<longrightarrow> length d = receive_prefix cfg + io_t2o_size cfg)"

context bytes_crate
begin

lemma receive_header_short: "length d < receive_prefix cfg \<Longrightarrow> \<exists>e. receive_header B cfg d = Inl e"
  by (cases "io_has_sequence_count cfg"; cases "io_t2o_real_time_format cfg")
    (auto simp: receive_header_def receive_prefix_def read_q_def try_q_def try_get_u16_le try_get_u32_le try_take_def)

lemma receive_header_long:
  "receive_prefix cfg \<le> length d \<Longrightarrow> \<exists>h. receive_header B cfg d = Inr (h, drop (receive_prefix cfg) d)"
  by (cases "io_has_sequence_count cfg"; cases "io_t2o_real_time_format cfg")
    (auto simp: receive_header_def receive_prefix_def read_q_def try_q_def try_get_u16_le try_get_u32_le try_take_def
      add.commute numeral_2_eq_2)

lemma on_receive_some_iff: "(\<exists>i. fst (on_receive B p now c) = Some i) \<longleftrightarrow> acceptable (ic_cfg c) (cp_data p)"
proof (cases "length (cp_data p) < receive_prefix (ic_cfg c)")
  case True
  from receive_header_short [OF this] True show ?thesis
    by (auto simp: on_receive_def acceptable_def)
next
  case False
  then have "receive_prefix (ic_cfg c) \<le> length (cp_data p)" by simp
  from receive_header_long [OF this] this show ?thesis
    by (auto simp: on_receive_def acceptable_def split: if_splits)
qed

lemma on_receive_none:
  "on_receive B p now c = (None, c') \<Longrightarrow> \<exists>w. c' = c\<lparr>ic_t2o_size_warned := w\<rparr>"
proof -
  assume r: "on_receive B p now c = (None, c')"
  have same: "\<exists>w. c = c\<lparr>ic_t2o_size_warned := w\<rparr>"
    by (rule exI [of _ "ic_t2o_size_warned c"]) simp
  from r have "c' = c \<or> c' = c\<lparr>ic_t2o_size_warned := True\<rparr>"
    by (auto simp: on_receive_def split: sum.splits if_splits)
  with same show ?thesis by blast
qed

lemma on_receive_some:
  assumes "on_receive B p now c = (Some i, c')"
  shows "c' = c\<lparr>ic_t2o_size_warned := False, ic_last_receive := now\<rparr>"
    and "in_sequence_number i = sequence_number p"
    and "in_data i = drop (receive_prefix (ic_cfg c)) (cp_data p)"
proof -
  have "acceptable (ic_cfg c) (cp_data p)"
    using on_receive_some_iff [of p now c] assms by auto
  then obtain h where "receive_header B (ic_cfg c) (cp_data p) = Inr (h, drop (receive_prefix (ic_cfg c)) (cp_data p))"
    using receive_header_long unfolding acceptable_def by blast
  with assms show "c' = c\<lparr>ic_t2o_size_warned := False, ic_last_receive := now\<rparr>"
    "in_sequence_number i = sequence_number p" "in_data i = drop (receive_prefix (ic_cfg c)) (cp_data p)"
    by (auto simp: on_receive_def split: if_splits prod.splits)
qed

lemma on_receive_header:
  assumes "cp_data p = (if io_has_sequence_count (ic_cfg c) then le16 count else []) @
      (if io_t2o_real_time_format (ic_cfg c) then le32 header else []) @ d"
    and "io_t2o_fixed (ic_cfg c) \<longrightarrow> length d = io_t2o_size (ic_cfg c)"
  shows "on_receive B p now c =
    (Some \<lparr>in_sequence_number = sequence_number p,
        in_sequence_count = (if io_has_sequence_count (ic_cfg c) then count else 0),
        in_run_idle_header = (if io_t2o_real_time_format (ic_cfg c) then header else 0), in_data = d\<rparr>,
     c\<lparr>ic_t2o_size_warned := False, ic_last_receive := now\<rparr>)"
  using assms(2) unfolding on_receive_def receive_header_def assms(1)
  by (auto simp add: read_q_def try_q_def)

end

section \<open>A connection over a sequence of operations\<close>

text \<open>
  What the IO thread does with one connection, in any order: sending when due, passing on a received
  packet, new output data (from a handle or an \<open>on_send\<close> callback), a new run/idle state.
\<close>

datatype conn_event = Send instant | Receive ConnectedPacket instant | Output bytes | RunMode bool

fun conn_step :: "bytes_api \<Rightarrow> conn_event \<Rightarrow> IoConnection \<Rightarrow> bytes list \<times> IoConnection" where
  "conn_step B (Send now) c =
     (if is_send_due c now then
        (case build_packet B now c of (Some p, c') \<Rightarrow> ([p], c') | (None, c') \<Rightarrow> ([], c'))
      else ([], c))"
| "conn_step B (Receive p now) c = ([], snd (on_receive B p now c))"
| "conn_step B (Output d) c = ([], set_output d c)"
| "conn_step B (RunMode r) c = ([], set_run r c)"

fun conn_run :: "bytes_api \<Rightarrow> conn_event list \<Rightarrow> IoConnection \<Rightarrow> bytes list \<times> IoConnection" where
  "conn_run B [] c = ([], c)"
| "conn_run B (e # es) c =
     (let (p, c) = conn_step B e c; (ps, c) = conn_run B es c in (p @ ps, c))"

text \<open>Packets numbered from \<open>n + 1\<close> on, with the connection id and, where used, counts from \<open>k + 1\<close> on.\<close>

definition numbered :: "bytes_api \<Rightarrow> IoConnectionConfig \<Rightarrow> u32 \<Rightarrow> u16 \<Rightarrow> bytes list \<Rightarrow> bool" where
  "numbered B cfg n k ps \<longleftrightarrow> (\<forall>j < length ps. \<exists>payload.
     decode_connected_packet B (ps ! j) = Ok \<lparr>connection_id = io_o2t_id cfg,
       sequence_number = n + of_nat (Suc j),
       cp_data = (if io_has_sequence_count cfg then le16 (k + of_nat (Suc j)) else []) @ payload\<rparr>)"

lemma numbered_Nil [simp]: "numbered B cfg n k []"
  by (simp add: numbered_def)

lemma numbered_Cons:
  assumes "decode_connected_packet B p = Ok \<lparr>connection_id = io_o2t_id cfg, sequence_number = n + 1,
      cp_data = (if io_has_sequence_count cfg then le16 (k + 1) else []) @ payload\<rparr>"
    and "numbered B cfg (n + 1) (k + (if io_has_sequence_count cfg then 1 else 0)) ps"
  shows "numbered B cfg n k (p # ps)"
  unfolding numbered_def
proof (intro allI impI)
  fix j assume "j < length (p # ps)"
  then show "\<exists>payload. decode_connected_packet B ((p # ps) ! j) = Ok \<lparr>connection_id = io_o2t_id cfg,
       sequence_number = n + of_nat (Suc j),
       cp_data = (if io_has_sequence_count cfg then le16 (k + of_nat (Suc j)) else []) @ payload\<rparr>"
    using assms by (cases j) (auto simp: numbered_def algebra_simps)
qed

definition short_outputs :: "conn_event list \<Rightarrow> bool" where
  "short_outputs es \<longleftrightarrow> (\<forall>e \<in> set es. case e of Output d \<Rightarrow> length d < 65530 | _ \<Rightarrow> True)"

context bytes_crate
begin

lemma sent_packet_decodes:
  assumes "build_packet B now c = (Some p, c')" "length (ic_output c) < 65530"
  shows "decode_connected_packet B p = Inr \<lparr>connection_id = io_o2t_id (ic_cfg c),
     sequence_number = ic_o2t_sequence_number c + 1, cp_data = send_header c @ ic_output c\<rparr>"
proof -
  have "length (concat (send_parts c)) < 65536"
    using assms(2) length_send_header [of c] unfolding concat_send_parts by simp
  from decode_connected_packet_encode [OF this, of _ _ "[]"] show ?thesis
    by (simp add: build_packet_some(1) [OF assms(1)] concat_send_parts)
qed

lemma conn_step_keeps:
  assumes "conn_step B e c = (ps, c')" "short_outputs [e]" "length (ic_output c) < 65530"
  shows "ic_cfg c' = ic_cfg c \<and> length (ic_output c') < 65530"
proof (cases e)
  case (Send now)
  obtain r c2 where b: "build_packet B now c = (r, c2)" by (cases "build_packet B now c")
  show ?thesis
    using assms(1,3) build_packet_keeps [OF b]
    by (cases r) (auto simp: Send b split: if_splits)
next
  case (Receive p now)
  obtain r c2 where "on_receive B p now c = (r, c2)" by (cases "on_receive B p now c")
  then show ?thesis
    using assms(1,3) on_receive_none [of p now c c2] on_receive_some(1) [of p now c _ c2] Receive
    by (cases r) auto
qed (use assms in \<open>auto simp: set_output_def set_run_def short_outputs_def\<close>)

lemma conn_step_no_packet:
  assumes "conn_step B e c = ([], c')"
  shows "ic_o2t_sequence_number c' = ic_o2t_sequence_number c \<and> ic_sequence_count c' = ic_sequence_count c"
proof (cases e)
  case (Send now)
  obtain r c2 where b: "build_packet B now c = (r, c2)" by (cases "build_packet B now c")
  show ?thesis
    using assms(1) b build_packet_none [of B now c c2]
    by (cases r) (auto simp: Send split: if_splits)
next
  case (Receive p now)
  obtain r c2 where "on_receive B p now c = (r, c2)" by (cases "on_receive B p now c")
  then show ?thesis
    using assms on_receive_none [of p now c c2] on_receive_some(1) [of p now c _ c2] Receive
    by (cases r) auto
qed (use assms in \<open>auto simp: set_output_def set_run_def\<close>)

lemma conn_step_packet:
  assumes "conn_step B e c = (p # ps, c')"
  shows "ps = [] \<and> (\<exists>now. build_packet B now c = (Some p, c'))"
  using assms by (cases e) (auto split: if_splits prod.splits option.splits)

lemma conn_run_numbered:
  assumes "conn_run B es c = (ps, c')" "short_outputs es" "length (ic_output c) < 65530"
  shows "numbered B (ic_cfg c) (ic_o2t_sequence_number c) (ic_sequence_count c) ps"
  using assms
proof (induction es arbitrary: c ps)
  case (Cons e es)
  obtain p c1 where p: "conn_step B e c = (p, c1)" by (cases "conn_step B e c")
  obtain qs where q: "conn_run B es c1 = (qs, c')" "ps = p @ qs"
    using Cons.prems(1) p by (auto split: prod.splits)
  have keeps: "ic_cfg c1 = ic_cfg c" "length (ic_output c1) < 65530"
    using conn_step_keeps [OF p] Cons.prems(2,3) by (auto simp: short_outputs_def)
  have IH: "numbered B (ic_cfg c) (ic_o2t_sequence_number c1) (ic_sequence_count c1) qs"
    using Cons.IH [OF q(1)] Cons.prems(2) keeps by (simp add: short_outputs_def)
  show ?case
  proof (cases p)
    case Nil
    with IH q(2) show ?thesis using conn_step_no_packet p by auto
  next
    case (Cons pkt rest)
    then obtain now where b: "rest = []" "build_packet B now c = (Some pkt, c1)"
      using conn_step_packet p by blast
    show ?thesis
      unfolding q(2) Cons b(1) append_Cons append_Nil
      by (rule numbered_Cons, subst sent_packet_decodes [OF b(2) Cons.prems(3)])
        (use IH build_packet_some(2,3) [OF b(2)] in \<open>auto simp: send_header_def\<close>)
  qed
qed simp

end

section \<open>Properties\<close>

text \<open>C21: Whatever the IO thread does with a fresh connection, in whatever order (sending when due, received
  packets, new outputs below 65530 bytes, run/idle changes), the packets it sends are well-formed implicit
  packets of the connection, numbered 1, 2, 3, ... without gaps or repetitions modulo the counters' widths:
  sends that are skipped or refused consume no number.\<close>
theorem packets_are_numbered:
  assumes "bytes_crate B" "conn_run B es (conn_new cfg t0) = (ps, c)" "short_outputs es" "io_o2t_size cfg < 65530"
    and "j < length ps"
  shows "\<exists>payload. decode_connected_packet B (ps ! j) = Ok \<lparr>connection_id = io_o2t_id cfg,
      sequence_number = of_nat (Suc j),
      cp_data = (if io_has_sequence_count cfg then le16 (of_nat (Suc j)) else []) @ payload\<rparr>"
proof -
  have "numbered B cfg 0 0 ps"
    using bytes_crate.conn_run_numbered [OF assms(1-3)] assms(4) by (simp add: conn_new_def)
  then show ?thesis
    using assms(5) unfolding numbered_def by (metis (no_types) add_0)
qed

definition sample_io_config :: IoConnectionConfig where
  "sample_io_config = \<lparr>io_o2t_id = 1, io_t2o_id = 2, io_serial_number = 3, io_o2t_api = 10, io_timeout = 40,
     io_o2t_size = 2, io_t2o_size = 2, io_o2t_fixed = True, io_t2o_fixed = True, io_has_sequence_count = True,
     io_o2t_real_time_format = False, io_t2o_real_time_format = False,
     io_destination = \<lparr>sa_ip = ipv4 10 0 0 1, sa_port = 2222\<rparr>, io_peer_ip = ipv4 10 0 0 1\<rparr>"

text \<open>A send, a send that is not due, a send refused for its size, a late send: two packets go out.\<close>

definition sample_events :: "conn_event list" where
  "sample_events = [Send 0, Send 5, Output [1], Send 10, Output [1, 2], Send 47]"

lemma sample_run_packets:
  "length (fst (conn_run slice_bytes sample_events (conn_new sample_io_config 0))) = 2"
  by (simp add: sample_events_def conn_new_def sample_io_config_def is_send_due_def build_packet_def set_output_def
      advance_schedule_def Let_def)

lemma packets_are_numbered_witness:
  "\<exists>payload. decode_connected_packet slice_bytes
     (fst (conn_run slice_bytes sample_events (conn_new sample_io_config 0)) ! 1) =
     Ok \<lparr>connection_id = 1, sequence_number = 2, cp_data = [2, 0] @ payload\<rparr>"
  using packets_are_numbered [OF slice.bytes_crate_axioms, of sample_events sample_io_config 0 _ _ 1]
    sample_run_packets
  by (cases "conn_run slice_bytes sample_events (conn_new sample_io_config 0)")
    (simp add: short_outputs_def sample_events_def to_le_2 sample_io_config_def)

text \<open>C22: The send schedule keeps its phase: \<open>build_packet\<close> moves the next send by a positive number of
  intervals, whether or not a packet is sent. After a stall of fewer than 2^32 intervals the next send is in
  the future, at most one interval away: missed slots are skipped, not sent in a burst; without a stall it
  moves by exactly one interval.\<close>
theorem schedule_keeps_phase:
  assumes "build_packet B now c = (r, c')" "io_o2t_api (ic_cfg c) = api" "ic_next_send c \<le> now"
  shows "(\<exists>k. ic_next_send c' = ic_next_send c + api * Suc k)
    \<and> (0 < api \<and> now - ic_next_send c < api * 2 ^ 32 \<longrightarrow> now < ic_next_send c' \<and> ic_next_send c' \<le> now + api)
    \<and> (now < ic_next_send c + api \<longrightarrow> ic_next_send c' = ic_next_send c + api)"
proof (intro conjI impI)
  have n: "ic_next_send c' = advance_schedule api now (ic_next_send c)"
    using build_packet_schedule [OF assms(1)] assms(2) by simp
  show "\<exists>k. ic_next_send c' = ic_next_send c + api * Suc k"
    using advance_schedule_phase n by simp
  show "ic_next_send c' = ic_next_send c + api" if "now < ic_next_send c + api"
    using that n by (simp add: advance_schedule_def Let_def)
  assume h: "0 < api \<and> now - ic_next_send c < api * 2 ^ 32"
  have "(now - (ic_next_send c + api)) div api + 1 < 2 ^ 32"
  proof (cases "ic_next_send c + api \<le> now")
    case True
    then have "(now - (ic_next_send c + api)) div api + 1 = (now - ic_next_send c) div api"
      using h le_div_geq [of api "now - ic_next_send c"] by (simp add: diff_diff_left)
    also have "\<dots> < 2 ^ 32"
      using h by (simp add: div_less_iff_less_mult mult.commute)
    finally show ?thesis .
  qed simp
  from advance_schedule_after [OF _ this] h assms(3)
  show "now < ic_next_send c'" "ic_next_send c' \<le> now + api"
    unfolding n by (auto simp: max_def split: if_splits)
qed

lemma schedule_keeps_phase_witness:
  "ic_next_send (snd (build_packet slice_bytes 47 (conn_new sample_io_config 0))) = 50"
  using schedule_keeps_phase [of slice_bytes 47 "conn_new sample_io_config 0"
      "fst (build_packet slice_bytes 47 (conn_new sample_io_config 0))"
      "snd (build_packet slice_bytes 47 (conn_new sample_io_config 0))" 10]
  by (simp add: conn_new_def sample_io_config_def) presburger

text \<open>C37: The limits of the schedule. When the number of missed intervals reaches 2^32, \<open>missed as u32\<close> is 0
  and the connection stays due although it was just serviced; with a granted interval of 0 it is due at
  every moment from then on, so the IO thread sends without pause.\<close>
theorem schedule_overflow:
  assumes "build_packet B now c = (r, c')" "io_o2t_api (ic_cfg c) = api"
    and "now = ic_next_send c + api * 2 ^ 32 \<or> api = 0 \<and> ic_next_send c \<le> now"
  shows "is_send_due c' now"
  using assms(3)
proof
  have n: "ic_next_send c' = advance_schedule api now (ic_next_send c)"
    using build_packet_schedule [OF assms(1)] assms(2) by simp
  {
    assume "api = 0 \<and> ic_next_send c \<le> now"
    then show "is_send_due c' now"
      by (simp add: is_send_due_def n advance_schedule_def Let_def)
  next
    assume now: "now = ic_next_send c + api * 2 ^ 32"
    show "is_send_due c' now"
    proof (cases "api = 0")
      case False
      have d: "now - (ic_next_send c + api) = api * (2 ^ 32 - 1)"
        unfolding now by (simp add: diff_mult_distrib2)
      have "(now - (ic_next_send c + api)) div max api 1 + 1 = 2 ^ 32"
        unfolding d using False by (simp add: max_def)
      then have "unat (of_nat ((now - (ic_next_send c + api)) div max api 1 + 1) :: u32) = 0"
        by simp
      moreover have "ic_next_send c + api \<le> now" unfolding now by simp
      ultimately show ?thesis
        by (simp add: is_send_due_def n advance_schedule_def Let_def del: of_nat_add)
    qed (simp add: is_send_due_def n advance_schedule_def Let_def now)
  }
qed

lemma schedule_overflow_witness:
  "is_send_due (snd (build_packet slice_bytes (10 * 2 ^ 32) (conn_new sample_io_config 0))) (10 * 2 ^ 32)"
  using schedule_overflow [of slice_bytes "10 * 2 ^ 32" "conn_new sample_io_config 0"
      "fst (build_packet slice_bytes (10 * 2 ^ 32) (conn_new sample_io_config 0))"
      "snd (build_packet slice_bytes (10 * 2 ^ 32) (conn_new sample_io_config 0))" 10]
  by (simp add: conn_new_def sample_io_config_def)

text \<open>C23: Output reaches a peer unchanged: a packet built on one connection decodes as an implicit packet with
  the connection's id, and a connection that uses the same framing (sequence count and run/idle header as
  the sender, a fixed size only if it is the output's) receives exactly the output, the new sequence number,
  the new count and the run state, and restarts its timeout.\<close>
theorem output_delivery:
  assumes "bytes_crate B" "build_packet B now a = (Some pkt, a')" "length (ic_output a) < 65530"
    and "io_has_sequence_count (ic_cfg b) = io_has_sequence_count (ic_cfg a)"
    and "io_t2o_real_time_format (ic_cfg b) = io_o2t_real_time_format (ic_cfg a)"
    and "io_t2o_fixed (ic_cfg b) \<longrightarrow> io_t2o_size (ic_cfg b) = length (ic_output a)"
  shows "\<exists>p. decode_connected_packet B pkt = Ok p \<and> connection_id p = io_o2t_id (ic_cfg a)
    \<and> on_receive B p t b =
      (Some \<lparr>in_sequence_number = ic_o2t_sequence_number a + 1,
         in_sequence_count = (if io_has_sequence_count (ic_cfg a) then ic_sequence_count a + 1 else 0),
         in_run_idle_header = (if io_o2t_real_time_format (ic_cfg a) then of_bool (ic_run a) else 0),
         in_data = ic_output a\<rparr>,
       b\<lparr>ic_t2o_size_warned := False, ic_last_receive := t\<rparr>)"
proof -
  let ?p = "\<lparr>connection_id = io_o2t_id (ic_cfg a), sequence_number = ic_o2t_sequence_number a + 1,
    cp_data = send_header a @ ic_output a\<rparr>"
  have "on_receive B ?p t b =
    (Some \<lparr>in_sequence_number = sequence_number ?p,
        in_sequence_count = (if io_has_sequence_count (ic_cfg b) then ic_sequence_count a + 1 else 0),
        in_run_idle_header = (if io_t2o_real_time_format (ic_cfg b) then of_bool (ic_run a) else 0),
        in_data = ic_output a\<rparr>,
     b\<lparr>ic_t2o_size_warned := False, ic_last_receive := t\<rparr>)"
    by (rule bytes_crate.on_receive_header [OF assms(1)]) (use assms(4-6) in \<open>auto simp: send_header_def\<close>)
  then show ?thesis
    using bytes_crate.sent_packet_decodes [OF assms(1-3)] assms(4,5) by simp
qed

lemma output_delivery_witness:
  "\<exists>p. decode_connected_packet slice_bytes (the (fst (build_packet slice_bytes 0
       (set_output [7, 8] (conn_new sample_io_config 0))))) = Ok p
     \<and> in_data (the (fst (on_receive slice_bytes p 5 (conn_new sample_io_config 0)))) = [7, 8]"
proof -
  have "build_packet slice_bytes 0 (set_output [7, 8] (conn_new sample_io_config 0))
    = (Some (the (fst (build_packet slice_bytes 0 (set_output [7, 8] (conn_new sample_io_config 0))))),
       snd (build_packet slice_bytes 0 (set_output [7, 8] (conn_new sample_io_config 0))))"
    by (simp add: build_packet_def set_output_def conn_new_def sample_io_config_def Let_def)
  from output_delivery [OF slice.bytes_crate_axioms this, of "conn_new sample_io_config 0" 5]
  show ?thesis by (auto simp: set_output_def conn_new_def sample_io_config_def)
qed

text \<open>C24: The receive timeout is reset exactly by acceptable packets. A packet is passed on if and only if its
  data holds the expected prefix and, on a fixed-size connection, exactly the expected number of bytes after
  it; then the payload is everything after the prefix and the connection times out one timeout after the
  packet. A packet that is refused changes neither the deadline nor anything that is sent.\<close>
theorem reception_resets_timeout:
  assumes "bytes_crate B" "on_receive B p now c = (r, c')"
  shows "(r \<noteq> None \<longleftrightarrow> acceptable (ic_cfg c) (cp_data p))
    \<and> (\<forall>i. r = Some i \<longrightarrow> in_data i = drop (receive_prefix (ic_cfg c)) (cp_data p)
          \<and> in_sequence_number i = sequence_number p
          \<and> (is_timed_out c' t \<longleftrightarrow> now + io_timeout (ic_cfg c) \<le> t))
    \<and> (r = None \<longrightarrow> is_timed_out c' t = is_timed_out c t)
    \<and> fst (build_packet B t c') = fst (build_packet B t c)"
proof (intro conjI allI impI)
  show "r \<noteq> None \<longleftrightarrow> acceptable (ic_cfg c) (cp_data p)"
    using bytes_crate.on_receive_some_iff [OF assms(1), of p now c] assms(2) by auto
  {
    fix i assume "r = Some i"
    then have "on_receive B p now c = (Some i, c')" using assms(2) by simp
    note * = bytes_crate.on_receive_some [OF assms(1) this]
    show "in_data i = drop (receive_prefix (ic_cfg c)) (cp_data p)" "in_sequence_number i = sequence_number p"
      "is_timed_out c' t \<longleftrightarrow> now + io_timeout (ic_cfg c) \<le> t"
      using * by (simp_all add: is_timed_out_def timeout_at_def)
  }
  have upd: "\<exists>w l. c' = c\<lparr>ic_t2o_size_warned := w, ic_last_receive := l\<rparr> \<and> (r = None \<longrightarrow> l = ic_last_receive c)"
  proof (cases r)
    case None
    then obtain w where "c' = c\<lparr>ic_t2o_size_warned := w\<rparr>"
      using bytes_crate.on_receive_none [OF assms(1)] assms(2) by blast
    then have "c' = c\<lparr>ic_t2o_size_warned := w, ic_last_receive := ic_last_receive c\<rparr>" by simp
    then show ?thesis by blast
  next
    case (Some i)
    then show ?thesis using bytes_crate.on_receive_some(1) [OF assms(1)] assms(2) by blast
  qed
  then show "is_timed_out c' t = is_timed_out c t" if "r = None"
    using that by (auto simp: is_timed_out_def timeout_at_def)
  from upd obtain w l where "c' = c\<lparr>ic_t2o_size_warned := w, ic_last_receive := l\<rparr>" by blast
  then show "fst (build_packet B t c') = fst (build_packet B t c)"
    by (simp add: build_packet_def Let_def)
qed

lemma reception_resets_timeout_witness:
  "is_timed_out (snd (on_receive slice_bytes \<lparr>connection_id = 2, sequence_number = 1, cp_data = [1, 0, 5, 6]\<rparr> 30
     (conn_new sample_io_config 0))) 69 = False"
proof -
  let ?p = "\<lparr>connection_id = 2, sequence_number = 1, cp_data = [1, 0, 5, 6]\<rparr>"
  let ?r = "on_receive slice_bytes ?p 30 (conn_new sample_io_config 0)"
  have a: "acceptable sample_io_config [1, 0, 5, 6]"
    by (simp add: acceptable_def sample_io_config_def receive_prefix_def)
  obtain r c' where r: "?r = (r, c')" by (cases ?r)
  have cfg: "ic_cfg (conn_new sample_io_config 0) = sample_io_config" "io_timeout sample_io_config = 40"
    by (simp_all add: conn_new_def sample_io_config_def)
  have rc: "(r \<noteq> None) = True \<and> (\<forall>i. r = Some i \<longrightarrow> is_timed_out c' 69 = (30 + 40 \<le> (69 :: nat)))"
    using reception_resets_timeout [OF slice.bytes_crate_axioms r, of 69] a unfolding cfg by simp
  then have "is_timed_out c' 69 = (30 + 40 \<le> (69 :: nat))" by (cases r) auto
  then show ?thesis unfolding r by simp
qed

end
