(* ===== verification/Io_Thread.thy ===== *)
theory Io_Thread
  imports Io_Connection
begin

text \<open>
  The IO thread (src/src/io/thread.rs): the commands it is sent, its table of connections, the service and
  receive passes of a cycle, and the open/closed flags it shares with the handles. Threads interleave at the
  operations on the command channel and on the flags.

  Callbacks: an \<open>on_send\<close> handler is a coinductive process (an \<open>FnMut\<close> returns the new output and itself,
  changed); calls of the other two are recorded. What the operating system returns (datagrams, the wait) and
  the iteration order of the hash map are arguments.
\<close>

section \<open>Callbacks, entries, flags\<close>

codatatype send_handler = SendHandler (call_send: "bytes \<Rightarrow> bytes \<times> send_handler")

record IoCallbacks =
  cb_on_receive :: bool
  cb_on_send :: "send_handler option"
  cb_on_close :: bool

definition callbacks_new :: IoCallbacks where
  "callbacks_new = \<lparr>cb_on_receive = False, cb_on_send = None, cb_on_close = False\<rparr>"

text \<open>The builder methods.\<close>

definition with_on_receive :: "IoCallbacks \<Rightarrow> IoCallbacks" where
  "with_on_receive cb = cb\<lparr>cb_on_receive := True\<rparr>"

definition with_on_send :: "send_handler \<Rightarrow> IoCallbacks \<Rightarrow> IoCallbacks" where
  "with_on_send f cb = cb\<lparr>cb_on_send := Some f\<rparr>"

definition with_on_close :: "IoCallbacks \<Rightarrow> IoCallbacks" where
  "with_on_close cb = cb\<lparr>cb_on_close := True\<rparr>"

record Entry =
  en_conn :: IoConnection
  en_callbacks :: IoCallbacks
  en_flag :: nat

text \<open>What the thread does to the outside: packets handed to the socket, callbacks called.\<close>

datatype io_effect =
    SentTo SocketAddrV4 bytes
  | Received ConnectionKey InputData
  | CloseCalled nat

text \<open>
  The flags are numbered in the order they are made; \<open>flag_open\<close> holds the state of each,
  \<open>open_count\<close> the shared counter.
\<close>

record io_state =
  connections :: "ConnectionKey \<rightharpoonup> Entry"
  flag_open :: "bool list"
  open_count :: nat
  effects :: "io_effect list"

definition io_init :: io_state where
  "io_init = \<lparr>connections = Map.empty, flag_open = [], open_count = 0, effects = []\<rparr>"

definition flag_new :: "io_state \<Rightarrow> nat \<times> io_state" where
  "flag_new s = (length (flag_open s), s\<lparr>flag_open := flag_open s @ [True], open_count := open_count s + 1\<rparr>)"

definition flag_is_open :: "nat \<Rightarrow> io_state \<Rightarrow> bool" where
  "flag_is_open f s = flag_open s ! f"

definition flag_close :: "nat \<Rightarrow> io_state \<Rightarrow> bool \<times> io_state" where
  "flag_close f s =
     (let was_open = flag_open s ! f;
          s = s\<lparr>flag_open := (flag_open s)[f := False]\<rparr>;
          s = (if was_open then s\<lparr>open_count := open_count s - 1\<rparr> else s)
      in (was_open, s))"

section \<open>Commands\<close>

datatype Command =
    Add IoConnection IoCallbacks nat
  | Remove ConnectionKey
  | SetOutput ConnectionKey bytes
  | SetRun ConnectionKey bool
  | Shutdown

text \<open>\<open>IoSender::send\<close>: the channel after sending, an error once the thread has dropped its end.\<close>

definition sender_send :: "bool \<Rightarrow> Command \<Rightarrow> Command list \<Rightarrow> Command list result" where
  "sender_send alive cmd queue = (if alive then Ok (queue @ [cmd]) else Err IoThreadStopped)"

definition update_conn :: "ConnectionKey \<Rightarrow> (IoConnection \<Rightarrow> IoConnection) \<Rightarrow> io_state \<Rightarrow> io_state" where
  "update_conn key f s =
     (case connections s key of
        None \<Rightarrow> s
      | Some e \<Rightarrow> s\<lparr>connections := (connections s)(key \<mapsto> e\<lparr>en_conn := f (en_conn e)\<rparr>)\<rparr>)"

fun run_command :: "Command \<Rightarrow> io_state \<Rightarrow> io_state" where
  "run_command (Add conn callbacks flag) s =
     (let key = io_key (ic_cfg conn) in
      case connections s key of
        Some _ \<Rightarrow> snd (flag_close flag s)
      | None \<Rightarrow> s\<lparr>connections := (connections s)(key \<mapsto>
          \<lparr>en_conn = conn, en_callbacks = callbacks, en_flag = flag\<rparr>)\<rparr>)"
| "run_command (Remove key) s = s\<lparr>connections := (connections s)(key := None)\<rparr>"
| "run_command (SetOutput key d) s = update_conn key (set_output d) s"
| "run_command (SetRun key run) s = update_conn key (set_run run) s"
| "run_command Shutdown s = s"

text \<open>
  \<open>drain_commands\<close>: false on shutdown, or on an empty channel whose senders are all gone.
\<close>

fun drain_commands :: "bool \<Rightarrow> Command list \<Rightarrow> io_state \<Rightarrow> bool \<times> Command list \<times> io_state" where
  "drain_commands senders [] s = (senders, [], s)"
| "drain_commands senders (Shutdown # q) s = (False, q, s)"
| "drain_commands senders (c # q) s = drain_commands senders q (run_command c s)"

section \<open>Service\<close>

text \<open>The \<open>on_send\<close> callback, then the packet.\<close>

definition service_entry :: "bytes_api \<Rightarrow> instant \<Rightarrow> Entry \<Rightarrow> io_effect list \<times> Entry" where
  "service_entry B now e =
     (if \<not> is_send_due (en_conn e) now then ([], e)
      else
        let e = (case cb_on_send (en_callbacks e) of
                   None \<Rightarrow> e
                 | Some h \<Rightarrow>
                     let (out, h') = call_send h (ic_output (en_conn e))
                     in e\<lparr>en_conn := set_output out (en_conn e),
                          en_callbacks := (en_callbacks e)\<lparr>cb_on_send := Some h'\<rparr>\<rparr>)
        in (case build_packet B now (en_conn e) of
              (Some p, c) \<Rightarrow> ([SentTo (io_destination (ic_cfg c)) p], e\<lparr>en_conn := c\<rparr>)
            | (None, c) \<Rightarrow> ([], e\<lparr>en_conn := c\<rparr>)))"

definition service_key ::
  "bytes_api \<Rightarrow> instant \<Rightarrow> ConnectionKey \<Rightarrow> ConnectionKey list \<times> io_state \<Rightarrow> ConnectionKey list \<times> io_state" where
  "service_key B now key ts =
     (case ts of (timed_out, s) \<Rightarrow>
      (case connections s key of
         None \<Rightarrow> (timed_out, s)
       | Some e \<Rightarrow>
           if is_timed_out (en_conn e) now then (timed_out @ [key], s)
           else
             let (sent, e') = service_entry B now e
             in (timed_out, s\<lparr>connections := (connections s)(key \<mapsto> e'), effects := effects s @ sent\<rparr>)))"

definition time_out :: "ConnectionKey \<Rightarrow> io_state \<Rightarrow> io_state" where
  "time_out key s =
     (case connections s key of
        None \<Rightarrow> s
      | Some e \<Rightarrow>
          let s = s\<lparr>connections := (connections s)(key := None)\<rparr>;
              s = snd (flag_close (en_flag e) s)
          in (if cb_on_close (en_callbacks e) then s\<lparr>effects := effects s @ [CloseCalled (en_flag e)]\<rparr> else s))"

definition service_connections :: "bytes_api \<Rightarrow> instant \<Rightarrow> ConnectionKey list \<Rightarrow> io_state \<Rightarrow> io_state" where
  "service_connections B now order s =
     (let (timed_out, s) = fold (service_key B now) order ([], s)
      in fold time_out timed_out s)"

section \<open>Reception\<close>

text \<open>What \<open>recv_from\<close> returns, with the moment of a datagram's arrival; after the script, \<open>WouldBlock\<close>.\<close>

datatype recv_result = Datagram bytes "Ipv4Addr option" instant | RecvError io_kind

definition receive_one :: "bytes_api \<Rightarrow> bytes \<Rightarrow> Ipv4Addr option \<Rightarrow> instant \<Rightarrow> io_state \<Rightarrow> io_state" where
  "receive_one B buf from now s =
     (case decode_connected_packet B buf of
        Inl _ \<Rightarrow> s
      | Inr packet \<Rightarrow>
          (case from of
             None \<Rightarrow> s
           | Some peer_ip \<Rightarrow>
               let key = \<lparr>key_peer_ip = peer_ip, key_t2o_id = connection_id packet\<rparr> in
               (case connections s key of
                  None \<Rightarrow> s
                | Some e \<Rightarrow>
                    (case on_receive B packet now (en_conn e) of (input, c) \<Rightarrow>
                      let s = s\<lparr>connections := (connections s)(key \<mapsto> e\<lparr>en_conn := c\<rparr>)\<rparr>
                      in (case input of
                            Some i \<Rightarrow> if cb_on_receive (en_callbacks e) then s\<lparr>effects := effects s @ [Received key i]\<rparr> else s
                          | None \<Rightarrow> s)))))"

fun receive_all :: "bytes_api \<Rightarrow> recv_result list \<Rightarrow> io_state \<Rightarrow> io_state" where
  "receive_all B [] s = s"
| "receive_all B (RecvError k # rs) s = (if k = ConnectionReset then receive_all B rs s else s)"
| "receive_all B (Datagram buf from now # rs) s = receive_all B rs (receive_one B buf from now s)"

section \<open>The loop\<close>

text \<open>When the wait ends at the latest; \<open>order\<close> is the iteration order of the table.\<close>

definition cycle_deadline :: "nat \<Rightarrow> instant \<Rightarrow> ConnectionKey list \<Rightarrow> io_state \<Rightarrow> instant" where
  "cycle_deadline idle_wait now order s =
     min (case map (\<lambda>k. next_deadline (en_conn (the (connections s k)))) order of
            [] \<Rightarrow> now + idle_wait
          | d # ds \<Rightarrow> fold min ds d)
         (now + idle_wait)"

text \<open>
  One round of \<open>run\<close>: what the commands in the channel, the clock, the table's order, the wait (an error or
  whether data is ready) and the socket are in that round.
\<close>

record round =
  rd_senders :: bool
  rd_queue :: "Command list"
  rd_now :: instant
  rd_order :: "ConnectionKey list"
  rd_ready :: "bool option"
  rd_datagrams :: "recv_result list"

definition run_round :: "bytes_api \<Rightarrow> round \<Rightarrow> io_state \<Rightarrow> bool \<times> io_state" where
  "run_round B rd s =
     (case drain_commands (rd_senders rd) (rd_queue rd) s of
        (False, _, s) \<Rightarrow> (False, s)
      | (True, _, s) \<Rightarrow>
          let s = service_connections B (rd_now rd) (rd_order rd) s
          in (True, if rd_ready rd = Some True then receive_all B (rd_datagrams rd) s else s))"

fun worker_run :: "bytes_api \<Rightarrow> round list \<Rightarrow> io_state \<Rightarrow> io_state" where
  "worker_run B [] s = s"
| "worker_run B (rd # rds) s =
     (case run_round B rd s of (False, s) \<Rightarrow> s | (True, s) \<Rightarrow> worker_run B rds s)"

section \<open>The service pass, pointwise\<close>

text \<open>
  The pass does the same to every connection, whatever the order of the table: those that timed out go,
  the others are serviced.
\<close>

definition after_service :: "bytes_api \<Rightarrow> instant \<Rightarrow> Entry \<Rightarrow> Entry option" where
  "after_service B now e = (if is_timed_out (en_conn e) now then None else Some (snd (service_entry B now e)))"

definition enumerates :: "ConnectionKey list \<Rightarrow> io_state \<Rightarrow> bool" where
  "enumerates order s \<longleftrightarrow> distinct order \<and> set order = dom (connections s)"

definition timed_out_at :: "instant \<Rightarrow> io_state \<Rightarrow> ConnectionKey \<Rightarrow> bool" where
  "timed_out_at now s k \<longleftrightarrow> (case connections s k of None \<Rightarrow> False | Some e \<Rightarrow> is_timed_out (en_conn e) now)"

text \<open>What the pass sends for a connection, and what it calls when it closes one.\<close>

definition sent_at :: "bytes_api \<Rightarrow> instant \<Rightarrow> io_state \<Rightarrow> ConnectionKey \<Rightarrow> io_effect list" where
  "sent_at B now s k = (case connections s k of None \<Rightarrow> []
     | Some e \<Rightarrow> if is_timed_out (en_conn e) now then [] else fst (service_entry B now e))"

definition close_effects :: "io_state \<Rightarrow> ConnectionKey \<Rightarrow> io_effect list" where
  "close_effects s k = (case connections s k of None \<Rightarrow> []
     | Some e \<Rightarrow> if cb_on_close (en_callbacks e) then [CloseCalled (en_flag e)] else [])"

definition kept :: "bytes_api \<Rightarrow> instant \<Rightarrow> io_state \<Rightarrow> ConnectionKey \<Rightarrow> Entry option" where
  "kept B now s k = (if timed_out_at now s k then connections s k
     else map_option (\<lambda>e. snd (service_entry B now e)) (connections s k))"

lemma service_key_eq:
  "service_key B now k (ts, s) = (if timed_out_at now s k then ts @ [k] else ts,
     s\<lparr>connections := (connections s)(k := kept B now s k), effects := effects s @ sent_at B now s k\<rparr>)"
proof (cases "connections s k")
  case None
  then have "(connections s)(k := None) = connections s" by auto
  with None show ?thesis
    by (simp add: service_key_def kept_def sent_at_def timed_out_at_def)
next
  case (Some e)
  then have "(connections s)(k \<mapsto> e) = connections s" by auto
  with Some show ?thesis
    by (simp add: service_key_def kept_def sent_at_def timed_out_at_def split: prod.split)
qed

lemma service_fold:
  "distinct order \<Longrightarrow> fold (service_key B now) order (ts, s) =
    (ts @ filter (timed_out_at now s) order,
     s\<lparr>connections := (\<lambda>k. if k \<in> set order then kept B now s k else connections s k),
       effects := effects s @ concat (map (sent_at B now s) order)\<rparr>)"
proof (induction order arbitrary: ts s)
  case (Cons k order)
  define s1 where "s1 = s\<lparr>connections := (connections s)(k := kept B now s k), effects := effects s @ sent_at B now s k\<rparr>"
  have notin: "k \<notin> set order" and dis: "distinct order" using Cons.prems by auto
  have "connections s1 j = connections s j" if "j \<in> set order" for j
    using that notin by (auto simp: s1_def)
  then have other: "timed_out_at now s1 j = timed_out_at now s j" "sent_at B now s1 j = sent_at B now s j"
    "kept B now s1 j = kept B now s j" if "j \<in> set order" for j
    using that by (simp_all add: timed_out_at_def sent_at_def kept_def)
  have maps: "filter (timed_out_at now s1) order = filter (timed_out_at now s) order"
    "map (sent_at B now s1) order = map (sent_at B now s) order"
    using other by (auto intro!: filter_cong)
  have conns: "(\<lambda>j. if j \<in> set order then kept B now s1 j else connections s1 j)
      = (\<lambda>j. if j \<in> set (k # order) then kept B now s j else connections s j)"
    using notin other by (auto simp: fun_eq_iff s1_def)
  have "fold (service_key B now) (k # order) (ts, s)
      = fold (service_key B now) order (if timed_out_at now s k then ts @ [k] else ts, s1)"
    by (simp add: service_key_eq s1_def)
  then show ?case
    unfolding Cons.IH [OF dis] maps conns by (simp add: s1_def)
qed simp

lemma time_out_eq:
  assumes "connections s k = Some e"
  shows "time_out k s = s\<lparr>connections := (connections s)(k := None), flag_open := (flag_open s)[en_flag e := False],
     open_count := (if flag_open s ! en_flag e then open_count s - 1 else open_count s),
     effects := effects s @ close_effects s k\<rparr>"
  using assms by (simp add: time_out_def flag_close_def close_effects_def Let_def)

definition flags_at :: "io_state \<Rightarrow> ConnectionKey list \<Rightarrow> nat set" where
  "flags_at s ks = {f. \<exists>k \<in> set ks. \<exists>e. connections s k = Some e \<and> en_flag e = f}"

lemma time_out_fold:
  assumes "distinct ks" "set ks \<subseteq> dom (connections s)"
  shows "connections (fold time_out ks s) = (\<lambda>k. if k \<in> set ks then None else connections s k)
    \<and> effects (fold time_out ks s) = effects s @ concat (map (close_effects s) ks)
    \<and> length (flag_open (fold time_out ks s)) = length (flag_open s)
    \<and> (\<forall>f < length (flag_open s). flag_open (fold time_out ks s) ! f \<longleftrightarrow> flag_open s ! f \<and> f \<notin> flags_at s ks)"
  using assms
proof (induction ks arbitrary: s)
  case (Cons k ks)
  obtain e where e: "connections s k = Some e" using Cons.prems(2) by auto
  let ?s = "time_out k s"
  have notin: "k \<notin> set ks" and dis: "distinct ks" using Cons.prems(1) by auto
  have c: "connections ?s = (connections s)(k := None)" and fl: "flag_open ?s = (flag_open s)[en_flag e := False]"
    and ef: "effects ?s = effects s @ close_effects s k"
    by (simp_all add: time_out_eq [OF e])
  have "set ks \<subseteq> dom (connections ?s)" using Cons.prems(2) notin c by auto
  note IH = Cons.IH [OF dis this]
  have m: "map (close_effects ?s) ks = map (close_effects s) ks"
    using notin by (auto simp: close_effects_def c)
  have fa: "flags_at s (k # ks) = insert (en_flag e) (flags_at ?s ks)"
    using notin e by (auto simp: flags_at_def c)
  have nth: "(flag_open s)[en_flag e := False] ! f \<longleftrightarrow> flag_open s ! f \<and> f \<noteq> en_flag e"
    if "f < length (flag_open s)" for f
    using that by (cases "f = en_flag e") auto
  show ?case
    using IH notin unfolding m fa by (auto simp: c fl ef fun_eq_iff nth)
qed (simp add: flags_at_def)

lemma service_pass:
  assumes "enumerates order s" and s'_def: "s' = service_connections B now order s"
  shows "connections s' k = Option.bind (connections s k) (after_service B now)"
    and "effects s' = effects s @ concat (map (sent_at B now s) order)
      @ concat (map (close_effects s) (filter (timed_out_at now s) order))"
    and "length (flag_open s') = length (flag_open s)"
    and "f < length (flag_open s) \<Longrightarrow> flag_open s' ! f \<longleftrightarrow> flag_open s ! f
      \<and> (\<nexists>k e. connections s k = Some e \<and> en_flag e = f \<and> is_timed_out (en_conn e) now)"
proof -
  let ?ts = "filter (timed_out_at now s) order"
  let ?s = "s\<lparr>connections := (\<lambda>k. if k \<in> set order then kept B now s k else connections s k),
    effects := effects s @ concat (map (sent_at B now s) order)\<rparr>"
  have d: "distinct order" and dom: "set order = dom (connections s)"
    using assms(1) by (auto simp: enumerates_def)
  have s': "s' = fold time_out ?ts ?s"
    by (simp add: s'_def service_connections_def service_fold [OF d])
  have ts: "connections ?s k = connections s k" if "k \<in> set ?ts" for k
    using that by (simp add: kept_def)
  have "set ?ts \<subseteq> dom (connections ?s)"
    using dom ts by (auto simp: domIff)
  note to = time_out_fold [OF distinct_filter [OF d] this]
  have ce: "map (close_effects ?s) ?ts = map (close_effects s) ?ts"
    using ts by (simp add: close_effects_def)
  have fa: "f \<in> flags_at ?s ?ts \<longleftrightarrow> (\<exists>k e. connections s k = Some e \<and> en_flag e = f \<and> is_timed_out (en_conn e) now)" for f
    using ts dom by (fastforce simp: flags_at_def timed_out_at_def split: option.splits)
  show "connections s' k = Option.bind (connections s k) (after_service B now)"
    using to dom unfolding s'
    by (auto simp: kept_def after_service_def timed_out_at_def domIff split: option.splits)
  show "effects s' = effects s @ concat (map (sent_at B now s) order) @ concat (map (close_effects s) ?ts)"
    using to ce unfolding s' by simp
  show "length (flag_open s') = length (flag_open s)" using to unfolding s' by simp
  show "flag_open s' ! f \<longleftrightarrow> flag_open s ! f
      \<and> (\<nexists>k e. connections s k = Some e \<and> en_flag e = f \<and> is_timed_out (en_conn e) now)"
    if "f < length (flag_open s)"
    using to that fa unfolding s' by simp
qed

section \<open>Flags, table and channel stay consistent\<close>

text \<open>The connections waiting in the channel to be added, with their flags.\<close>

fun adds :: "Command list \<Rightarrow> (ConnectionKey \<times> nat) list" where
  "adds [] = []"
| "adds (Add conn callbacks flag # q) = (io_key (ic_cfg conn), flag) # adds q"
| "adds (c # q) = adds q"

lemma adds_append [simp]: "adds (p @ q) = adds p @ adds q"
  by (induction p rule: adds.induct) simp_all

text \<open>
  The counter counts the open flags; every entry sits under its own key; no flag belongs to two
  connections; \<open>on_close\<close> is called at most once for a connection, after which nothing owns it.
\<close>

definition owns :: "io_state \<Rightarrow> ConnectionKey \<Rightarrow> nat \<Rightarrow> bool" where
  "owns s k f \<longleftrightarrow> (\<exists>e. connections s k = Some e \<and> en_flag e = f)"

definition count_ok :: "io_state \<Rightarrow> bool" where
  "count_ok s \<longleftrightarrow> open_count s = length (filter (\<lambda>b. b) (flag_open s))"

definition keys_ok :: "io_state \<Rightarrow> bool" where
  "keys_ok s \<longleftrightarrow> (\<forall>k e. connections s k = Some e \<longrightarrow> io_key (ic_cfg (en_conn e)) = k)"

definition owners_ok :: "io_state \<Rightarrow> nat list \<Rightarrow> bool" where
  "owners_ok s pending \<longleftrightarrow> distinct pending \<and> (\<forall>f \<in> set pending. f < length (flag_open s))
     \<and> (\<forall>k f. owns s k f \<longrightarrow> f < length (flag_open s) \<and> f \<notin> set pending)
     \<and> (\<forall>k k' f. owns s k f \<longrightarrow> owns s k' f \<longrightarrow> k = k')"

definition close_ok :: "io_state \<Rightarrow> nat list \<Rightarrow> bool" where
  "close_ok s pending \<longleftrightarrow> (\<forall>f. CloseCalled f \<in> set (effects s) \<longrightarrow>
       f < length (flag_open s) \<and> \<not> flag_open s ! f \<and> f \<notin> set pending \<and> (\<forall>k. \<not> owns s k f))
     \<and> (\<forall>f. count_list (effects s) (CloseCalled f) \<le> 1)"

definition io_ok :: "io_state \<Rightarrow> nat list \<Rightarrow> bool" where
  "io_ok s pending \<longleftrightarrow> count_ok s \<and> keys_ok s \<and> owners_ok s pending \<and> close_ok s pending"

lemma filter_close:
  "f < length xs \<Longrightarrow> xs ! f \<Longrightarrow> Suc (length (filter (\<lambda>b. b) (xs[f := False]))) = length (filter (\<lambda>b. b) xs)"
proof (induction xs arbitrary: f)
  case (Cons x xs)
  then show ?case by (cases f) auto
qed simp

lemma flag_close_simps [simp]:
  "connections (snd (flag_close f s)) = connections s"
  "effects (snd (flag_close f s)) = effects s"
  "flag_open (snd (flag_close f s)) = (flag_open s)[f := False]"
  "fst (flag_close f s) = flag_open s ! f"
  by (simp_all add: flag_close_def Let_def)

lemma owns_flag_close [simp]: "owns (snd (flag_close f s)) = owns s"
  by (simp add: owns_def fun_eq_iff)

lemma count_ok_close: "count_ok s \<Longrightarrow> f < length (flag_open s) \<Longrightarrow> count_ok (snd (flag_close f s))"
proof (cases "flag_open s ! f")
  case False
  assume "count_ok s" "f < length (flag_open s)"
  moreover from this False have "(flag_open s)[f := False] = flag_open s"
    by (metis list_update_id)
  ultimately show ?thesis using False by (simp add: count_ok_def flag_close_def Let_def)
next
  case True
  then show "count_ok s \<Longrightarrow> f < length (flag_open s) \<Longrightarrow> ?thesis"
    using filter_close [of f "flag_open s"] by (auto simp: count_ok_def flag_close_def Let_def)
qed

lemma nth_close: "(xs[f := False]) ! g \<Longrightarrow> g < length xs \<Longrightarrow> xs ! g"
  by (cases "f = g") auto

lemma io_ok_close: "io_ok s P \<Longrightarrow> f < length (flag_open s) \<Longrightarrow> io_ok (snd (flag_close f s)) P"
  using nth_close
  by (auto simp: io_ok_def keys_ok_def owners_ok_def close_ok_def count_ok_close)

lemma io_ok_new: "io_ok s P \<Longrightarrow> io_ok (snd (flag_new s)) (P @ [fst (flag_new s)])"
proof -
  have o: "owns (snd (flag_new s)) = owns s" by (simp add: owns_def flag_new_def fun_eq_iff)
  assume "io_ok s P"
  then show ?thesis
    unfolding io_ok_def owners_ok_def close_ok_def o
    by (auto simp: flag_new_def count_ok_def keys_ok_def nth_append less_Suc_eq)
qed

lemma io_ok_fewer: "io_ok s (P @ Q) \<Longrightarrow> io_ok s Q"
  by (auto simp: io_ok_def owners_ok_def close_ok_def)

lemma io_ok_drop: "io_ok s P \<Longrightarrow> io_ok (s\<lparr>connections := (connections s)(k := None)\<rparr>) P"
  by (auto simp: io_ok_def count_ok_def keys_ok_def owners_ok_def close_ok_def owns_def split: if_splits)

text \<open>A changed entry keeps its flag and its configuration.\<close>

lemma io_ok_update:
  assumes "io_ok s P" "connections s k = Some e" "en_flag e' = en_flag e"
    "ic_cfg (en_conn e') = ic_cfg (en_conn e)" "\<forall>f. CloseCalled f \<notin> set sent"
  shows "io_ok (s\<lparr>connections := (connections s)(k \<mapsto> e'), effects := effects s @ sent\<rparr>) P"
proof -
  have o: "owns (s\<lparr>connections := (connections s)(k \<mapsto> e'), effects := effects s @ sent\<rparr>) = owns s"
    using assms(2,3) by (auto simp: owns_def fun_eq_iff)
  have n: "count_list sent (CloseCalled f) = 0" for f
    using assms(5) by (simp add: count_list_0_iff)
  show ?thesis
    using assms by (auto simp: io_ok_def count_ok_def keys_ok_def owners_ok_def close_ok_def o n count_list_append)
qed

lemma io_ok_update_plain:
  assumes "io_ok s P" "connections s k = Some e" "en_flag e' = en_flag e"
    "ic_cfg (en_conn e') = ic_cfg (en_conn e)"
  shows "io_ok (s\<lparr>connections := (connections s)(k \<mapsto> e')\<rparr>) P"
  using io_ok_update [OF assms, of "[]"] by simp

lemma io_ok_add:
  assumes "io_ok s (flag # P)" "connections s (io_key (ic_cfg conn)) = None"
  shows "io_ok (s\<lparr>connections := (connections s)(io_key (ic_cfg conn) \<mapsto>
    \<lparr>en_conn = conn, en_callbacks = cb, en_flag = flag\<rparr>)\<rparr>) P"
proof -
  let ?s = "s\<lparr>connections := (connections s)(io_key (ic_cfg conn) \<mapsto>
    \<lparr>en_conn = conn, en_callbacks = cb, en_flag = flag\<rparr>)\<rparr>"
  have o: "owns ?s k f \<longleftrightarrow> owns s k f \<or> k = io_key (ic_cfg conn) \<and> f = flag" for k f
    using assms(2) by (auto simp: owns_def)
  show ?thesis
    using assms unfolding io_ok_def owners_ok_def close_ok_def o
    by (auto simp: count_ok_def keys_ok_def)
qed

lemma io_ok_command: "io_ok s (map snd (adds (c # q))) \<Longrightarrow> io_ok (run_command c s) (map snd (adds q))"
proof (cases c)
  case (Add conn cb flag)
  assume ok: "io_ok s (map snd (adds (c # q)))"
  then have "flag < length (flag_open s)" by (simp add: Add io_ok_def owners_ok_def)
  with ok io_ok_fewer [of s "[flag]"] show ?thesis
    by (auto simp: Add Let_def io_ok_add io_ok_close split: option.split)
qed (auto simp: update_conn_def io_ok_drop io_ok_update_plain set_output_def set_run_def split: option.split)

lemma build_packet_cfg: "ic_cfg (snd (build_packet B now c)) = ic_cfg c"
  using build_packet_keeps [of B now c] by (cases "build_packet B now c") auto

lemma service_entry_keeps:
  "en_flag (snd (service_entry B now e)) = en_flag e"
  "ic_cfg (en_conn (snd (service_entry B now e))) = ic_cfg (en_conn e)"
  "CloseCalled f \<notin> set (fst (service_entry B now e))"
proof -
  have *: "ic_cfg c' = ic_cfg c" if "build_packet B now c = (r, c')" for c r c'
    using build_packet_keeps [OF that] by simp
  show "en_flag (snd (service_entry B now e)) = en_flag e"
    "ic_cfg (en_conn (snd (service_entry B now e))) = ic_cfg (en_conn e)"
    "CloseCalled f \<notin> set (fst (service_entry B now e))"
    by (auto simp: service_entry_def Let_def set_output_def dest!: * split: option.split prod.split)
qed

lemma io_ok_service_key: "io_ok s P \<Longrightarrow> io_ok (snd (service_key B now k (ts, s))) P"
proof -
  assume ok: "io_ok s P"
  show ?thesis
  proof (cases "connections s k")
    case (Some e)
    obtain sent e' where e': "service_entry B now e = (sent, e')" by (meson surj_pair)
    show ?thesis
      using ok io_ok_update [OF ok Some, of e' sent] service_entry_keeps(1,2) [of B now e]
        service_entry_keeps(3) [of _ B now e] Some e'
      by (simp add: service_key_def)
  qed (use ok in \<open>simp add: service_key_def\<close>)
qed

lemma io_ok_service_fold: "io_ok s P \<Longrightarrow> io_ok (snd (fold (service_key B now) order (ts, s))) P"
proof (induction order arbitrary: ts s)
  case (Cons k order)
  then show ?case
    using io_ok_service_key [OF Cons.prems, of B now k ts]
    by (cases "service_key B now k (ts, s)") simp
qed simp

lemma io_ok_close_called:
  assumes "io_ok s P" "f < length (flag_open s)" "\<not> flag_open s ! f" "f \<notin> set P" "\<And>k. \<not> owns s k f"
    "CloseCalled f \<notin> set (effects s)"
  shows "io_ok (s\<lparr>effects := effects s @ [CloseCalled f]\<rparr>) P"
proof -
  have o: "owns (s\<lparr>effects := effects s @ [CloseCalled f]\<rparr>) = owns s" by (simp add: owns_def fun_eq_iff)
  have "count_list (effects s) (CloseCalled f) = 0" using assms(6) by (simp add: count_list_0_iff)
  then show ?thesis
    using assms by (auto simp: io_ok_def count_ok_def keys_ok_def owners_ok_def close_ok_def o count_list_append)
qed

lemma io_ok_time_out: "io_ok s P \<Longrightarrow> io_ok (time_out k s) P"
proof (cases "connections s k")
  case (Some e)
  let ?s = "snd (flag_close (en_flag e) (s\<lparr>connections := (connections s)(k := None)\<rparr>))"
  assume ok: "io_ok s P"
  have own: "owns s k (en_flag e)" using Some by (auto simp: owns_def)
  then have f: "en_flag e < length (flag_open s)" "en_flag e \<notin> set P"
    using ok by (auto simp: io_ok_def owners_ok_def)
  have ok': "io_ok ?s P"
    using io_ok_drop [OF ok, of k] f by (intro io_ok_close) simp_all
  have gone: "\<not> owns ?s j (en_flag e)" for j
    using ok own by (auto simp: io_ok_def owners_ok_def owns_def split: if_splits)
  have "CloseCalled (en_flag e) \<notin> set (effects s)"
    using ok own by (auto simp: io_ok_def close_ok_def)
  then have "io_ok (?s\<lparr>effects := effects ?s @ [CloseCalled (en_flag e)]\<rparr>) P"
    using ok' f gone by (intro io_ok_close_called) simp_all
  with ok' show ?thesis by (simp add: time_out_def Some Let_def)
qed (simp add: time_out_def)

lemma io_ok_service: "io_ok s P \<Longrightarrow> io_ok (service_connections B now order s) P"
proof -
  assume ok: "io_ok s P"
  obtain ts s' where r: "fold (service_key B now) order ([], s) = (ts, s')" by (meson surj_pair)
  then have "io_ok s' P" using io_ok_service_fold [OF ok, of B now order "[]"] by simp
  then have "io_ok (fold time_out ts s') P"
    by (induction ts arbitrary: s') (simp_all add: io_ok_time_out)
  then show ?thesis by (simp add: service_connections_def r)
qed

lemma on_receive_cfg: "ic_cfg (snd (on_receive B p now c)) = ic_cfg c"
  by (auto simp: on_receive_def split: sum.split prod.split)

lemma io_ok_receive_one: "io_ok s P \<Longrightarrow> io_ok (receive_one B buf from now s) P"
proof -
  assume ok: "io_ok s P"
  show ?thesis
  proof (cases "decode_connected_packet B buf")
    case (Inr packet)
    note packet = Inr
    show ?thesis
    proof (cases "from")
      case (Some ip)
      note fr = Some
      let ?k = "\<lparr>key_peer_ip = ip, key_t2o_id = connection_id packet\<rparr>"
      show ?thesis
      proof (cases "connections s ?k")
        case (Some e)
        obtain i c where r: "on_receive B packet now (en_conn e) = (i, c)" by (meson surj_pair)
        have c: "ic_cfg c = ic_cfg (en_conn e)" using on_receive_cfg [of B packet now "en_conn e"] r by simp
        have u: "io_ok (s\<lparr>connections := (connections s)(?k \<mapsto> e\<lparr>en_conn := c\<rparr>), effects := effects s @ ef\<rparr>) P"
          if "\<forall>f. CloseCalled f \<notin> set ef" for ef
          using io_ok_update [OF ok Some, of "e\<lparr>en_conn := c\<rparr>" ef] c that by simp
        from u [of "[]"] u [of "[Received ?k (the i)]"] show ?thesis
          by (cases i) (simp_all add: receive_one_def packet fr Some r Let_def)
      qed (use ok in \<open>simp add: receive_one_def packet fr\<close>)
    qed (use ok in \<open>simp add: receive_one_def packet\<close>)
  qed (use ok in \<open>simp add: receive_one_def\<close>)
qed

lemma io_ok_receive: "io_ok s P \<Longrightarrow> io_ok (receive_all B rs s) P"
  by (induction B rs s rule: receive_all.induct) (simp_all add: io_ok_receive_one)

section \<open>The threads together\<close>

text \<open>
  The state all threads see, and the handles in the hands of the program: \<open>handles\<close> may be closed,
  \<open>closing\<close> are in the middle of \<open>forward_close\<close>, between marking the flag and sending \<open>Remove\<close>.
\<close>

record io_system =
  io :: io_state
  queue :: "Command list"
  handles :: "(nat \<times> ConnectionKey) list"
  closing :: "(nat \<times> ConnectionKey) list"
  running :: bool

definition io_start :: io_system where
  "io_start = \<lparr>io = io_init, queue = [], handles = [], closing = [], running = True\<rparr>"

text \<open>
  One step of any thread. The commands of one \<open>drain_commands\<close> are steps of their own, so that other
  threads interleave with them. \<open>admit\<close> says which keys a Forward Open may come back with.
\<close>

inductive io_step :: "bytes_api \<Rightarrow> (io_system \<Rightarrow> ConnectionKey \<Rightarrow> bool) \<Rightarrow> io_system \<Rightarrow> io_system \<Rightarrow> bool"
  for B admit where
  opened: "running y \<Longrightarrow> admit y (io_key cfg) \<Longrightarrow> flag_new (io y) = (f, s) \<Longrightarrow>
    io_step B admit y (y\<lparr>io := s, queue := queue y @ [Add (conn_new cfg now) cb f],
      handles := (f, io_key cfg) # handles y\<rparr>)"
| opened_stopped: "\<not> running y \<Longrightarrow> flag_new (io y) = (f, s) \<Longrightarrow> io_step B admit y (y\<lparr>io := s\<rparr>)"
| close_flag: "(f, k) \<in> set (handles y) \<Longrightarrow> flag_close f (io y) = (True, s) \<Longrightarrow>
    io_step B admit y (y\<lparr>io := s, handles := remove1 (f, k) (handles y), closing := (f, k) # closing y\<rparr>)"
| close_again: "(f, k) \<in> set (handles y) \<Longrightarrow> flag_close f (io y) = (False, s) \<Longrightarrow>
    io_step B admit y (y\<lparr>io := s, handles := remove1 (f, k) (handles y)\<rparr>)"
| close_send: "(f, k) \<in> set (closing y) \<Longrightarrow> running y \<Longrightarrow>
    io_step B admit y (y\<lparr>queue := queue y @ [Remove k], closing := remove1 (f, k) (closing y)\<rparr>)"
| handle_output: "(f, k) \<in> set (handles y) \<Longrightarrow> running y \<Longrightarrow>
    io_step B admit y (y\<lparr>queue := queue y @ [SetOutput k d]\<rparr>)"
| handle_run: "(f, k) \<in> set (handles y) \<Longrightarrow> running y \<Longrightarrow>
    io_step B admit y (y\<lparr>queue := queue y @ [SetRun k r]\<rparr>)"
| stop: "running y \<Longrightarrow> io_step B admit y (y\<lparr>queue := queue y @ [Shutdown]\<rparr>)"
| command: "running y \<Longrightarrow> queue y = c # q \<Longrightarrow> c \<noteq> Shutdown \<Longrightarrow>
    io_step B admit y (y\<lparr>io := run_command c (io y), queue := q\<rparr>)"
| shutdown: "running y \<Longrightarrow> queue y = Shutdown # q \<Longrightarrow>
    io_step B admit y (y\<lparr>io := (io y)\<lparr>connections := Map.empty\<rparr>, queue := [], running := False\<rparr>)"
| service: "running y \<Longrightarrow> enumerates order (io y) \<Longrightarrow>
    io_step B admit y (y\<lparr>io := service_connections B now order (io y)\<rparr>)"
| receive: "running y \<Longrightarrow> io_step B admit y (y\<lparr>io := receive_all B rs (io y)\<rparr>)"

inductive io_reachable :: "bytes_api \<Rightarrow> (io_system \<Rightarrow> ConnectionKey \<Rightarrow> bool) \<Rightarrow> io_system \<Rightarrow> bool"
  for B admit where
  start: "io_reachable B admit io_start"
| step: "io_reachable B admit y \<Longrightarrow> io_step B admit y y' \<Longrightarrow> io_reachable B admit y'"

definition pending_flags :: "io_system \<Rightarrow> nat list" where
  "pending_flags y = map snd (adds (queue y))"

definition handles_ok :: "bool list \<Rightarrow> (nat \<times> ConnectionKey) set \<Rightarrow> (nat \<times> ConnectionKey) set \<Rightarrow> bool" where
  "handles_ok flags hs cs \<longleftrightarrow> (\<forall>h \<in> hs \<union> cs. fst h < length flags) \<and> (\<forall>h \<in> cs. \<not> flags ! fst h)"

lemma handles_ok_mono:
  assumes "handles_ok flags hs cs" "hs' \<subseteq> hs" "cs' \<subseteq> cs" "length flags \<le> length flags'"
    "\<And>f. f < length flags \<Longrightarrow> flags' ! f \<Longrightarrow> flags ! f"
  shows "handles_ok flags' hs' cs'"
  unfolding handles_ok_def
proof (intro conjI ballI)
  show "fst h < length flags'" if "h \<in> hs' \<union> cs'" for h
    using that assms(1-4) less_le_trans unfolding handles_ok_def by blast
  show "\<not> flags' ! fst h" if "h \<in> cs'" for h
    using that assms unfolding handles_ok_def by blast
qed

definition system_ok :: "io_system \<Rightarrow> bool" where
  "system_ok y \<longleftrightarrow> io_ok (io y) (pending_flags y)
     \<and> handles_ok (flag_open (io y)) (set (handles y)) (set (closing y))"

lemma service_flags: "enumerates order s \<Longrightarrow> length (flag_open (service_connections B now order s)) = length (flag_open s)
    \<and> (f < length (flag_open s) \<longrightarrow> flag_open (service_connections B now order s) ! f \<longrightarrow> flag_open s ! f)"
  using service_pass(3,4) [OF _ refl] by blast

lemma receive_one_flags [simp]: "flag_open (receive_one B buf from now s) = flag_open s"
  by (auto simp: receive_one_def Let_def split: sum.split option.split prod.split)

lemma receive_all_flags [simp]: "flag_open (receive_all B rs s) = flag_open s"
  by (induction B rs s rule: receive_all.induct) simp_all

lemma run_command_flags:
  "length (flag_open (run_command c s)) = length (flag_open s)"
  "f < length (flag_open s) \<Longrightarrow> flag_open (run_command c s) ! f \<Longrightarrow> flag_open s ! f"
  by (cases c; auto simp: Let_def update_conn_def split: option.splits dest: nth_close)+

lemma io_ok_no_connections: "io_ok s P \<Longrightarrow> io_ok (s\<lparr>connections := Map.empty\<rparr>) []"
  by (auto simp: io_ok_def count_ok_def keys_ok_def owners_ok_def close_ok_def owns_def)

lemma flag_new_eq: "flag_new s = (f, s') \<longleftrightarrow> f = length (flag_open s) \<and> s' = snd (flag_new s)"
  by (auto simp: flag_new_def)

lemma flag_open_new [simp]: "flag_open (snd (flag_new s)) = flag_open s @ [True]"
  by (simp add: flag_new_def)

lemma io_ok_new_unused: "io_ok s P \<Longrightarrow> io_ok (snd (flag_new s)) P"
  using io_ok_new [of s P]
  by (simp add: io_ok_def owners_ok_def close_ok_def)

lemma nth_append_old: "f < length xs \<Longrightarrow> (xs @ ys) ! f \<Longrightarrow> xs ! f"
  by (simp add: nth_append)

lemma flag_close_eq: "flag_close f s = (b, s') \<longleftrightarrow> b = flag_open s ! f \<and> s' = snd (flag_close f s)"
  by (auto simp: prod_eq_iff)

lemma system_ok_step: "io_step B admit y y' \<Longrightarrow> system_ok y \<Longrightarrow> system_ok y'"
proof (induction rule: io_step.induct)
  case (opened y cfg f s now cb)
  have "handles_ok (flag_open (io y) @ [True]) (set (handles y)) (set (closing y))"
    by (rule handles_ok_mono [of "flag_open (io y)" "set (handles y)" "set (closing y)"])
      (use opened(4) in \<open>auto simp: system_ok_def dest: nth_append_old\<close>)
  with opened show ?case
    using io_ok_new [of "io y" "pending_flags y"]
    by (auto simp: system_ok_def pending_flags_def flag_new_eq handles_ok_def conn_new_def)
      (simp_all add: flag_new_def)
next
  case (opened_stopped y f s)
  have "handles_ok (flag_open (io y) @ [True]) (set (handles y)) (set (closing y))"
    by (rule handles_ok_mono [of "flag_open (io y)" "set (handles y)" "set (closing y)"])
      (use opened_stopped(3) in \<open>auto simp: system_ok_def dest: nth_append_old\<close>)
  with opened_stopped show ?case
    using io_ok_new_unused [of "io y" "pending_flags y"]
    by (auto simp: system_ok_def pending_flags_def flag_new_eq)
next
  case (close_flag f k y s)
  then have f: "f < length (flag_open (io y))" by (force simp: system_ok_def handles_ok_def)
  have "handles_ok ((flag_open (io y))[f := False]) (set (remove1 (f, k) (handles y))) (set (closing y))"
    by (rule handles_ok_mono [of "flag_open (io y)" "set (handles y)" "set (closing y)"])
      (use close_flag set_remove1_subset [of "(f, k)" "handles y"] in \<open>auto simp: system_ok_def dest: nth_close\<close>)
  with close_flag f show ?case
    using io_ok_close [of "io y" "pending_flags y" f]
    by (auto simp: system_ok_def pending_flags_def flag_close_eq handles_ok_def)
next
  case (close_again f k y s)
  then have f: "f < length (flag_open (io y))" by (force simp: system_ok_def handles_ok_def)
  have "handles_ok ((flag_open (io y))[f := False]) (set (remove1 (f, k) (handles y))) (set (closing y))"
    by (rule handles_ok_mono [of "flag_open (io y)" "set (handles y)" "set (closing y)"])
      (use close_again set_remove1_subset [of "(f, k)" "handles y"] in \<open>auto simp: system_ok_def dest: nth_close\<close>)
  with close_again f show ?case
    using io_ok_close [of "io y" "pending_flags y" f]
    by (auto simp: system_ok_def pending_flags_def flag_close_eq)
next
  case (close_send f k y)
  have "handles_ok (flag_open (io y)) (set (handles y)) (set (remove1 (f, k) (closing y)))"
    by (rule handles_ok_mono [of "flag_open (io y)" "set (handles y)" "set (closing y)"])
      (use close_send set_remove1_subset [of "(f, k)" "closing y"] in \<open>auto simp: system_ok_def\<close>)
  with close_send show ?case by (auto simp: system_ok_def pending_flags_def)
next
  case (handle_output f k y d)
  then show ?case by (simp add: system_ok_def pending_flags_def)
next
  case (handle_run f k y r)
  then show ?case by (simp add: system_ok_def pending_flags_def)
next
  case (stop y)
  then show ?case by (simp add: system_ok_def pending_flags_def)
next
  case (command y c q)
  have "handles_ok (flag_open (run_command c (io y))) (set (handles y)) (set (closing y))"
    by (rule handles_ok_mono [of "flag_open (io y)" "set (handles y)" "set (closing y)"])
      (use command run_command_flags in \<open>auto simp: system_ok_def\<close>)
  with command show ?case
    using io_ok_command [of "io y" c q] by (simp add: system_ok_def pending_flags_def)
next
  case (shutdown y q)
  then show ?case
    using io_ok_no_connections by (auto simp: system_ok_def pending_flags_def)
next
  case (service y order now)
  have "handles_ok (flag_open (service_connections B now order (io y))) (set (handles y)) (set (closing y))"
    by (rule handles_ok_mono [of "flag_open (io y)" "set (handles y)" "set (closing y)"])
      (use service service_flags [OF service(2)] in \<open>auto simp: system_ok_def\<close>)
  with service show ?case
    using io_ok_service [of "io y"] by (simp add: system_ok_def pending_flags_def)
next
  case (receive y rs)
  then show ?case
    using io_ok_receive by (simp add: system_ok_def pending_flags_def)
qed

lemma system_ok_reachable: "io_reachable B admit y \<Longrightarrow> system_ok y"
  by (induction rule: io_reachable.induct)
    (auto simp: system_ok_step, simp add: system_ok_def io_start_def io_init_def io_ok_def count_ok_def keys_ok_def
      owners_ok_def close_ok_def owns_def pending_flags_def handles_ok_def)

section \<open>No open connection is lost\<close>

text \<open>
  \<open>live y k f\<close>: a connection with key \<open>k\<close> and flag \<open>f\<close> is in the table, or on its way there. Keys are fresh
  when no such connection has the key and none is being closed under it.
\<close>

definition live :: "io_system \<Rightarrow> ConnectionKey \<Rightarrow> nat \<Rightarrow> bool" where
  "live y k f \<longleftrightarrow> owns (io y) k f \<or> (k, f) \<in> set (adds (queue y))"

definition closing_key :: "io_system \<Rightarrow> ConnectionKey \<Rightarrow> bool" where
  "closing_key y k \<longleftrightarrow> Remove k \<in> set (queue y) \<or> k \<in> snd ` set (closing y)"

definition fresh_key :: "io_system \<Rightarrow> ConnectionKey \<Rightarrow> bool" where
  "fresh_key y k \<longleftrightarrow> (\<forall>f. \<not> live y k f) \<and> \<not> closing_key y k"

definition is_open_flag :: "io_system \<Rightarrow> nat \<Rightarrow> bool" where
  "is_open_flag y f \<longleftrightarrow> f < length (flag_open (io y)) \<and> flag_is_open f (io y)"

definition no_loss :: "io_system \<Rightarrow> bool" where
  "no_loss y \<longleftrightarrow> (\<forall>k f f'. live y k f \<longrightarrow> live y k f' \<longrightarrow> f = f')
     \<and> (\<forall>f k k'. (f, k) \<in> set (handles y) \<longrightarrow> live y k' f \<longrightarrow> k' = k)
     \<and> (\<forall>k f. closing_key y k \<longrightarrow> live y k f \<longrightarrow> \<not> is_open_flag y f)
     \<and> (\<forall>f. is_open_flag y f \<longrightarrow> (\<exists>k. live y k f))"

lemma no_loss_mono:
  assumes "no_loss y" "\<And>k f. live y' k f \<Longrightarrow> live y k f" "set (handles y') \<subseteq> set (handles y)"
    "\<And>k. closing_key y' k \<Longrightarrow> closing_key y k" "\<And>f. is_open_flag y' f \<Longrightarrow> is_open_flag y f"
    "\<And>f k. is_open_flag y' f \<Longrightarrow> live y k f \<Longrightarrow> live y' k f"
  shows "no_loss y'"
  using assms unfolding no_loss_def by (smt (verit) subsetD)

lemma live_bound: "system_ok y \<Longrightarrow> live y k f \<Longrightarrow> f < length (flag_open (io y))"
  by (force simp: system_ok_def io_ok_def owners_ok_def live_def pending_flags_def)

lemma owns_receive_one [simp]: "owns (receive_one B buf from now s) = owns s"
  by (auto simp: receive_one_def Let_def owns_def fun_eq_iff split: sum.split option.split prod.split)

lemma owns_receive_all [simp]: "owns (receive_all B rs s) = owns s"
  by (induction B rs s rule: receive_all.induct) simp_all

lemma owns_update_conn [simp]: "owns (update_conn k g s) = owns s"
  by (auto simp: update_conn_def owns_def fun_eq_iff split: option.split)

lemma flags_update_conn [simp]: "flag_open (update_conn k g s) = flag_open s"
  by (simp add: update_conn_def split: option.split)

lemma owns_service:
  assumes "enumerates order s"
  shows "owns (service_connections B now order s) k f \<longleftrightarrow>
    (\<exists>e. connections s k = Some e \<and> en_flag e = f \<and> \<not> is_timed_out (en_conn e) now)"
  using service_pass(1) [OF assms refl, of B now k] service_entry_keeps(1) [of B now]
  by (cases "connections s k") (auto simp: owns_def after_service_def)

lemma no_loss_command:
  assumes "no_loss y" "system_ok y" "queue y = c # q" "c \<noteq> Shutdown"
  shows "no_loss (y\<lparr>io := run_command c (io y), queue := q\<rparr>)" (is "no_loss ?y")
proof (cases c)
  case (Add conn cb f)
  let ?k = "io_key (ic_cfg conn)"
  have lv: "live y ?k f" by (simp add: live_def assms(3) Add)
  have "connections (io y) ?k = None"
  proof (rule ccontr)
    assume "connections (io y) ?k \<noteq> None"
    then obtain e where e: "connections (io y) ?k = Some e" by auto
    then have "live y ?k (en_flag e)" by (auto simp: live_def owns_def)
    with lv assms(1) have "en_flag e = f" unfolding no_loss_def by blast
    moreover have "en_flag e \<notin> set (pending_flags y)"
      using assms(2) e by (auto simp: system_ok_def io_ok_def owners_ok_def owns_def)
    ultimately show False by (simp add: pending_flags_def assms(3) Add)
  qed
  then have run: "run_command c (io y) = (io y)\<lparr>connections := (connections (io y))(?k \<mapsto>
      \<lparr>en_conn = conn, en_callbacks = cb, en_flag = f\<rparr>)\<rparr>"
    by (simp add: Add Let_def)
  have "live ?y = live y"
    using \<open>connections (io y) ?k = None\<close>
    by (auto simp: live_def owns_def fun_eq_iff run assms(3) Add split: if_splits)
  then show ?thesis
    by (intro no_loss_mono [OF assms(1)])
      (auto simp: closing_key_def assms(3) run is_open_flag_def flag_is_open_def)
next
  case (Remove k)
  have closed: "\<not> is_open_flag y f" if "live y k f" for f
    using that assms(1,3) Remove by (auto simp: no_loss_def closing_key_def)
  have lv: "live ?y j f \<longleftrightarrow> (j, f) \<in> set (adds q) \<or> j \<noteq> k \<and> owns (io y) j f" for j f
    by (auto simp: live_def owns_def Remove)
  have fl: "is_open_flag ?y = is_open_flag y"
    by (simp add: is_open_flag_def flag_is_open_def Remove fun_eq_iff)
  show ?thesis
  proof (rule no_loss_mono [OF assms(1)])
    show "live y j f" if "live ?y j f" for j f
      using that lv by (auto simp: live_def assms(3) Remove)
    show "live ?y j f" if "is_open_flag ?y f" "live y j f" for j f
      using that closed unfolding fl lv by (auto simp: live_def assms(3) Remove)
  qed (auto simp: closing_key_def assms(3) fl)
next
  case (SetOutput k d)
  show ?thesis
    by (rule no_loss_mono [OF assms(1)])
      (auto simp: live_def closing_key_def assms(3) SetOutput is_open_flag_def flag_is_open_def)
next
  case (SetRun k r)
  show ?thesis
    by (rule no_loss_mono [OF assms(1)])
      (auto simp: live_def closing_key_def assms(3) SetRun is_open_flag_def flag_is_open_def)
qed (use assms(4) in simp)

lemma no_loss_open:
  assumes "no_loss y" "system_ok y" "fresh_key y k" "f = length (flag_open (io y))"
    and live': "\<And>j g. live y' j g \<longleftrightarrow> live y j g \<or> j = k \<and> g = f"
    and flags': "flag_open (io y') = flag_open (io y) @ [True]"
    and handles': "handles y' = (f, k) # handles y" and keys': "\<And>j. closing_key y' j = closing_key y j"
  shows "no_loss y'"
proof -
  have old: "g < f" if "live y j g" for j g
    using live_bound [OF assms(2) that] assms(4) by simp
  have hold: "g < f" if "(g, j) \<in> set (handles y)" for j g
    using assms(2,4) that by (force simp: system_ok_def handles_ok_def)
  have open': "is_open_flag y' g \<longleftrightarrow> is_open_flag y g \<or> g = f" for g
    by (auto simp: is_open_flag_def flag_is_open_def flags' nth_append assms(4) less_Suc_eq)
  note [simp] = live' handles' keys' open'
  show ?thesis
    unfolding no_loss_def
  proof (intro conjI allI impI)
    show "g = g'" if "live y' j g" "live y' j g'" for j g g'
      using that assms(1,3) by (auto simp: no_loss_def fresh_key_def)
    show "j' = j" if "(g, j) \<in> set (handles y')" "live y' j' g" for g j j'
      using that assms(1) old hold by (auto simp: no_loss_def)
    show "\<not> is_open_flag y' g" if "closing_key y' j" "live y' j g" for j g
      using that assms(1,3) old [of j g] by (auto simp: no_loss_def fresh_key_def)
    show "\<exists>j. live y' j g" if "is_open_flag y' g" for g
      using that assms(1) by (auto simp: no_loss_def)
  qed
qed

lemma no_loss_close:
  assumes "no_loss y" "(f, k) \<in> set (handles y)" "is_open_flag y f"
    and live': "\<And>j g. live y' j g = live y j g"
    and flags': "\<And>g. is_open_flag y' g \<longleftrightarrow> is_open_flag y g \<and> g \<noteq> f"
    and handles': "set (handles y') \<subseteq> set (handles y)"
    and keys': "\<And>j. closing_key y' j \<longleftrightarrow> closing_key y j \<or> j = k"
  shows "no_loss y'"
proof -
  obtain k0 where "live y k0 f" using assms(1,3) by (auto simp: no_loss_def)
  moreover from this assms(1,2) have "k0 = k" unfolding no_loss_def by blast
  ultimately have k: "live y k f" by simp
  then have only: "g = f" if "live y k g" for g
    using that assms(1) by (auto simp: no_loss_def)
  show ?thesis
    unfolding no_loss_def live' flags' keys'
    using assms(1) handles' only by (auto simp: no_loss_def)
qed

lemma no_loss_queue:
  assumes "no_loss y" "adds [c] = []" "\<forall>k. c \<noteq> Remove k"
  shows "no_loss (y\<lparr>queue := queue y @ [c]\<rparr>)"
  by (rule no_loss_mono [OF assms(1)])
    (use assms(2,3) in \<open>auto simp: live_def closing_key_def is_open_flag_def\<close>)

lemma no_loss_step:
  "io_step B fresh_key y y' \<Longrightarrow> system_ok y \<Longrightarrow> (running y \<Longrightarrow> no_loss y) \<Longrightarrow> running y' \<Longrightarrow> no_loss y'"
proof (induction rule: io_step.induct)
  case (opened y cfg f s now cb)
  have f: "f = length (flag_open (io y))"
    and s: "s = (io y)\<lparr>flag_open := flag_open (io y) @ [True], open_count := open_count (io y) + 1\<rparr>"
    using opened(3) by (auto simp: flag_new_def)
  have nl: "no_loss y" and fk: "fresh_key y (io_key cfg)" using opened by simp_all
  show ?case
    by (rule no_loss_open [OF nl opened(4) fk f])
      (simp_all add: live_def owns_def closing_key_def conn_new_def s disj_ac)
next
  case (close_flag f k y s)
  then have "no_loss y" and s: "s = snd (flag_close f (io y))" "flag_open (io y) ! f"
    by (auto simp: flag_close_eq)
  have f: "f < length (flag_open (io y))"
    using close_flag(1,3) by (force simp: system_ok_def handles_ok_def)
  have fl: "((flag_open (io y))[f := False]) ! g \<longleftrightarrow> flag_open (io y) ! g \<and> g \<noteq> f" if "g < length (flag_open (io y))" for g
    using that by (cases "f = g") auto
  show ?case
    by (rule no_loss_close [OF \<open>no_loss y\<close> close_flag(1)])
      (use s f fl set_remove1_subset [of "(f, k)" "handles y"] in
        \<open>auto simp: live_def closing_key_def is_open_flag_def flag_is_open_def\<close>)
next
  case (close_again f k y s)
  have nl: "no_loss y" and s: "s = snd (flag_close f (io y))" "\<not> flag_open (io y) ! f"
    using close_again by (simp_all add: flag_close_eq)
  from s(2) have same: "(flag_open (io y))[f := False] = flag_open (io y)"
    by (metis (full_types) list_update_id)
  show ?case
    by (rule no_loss_mono [OF nl])
      (simp_all add: live_def closing_key_def is_open_flag_def flag_is_open_def s(1) same set_remove1_subset)
next
  case (close_send f k y)
  let ?y = "y\<lparr>queue := queue y @ [Remove k], closing := remove1 (f, k) (closing y)\<rparr>"
  have nl: "no_loss y" using close_send by simp
  have "k \<in> snd ` set (closing y)" using close_send(1) by force
  moreover have "snd ` set (remove1 (f, k) (closing y)) \<subseteq> snd ` set (closing y)"
    by (rule image_mono [OF set_remove1_subset])
  ultimately have "closing_key y j" if "closing_key ?y j" for j
    using that unfolding closing_key_def by auto
  then show ?case
    by (intro no_loss_mono [OF nl]) (simp_all add: live_def is_open_flag_def)
next
  case (handle_output f k y d)
  then show ?case by (simp add: no_loss_queue)
next
  case (handle_run f k y r)
  then show ?case by (simp add: no_loss_queue)
next
  case (stop y)
  then show ?case by (simp add: no_loss_queue)
next
  case (command y c q)
  then show ?case by (intro no_loss_command) simp_all
next
  case (service y order now)
  let ?s = "service_connections B now order (io y)"
  have o: "owns ?s k f \<Longrightarrow> owns (io y) k f" for k f
    using owns_service [OF service(2)] by (auto simp: owns_def)
  have fl: "f < length (flag_open (io y)) \<Longrightarrow> flag_open ?s ! f \<Longrightarrow> flag_open (io y) ! f
      \<and> (owns (io y) k f \<longrightarrow> owns ?s k f)" for f k
    using service_pass(4) [OF service(2) refl, of f B now] owns_service [OF service(2)]
    by (auto simp: owns_def)
  let ?y = "y\<lparr>io := ?s\<rparr>"
  have nl: "no_loss y" using service by simp
  have len: "length (flag_open ?s) = length (flag_open (io y))"
    by (rule service_pass(3) [OF service(2) refl])
  have op: "is_open_flag y f \<and> (owns (io y) k f \<longrightarrow> owns ?s k f)" if "is_open_flag ?y f" for f k
    using that fl [of f k] len by (simp add: is_open_flag_def flag_is_open_def)
  show ?case
  proof (rule no_loss_mono [OF nl])
    show "live y k f" if "live ?y k f" for k f using that o by (auto simp: live_def)
    show "live ?y k f" if "is_open_flag ?y f" "live y k f" for k f
      using op [OF that(1), of k] that(2) by (auto simp: live_def)
    show "is_open_flag y f" if "is_open_flag ?y f" for f using op [OF that] by blast
  qed (simp_all add: closing_key_def)
next
  case (receive y rs)
  then have nl: "no_loss y" by simp
  show ?case
    by (rule no_loss_mono [OF nl]) (simp_all add: live_def closing_key_def is_open_flag_def flag_is_open_def)
qed simp_all

lemma no_loss_reachable: "io_reachable B fresh_key y \<Longrightarrow> running y \<Longrightarrow> no_loss y"
proof (induction rule: io_reachable.induct)
  case start
  show ?case
    by (simp add: no_loss_def io_start_def io_init_def live_def owns_def is_open_flag_def closing_key_def)
next
  case (step y y')
  show ?case
    by (rule no_loss_step [OF step(2) system_ok_reachable [OF step(1)] step(3) step(4)])
qed

section \<open>Properties\<close>

text \<open>C7: In every state the threads can reach, whatever they interleave and whatever ids targets grant: the
  shared counter is the number of open flags; \<open>on_close\<close> has been called at most once for a connection, and
  once it has, the connection is closed and nowhere in the table or the channel; and every entry of the
  table is under the key of its own connection.\<close>
theorem io_bookkeeping:
  assumes "io_reachable B admit y"
  shows "open_count (io y) = length (filter (\<lambda>b. b) (flag_open (io y)))
    \<and> count_list (effects (io y)) (CloseCalled f) \<le> 1
    \<and> (CloseCalled f \<in> set (effects (io y)) \<longrightarrow> \<not> is_open_flag y f \<and> \<not> live y k f)
    \<and> (connections (io y) k = Some e \<longrightarrow> io_key (ic_cfg (en_conn e)) = k)"
proof (intro conjI)
  have ok: "io_ok (io y) (pending_flags y)"
    using system_ok_reachable [OF assms] by (simp add: system_ok_def)
  show "open_count (io y) = length (filter (\<lambda>b. b) (flag_open (io y)))" "count_list (effects (io y)) (CloseCalled f) \<le> 1"
    "connections (io y) k = Some e \<longrightarrow> io_key (ic_cfg (en_conn e)) = k"
    using ok by (auto simp: io_ok_def count_ok_def close_ok_def keys_ok_def)
  have "CloseCalled f \<in> set (effects (io y)) \<Longrightarrow> \<not> flag_open (io y) ! f \<and> f \<notin> set (pending_flags y) \<and> \<not> owns (io y) k f"
    using ok unfolding io_ok_def close_ok_def by blast
  moreover have "(k, f) \<in> set (adds (queue y)) \<Longrightarrow> f \<in> set (pending_flags y)"
    by (force simp: pending_flags_def)
  ultimately show "CloseCalled f \<in> set (effects (io y)) \<longrightarrow> \<not> is_open_flag y f \<and> \<not> live y k f"
    unfolding is_open_flag_def flag_is_open_def live_def by blast
qed

lemma open_count_pos: "0 < length (filter (\<lambda>b. b) xs) \<longleftrightarrow> (\<exists>f < length xs. xs ! f)"
proof -
  have "0 < length (filter (\<lambda>b. b) xs) \<longleftrightarrow> (\<exists>b \<in> set xs. b)"
    by (simp add: filter_empty_conv)
  also have "\<dots> \<longleftrightarrow> (\<exists>f < length xs. xs ! f)"
    by (metis in_set_conv_nth)
  finally show ?thesis .
qed

text \<open>C8: As long as the thread runs and no Forward Open brings back a key that is in use or being closed, no
  open connection is lost: each open flag belongs to exactly one connection in the table or on its way
  there, no two of those share a key, and \<open>has_open_connections\<close> is true exactly when there is such a
  connection.\<close>
theorem no_open_connection_lost:
  assumes "io_reachable B fresh_key y" "running y"
  shows "(is_open_flag y f \<longrightarrow> (\<exists>!k. live y k f))
    \<and> (live y k f \<longrightarrow> live y k f' \<longrightarrow> f = f')
    \<and> (0 < open_count (io y) \<longleftrightarrow> (\<exists>k f. live y k f \<and> is_open_flag y f))"
proof -
  note nl = no_loss_reachable [OF assms]
  have ok: "io_ok (io y) (pending_flags y)"
    using system_ok_reachable [OF assms(1)] by (simp add: system_ok_def)
  have pend: "f \<in> set (pending_flags y)" if "(k, f) \<in> set (adds (queue y))" for k
    using that by (force simp: pending_flags_def)
  have own: "owners_ok (io y) (pending_flags y)" using ok by (simp add: io_ok_def)
  have adds: "k = k'" if "(k, f) \<in> set (adds (queue y))" "(k', f) \<in> set (adds (queue y))" for k k'
  proof -
    have "inj_on snd (set (adds (queue y)))" "distinct (adds (queue y))"
      using own by (simp_all add: owners_ok_def pending_flags_def distinct_map)
    from inj_onD [OF this(1) _ that] show ?thesis by simp
  qed
  have unique: "k = k'" if "live y k f" "live y k' f" for k k'
    using that adds pend own unfolding owners_ok_def live_def by blast
  have count: "0 < open_count (io y) \<longleftrightarrow> (\<exists>f. is_open_flag y f)"
    using ok open_count_pos [of "flag_open (io y)"]
    by (simp add: io_ok_def count_ok_def is_open_flag_def flag_is_open_def)
  have owned: "\<exists>k. live y k f" if "is_open_flag y f" for f
    using nl that unfolding no_loss_def by blast
  have single: "live y k f \<longrightarrow> live y k f' \<longrightarrow> f = f'"
    using nl unfolding no_loss_def by blast
  show ?thesis
    unfolding count using owned unique single by blast
qed

text \<open>C9: One pass of \<open>service_connections\<close>, for every order the table may be iterated in: a connection that
  has timed out is removed, its flag closed and its \<open>on_close\<close> called; every other one stays and is
  serviced; what is sent for each depends on that connection alone; and no other flag changes.\<close>
theorem service_pass_pointwise:
  assumes "enumerates order s"
  shows "connections (service_connections B now order s) k = Option.bind (connections s k) (after_service B now)
    \<and> effects (service_connections B now order s) = effects s @ concat (map (sent_at B now s) order)
      @ concat (map (close_effects s) (filter (timed_out_at now s) order))
    \<and> (f < length (flag_open s) \<longrightarrow> flag_is_open f (service_connections B now order s) =
      (flag_is_open f s \<and> (\<nexists>k e. connections s k = Some e \<and> en_flag e = f \<and> is_timed_out (en_conn e) now)))"
  using service_pass [OF assms refl] by (simp_all add: flag_is_open_def)

text \<open>What a datagram makes the thread call.\<close>

definition delivered :: "bytes_api \<Rightarrow> bytes \<Rightarrow> Ipv4Addr option \<Rightarrow> instant \<Rightarrow> io_state \<Rightarrow> io_effect list" where
  "delivered B buf sender now s =
     (case (decode_connected_packet B buf, sender) of
        (Inr p, Some ip) \<Rightarrow>
          let k = \<lparr>key_peer_ip = ip, key_t2o_id = connection_id p\<rparr> in
          (case connections s k of
             None \<Rightarrow> []
           | Some e \<Rightarrow>
               (case fst (on_receive B p now (en_conn e)) of
                  Some i \<Rightarrow> if cb_on_receive (en_callbacks e) then [Received k i] else []
                | None \<Rightarrow> []))
      | _ \<Rightarrow> [])"

text \<open>C13: A datagram touches no connection but the one it names: only the connection keyed by the sender's IP
  address and the packet's connection id changes, and only as its \<open>on_receive\<close> says; no flag changes, and
  the callback is called exactly for the packets that are accepted. Malformed packets and unknown keys
  change nothing.\<close>
theorem datagrams_are_isolated:
  "connections (receive_one B buf sender now s) k =
     (case (decode_connected_packet B buf, sender, connections s k) of
        (Inr p, Some ip, Some e) \<Rightarrow>
          if k = \<lparr>key_peer_ip = ip, key_t2o_id = connection_id p\<rparr>
          then Some (e\<lparr>en_conn := snd (on_receive B p now (en_conn e))\<rparr>) else Some e
      | (_, _, e) \<Rightarrow> e)
   \<and> flag_open (receive_one B buf sender now s) = flag_open s
   \<and> effects (receive_one B buf sender now s) = effects s @ delivered B buf sender now s"
proof (cases "decode_connected_packet B buf")
  case (Inr p)
  note p = Inr
  show ?thesis
  proof (cases sender)
    case (Some ip)
    note ip = Some
    let ?j = "\<lparr>key_peer_ip = ip, key_t2o_id = connection_id p\<rparr>"
    show ?thesis
    proof (cases "connections s ?j")
      case None
      then show ?thesis
        by (cases "connections s k") (auto simp: receive_one_def delivered_def p ip)
    next
      case (Some e)
      obtain i c where r: "on_receive B p now (en_conn e) = (i, c)" by (meson surj_pair)
      show ?thesis
        by (cases i; cases "connections s k") (auto simp: receive_one_def delivered_def p ip Some r Let_def)
    qed
  qed (cases "connections s k"; simp add: receive_one_def delivered_def p)
qed (cases sender; cases "connections s k"; simp add: receive_one_def delivered_def)

lemma fold_min_le: "fold min ds (d :: nat) \<le> d" "x \<in> set ds \<Longrightarrow> fold min ds d \<le> x"
proof (induction ds arbitrary: d)
  case (Cons a ds)
  {
    case 1
    show ?case using Cons.IH(1) [of "min a d"] by simp
  next
    case 2
    then show ?case using Cons.IH(1) [of "min a d"] Cons.IH(2) [of "min a d"] by auto
  }
qed simp_all

lemma fold_min_in: "fold min ds (d :: nat) \<in> insert d (set ds)"
proof (induction ds arbitrary: d)
  case (Cons a ds)
  show ?case using Cons.IH [of "min a d"] by (auto simp: min_def split: if_splits)
qed simp

lemma cycle_deadline_le:
  assumes "k \<in> set order"
  shows "cycle_deadline idle now order s \<le> next_deadline (en_conn (the (connections s k)))"
proof (cases order)
  case (Cons j js)
  let ?d = "\<lambda>k. next_deadline (en_conn (the (connections s k)))"
  have "fold min (map ?d js) (?d j) \<le> ?d k"
    using assms fold_min_le(1) [of "map ?d js" "?d j"] fold_min_le(2) [of _ "map ?d js" "?d j"]
    unfolding Cons by auto
  then show ?thesis by (simp add: cycle_deadline_def Cons min_le_iff_disj)
qed (use assms in simp)

lemma cycle_deadline_cases:
  "cycle_deadline idle now order s = now + idle
   \<or> (\<exists>k \<in> set order. cycle_deadline idle now order s = next_deadline (en_conn (the (connections s k))))"
proof (cases order)
  case (Cons j js)
  let ?d = "\<lambda>k. next_deadline (en_conn (the (connections s k)))"
  show ?thesis
    using fold_min_in [of "map ?d js" "?d j"] by (auto simp: cycle_deadline_def Cons min_def)
qed (simp add: cycle_deadline_def)

text \<open>A connection that is not stuck: a positive interval, and fewer than 2^32 intervals behind.\<close>

definition on_schedule :: "instant \<Rightarrow> IoConnection \<Rightarrow> bool" where
  "on_schedule now c \<longleftrightarrow> 0 < io_o2t_api (ic_cfg c) \<and> now - ic_next_send c < io_o2t_api (ic_cfg c) * 2 ^ 32"

lemma service_entry_due:
  assumes "on_schedule now (en_conn e)" "\<not> is_timed_out (en_conn e) now"
  shows "now < next_deadline (en_conn (snd (service_entry B now e)))"
proof -
  have build: "now < next_deadline c'"
    if b: "build_packet B now c = (r, c')" and "ic_next_send c = ic_next_send (en_conn e)"
      "ic_cfg c = ic_cfg (en_conn e)" "ic_last_receive c = ic_last_receive (en_conn e)"
      "is_send_due (en_conn e) now" for c c' r
  proof -
    have "now < ic_next_send c'"
      using schedule_keeps_phase [OF b refl] that assms(1) by (auto simp: is_send_due_def on_schedule_def)
    moreover have "now < timeout_at c'"
      using build_packet_keeps [OF b] that assms(2) by (simp add: timeout_at_def is_timed_out_def)
    ultimately show ?thesis by (simp add: next_deadline_def)
  qed
  show ?thesis
  proof (cases "is_send_due (en_conn e) now")
    case False
    then show ?thesis
      using assms(2) by (simp add: service_entry_def is_send_due_def is_timed_out_def next_deadline_def)
  next
    case True
    show ?thesis
      using True build
      by (auto simp: service_entry_def Let_def set_output_def split: option.split prod.split)
  qed
qed

text \<open>C10: The thread neither oversleeps nor spins: after a service pass over connections that are not stuck,
  nothing is due or timed out any more, and the wait that follows ends after now, no later than
  \<open>idle_wait\<close> and no later than the moment any connection must be sent or times out; before that moment
  there is nothing to do.\<close>
theorem wait_until_next_deadline:
  assumes "enumerates order s" "\<forall>k e. connections s k = Some e \<longrightarrow> on_schedule now (en_conn e)"
    and "s' = service_connections B now order s" "enumerates order' s'" "0 < idle"
    and "connections s' k = Some e"
  shows "\<not> is_send_due (en_conn e) now \<and> \<not> is_timed_out (en_conn e) now
    \<and> now < cycle_deadline idle now order' s' \<and> cycle_deadline idle now order' s' \<le> now + idle
    \<and> (\<forall>t < cycle_deadline idle now order' s'. \<not> is_send_due (en_conn e) t \<and> \<not> is_timed_out (en_conn e) t)"
proof -
  have due: "now < next_deadline (en_conn e)" if h: "connections s' k = Some e" for k e
  proof -
    obtain e0 where e0: "connections s k = Some e0" "after_service B now e0 = Some e"
      using h service_pass(1) [OF assms(1,3), of k] by (cases "connections s k") auto
    then have "\<not> is_timed_out (en_conn e0) now" "e = snd (service_entry B now e0)"
      by (auto simp: after_service_def split: if_splits)
    with e0(1) assms(2) service_entry_due show ?thesis by blast
  qed
  have quiet: "\<not> is_send_due (en_conn e) t \<and> \<not> is_timed_out (en_conn e) t" if "t < next_deadline (en_conn e)" for t
    using that by (auto simp: next_deadline_def is_send_due_def is_timed_out_def)
  have le: "cycle_deadline idle now order' s' \<le> next_deadline (en_conn e)"
    using cycle_deadline_le [of k order' idle now s'] assms(4,6) by (force simp: enumerates_def)
  have "now < cycle_deadline idle now order' s'"
    using cycle_deadline_cases [of idle now order' s'] assms(4,5) due by (fastforce simp: enumerates_def)
  moreover have "cycle_deadline idle now order' s' \<le> now + idle" by (simp add: cycle_deadline_def)
  ultimately show ?thesis
    using quiet le due [OF assms(6)] by auto
qed

lemma drain_steps:
  "queue y = q \<Longrightarrow> running y \<Longrightarrow> drain_commands True q (io y) = (True, q', s) \<Longrightarrow>
   (io_step B admit)\<^sup>*\<^sup>* y (y\<lparr>io := s, queue := []\<rparr>)"
proof (induction q arbitrary: y)
  case Nil
  then have "y\<lparr>io := s, queue := []\<rparr> = y" by simp
  then show ?case by simp
next
  case (Cons c q)
  show ?case
  proof (cases "c = Shutdown")
    case False
    let ?y = "y\<lparr>io := run_command c (io y), queue := q\<rparr>"
    have "drain_commands True q (io ?y) = (True, q', s)"
      using Cons.prems(3) False by (cases c) simp_all
    then have "(io_step B admit)\<^sup>*\<^sup>* ?y (?y\<lparr>io := s, queue := []\<rparr>)"
      using Cons.IH [of ?y] Cons.prems(2) by simp
    moreover have "io_step B admit y ?y"
      using io_step.command Cons.prems(1,2) False by blast
    ultimately show ?thesis by (simp add: converse_rtranclp_into_rtranclp)
  qed (use Cons.prems in simp)
qed

text \<open>A round of the worker's loop, as \<open>run\<close> composes it (drain the channel, service the table, and
  receive when the wait says so), is a sequence of the interleaved steps above, so what holds in every
  state they reach holds after every round.\<close>
theorem round_is_steps:
  assumes "running y" "rd_queue rd = queue y" "run_round B rd (io y) = (True, s')" "rd_senders rd"
    and "\<forall>q s. drain_commands True (queue y) (io y) = (True, q, s) \<longrightarrow> enumerates (rd_order rd) s"
  shows "(io_step B admit)\<^sup>*\<^sup>* y (y\<lparr>io := s', queue := []\<rparr>)"
proof -
  obtain q s where d: "drain_commands True (queue y) (io y) = (True, q, s)"
    using assms(2,3,4) by (auto simp: run_round_def split: prod.splits bool.splits)
  let ?y1 = "y\<lparr>io := s, queue := []\<rparr>"
  let ?s2 = "service_connections B (rd_now rd) (rd_order rd) s"
  let ?y2 = "?y1\<lparr>io := ?s2\<rparr>"
  have "enumerates (rd_order rd) (io ?y1)" using assms(5) d by simp
  then have two: "io_step B admit ?y1 ?y2"
    using io_step.service [of ?y1 "rd_order rd" B admit "rd_now rd"] assms(1) by simp
  have s': "s' = (if rd_ready rd = Some True then receive_all B (rd_datagrams rd) ?s2 else ?s2)"
    using assms(2,3,4) d by (simp add: run_round_def Let_def)
  have "io_step B admit ?y2 (?y2\<lparr>io := receive_all B (rd_datagrams rd) (io ?y2)\<rparr>)"
    by (rule io_step.receive) (simp add: assms(1))
  then have "(io_step B admit)\<^sup>*\<^sup>* ?y2 (y\<lparr>io := s', queue := []\<rparr>)"
  proof -
    assume st: "io_step B admit ?y2 (?y2\<lparr>io := receive_all B (rd_datagrams rd) (io ?y2)\<rparr>)"
    have "y\<lparr>io := s', queue := []\<rparr> = (if rd_ready rd = Some True
        then ?y2\<lparr>io := receive_all B (rd_datagrams rd) (io ?y2)\<rparr> else ?y2)"
      by (simp add: s')
    with st show ?thesis by (auto intro: r_into_rtranclp)
  qed
  with two drain_steps [OF refl assms(1) d] show ?thesis
    by (meson converse_rtranclp_into_rtranclp rtranclp_trans)
qed

section \<open>Concrete runs\<close>

text \<open>A connection opened and added; then closed by its handle while it times out.\<close>

abbreviation sample_key :: ConnectionKey where "sample_key \<equiv> io_key sample_io_config"

definition sample_callbacks :: IoCallbacks where
  "sample_callbacks = \<lparr>cb_on_receive = True, cb_on_send = None, cb_on_close = True\<rparr>"

definition sample_entry :: "instant \<Rightarrow> nat \<Rightarrow> Entry" where
  "sample_entry now f = \<lparr>en_conn = conn_new sample_io_config now, en_callbacks = sample_callbacks, en_flag = f\<rparr>"

definition sample_system ::
  "(ConnectionKey \<rightharpoonup> Entry) \<Rightarrow> bool list \<Rightarrow> nat \<Rightarrow> io_effect list \<Rightarrow> Command list \<Rightarrow> (nat \<times> ConnectionKey) list
     \<Rightarrow> (nat \<times> ConnectionKey) list \<Rightarrow> io_system" where
  "sample_system conns flags n es q hs cs =
     \<lparr>io = \<lparr>connections = conns, flag_open = flags, open_count = n, effects = es\<rparr>, queue = q, handles = hs,
       closing = cs, running = True\<rparr>"

definition sample_added :: io_system where
  "sample_added = sample_system [sample_key \<mapsto> sample_entry 0 0] [True] 1 [] [] [(0, sample_key)] []"

lemma sample_add_reachable:
  assumes "io_reachable B admit (sample_system Map.empty flags n es [] hs cs)"
    "admit (sample_system Map.empty flags n es [] hs cs) sample_key" "f = length flags"
  shows "io_reachable B admit (sample_system [sample_key \<mapsto> sample_entry now f] (flags @ [True]) (n + 1) es []
    ((f, sample_key) # hs) cs)"
proof -
  let ?y0 = "sample_system Map.empty flags n es [] hs cs"
  let ?y1 = "sample_system Map.empty (flags @ [True]) (n + 1) es [Add (conn_new sample_io_config now) sample_callbacks f]
    ((f, sample_key) # hs) cs"
  have "io_step B admit ?y0 (?y0\<lparr>io := snd (flag_new (io ?y0)),
      queue := queue ?y0 @ [Add (conn_new sample_io_config now) sample_callbacks f],
      handles := (f, sample_key) # handles ?y0\<rparr>)"
    by (rule io_step.opened) (use assms(2,3) in \<open>simp_all add: sample_system_def flag_new_def\<close>)
  then have "io_step B admit ?y0 ?y1"
    by (simp add: sample_system_def flag_new_def)
  moreover have "io_step B admit ?y1 (?y1\<lparr>io := run_command (Add (conn_new sample_io_config now) sample_callbacks f) (io ?y1),
      queue := []\<rparr>)"
    by (rule io_step.command) (simp_all add: sample_system_def)
  moreover have "?y1\<lparr>io := run_command (Add (conn_new sample_io_config now) sample_callbacks f) (io ?y1), queue := []\<rparr>
      = sample_system [sample_key \<mapsto> sample_entry now f] (flags @ [True]) (n + 1) es [] ((f, sample_key) # hs) cs"
    by (simp add: sample_system_def sample_entry_def Let_def conn_new_def)
  ultimately show ?thesis
    using assms(1) by (metis io_reachable.step)
qed

lemma sample_added_reachable:
  assumes "admit io_start sample_key"
  shows "io_reachable B admit sample_added"
proof -
  have start: "io_start = sample_system Map.empty [] 0 [] [] [] []"
    by (simp add: io_start_def io_init_def sample_system_def)
  from sample_add_reachable [of B admit "[]" 0 "[]" "[]" "[]" 0 0] io_reachable.start [of B admit] assms
  show ?thesis by (simp add: start sample_added_def)
qed

lemma fresh_at_start: "fresh_key io_start k"
  by (simp add: fresh_key_def live_def owns_def closing_key_def io_start_def io_init_def)

lemma io_bookkeeping_witness:
  "open_count (io sample_added) = 1 \<and> count_list (effects (io sample_added)) (CloseCalled 0) \<le> 1"
  using io_bookkeeping [OF sample_added_reachable [of fresh_key slice_bytes, OF fresh_at_start], of 0]
  by (simp add: sample_added_def sample_system_def)

lemma no_open_connection_lost_witness:
  "0 < open_count (io sample_added) \<and> (\<exists>!k. live sample_added k 0)"
  using no_open_connection_lost [OF sample_added_reachable [of fresh_key slice_bytes, OF fresh_at_start], of 0]
  by (simp add: sample_added_def sample_system_def is_open_flag_def flag_is_open_def)

lemma sample_enumerates: "enumerates [sample_key] (io sample_added)"
  by (auto simp: enumerates_def sample_added_def sample_system_def split: if_splits)

lemma service_pass_pointwise_witness:
  "connections (service_connections slice_bytes 50 [sample_key] (io sample_added)) sample_key = None
   \<and> effects (service_connections slice_bytes 50 [sample_key] (io sample_added)) = [CloseCalled 0]"
  using service_pass_pointwise [OF sample_enumerates, of slice_bytes 50 sample_key 0]
  by (simp add: sample_added_def sample_system_def sample_entry_def after_service_def is_timed_out_def timeout_at_def
      conn_new_def sample_io_config_def sent_at_def close_effects_def sample_callbacks_def timed_out_at_def)

lemma sample_after_service:
  "connections (service_connections slice_bytes 0 [sample_key] (io sample_added))
    = [sample_key \<mapsto> snd (service_entry slice_bytes 0 (sample_entry 0 0))]"
proof
  fix k
  show "connections (service_connections slice_bytes 0 [sample_key] (io sample_added)) k
    = [sample_key \<mapsto> snd (service_entry slice_bytes 0 (sample_entry 0 0))] k"
    using service_pass(1) [OF sample_enumerates refl, of slice_bytes 0 k]
    by (simp add: sample_added_def sample_system_def after_service_def sample_entry_def conn_new_def
        sample_io_config_def is_timed_out_def timeout_at_def)
qed

lemma wait_until_next_deadline_witness:
  "0 < cycle_deadline 100 0 [sample_key] (service_connections slice_bytes 0 [sample_key] (io sample_added))"
proof -
  have on: "\<forall>k e. connections (io sample_added) k = Some e \<longrightarrow> on_schedule 0 (en_conn e)"
    by (simp add: sample_added_def sample_system_def sample_entry_def conn_new_def sample_io_config_def on_schedule_def)
  have en: "enumerates [sample_key] (service_connections slice_bytes 0 [sample_key] (io sample_added))"
    by (simp add: enumerates_def sample_after_service)
  have "connections (service_connections slice_bytes 0 [sample_key] (io sample_added)) sample_key
      = Some (snd (service_entry slice_bytes 0 (sample_entry 0 0)))"
    by (simp add: sample_after_service)
  from wait_until_next_deadline [OF sample_enumerates on refl en _ this, of 100] show ?thesis by simp
qed

lemma round_is_steps_witness:
  "(io_step slice_bytes fresh_key)\<^sup>*\<^sup>* sample_added
     (sample_added\<lparr>io := service_connections slice_bytes 50 [sample_key] (io sample_added), queue := []\<rparr>)"
  by (rule round_is_steps [where rd = "\<lparr>rd_senders = True, rd_queue = [], rd_now = 50, rd_order = [sample_key],
        rd_ready = None, rd_datagrams = []\<rparr>"])
    (use sample_enumerates in \<open>simp_all add: sample_added_def sample_system_def run_round_def\<close>)

text \<open>C40: Two races of \<open>forward_close\<close>, which marks the handle's flag before it sends \<open>Remove\<close>. If the
  connection times out in between, \<open>on_close\<close> is still called for it, although it is being closed. And if a
  new connection gets the same key in between, the late \<open>Remove\<close> drops the new one: its flag stays open and
  counted with nothing left to service it, and no command or closing handle is pending.\<close>
theorem forward_close_races:
  "(\<exists>y f k. io_reachable B (\<lambda>_ _. True) y \<and> (f, k) \<in> set (closing y) \<and> CloseCalled f \<in> set (effects (io y)))
   \<and> (\<exists>y f. io_reachable B (\<lambda>_ _. True) y \<and> running y \<and> queue y = [] \<and> closing y = [] \<and> is_open_flag y f
        \<and> 0 < open_count (io y) \<and> (\<forall>k g. \<not> live y k g))"
proof -
  let ?reach = "io_reachable B (\<lambda>_ _. True)"
  let ?y3 = "sample_system [sample_key \<mapsto> sample_entry 0 0] [False] 0 [] [] [] [(0, sample_key)]"
  let ?y4 = "sample_system Map.empty [False] 0 [CloseCalled 0] [] [] [(0, sample_key)]"
  let ?y6 = "sample_system [sample_key \<mapsto> sample_entry 50 1] [False, True] 1 [CloseCalled 0] [] [(1, sample_key)] [(0, sample_key)]"
  let ?y7 = "sample_system [sample_key \<mapsto> sample_entry 50 1] [False, True] 1 [CloseCalled 0] [Remove sample_key] [(1, sample_key)] []"
  let ?y8 = "sample_system Map.empty [False, True] 1 [CloseCalled 0] [] [(1, sample_key)] []"
  have "io_step B (\<lambda>_ _. True) sample_added (sample_added\<lparr>io := snd (flag_close 0 (io sample_added)),
      handles := remove1 (0, sample_key) (handles sample_added), closing := (0, sample_key) # closing sample_added\<rparr>)"
    by (rule io_step.close_flag) (simp_all add: sample_added_def sample_system_def flag_close_def)
  then have "io_step B (\<lambda>_ _. True) sample_added ?y3"
    by (simp add: sample_added_def sample_system_def flag_close_def)
  moreover have "?reach sample_added" by (rule sample_added_reachable) simp
  ultimately have y3: "?reach ?y3" by (metis io_reachable.step)
  have "service_connections B 50 [sample_key] (io ?y3) = io ?y4"
    by (simp add: service_connections_def service_key_eq timed_out_at_def sample_system_def sample_entry_def
        is_timed_out_def timeout_at_def conn_new_def sample_io_config_def kept_def sent_at_def time_out_def
        flag_close_def sample_callbacks_def)
  moreover have "io_step B (\<lambda>_ _. True) ?y3 (?y3\<lparr>io := service_connections B 50 [sample_key] (io ?y3)\<rparr>)"
    by (rule io_step.service) (auto simp: enumerates_def sample_system_def split: if_splits)
  ultimately have "io_step B (\<lambda>_ _. True) ?y3 ?y4"
    by (simp add: sample_system_def)
  with y3 have y4: "?reach ?y4" by (rule io_reachable.step)
  have y6: "?reach ?y6"
    using sample_add_reachable [OF y4, of 1 50] by simp
  have "io_step B (\<lambda>_ _. True) ?y6 (?y6\<lparr>queue := queue ?y6 @ [Remove sample_key], closing := remove1 (0, sample_key) (closing ?y6)\<rparr>)"
    by (rule io_step.close_send) (simp_all add: sample_system_def)
  then have "io_step B (\<lambda>_ _. True) ?y6 ?y7" by (simp add: sample_system_def)
  with y6 have y7: "?reach ?y7" by (rule io_reachable.step)
  have "io_step B (\<lambda>_ _. True) ?y7 (?y7\<lparr>io := run_command (Remove sample_key) (io ?y7), queue := []\<rparr>)"
    by (rule io_step.command) (simp_all add: sample_system_def)
  then have "io_step B (\<lambda>_ _. True) ?y7 ?y8" by (simp add: sample_system_def)
  with y7 have y8: "?reach ?y8" by (rule io_reachable.step)
  have "(0, sample_key) \<in> set (closing ?y4) \<and> CloseCalled 0 \<in> set (effects (io ?y4))"
    by (simp add: sample_system_def)
  moreover have "running ?y8 \<and> queue ?y8 = [] \<and> closing ?y8 = [] \<and> is_open_flag ?y8 1
        \<and> 0 < open_count (io ?y8) \<and> (\<forall>k g. \<not> live ?y8 k g)"
    by (simp add: sample_system_def is_open_flag_def flag_is_open_def live_def owns_def)
  ultimately show ?thesis using y4 y8 by blast
qed

end
