(* ===== verification/Io_Manager.thy ===== *)
theory Io_Manager
  imports Forward_Open Io_Thread Mock_Session
begin

text \<open>
  The connection manager (src/src/io/manager.rs): Forward Open and Forward Close over a session, the handle
  they work on, and the manager's share of the state the IO thread sees. Both run on a calling thread; what
  they do to the shared state are steps of \<open>Io_Thread\<close>.
\<close>

section \<open>State\<close>

record ConnectionManager =
  cm_router :: MessageRouter
  cm_sys :: io_system
  cm_next_serial :: u16
  cm_next_connection_id :: u32

text \<open>\<open>with_config\<close>: the counters start at random points; the low half of the ids starts at 0.\<close>

definition manager_new :: "MessageRouter \<Rightarrow> u64 \<Rightarrow> ConnectionManager" where
  "manager_new R random = \<lparr>cm_router = R, cm_sys = io_start, cm_next_serial = ucast random,
     cm_next_connection_id = push_bit 16 (ucast (drop_bit 16 random))\<rparr>"

definition has_open_connections :: "ConnectionManager \<Rightarrow> bool" where
  "has_open_connections m \<longleftrightarrow> 0 < open_count (io (cm_sys m))"

record IoConnectionHandle =
  h_key :: ConnectionKey
  h_o2t_id :: u32
  h_o2t_api :: duration
  h_t2o_api :: duration
  h_destination :: SocketAddrV4
  h_close_request :: ForwardCloseRequest
  h_flag :: nat

section \<open>Forward Open\<close>

abbreviation CM_CLASS_ID :: u16 where "CM_CLASS_ID \<equiv> 0x06"
abbreviation EIP_DEFAULT_IMPLICIT_PORT :: u16 where "EIP_DEFAULT_IMPLICIT_PORT \<equiv> 0x08AE"
abbreviation U16_MAX :: nat where "U16_MAX \<equiv> 65535"

text \<open>The checks before anything is sent, in their order; the result says whether the large form is needed.\<close>

definition check_config :: "ConnectionConfig \<Rightarrow> bool result" where
  "check_config c =
     (if length (cc_config_data c) > MAX_CONFIG_DATA then
        Err (Unsupported (lit ''configuration data is '' @ fmt_dec (length (cc_config_data c)) @
          lit '' bytes; at most '' @ fmt_dec MAX_CONFIG_DATA @ lit '' fit in a Forward Open''))
      else if cc_timeout_multiplier c > 7 then
        Err (Unsupported (lit ''timeout multiplier '' @ fmt_dec (unat (cc_timeout_multiplier c)) @
          lit '' is above the maximum of 7''))
      else if cc_transport_class c \<notin> {Class0, Class1} then
        Err (Unsupported (lit ''only transport classes 0 and 1 are supported for I/O connections''))
      else
        let o2t_wire = wire_size c (cc_o2t c);
            t2o_wire = wire_size c (cc_t2o c)
        in if max o2t_wire t2o_wire > U16_MAX then
             Err (Unsupported (lit ''connection size '' @ fmt_dec (max o2t_wire t2o_wire) @
               lit '' is above the maximum of '' @ fmt_dec U16_MAX))
           else Ok (max o2t_wire t2o_wire > unat MAX_SMALL_SIZE))"

definition network_params :: "Direction \<Rightarrow> nat \<Rightarrow> NetworkParams" where
  "network_params dir wire = \<lparr>redundant_owner = False, connection_type = dir_connection_type dir,
     priority = dir_priority dir, size_type = dir_size_type dir, np_size = of_nat wire\<rparr>"

definition micros :: "duration \<Rightarrow> u32" where
  "micros d = of_nat (min (d div 1000) (2 ^ 32 - 1))"

text \<open>The request, and the counters it leaves: \<open>next_id\<close> is \<open>fetch_add(1) + 1\<close>.\<close>

definition open_request :: "ConnectionConfig \<Rightarrow> ConnectionManager \<Rightarrow> ForwardOpenRequest \<times> ConnectionManager" where
  "open_request c m =
     (let (o2t_id, m) = (if dir_connection_type (cc_o2t c) = CT_Multicast
            then (cm_next_connection_id m + 1, m\<lparr>cm_next_connection_id := cm_next_connection_id m + 1\<rparr>) else (0, m));
          (t2o_id, m) = (if dir_connection_type (cc_t2o c) = CT_PointToPoint
            then (cm_next_connection_id m + 1, m\<lparr>cm_next_connection_id := cm_next_connection_id m + 1\<rparr>) else (0, m));
          (serial, m) = (cm_next_serial m, m\<lparr>cm_next_serial := cm_next_serial m + 1\<rparr>)
      in (\<lparr>fo_priority_time_tick = 0x0A, fo_timeout_ticks = 0x05, fo_o2t_connection_id = o2t_id,
            fo_t2o_connection_id = t2o_id, fo_serial = serial, fo_vendor = cc_originator_vendor_id c,
            fo_orig_serial = cc_originator_serial_number c, fo_multiplier = cc_timeout_multiplier c,
            fo_o2t_rpi = micros (dir_rpi (cc_o2t c)), fo_o2t_params = network_params (cc_o2t c) (wire_size c (cc_o2t c)),
            fo_t2o_rpi = micros (dir_rpi (cc_t2o c)), fo_t2o_params = network_params (cc_t2o c) (wire_size c (cc_t2o c)),
            fo_transport = \<lparr>tt_class = cc_transport_class c, tt_trigger = cc_trigger c, tt_server = False\<rparr>,
            fo_path = encoded_path c\<rparr>, m))"

definition o2t_destination :: "SocketAddrV4 option \<Rightarrow> Ipv4Addr \<Rightarrow> SocketAddrV4" where
  "o2t_destination sockaddr peer_ip =
     (case sockaddr of
        None \<Rightarrow> \<lparr>sa_ip = peer_ip, sa_port = EIP_DEFAULT_IMPLICIT_PORT\<rparr>
      | Some addr \<Rightarrow>
          \<lparr>sa_ip = (if ip_bits (sa_ip addr) = 0 then peer_ip else sa_ip addr),
           sa_port = (if sa_port addr = 0 then EIP_DEFAULT_IMPLICIT_PORT else sa_port addr)\<rparr>)"

text \<open>The O->T socket address item of the reply, decoded; a malformed one is an error.\<close>

definition reply_sockaddr :: "bytes_api \<Rightarrow> CommonPacketItem list \<Rightarrow> (SocketAddrV4 option) result" where
  "reply_sockaddr B items =
     (case find (\<lambda>item. type_id item = CPI_O2T_SOCKADDR_INFO) items of
        None \<Rightarrow> Ok None
      | Some item \<Rightarrow> rbind (run_reader (decode_sockaddr B) (item_data item)) (\<lambda>a. Ok (Some a)))"

definition open_config :: "ConnectionConfig \<Rightarrow> ForwardOpenResponse \<Rightarrow> SocketAddrV4 \<Rightarrow> Ipv4Addr \<Rightarrow> IoConnectionConfig" where
  "open_config c reply destination peer_ip =
     (let multiplier = 4 * 2 ^ unat (cc_timeout_multiplier c)
      in \<lparr>io_o2t_id = fr_o2t_id reply, io_t2o_id = fr_t2o_id reply, io_serial_number = fr_serial reply,
          io_o2t_api = from_micros (unat (fr_o2t_api reply)),
          io_timeout = from_micros (unat (fr_t2o_api reply) * multiplier),
          io_o2t_size = unat (dir_size (cc_o2t c)), io_t2o_size = unat (dir_size (cc_t2o c)),
          io_o2t_fixed = (dir_size_type (cc_o2t c) = Fixed), io_t2o_fixed = (dir_size_type (cc_t2o c) = Fixed),
          io_has_sequence_count = has_sequence_count (cc_transport_class c),
          io_o2t_real_time_format = dir_run_idle_header (cc_o2t c),
          io_t2o_real_time_format = dir_run_idle_header (cc_t2o c),
          io_destination = destination, io_peer_ip = peer_ip\<rparr>)"

definition open_handle :: "ConnectionConfig \<Rightarrow> ForwardOpenResponse \<Rightarrow> IoConnectionConfig \<Rightarrow> nat \<Rightarrow> IoConnectionHandle" where
  "open_handle c reply io_config flag =
     \<lparr>h_key = io_key io_config, h_o2t_id = io_o2t_id io_config, h_o2t_api = io_o2t_api io_config,
      h_t2o_api = from_micros (unat (fr_t2o_api reply)), h_destination = io_destination io_config,
      h_close_request = \<lparr>fc_serial = fr_serial reply, fc_vendor = cc_originator_vendor_id c,
        fc_orig_serial = cc_originator_serial_number c, fc_path = path_bytes (cc_path c)\<rparr>,
      h_flag = flag\<rparr>"

text \<open>The last part: a new open flag, the connection, and the command that hands it to the thread.\<close>

definition hand_over ::
  "ConnectionConfig \<Rightarrow> ForwardOpenResponse \<Rightarrow> IoConnectionConfig \<Rightarrow> IoCallbacks \<Rightarrow> instant \<Rightarrow> ConnectionManager
     \<Rightarrow> IoConnectionHandle result \<times> ConnectionManager" where
  "hand_over c reply io_config callbacks now m =
     (let y = cm_sys m;
          (flag, s) = flag_new (io y);
          handle = open_handle c reply io_config flag
      in case sender_send (running y) (Add (conn_new io_config now) callbacks flag) (queue y) of
           Inl e \<Rightarrow> (Err e, m\<lparr>cm_sys := y\<lparr>io := s\<rparr>\<rparr>)
         | Inr q \<Rightarrow> (Ok handle, m\<lparr>cm_sys := y\<lparr>io := s, queue := q, handles := (flag, h_key handle) # handles y\<rparr>\<rparr>))"

definition forward_open ::
  "bytes_api \<Rightarrow> 's session \<Rightarrow> ConnectionConfig \<Rightarrow> IoCallbacks \<Rightarrow> instant \<Rightarrow> 's \<times> ConnectionManager
     \<Rightarrow> IoConnectionHandle result \<times> 's \<times> ConnectionManager" where
  "forward_open B S c callbacks now sm =
     (case sm of (s, m) \<Rightarrow>
      case check_config c of
        Inl e \<Rightarrow> (Err e, s, m)
      | Inr large \<Rightarrow>
         (case open_request c m of (request, m) \<Rightarrow>
          case request_checked B S (cm_router m) (if large then SC_LARGE_FORWARD_OPEN else SC_FORWARD_OPEN)
              (epath_instance CM_CLASS_ID 1) (forward_open_encode B request large) (lit ''forward open'') s of
            (Inl e, s) \<Rightarrow> (Err e, s, m)
          | (Inr response, s) \<Rightarrow>
             (case forward_open_response_decode B (resp_data response) of
                Inl e \<Rightarrow> (Err e, s, m)
              | Inr reply \<Rightarrow>
                  let peer_ip = sa_ip (remote_addr S s) in
                  (case reply_sockaddr B (additional_packet_items response) of
                     Inl e \<Rightarrow> (Err e, s, m)
                   | Inr sockaddr \<Rightarrow>
                       let io_config = open_config c reply (o2t_destination sockaddr peer_ip) peer_ip;
                           (r, m) = hand_over c reply io_config callbacks now m
                       in (r, s, m)))))"

section \<open>Forward Close and the handle\<close>

definition take_back :: "IoConnectionHandle \<Rightarrow> ConnectionManager \<Rightarrow> bool result \<times> ConnectionManager" where
  "take_back h m =
     (let y = cm_sys m;
          (was_open, s) = flag_close (h_flag h) (io y);
          y = y\<lparr>io := s, handles := remove1 (h_flag h, h_key h) (handles y)\<rparr>
      in if \<not> was_open then (Ok False, m\<lparr>cm_sys := y\<rparr>)
         else
           let y = y\<lparr>closing := (h_flag h, h_key h) # closing y\<rparr>
           in (case sender_send (running y) (Remove (h_key h)) (queue y) of
                 Inl e \<Rightarrow> (Err e, m\<lparr>cm_sys := y\<rparr>)
               | Inr q \<Rightarrow> (Ok True, m\<lparr>cm_sys :=
                   y\<lparr>queue := q, closing := remove1 (h_flag h, h_key h) (closing y)\<rparr>\<rparr>)))"

definition forward_close ::
  "bytes_api \<Rightarrow> 's session \<Rightarrow> IoConnectionHandle \<Rightarrow> 's \<times> ConnectionManager \<Rightarrow> unit result \<times> 's \<times> ConnectionManager" where
  "forward_close B S h sm =
     (case sm of (s, m) \<Rightarrow>
      case take_back h m of
        (Inl e, m) \<Rightarrow> (Err e, s, m)
      | (Inr False, m) \<Rightarrow> (Ok (), s, m)
      | (Inr True, m) \<Rightarrow>
          (case request_checked B S (cm_router m) SC_FORWARD_CLOSE (epath_instance CM_CLASS_ID 1)
              (forward_close_encode B (h_close_request h)) (lit ''forward close'') s of
             (Inl e, s) \<Rightarrow> (Err e, s, m)
           | (Inr _, s) \<Rightarrow> (Ok (), s, m)))"

definition handle_set_output :: "IoConnectionHandle \<Rightarrow> bytes \<Rightarrow> ConnectionManager \<Rightarrow> unit result \<times> ConnectionManager" where
  "handle_set_output h d m =
     (case sender_send (running (cm_sys m)) (SetOutput (h_key h) d) (queue (cm_sys m)) of
        Inl e \<Rightarrow> (Err e, m) | Inr q \<Rightarrow> (Ok (), m\<lparr>cm_sys := (cm_sys m)\<lparr>queue := q\<rparr>\<rparr>))"

definition handle_set_run :: "IoConnectionHandle \<Rightarrow> bool \<Rightarrow> ConnectionManager \<Rightarrow> unit result \<times> ConnectionManager" where
  "handle_set_run h run m =
     (case sender_send (running (cm_sys m)) (SetRun (h_key h) run) (queue (cm_sys m)) of
        Inl e \<Rightarrow> (Err e, m) | Inr q \<Rightarrow> (Ok (), m\<lparr>cm_sys := (cm_sys m)\<lparr>queue := q\<rparr>\<rparr>))"

definition handle_is_open :: "IoConnectionHandle \<Rightarrow> ConnectionManager \<Rightarrow> bool" where
  "handle_is_open h m = flag_is_open (h_flag h) (io (cm_sys m))"

definition handle_t2o_connection_id :: "IoConnectionHandle \<Rightarrow> u32" where
  "handle_t2o_connection_id h = key_t2o_id (h_key h)"

definition handle_peer_ip :: "IoConnectionHandle \<Rightarrow> Ipv4Addr" where
  "handle_peer_ip h = key_peer_ip (h_key h)"

definition handle_o2t_connection_id :: "IoConnectionHandle \<Rightarrow> u32" where
  "handle_o2t_connection_id h = h_o2t_id h"

definition handle_serial_number :: "IoConnectionHandle \<Rightarrow> u16" where
  "handle_serial_number h = fc_serial (h_close_request h)"

definition handle_o2t_api :: "IoConnectionHandle \<Rightarrow> duration" where
  "handle_o2t_api h = h_o2t_api h"

definition handle_t2o_api :: "IoConnectionHandle \<Rightarrow> duration" where
  "handle_t2o_api h = h_t2o_api h"

definition handle_destination :: "IoConnectionHandle \<Rightarrow> SocketAddrV4" where
  "handle_destination h = h_destination h"

section \<open>Sizes and the request\<close>

lemma check_config_ok:
  assumes "check_config c = Ok large"
  shows "length (cc_config_data c) \<le> MAX_CONFIG_DATA" "cc_timeout_multiplier c \<le> 7"
    "cc_transport_class c \<in> {Class0, Class1}" "wire_size c (cc_o2t c) \<le> U16_MAX" "wire_size c (cc_t2o c) \<le> U16_MAX"
    "large \<longleftrightarrow> wire_size c (cc_o2t c) > 511 \<or> wire_size c (cc_t2o c) > 511"
  using assms by (auto simp: check_config_def Let_def max_def split: if_splits)

lemma open_request_fields:
  "fo_path (fst (open_request c m)) = encoded_path c"
  "fo_o2t_params (fst (open_request c m)) = network_params (cc_o2t c) (wire_size c (cc_o2t c))"
  "fo_t2o_params (fst (open_request c m)) = network_params (cc_t2o c) (wire_size c (cc_t2o c))"
  "cm_sys (snd (open_request c m)) = cm_sys m" "cm_router (snd (open_request c m)) = cm_router m"
  by (simp_all add: open_request_def Let_def split: prod.split)

lemma request_fits_open:
  assumes "check_config c = Ok large" "path_fits (encoded_path c)"
  shows "request_fits large (fst (open_request c m))"
  using check_config_ok [OF assms(1)] assms(2)
  by (auto simp: request_fits_def open_request_fields network_params_def word_le_nat_alt unat_of_nat_small)

lemma length_forward_open:
  assumes "bytes_crate B"
  shows "length (forward_open_encode B r large) \<le> 40 + length (fo_path r)"
  using assms by (simp add: forward_open_encode_def put_params_def Let_def bytes_crate.writers)

lemma reply_sockaddr_item:
  assumes "bytes_crate B"
  shows "reply_sockaddr B (case sa of None \<Rightarrow> [] | Some a \<Rightarrow> [item_new CPI_O2T_SOCKADDR_INFO (encode_sockaddr B a [])])
     = Ok sa"
  using bytes_crate.decode_sockaddr_encode [OF assms, of _ "[]"]
  by (cases sa) (simp_all add: reply_sockaddr_def item_new_def run_reader_def)

section \<open>Forward Open against a device\<close>

lemma forward_open_device:
  assumes "bytes_crate B" "check_config c = Ok large" "path_fits (encoded_path c)" "running (cm_sys m)"
    and "replies s = (GSC_SUCCESS, response_wire rp rsv @ rest, items) # rs"
    and "path_fits (fr_application_reply rp)" "length rest < 60000"
    and "items = (case sa of None \<Rightarrow> [] | Some a \<Rightarrow> [item_new CPI_O2T_SOCKADDR_INFO (encode_sockaddr B a [])])"
  shows "\<exists>s' m'. forward_open B (mock_session B) c callbacks now (s, m) =
      (Ok (open_handle c rp (open_config c rp (o2t_destination sa (sa_ip (mock_remote s))) (sa_ip (mock_remote s)))
         (length (flag_open (io (cm_sys m))))), s', m')
    \<and> requests s' = requests s @ [\<lparr>rq_service = (if large then SC_LARGE_FORWARD_OPEN else SC_FORWARD_OPEN),
        rq_path = epath_instance CM_CLASS_ID 1, rq_data = forward_open_encode B (fst (open_request c m)) large\<rparr>]
    \<and> target_reads_open B large (forward_open_encode B (fst (open_request c m)) large) = Ok (fst (open_request c m), [])
    \<and> unat (np_size (fo_o2t_params (fst (open_request c m)))) = wire_size c (cc_o2t c)
    \<and> unat (np_size (fo_t2o_params (fst (open_request c m)))) = wire_size c (cc_t2o c)
    \<and> queue (cm_sys m') = queue (cm_sys m) @ [Add (conn_new (open_config c rp
        (o2t_destination sa (sa_ip (mock_remote s))) (sa_ip (mock_remote s))) now) callbacks (length (flag_open (io (cm_sys m))))]
    \<and> has_open_connections m' \<and> io (cm_sys m') = snd (flag_new (io (cm_sys m))) \<and> running (cm_sys m')"
proof -
  obtain req m1 where req: "open_request c m = (req, m1)" by (meson surj_pair)
  have m1: "cm_sys m1 = cm_sys m" "cm_router m1 = cm_router m" and path: "fo_path req = encoded_path c"
    using open_request_fields [of c m] by (simp_all add: req)
  have fits: "request_fits large req" using request_fits_open [OF assms(2,3), of m] by (simp add: req)
  have len: "length (forward_open_encode B req large) < 65000"
    using length_forward_open [OF assms(1), of req large] assms(3) by (simp add: path path_fits_def)
  have rlen: "length (response_wire rp rsv @ rest) < 65000"
    using assms(6,7) by (simp add: response_wire_def path_fits_def)
  have items: "\<forall>item \<in> set items. item_ok item" "length items < 65534"
    using assms(1) by (auto simp: assms(8) item_ok_def item_new_def encode_sockaddr_def octets_def Let_def
        bytes_crate.writers split: option.splits)
  let ?svc = "if large then SC_LARGE_FORWARD_OPEN else SC_FORWARD_OPEN"
  note rc = bytes_crate.mock_request_checked [OF assms(1) len assms(5) rlen items, of "cm_router m" ?svc
      "epath_instance CM_CLASS_ID 1" "lit ''forward open''"]
  have dec: "forward_open_response_decode B (response_wire rp rsv @ rest) = Ok rp"
    using bytes_crate.forward_open_response_read_wire [OF assms(1,6)]
    by (simp add: forward_open_response_decode_def run_reader_def)
  note sa = reply_sockaddr_item [OF assms(1), of sa, folded assms(8)]
  have sizes: "unat (np_size (fo_o2t_params req)) = wire_size c (cc_o2t c)"
    "unat (np_size (fo_t2o_params req)) = wire_size c (cc_t2o c)"
    using open_request_fields(2,3) [of c m] check_config_ok(4,5) [OF assms(2)]
    by (simp_all add: req network_params_def unat_of_nat_small)
  have reads: "target_reads_open B large (forward_open_encode B req large) = Ok (req, [])"
    using bytes_crate.target_reads_open_encode [OF assms(1) fits, of "[]"] by simp
  have remote: "remote_addr (mock_session B) s' = mock_remote s'" for s'
    by (simp add: mock_session_def)
  show ?thesis
    using sizes reads assms(4)
    by (simp add: forward_open_def assms(2) req m1 rc dec sa hand_over_def sender_send_def flag_new_def Let_def
        remote has_open_connections_def split del: if_split)
qed

section \<open>Properties\<close>

lemma open_request_values:
  "fo_multiplier (fst (open_request c m)) = cc_timeout_multiplier c"
  "unat (fo_o2t_rpi (fst (open_request c m))) = min (dir_rpi (cc_o2t c) div 1000) (2 ^ 32 - 1)"
  "unat (fo_t2o_rpi (fst (open_request c m))) = min (dir_rpi (cc_t2o c) div 1000) (2 ^ 32 - 1)"
  "tt_class (fo_transport (fst (open_request c m))) = cc_transport_class c"
proof -
  have "unat (micros d) = min (d div 1000) (2 ^ 32 - 1)" for d
    unfolding micros_def by (rule unat_of_nat_small) simp
  then show "fo_multiplier (fst (open_request c m)) = cc_timeout_multiplier c"
    "unat (fo_o2t_rpi (fst (open_request c m))) = min (dir_rpi (cc_o2t c) div 1000) (2 ^ 32 - 1)"
    "unat (fo_t2o_rpi (fst (open_request c m))) = min (dir_rpi (cc_t2o c) div 1000) (2 ^ 32 - 1)"
    "tt_class (fo_transport (fst (open_request c m))) = cc_transport_class c"
    by (simp_all add: open_request_def Let_def split: prod.split)
qed

text \<open>C3: A Forward Open end to end, against a device that decodes the request and answers it. An accepted
  configuration is sent as one request to the Connection Manager object, in the large form exactly when a
  size on the wire exceeds 511. The target reads from it the path, the wire sizes in full, the intervals in
  microseconds (capped at 32 bits), the multiplier and the transport of the configuration. The connection handed
  to the IO thread has the ids and the interval the target granted, times out after the granted T->O
  interval times 4 * 2^multiplier, and sends to the address the reply names, or to the peer on port 2222; the
  handle has its key, the granted serial number for the Forward Close, and a flag that is open.\<close>
theorem forward_open_end_to_end:
  assumes "bytes_crate B" "check_config c = Ok large" "path_fits (encoded_path c)" "running (cm_sys m)"
    and "replies s = (GSC_SUCCESS, response_wire rp rsv @ rest, items) # rs"
    and "path_fits (fr_application_reply rp)" "length rest < 60000"
    and "items = (case sa of None \<Rightarrow> [] | Some a \<Rightarrow> [item_new CPI_O2T_SOCKADDR_INFO (encode_sockaddr B a [])])"
  shows "\<exists>h k d r s' m'. forward_open B (mock_session B) c callbacks now (s, m) = (Ok h, s', m')
    \<and> requests s' = requests s @ [\<lparr>rq_service = (if large then SC_LARGE_FORWARD_OPEN else SC_FORWARD_OPEN),
        rq_path = epath_instance CM_CLASS_ID 1, rq_data = d\<rparr>]
    \<and> (large \<longleftrightarrow> wire_size c (cc_o2t c) > 511 \<or> wire_size c (cc_t2o c) > 511)
    \<and> target_reads_open B large d = Ok (r, []) \<and> fo_path r = encoded_path c
    \<and> unat (np_size (fo_o2t_params r)) = wire_size c (cc_o2t c) \<and> unat (np_size (fo_t2o_params r)) = wire_size c (cc_t2o c)
    \<and> unat (fo_o2t_rpi r) = min (dir_rpi (cc_o2t c) div 1000) (2 ^ 32 - 1)
    \<and> unat (fo_t2o_rpi r) = min (dir_rpi (cc_t2o c) div 1000) (2 ^ 32 - 1)
    \<and> fo_multiplier r = cc_timeout_multiplier c \<and> tt_class (fo_transport r) = cc_transport_class c
    \<and> queue (cm_sys m') = queue (cm_sys m) @ [Add (conn_new k now) callbacks (h_flag h)]
    \<and> io_o2t_id k = fr_o2t_id rp \<and> io_t2o_id k = fr_t2o_id rp \<and> io_o2t_api k = 1000 * unat (fr_o2t_api rp)
    \<and> io_timeout k = 1000 * (unat (fr_t2o_api rp) * (4 * 2 ^ unat (cc_timeout_multiplier c)))
    \<and> io_destination k = o2t_destination sa (sa_ip (mock_remote s)) \<and> io_peer_ip k = sa_ip (mock_remote s)
    \<and> h_key h = \<lparr>key_peer_ip = sa_ip (mock_remote s), key_t2o_id = fr_t2o_id rp\<rparr>
    \<and> fc_serial (h_close_request h) = fr_serial rp \<and> handle_is_open h m' \<and> has_open_connections m'"
proof -
  let ?k = "open_config c rp (o2t_destination sa (sa_ip (mock_remote s))) (sa_ip (mock_remote s))"
  let ?h = "open_handle c rp ?k (length (flag_open (io (cm_sys m))))"
  let ?r = "fst (open_request c m)"
  obtain s' m' where opened: "forward_open B (mock_session B) c callbacks now (s, m) = (Ok ?h, s', m')"
    and sent: "requests s' = requests s @ [\<lparr>rq_service = (if large then SC_LARGE_FORWARD_OPEN else SC_FORWARD_OPEN),
        rq_path = epath_instance CM_CLASS_ID 1, rq_data = forward_open_encode B ?r large\<rparr>]"
      "target_reads_open B large (forward_open_encode B ?r large) = Ok (?r, [])"
      "unat (np_size (fo_o2t_params ?r)) = wire_size c (cc_o2t c)" "unat (np_size (fo_t2o_params ?r)) = wire_size c (cc_t2o c)"
    and handed: "queue (cm_sys m') = queue (cm_sys m) @ [Add (conn_new ?k now) callbacks (length (flag_open (io (cm_sys m))))]"
      "has_open_connections m'" "io (cm_sys m') = snd (flag_new (io (cm_sys m)))"
    using forward_open_device [OF assms, of callbacks now] by blast
  have k: "io_o2t_id ?k = fr_o2t_id rp" "io_t2o_id ?k = fr_t2o_id rp" "io_o2t_api ?k = 1000 * unat (fr_o2t_api rp)"
    "io_timeout ?k = 1000 * (unat (fr_t2o_api rp) * (4 * 2 ^ unat (cc_timeout_multiplier c)))"
    "io_destination ?k = o2t_destination sa (sa_ip (mock_remote s))" "io_peer_ip ?k = sa_ip (mock_remote s)"
    by (simp_all add: open_config_def from_micros_def)
  have h: "h_flag ?h = length (flag_open (io (cm_sys m)))" "h_key ?h = io_key ?k" "fc_serial (h_close_request ?h) = fr_serial rp"
    by (simp_all add: open_handle_def)
  have open_flag: "handle_is_open ?h m'"
    by (simp add: handle_is_open_def flag_is_open_def h handed(3))
  show ?thesis
    by (rule exI [of _ ?h], rule exI [of _ ?k], rule exI [of _ "forward_open_encode B ?r large"], rule exI [of _ ?r],
        rule exI [of _ s'], rule exI [of _ m'])
      (simp only: opened sent handed(1,2) k h open_flag io_key_def check_config_ok(6) [OF assms(2), symmetric] open_request_fields(1)
        open_request_values simp_thms)
qed

definition sample_reply :: ForwardOpenResponse where
  "sample_reply = \<lparr>fr_o2t_id = 0xAABBCCDD, fr_t2o_id = 0x10001, fr_serial = 7, fr_vendor = 0, fr_orig_serial = 0,
     fr_o2t_api = 10000, fr_t2o_api = 20000, fr_application_reply = []\<rparr>"

definition sample_manager :: ConnectionManager where
  "sample_manager = manager_new router_new 0x10007"

lemma sample_config_checked: "check_config (sample_config 0) = Ok False" "path_fits (encoded_path (sample_config 0))"
  by (simp_all add: check_config_def sample_config_def config_new_def direction_new_def wire_size_def
      has_sequence_count_def path_fits_def encoded_path_def Let_def)

lemma sample_manager_running: "running (cm_sys sample_manager)" "flag_open (io (cm_sys sample_manager)) = []"
  by (simp_all add: sample_manager_def manager_new_def io_start_def io_init_def)

lemma forward_open_end_to_end_witness:
  "\<exists>h k s' m'. forward_open slice_bytes (mock_session slice_bytes) (sample_config 0) callbacks_new 0
      (mock_reply (response_wire sample_reply 0) mock_new, sample_manager) = (Ok h, s', m')
    \<and> queue (cm_sys m') = [Add (conn_new k 0) callbacks_new (h_flag h)] \<and> io_timeout k = 80000000"
proof -
  have m: "replies (mock_reply (response_wire sample_reply 0) mock_new) = (GSC_SUCCESS, response_wire sample_reply 0 @ [], []) # []"
    "path_fits (fr_application_reply sample_reply)" "queue (cm_sys sample_manager) = []"
    by (simp_all add: mock_reply_def mock_reply_status_def mock_new_def sample_reply_def path_fits_def sample_manager_def
        manager_new_def io_start_def)
  have t: "unat (fr_t2o_api sample_reply) * (4 * 2 ^ unat (cc_timeout_multiplier (sample_config 0))) = 80000"
    by (simp add: sample_reply_def sample_config_def config_new_def)
  show ?thesis
    using forward_open_end_to_end [OF slice.bytes_crate_axioms sample_config_checked sample_manager_running(1) m(1,2), of None callbacks_new 0]
      t m(3) by auto
qed

lemma hand_over_steps:
  assumes "hand_over c reply cfg callbacks now m = (r, m')"
  shows "(io_step B (\<lambda>_ _. True))\<^sup>*\<^sup>* (cm_sys m) (cm_sys m')"
proof -
  obtain f s where f: "flag_new (io (cm_sys m)) = (f, s)" by (meson surj_pair)
  show ?thesis
  proof (cases "running (cm_sys m)")
    case True
    then have "cm_sys m' = (cm_sys m)\<lparr>io := s, queue := queue (cm_sys m) @ [Add (conn_new cfg now) callbacks f],
        handles := (f, io_key cfg) # handles (cm_sys m)\<rparr>"
      using assms by (auto simp: hand_over_def f sender_send_def open_handle_def Let_def)
    then show ?thesis
      using io_step.opened [OF True _ f, of "\<lambda>_ _. True" cfg B now callbacks] by auto
  next
    case False
    then have "cm_sys m' = (cm_sys m)\<lparr>io := s\<rparr>"
      using assms by (auto simp: hand_over_def f sender_send_def Let_def)
    then show ?thesis
      using io_step.opened_stopped [OF False f, of B "\<lambda>_ _. True"] by auto
  qed
qed

lemma forward_open_hands_over:
  assumes "forward_open B S c callbacks now (s, m) = (r, s', m')"
  shows "cm_sys m' = cm_sys m \<or>
    (\<exists>m1 reply cfg. cm_sys m1 = cm_sys m \<and> hand_over c reply cfg callbacks now m1 = (r, m'))"
  using assms open_request_fields(4) [of c m]
  by (auto simp: forward_open_def Let_def split: sum.splits prod.splits)

lemma take_back_steps:
  assumes held: "(h_flag h, h_key h) \<in> set (handles (cm_sys m))" and t: "take_back h m = (v, m')"
  shows "(io_step B (\<lambda>_ _. True))\<^sup>*\<^sup>* (cm_sys m) (cm_sys m')"
proof -
  let ?y = "cm_sys m" and ?fk = "(h_flag h, h_key h)"
  obtain w s where w: "flag_close (h_flag h) (io ?y) = (w, s)" by (meson surj_pair)
  let ?y1 = "?y\<lparr>io := s, handles := remove1 ?fk (handles ?y)\<rparr>"
  let ?y2 = "?y\<lparr>io := s, handles := remove1 ?fk (handles ?y), closing := ?fk # closing ?y\<rparr>"
  show ?thesis
  proof (cases w)
    case False
    then have "cm_sys m' = ?y1" using t by (auto simp: take_back_def w Let_def)
    then show ?thesis using io_step.close_again [OF held] w False by auto
  next
    case True
    have one: "io_step B (\<lambda>_ _. True) ?y ?y2"
      by (rule io_step.close_flag [OF held]) (use w True in simp)
    show ?thesis
    proof (cases "running ?y")
      case False
      then have "cm_sys m' = ?y2" using t True by (auto simp: take_back_def w Let_def sender_send_def)
      then show ?thesis using one by auto
    next
      case run: True
      have "cm_sys m' = ?y2\<lparr>queue := queue ?y2 @ [Remove (h_key h)], closing := remove1 ?fk (closing ?y2)\<rparr>"
        using t True run by (auto simp: take_back_def w Let_def sender_send_def)
      moreover have "io_step B (\<lambda>_ _. True) ?y2
          (?y2\<lparr>queue := queue ?y2 @ [Remove (h_key h)], closing := remove1 ?fk (closing ?y2)\<rparr>)"
        by (rule io_step.close_send) (simp_all add: run)
      ultimately show ?thesis
        using one by (metis converse_rtranclp_into_rtranclp r_into_rtranclp)
    qed
  qed
qed

text \<open>C12: What the manager does to the state it shares with the IO thread are steps of the interleaved system:
  \<open>forward_open\<close>, the handle's setters and \<open>forward_close\<close> (of a handle the program still holds) change it by
  such steps alone, whatever the session answers. So the invariants of the system survive every use of the
  manager.\<close>
theorem manager_refines_steps:
  "(forward_open B S c callbacks now (s, m) = (r, s', m') \<longrightarrow> (io_step B (\<lambda>_ _. True))\<^sup>*\<^sup>* (cm_sys m) (cm_sys m'))
   \<and> ((h_flag h, h_key h) \<in> set (handles (cm_sys m)) \<longrightarrow>
       (forward_close B S h (s, m) = (u, s', m') \<longrightarrow> (io_step B (\<lambda>_ _. True))\<^sup>*\<^sup>* (cm_sys m) (cm_sys m'))
       \<and> (handle_set_output h d m = (u, m') \<longrightarrow> (io_step B (\<lambda>_ _. True))\<^sup>*\<^sup>* (cm_sys m) (cm_sys m'))
       \<and> (handle_set_run h b m = (u, m') \<longrightarrow> (io_step B (\<lambda>_ _. True))\<^sup>*\<^sup>* (cm_sys m) (cm_sys m')))"
  (is "?A \<and> (?H \<longrightarrow> ?C \<and> ?O \<and> ?R)")
proof (intro conjI impI)
  let ?step = "io_step B (\<lambda>_ _. True)"
  show "?step\<^sup>*\<^sup>* (cm_sys m) (cm_sys m')" if "forward_open B S c callbacks now (s, m) = (r, s', m')"
    using forward_open_hands_over [OF that] hand_over_steps by (metis rtranclp.rtrancl_refl)
  assume held: "(h_flag h, h_key h) \<in> set (handles (cm_sys m))"
  show "?step\<^sup>*\<^sup>* (cm_sys m) (cm_sys m')" if "handle_set_output h d m = (u, m')"
    using that io_step.handle_output [OF held, of B]
    by (auto simp: handle_set_output_def sender_send_def split: if_splits)
  show "?step\<^sup>*\<^sup>* (cm_sys m) (cm_sys m')" if "handle_set_run h b m = (u, m')"
    using that io_step.handle_run [OF held, of B]
    by (auto simp: handle_set_run_def sender_send_def split: if_splits)
  show "?step\<^sup>*\<^sup>* (cm_sys m) (cm_sys m')" if "forward_close B S h (s, m) = (u, s', m')"
  proof -
    obtain v m1 where t: "take_back h m = (v, m1)" by (meson surj_pair)
    then have "m' = m1"
      using that by (auto simp: forward_close_def split: sum.splits prod.splits bool.splits)
    with take_back_steps [OF held t] show ?thesis by simp
  qed
qed

lemma manager_refines_steps_witness:
  "(io_step slice_bytes (\<lambda>_ _. True))\<^sup>*\<^sup>* (cm_sys sample_manager) (cm_sys (snd (snd (forward_open slice_bytes
     (mock_session slice_bytes) (sample_config 0) callbacks_new 0
     (mock_reply (response_wire sample_reply 0) mock_new, sample_manager)))))"
  using manager_refines_steps [of slice_bytes "mock_session slice_bytes" "sample_config 0" callbacks_new 0
      "mock_reply (response_wire sample_reply 0) mock_new" sample_manager]
  by (metis prod.collapse)

text \<open>C14: Forward Close: of an open connection, the flag is closed and the IO thread told to drop it before the
  target is asked, and the target reads from the one request the serial number, originator and path of the
  open connection. Of a connection that has timed out, it sends nothing over any session, tells the thread
  nothing, and succeeds without changing a flag or the count.\<close>
theorem forward_close_once:
  assumes "bytes_crate B" "running (cm_sys m)" "handle_is_open h m" "h_flag h < length (flag_open (io (cm_sys m)))"
    and "path_fits (fc_path (h_close_request h))"
    and "replies s = (GSC_SUCCESS, d, []) # rs" "length d < 65000"
    and "\<not> handle_is_open h' n"
  shows "(\<exists>s' m'. forward_close B (mock_session B) h (s, m) = (Ok (), s', m')
    \<and> requests s' = requests s @ [\<lparr>rq_service = SC_FORWARD_CLOSE, rq_path = epath_instance CM_CLASS_ID 1,
        rq_data = forward_close_encode B (h_close_request h)\<rparr>]
    \<and> target_reads_close B (forward_close_encode B (h_close_request h)) = Ok (h_close_request h, [])
    \<and> \<not> handle_is_open h m' \<and> queue (cm_sys m') = queue (cm_sys m) @ [Remove (h_key h)])
    \<and> (\<exists>n'. forward_close B (S :: 's session) h' (t, n) = (Ok (), t, n')
        \<and> flag_open (io (cm_sys n')) = flag_open (io (cm_sys n)) \<and> queue (cm_sys n') = queue (cm_sys n)
        \<and> open_count (io (cm_sys n')) = open_count (io (cm_sys n)))"
proof -
  have len: "length (forward_close_encode B (h_close_request h)) < 65000"
    using assms(1,5) by (simp add: forward_close_encode_def Let_def bytes_crate.writers path_fits_def)
  note rc = bytes_crate.mock_request_checked [OF assms(1) len assms(6,7), of "cm_router m" SC_FORWARD_CLOSE
      "epath_instance CM_CLASS_ID 1" "lit ''forward close''", simplified]
  have reads: "target_reads_close B (forward_close_encode B (h_close_request h)) = Ok (h_close_request h, [])"
    using bytes_crate.target_reads_close_encode [OF assms(1,5), of "[]"] by simp
  have fl: "((flag_open (io (cm_sys m)))[h_flag h := False]) ! h_flag h = False"
    using assms(4) by simp
  have same: "(flag_open (io (cm_sys n)))[h_flag h' := False] = flag_open (io (cm_sys n))"
    using assms(8) list_update_id [of "flag_open (io (cm_sys n))" "h_flag h'"]
    by (simp add: handle_is_open_def flag_is_open_def)
  show ?thesis
    using assms(2,3,8) reads rc fl same
    by (simp add: forward_close_def take_back_def handle_is_open_def flag_is_open_def flag_close_def sender_send_def
        Let_def)
qed

lemma forward_close_once_witness:
  "(\<exists>s' m'. forward_close slice_bytes (mock_session slice_bytes)
     (open_handle (sample_config 0) sample_reply sample_io_config 0)
     (mock_reply [] mock_new, sample_manager\<lparr>cm_sys := sample_added\<rparr>) = (Ok (), s', m')
   \<and> queue (cm_sys m') = [Remove sample_key])
   \<and> (\<exists>n'. forward_close slice_bytes (mock_session slice_bytes) (open_handle (sample_config 0) sample_reply sample_io_config 0)
     (mock_new, sample_manager\<lparr>cm_sys := sample_system Map.empty [False] 0 [CloseCalled 0] [] [(0, sample_key)] []\<rparr>)
       = (Ok (), mock_new, n'))"
proof -
  have "path_fits (fc_path (h_close_request (open_handle (sample_config 0) sample_reply sample_io_config 0)))"
    by (simp add: open_handle_def sample_config_def config_new_def path_fits_def)
  from forward_close_once [OF slice.bytes_crate_axioms _ _ _ this, of "sample_manager\<lparr>cm_sys := sample_added\<rparr>"
      "mock_reply [] mock_new" "[]" "[]" "open_handle (sample_config 0) sample_reply sample_io_config 0"
      "sample_manager\<lparr>cm_sys := sample_system Map.empty [False] 0 [CloseCalled 0] [] [(0, sample_key)] []\<rparr>"
      "mock_session slice_bytes" mock_new]
  show ?thesis
    by (auto simp: sample_added_def sample_system_def handle_is_open_def flag_is_open_def open_handle_def
        mock_reply_def mock_reply_status_def mock_new_def)
qed

text \<open>C39: When the IO thread has stopped, a Forward Open the target has accepted ends in an error, but the new
  open flag stays counted: \<open>has_open_connections\<close> is true from then on although no connection was handed
  over, and the target is not told to close the one it opened.\<close>
theorem stopped_thread_leaks_open_count:
  assumes "bytes_crate B" "check_config c = Ok large" "path_fits (encoded_path c)" "\<not> running (cm_sys m)"
    and "replies s = (GSC_SUCCESS, response_wire rp rsv, []) # rs" "path_fits (fr_application_reply rp)"
  shows "\<exists>s' m'. forward_open B (mock_session B) c callbacks now (s, m) = (Err IoThreadStopped, s', m')
    \<and> length (requests s') = length (requests s) + 1
    \<and> open_count (io (cm_sys m')) = open_count (io (cm_sys m)) + 1 \<and> has_open_connections m'
    \<and> handles (cm_sys m') = handles (cm_sys m) \<and> queue (cm_sys m') = queue (cm_sys m)"
proof -
  obtain req m1 where req: "open_request c m = (req, m1)" by (meson surj_pair)
  have m1: "cm_sys m1 = cm_sys m" "cm_router m1 = cm_router m" and path: "fo_path req = encoded_path c"
    using open_request_fields [of c m] by (simp_all add: req)
  have len: "length (forward_open_encode B req large) < 65000"
    using length_forward_open [OF assms(1), of req large] assms(3) by (simp add: path path_fits_def)
  have rlen: "length (response_wire rp rsv) < 65000"
    using assms(6) by (simp add: response_wire_def path_fits_def)
  let ?svc = "if large then SC_LARGE_FORWARD_OPEN else SC_FORWARD_OPEN"
  note rc = bytes_crate.mock_request_checked [OF assms(1) len assms(5) rlen, of "cm_router m" ?svc
      "epath_instance CM_CLASS_ID 1" "lit ''forward open''"]
  have dec: "forward_open_response_decode B (response_wire rp rsv) = Ok rp"
    using bytes_crate.forward_open_response_read_wire [OF assms(1,6), of rsv "[]"]
    by (simp add: forward_open_response_decode_def run_reader_def)
  show ?thesis
    using assms(4)
    by (simp add: forward_open_def assms(2) req m1 rc dec reply_sockaddr_def hand_over_def sender_send_def
        flag_new_def Let_def has_open_connections_def split del: if_split)
qed

lemma stopped_thread_leaks_open_count_witness:
  "\<exists>s' m'. forward_open slice_bytes (mock_session slice_bytes) (sample_config 0) callbacks_new 0
      (mock_reply (response_wire sample_reply 0) mock_new,
       sample_manager\<lparr>cm_sys := (cm_sys sample_manager)\<lparr>running := False\<rparr>\<rparr>) = (Err IoThreadStopped, s', m')
    \<and> has_open_connections m'"
  using stopped_thread_leaks_open_count [OF slice.bytes_crate_axioms sample_config_checked,
      of "sample_manager\<lparr>cm_sys := (cm_sys sample_manager)\<lparr>running := False\<rparr>\<rparr>"
      "mock_reply (response_wire sample_reply 0) mock_new" sample_reply 0 "[]" callbacks_new 0]
  by (auto simp: mock_reply_def mock_reply_status_def mock_new_def sample_reply_def path_fits_def)

end
