(* ===== verification/Exchange.thy ===== *)
theory Exchange
  imports Io_Manager
begin

text \<open>
  The I/O path from end to end: a connection opened by the manager (src/src/io/manager.rs), output set through
  its handle, and a round of the IO thread (src/src/io/thread.rs) that sends it to the device and passes the
  device's input on. This theory composes the lemmas of those components.
\<close>

section \<open>A fresh connection in the service pass\<close>

definition framing :: "bool \<Rightarrow> u16 \<Rightarrow> bool \<Rightarrow> u32 \<Rightarrow> bytes list" where
  "framing counted count headed header = [if counted then le16 count else [], if headed then le32 header else []]"

lemma length_framing: "length (concat (framing counted count headed header)) \<le> 6"
  by (simp add: framing_def)

context bytes_crate
begin

lemma service_fresh:
  assumes "cb_on_send cb = None" "now \<le> t" "io_o2t_fixed cfg \<longrightarrow> length d = io_o2t_size cfg" "length d < 65530"
    and "e = \<lparr>en_conn = set_output d (conn_new cfg now), en_callbacks = cb, en_flag = f\<rparr>"
  shows "\<exists>pkt. fst (service_entry B t e) = [SentTo (io_destination cfg) pkt]
    \<and> decode_connected_packet B pkt = Ok \<lparr>connection_id = io_o2t_id cfg, sequence_number = 1,
        cp_data = concat (framing (io_has_sequence_count cfg) 1 (io_o2t_real_time_format cfg) 1) @ d\<rparr>"
proof -
  let ?c = "set_output d (conn_new cfg now)"
  have due: "is_send_due ?c t" using assms(2) by (simp add: is_send_due_def set_output_def conn_new_def)
  have out: "ic_output ?c = d" "ic_cfg ?c = cfg" by (simp_all add: set_output_def conn_new_def)
  obtain r c' where b: "build_packet B t ?c = (r, c')" by (meson surj_pair)
  have "r \<noteq> None"
    using build_packet_none_iff [of B t ?c] b out assms(3) by auto
  then obtain pkt where r: "r = Some pkt" by blast
  have "decode_connected_packet B pkt = Ok \<lparr>connection_id = io_o2t_id cfg, sequence_number = 1,
      cp_data = concat (framing (io_has_sequence_count cfg) 1 (io_o2t_real_time_format cfg) 1) @ d\<rparr>"
    using sent_packet_decodes [OF b [unfolded r]] assms(4) out
    by (simp add: framing_def send_header_def set_output_def conn_new_def)
  moreover have "fst (service_entry B t e) = [SentTo (io_destination cfg) pkt]"
    using build_packet_keeps [OF b] due b r out assms(1) by (simp add: assms(5) service_entry_def)
  ultimately show ?thesis by blast
qed

end

lemma service_entry_callbacks:
  "cb_on_send (en_callbacks e) = None \<Longrightarrow> en_callbacks (snd (service_entry B t e)) = en_callbacks e"
  by (auto simp: service_entry_def split: prod.split option.split)

section \<open>A datagram among others\<close>

definition is_datagram :: "recv_result \<Rightarrow> bool" where
  "is_datagram r \<longleftrightarrow> (case r of Datagram _ _ _ \<Rightarrow> True | RecvError _ \<Rightarrow> False)"

lemma receive_one_keeps:
  assumes "connections s k = Some e"
  shows "\<exists>e'. connections (receive_one B buf sender t s) k = Some e' \<and> ic_cfg (en_conn e') = ic_cfg (en_conn e)
    \<and> en_callbacks e' = en_callbacks e"
  using assms on_receive_cfg [of B _ t "en_conn e"]
  by (auto simp: receive_one_def Let_def split: sum.split option.split prod.split) (metis snd_conv)+

lemma receive_one_effects: "\<exists>ef. effects (receive_one B buf sender t s) = effects s @ ef"
  by (auto simp: receive_one_def Let_def split: sum.split option.split prod.split)

lemma receive_all_effects: "\<exists>ef. effects (receive_all B rs s) = effects s @ ef"
proof (induction B rs s rule: receive_all.induct)
  case (3 B buf sender t rs s)
  then show ?case using receive_one_effects [of B buf sender t s] by auto
qed auto

lemma receive_all_datagrams:
  "list_all is_datagram pre \<Longrightarrow> receive_all B (pre @ rs) s = receive_all B rs (receive_all B pre s)"
  by (induction B pre s rule: receive_all.induct) (simp_all add: is_datagram_def)

lemma receive_all_keeps:
  "connections s k = Some e \<Longrightarrow> \<exists>e'. connections (receive_all B rs s) k = Some e'
    \<and> ic_cfg (en_conn e') = ic_cfg (en_conn e) \<and> en_callbacks e' = en_callbacks e"
proof (induction B rs s arbitrary: e rule: receive_all.induct)
  case (3 B buf sender t rs s)
  obtain e' where "connections (receive_one B buf sender t s) k = Some e'" "ic_cfg (en_conn e') = ic_cfg (en_conn e)"
    "en_callbacks e' = en_callbacks e"
    using receive_one_keeps [OF "3.prems"] by blast
  with "3.IH" [of e'] show ?case by simp
qed auto

context bytes_crate
begin

lemma receive_input:
  assumes "connections s k = Some e" "cb_on_receive (en_callbacks e)" "cfg = ic_cfg (en_conn e)"
    and "io_t2o_fixed cfg \<longrightarrow> length inp = io_t2o_size cfg" "length inp < 65530" "list_all is_datagram pre"
    and "buf = encode_connected_packet B (key_t2o_id k) n
      (framing (io_has_sequence_count cfg) count (io_t2o_real_time_format cfg) header @ [inp])"
  shows "\<exists>ef ef'. effects (receive_all B (pre @ Datagram buf (Some (key_peer_ip k)) t # post) s) = effects s @ ef @
     [Received k \<lparr>in_sequence_number = n, in_sequence_count = (if io_has_sequence_count cfg then count else 0),
        in_run_idle_header = (if io_t2o_real_time_format cfg then header else 0), in_data = inp\<rparr>] @ ef'"
proof -
  let ?s = "receive_all B pre s"
  let ?parts = "framing (io_has_sequence_count cfg) count (io_t2o_real_time_format cfg) header @ [inp]"
  define p where "p = \<lparr>connection_id = key_t2o_id k, sequence_number = n, cp_data = concat ?parts\<rparr>"
  let ?i = "\<lparr>in_sequence_number = n, in_sequence_count = (if io_has_sequence_count cfg then count else 0),
     in_run_idle_header = (if io_t2o_real_time_format cfg then header else 0), in_data = inp\<rparr>"
  have key: "\<lparr>key_peer_ip = key_peer_ip k, key_t2o_id = connection_id p\<rparr> = k" by (simp add: p_def)
  obtain e' where e': "connections ?s k = Some e'" "ic_cfg (en_conn e') = cfg" "en_callbacks e' = en_callbacks e"
    using receive_all_keeps [OF assms(1)] assms(3) by blast
  have "length (concat ?parts) < 65536"
    using assms(5) length_framing [of "io_has_sequence_count cfg" count "io_t2o_real_time_format cfg" header] by simp
  then have dec: "decode_connected_packet B buf = Ok p"
    using decode_connected_packet_encode [of ?parts "key_t2o_id k" n "[]"] assms(7) by (simp add: p_def)
  have recv: "on_receive B p t (en_conn e') = (Some ?i, (en_conn e')\<lparr>ic_t2o_size_warned := False, ic_last_receive := t\<rparr>)"
    using on_receive_header [of p "en_conn e'" count header inp t] assms(4) e'(2) by (simp add: p_def framing_def)
  have one: "effects (receive_one B buf (Some (key_peer_ip k)) t ?s) = effects ?s @ [Received k ?i]"
    using e' assms(2) by (simp add: receive_one_def dec recv Let_def key)
  obtain ef where ef: "effects ?s = effects s @ ef" using receive_all_effects by blast
  obtain ef' where "effects (receive_all B post (receive_one B buf (Some (key_peer_ip k)) t ?s)) =
      effects (receive_one B buf (Some (key_peer_ip k)) t ?s) @ ef'"
    using receive_all_effects by blast
  with one ef show ?thesis
    by (intro exI [of _ ef] exI [of _ ef']) (simp add: receive_all_datagrams [OF assms(6)])
qed

end

section \<open>The first round of a connection\<close>

text \<open>The thread's state when it has taken in a new connection and its first output.\<close>

definition opened_state :: "IoConnectionConfig \<Rightarrow> instant \<Rightarrow> IoCallbacks \<Rightarrow> nat \<Rightarrow> bytes \<Rightarrow> io_state \<Rightarrow> io_state" where
  "opened_state cfg now cb f d s = s\<lparr>connections := (connections s)(io_key cfg \<mapsto>
     \<lparr>en_conn = set_output d (conn_new cfg now), en_callbacks = cb, en_flag = f\<rparr>)\<rparr>"

lemma drain_opened:
  "connections s (io_key cfg) = None \<Longrightarrow>
   drain_commands True [Add (conn_new cfg now) cb f, SetOutput (io_key cfg) d] s = (True, [], opened_state cfg now cb f d s)"
  by (simp add: opened_state_def update_conn_def conn_new_def)

lemma round_drained:
  "drain_commands (rd_senders rd) (rd_queue rd) s = (True, q, s') \<Longrightarrow> rd_ready rd = Some True \<Longrightarrow>
   run_round B rd s = (True, receive_all B (rd_datagrams rd) (service_connections B (rd_now rd) (rd_order rd) s'))"
  by (simp add: run_round_def Let_def)

context bytes_crate
begin

lemma first_round:
  assumes fresh: "connections s (io_key cfg) = None" and cb: "cb_on_send cb = None" "cb_on_receive cb"
    and d: "io_o2t_fixed cfg \<longrightarrow> length d = io_o2t_size cfg" "length d < 65530"
    and inp: "io_t2o_fixed cfg \<longrightarrow> length inp = io_t2o_size cfg" "length inp < 65530"
    and rd: "rd_senders rd" "rd_queue rd = [Add (conn_new cfg now) cb f, SetOutput (io_key cfg) d]" "rd_ready rd = Some True"
      "now \<le> rd_now rd" "rd_now rd < now + io_timeout cfg"
      "distinct (rd_order rd)" "set (rd_order rd) = insert (io_key cfg) (dom (connections s))"
      "rd_datagrams rd = pre @ Datagram buf (Some (io_peer_ip cfg)) t # post" "list_all is_datagram pre"
    and buf: "buf = encode_connected_packet B (io_t2o_id cfg) n
      (framing (io_has_sequence_count cfg) count (io_t2o_real_time_format cfg) header @ [inp])"
  shows "\<exists>y pkt new. run_round B rd s = (True, y) \<and> effects y = effects s @ new
    \<and> SentTo (io_destination cfg) pkt \<in> set new
    \<and> decode_connected_packet B pkt = Ok \<lparr>connection_id = io_o2t_id cfg, sequence_number = 1,
        cp_data = concat (framing (io_has_sequence_count cfg) 1 (io_o2t_real_time_format cfg) 1) @ d\<rparr>
    \<and> Received (io_key cfg) \<lparr>in_sequence_number = n, in_sequence_count = (if io_has_sequence_count cfg then count else 0),
        in_run_idle_header = (if io_t2o_real_time_format cfg then header else 0), in_data = inp\<rparr> \<in> set new"
proof -
  let ?k = "io_key cfg"
  let ?e = "\<lparr>en_conn = set_output d (conn_new cfg now), en_callbacks = cb, en_flag = f\<rparr>"
  let ?s = "opened_state cfg now cb f d s"
  let ?y = "service_connections B (rd_now rd) (rd_order rd) ?s"
  have at: "connections ?s ?k = Some ?e" by (simp add: opened_state_def)
  have live: "\<not> is_timed_out (en_conn ?e) (rd_now rd)"
    using rd(5) by (simp add: is_timed_out_def timeout_at_def set_output_def conn_new_def)
  have order: "enumerates (rd_order rd) ?s"
    using rd(6,7) by (auto simp: enumerates_def opened_state_def)
  obtain pkt where pkt: "fst (service_entry B (rd_now rd) ?e) = [SentTo (io_destination cfg) pkt]"
    "decode_connected_packet B pkt = Ok \<lparr>connection_id = io_o2t_id cfg, sequence_number = 1,
      cp_data = concat (framing (io_has_sequence_count cfg) 1 (io_o2t_real_time_format cfg) 1) @ d\<rparr>"
    using service_fresh [OF cb(1) rd(4) d, of ?e f] by auto
  have "sent_at B (rd_now rd) ?s ?k = [SentTo (io_destination cfg) pkt]"
    using at live pkt(1) by (simp add: sent_at_def)
  then have "SentTo (io_destination cfg) pkt \<in> set (concat (map (sent_at B (rd_now rd) ?s) (rd_order rd)))"
    using rd(7) by force
  then obtain sent where sent: "effects ?y = effects s @ sent" "SentTo (io_destination cfg) pkt \<in> set sent"
    using service_pass(2) [OF order refl, of B "rd_now rd"] by (simp add: opened_state_def)
  have entry: "connections ?y ?k = Some (snd (service_entry B (rd_now rd) ?e))"
    using service_pass(1) [OF order refl, of B "rd_now rd" ?k] at live by (simp add: after_service_def)
  have kept: "cb_on_receive (en_callbacks (snd (service_entry B (rd_now rd) ?e)))"
    "cfg = ic_cfg (en_conn (snd (service_entry B (rd_now rd) ?e)))"
    using service_entry_callbacks [of ?e B "rd_now rd"] service_entry_keeps(2) [of B "rd_now rd" ?e] cb
    by (simp_all add: set_output_def conn_new_def)
  have buf': "buf = encode_connected_packet B (key_t2o_id ?k) n
      (framing (io_has_sequence_count cfg) count (io_t2o_real_time_format cfg) header @ [inp])"
    by (simp add: buf io_key_def)
  obtain ef ef' where received: "effects (receive_all B (rd_datagrams rd) ?y) = effects ?y @ ef @
     [Received ?k \<lparr>in_sequence_number = n, in_sequence_count = (if io_has_sequence_count cfg then count else 0),
        in_run_idle_header = (if io_t2o_real_time_format cfg then header else 0), in_data = inp\<rparr>] @ ef'"
    using receive_input [OF entry kept inp rd(9) buf', of t post] by (auto simp: rd(8) io_key_def)
  have "run_round B rd s = (True, receive_all B (rd_datagrams rd) ?y)"
    using round_drained [of rd s "[]" ?s B] drain_opened [OF fresh, of now cb f d] rd(1-3) by simp
  with sent received pkt(2) show ?thesis
    by (intro exI [of _ "receive_all B (rd_datagrams rd) ?y"] exI [of _ pkt]) auto
qed

end

section \<open>From Forward Open to data\<close>

lemma handle_set_output_running:
  "running (cm_sys m) \<Longrightarrow> handle_set_output h d m = (Ok (), m\<lparr>cm_sys := (cm_sys m)\<lparr>queue := queue (cm_sys m) @ [SetOutput (h_key h) d]\<rparr>\<rparr>)"
  by (simp add: handle_set_output_def sender_send_def)

text \<open>The frames of a configured connection: a sequence count in class 1, a run/idle header where configured.\<close>

definition o2t_frame :: "ConnectionConfig \<Rightarrow> u16 \<Rightarrow> u32 \<Rightarrow> bytes" where
  "o2t_frame c count header = concat (framing (cc_transport_class c = Class1) count (dir_run_idle_header (cc_o2t c)) header)"

text \<open>What the device sends: a packet with the granted T->O id, framed as configured.\<close>

definition device_packet :: "bytes_api \<Rightarrow> ConnectionConfig \<Rightarrow> ForwardOpenResponse \<Rightarrow> u32 \<Rightarrow> u16 \<Rightarrow> u32 \<Rightarrow> bytes \<Rightarrow> bytes" where
  "device_packet B c rp n count header inp = encode_connected_packet B (fr_t2o_id rp) n
     (framing (cc_transport_class c = Class1) count (dir_run_idle_header (cc_t2o c)) header @ [inp])"

lemma has_sequence_count_checked:
  "check_config c = Ok large \<Longrightarrow> has_sequence_count (cc_transport_class c) \<longleftrightarrow> cc_transport_class c = Class1"
  using check_config_ok(3) [of c large] by (auto simp: has_sequence_count_def)

text \<open>C5: Input and output from end to end. A connection is opened over a session, output is set through its
  handle, and the IO thread runs a round before the connection times out, while a datagram of the device is
  among those it finds: the round sends to the destination of the reply a packet that a device decodes as the
  granted O->T id, the sequence number 1, the first count and the running state where they are configured, and
  exactly the output; and the connection's handler is called with exactly the device's input. Other
  connections in the table, the order of the table and the other datagrams make no difference.\<close>
theorem exchange_end_to_end:
  assumes "bytes_crate B" "check_config c = Ok large" "path_fits (encoded_path c)"
    and m: "running (cm_sys m)" "queue (cm_sys m) = []" "connections (io (cm_sys m)) k = None"
    and reply: "replies s = (GSC_SUCCESS, response_wire rp rsv @ rest, items) # rs"
      "path_fits (fr_application_reply rp)" "length rest < 60000"
      "items = (case sa of None \<Rightarrow> [] | Some a \<Rightarrow> [item_new CPI_O2T_SOCKADDR_INFO (encode_sockaddr B a [])])"
      "k = \<lparr>key_peer_ip = sa_ip (mock_remote s), key_t2o_id = fr_t2o_id rp\<rparr>"
    and cb: "cb_on_send callbacks = None" "cb_on_receive callbacks"
    and len: "length d = unat (dir_size (cc_o2t c))" "length d < 65530" "length inp = unat (dir_size (cc_t2o c))" "length inp < 65530"
    and rd: "rd_senders rd" "rd_ready rd = Some True" "now \<le> rd_now rd"
      "rd_now rd < now + 1000 * (unat (fr_t2o_api rp) * (4 * 2 ^ unat (cc_timeout_multiplier c)))"
      "distinct (rd_order rd)" "set (rd_order rd) = insert k (dom (connections (io (cm_sys m))))"
      "rd_datagrams rd = pre @ Datagram (device_packet B c rp n count header inp) (Some (sa_ip (mock_remote s))) t # post"
      "list_all is_datagram pre"
  shows "\<exists>h s' m1 m2 y pkt new. forward_open B (mock_session B) c callbacks now (s, m) = (Ok h, s', m1)
    \<and> handle_set_output h d m1 = (Ok (), m2)
    \<and> run_round B (rd\<lparr>rd_queue := queue (cm_sys m2)\<rparr>) (io (cm_sys m2)) = (True, y)
    \<and> effects y = effects (io (cm_sys m)) @ new
    \<and> SentTo (o2t_destination sa (sa_ip (mock_remote s))) pkt \<in> set new
    \<and> decode_connected_packet B pkt = Ok \<lparr>connection_id = fr_o2t_id rp, sequence_number = 1, cp_data = o2t_frame c 1 1 @ d\<rparr>
    \<and> Received k \<lparr>in_sequence_number = n, in_sequence_count = (if cc_transport_class c = Class1 then count else 0),
        in_run_idle_header = (if dir_run_idle_header (cc_t2o c) then header else 0), in_data = inp\<rparr> \<in> set new"
proof -
  let ?cfg = "open_config c rp (o2t_destination sa (sa_ip (mock_remote s))) (sa_ip (mock_remote s))"
  let ?f = "length (flag_open (io (cm_sys m)))"
  let ?h = "open_handle c rp ?cfg ?f"
  obtain s' m1 where opened: "forward_open B (mock_session B) c callbacks now (s, m) = (Ok ?h, s', m1)"
    and m1: "queue (cm_sys m1) = [Add (conn_new ?cfg now) callbacks ?f]" "running (cm_sys m1)"
      "io (cm_sys m1) = snd (flag_new (io (cm_sys m)))"
    using forward_open_device [OF assms(1-3) m(1) reply(1-4), of callbacks now] m(2) by auto
  note set_out = handle_set_output_running [OF m1(2), of ?h d]
  define m2 where "m2 = m1\<lparr>cm_sys := (cm_sys m1)\<lparr>queue := queue (cm_sys m1) @ [SetOutput (h_key ?h) d]\<rparr>\<rparr>"
  have cfg: "io_key ?cfg = k" "io_o2t_size ?cfg = length d" "io_t2o_size ?cfg = length inp" "io_peer_ip ?cfg = sa_ip (mock_remote s)"
    "io_timeout ?cfg = 1000 * (unat (fr_t2o_api rp) * (4 * 2 ^ unat (cc_timeout_multiplier c)))" "io_o2t_id ?cfg = fr_o2t_id rp"
    "io_t2o_id ?cfg = fr_t2o_id rp" "io_has_sequence_count ?cfg = (cc_transport_class c = Class1)"
    "io_o2t_real_time_format ?cfg = dir_run_idle_header (cc_o2t c)" "io_t2o_real_time_format ?cfg = dir_run_idle_header (cc_t2o c)"
    "io_destination ?cfg = o2t_destination sa (sa_ip (mock_remote s))"
    using has_sequence_count_checked [OF assms(2)] len(1,3)
    by (simp_all add: open_config_def io_key_def from_micros_def reply(5))
  have q: "queue (cm_sys m2) = [Add (conn_new ?cfg now) callbacks ?f, SetOutput (io_key ?cfg) d]"
    by (simp add: m2_def m1(1) open_handle_def)
  have io: "connections (io (cm_sys m2)) = connections (io (cm_sys m))" "effects (io (cm_sys m2)) = effects (io (cm_sys m))"
    by (simp_all add: m2_def m1(3) flag_new_def)
  have packet: "device_packet B c rp n count header inp = encode_connected_packet B (io_t2o_id ?cfg) n
      (framing (io_has_sequence_count ?cfg) count (io_t2o_real_time_format ?cfg) header @ [inp])"
    by (simp only: device_packet_def cfg)
  obtain y pkt new where "run_round B (rd\<lparr>rd_queue := queue (cm_sys m2)\<rparr>) (io (cm_sys m2)) = (True, y)"
    "effects y = effects (io (cm_sys m)) @ new" "SentTo (io_destination ?cfg) pkt \<in> set new"
    "decode_connected_packet B pkt = Ok \<lparr>connection_id = io_o2t_id ?cfg, sequence_number = 1,
        cp_data = concat (framing (io_has_sequence_count ?cfg) 1 (io_o2t_real_time_format ?cfg) 1) @ d\<rparr>"
    "Received (io_key ?cfg) \<lparr>in_sequence_number = n, in_sequence_count = (if io_has_sequence_count ?cfg then count else 0),
        in_run_idle_header = (if io_t2o_real_time_format ?cfg then header else 0), in_data = inp\<rparr> \<in> set new"
    using bytes_crate.first_round [OF assms(1), of "io (cm_sys m2)" ?cfg callbacks d inp "rd\<lparr>rd_queue := queue (cm_sys m2)\<rparr>"
        now ?f pre _ t post n count header, OF _ cb] m(3) len rd packet
    by (auto simp: cfg io q [unfolded cfg])
  with opened set_out show ?thesis
    by (intro exI [of _ ?h] exI [of _ s'] exI [of _ m1] exI [of _ m2] exI [of _ y] exI [of _ pkt] exI [of _ new])
      (simp add: cfg o2t_frame_def m2_def)
qed


lemma exchange_end_to_end_witness:
  "\<exists>h s' m1 m2 y pkt. forward_open slice_bytes (mock_session slice_bytes) (sample_config 0) (with_on_receive callbacks_new) 0
       (mock_reply (response_wire sample_reply 0) mock_new, sample_manager) = (Ok h, s', m1)
    \<and> handle_set_output h (replicate 32 7) m1 = (Ok (), m2)
    \<and> run_round slice_bytes \<lparr>rd_senders = True, rd_queue = queue (cm_sys m2), rd_now = 5,
        rd_order = [\<lparr>key_peer_ip = ipv4 127 0 0 1, key_t2o_id = 0x10001\<rparr>], rd_ready = Some True,
        rd_datagrams = [Datagram (device_packet slice_bytes (sample_config 0) sample_reply 1 1 1
          (replicate 32 9)) (Some (ipv4 127 0 0 1)) 6]\<rparr> (io (cm_sys m2)) = (True, y)
    \<and> SentTo \<lparr>sa_ip = ipv4 127 0 0 1, sa_port = 2222\<rparr> pkt \<in> set (effects y)"
proof -
  let ?rd = "\<lparr>rd_senders = True, rd_queue = [], rd_now = 5,
        rd_order = [\<lparr>key_peer_ip = ipv4 127 0 0 1, key_t2o_id = 0x10001\<rparr>], rd_ready = Some True,
        rd_datagrams = [] @ Datagram (device_packet slice_bytes (sample_config 0) sample_reply 1 1 1
          (replicate 32 9)) (Some (ipv4 127 0 0 1)) 6 # []\<rparr>"
  have m: "queue (cm_sys sample_manager) = []" "connections (io (cm_sys sample_manager)) k = None" for k
    by (simp_all add: sample_manager_def manager_new_def io_start_def io_init_def)
  have r: "replies (mock_reply (response_wire sample_reply 0) mock_new) = (GSC_SUCCESS, response_wire sample_reply 0 @ [], []) # []"
    "path_fits (fr_application_reply sample_reply)" "fr_t2o_id sample_reply = 0x10001" "fr_t2o_api sample_reply = 20000"
    "mock_remote (mock_reply (response_wire sample_reply 0) mock_new) = \<lparr>sa_ip = ipv4 127 0 0 1, sa_port = 44818\<rparr>"
    by (simp_all add: mock_reply_def mock_reply_status_def mock_new_def sample_reply_def path_fits_def)
  have c: "cc_timeout_multiplier (sample_config 0) = 0" "unat (dir_size (cc_o2t (sample_config 0))) = 32"
    "unat (dir_size (cc_t2o (sample_config 0))) = 32"
    by (simp_all add: sample_config_def config_new_def direction_new_def)
  have key: "\<lparr>key_peer_ip = ipv4 127 0 0 1, key_t2o_id = 0x10001\<rparr> =
      \<lparr>key_peer_ip = sa_ip (mock_remote (mock_reply (response_wire sample_reply 0) mock_new)), key_t2o_id = fr_t2o_id sample_reply\<rparr>"
    by (simp add: r)
  have "(0 :: instant) \<le> rd_now ?rd" "rd_now ?rd < 0 + 1000 * (unat (fr_t2o_api sample_reply) * (4 * 2 ^ unat (cc_timeout_multiplier (sample_config 0))))"
    by (simp_all add: r c)
  have e: "effects (io (cm_sys sample_manager)) = []" "o2t_destination None (ipv4 127 0 0 1) = \<lparr>sa_ip = ipv4 127 0 0 1, sa_port = 2222\<rparr>"
    by (simp_all add: sample_manager_def manager_new_def io_start_def io_init_def o2t_destination_def)
  have cb: "cb_on_send (with_on_receive callbacks_new) = None" "cb_on_receive (with_on_receive callbacks_new)"
    by (simp_all add: with_on_receive_def callbacks_new_def)
  have order: "set (rd_order ?rd) = insert \<lparr>key_peer_ip = ipv4 127 0 0 1, key_t2o_id = 0x10001\<rparr>
      (dom (connections (io (cm_sys sample_manager))))"
    by (simp add: sample_manager_def manager_new_def io_start_def io_init_def)
  show ?thesis
    using exchange_end_to_end [OF slice.bytes_crate_axioms sample_config_checked sample_manager_running(1) m(1) m(2) r(1,2) _ _ key cb,
        of None "replicate 32 7" "replicate 32 9" ?rd 0 "[]" 1 1 1 6 "[]"] order
    by (simp add: r c e) blast
qed

end
