(* ===== verification/Cadence.thy ===== *)
theory Cadence
  imports Exchange
begin

text \<open>
  The cadence of a connection over many rounds of the IO thread (src/src/io/thread.rs, \<open>run\<close> and
  \<open>service_connections\<close>, with the schedule of src/src/io/connection.rs): a thread that wakes up at least once in
  every packet interval sends exactly one packet per interval.
\<close>

section \<open>Slots\<close>




section \<open>A connection that can send\<close>









section \<open>Whose packet\<close>

text \<open>
  A packet of the connection among the effects: it goes to the connection's target and carries its connection id, which
  stands after the item count and the type and length of the address item. The id belongs to one connection: the table holds
  no other with the same target and the same id.
\<close>

definition packet_of :: "IoConnectionConfig \<Rightarrow> io_effect \<Rightarrow> bool" where
  "packet_of cfg ef =
     (case ef of SentTo a p \<Rightarrow> a = io_destination cfg \<and> take 4 (drop 6 p) = le32 (io_o2t_id cfg) | _ \<Rightarrow> False)"



lemma packet_of_simps [simp]: "\<not> packet_of cfg (Received k i)" "\<not> packet_of cfg (CloseCalled f)"
  by (simp_all add: packet_of_def)






section \<open>A service pass\<close>





section \<open>Rounds\<close>



section \<open>Properties\<close>





end
