(* ===== verification/Io_Startup.thy ===== *)
theory Io_Startup
  imports Io_Manager
begin

text \<open>
  Start and end of the IO thread: the real-time settings and the wait (src/src/io/rt.rs), and \<open>spawn\<close>,
  \<open>prefault\<close> and \<open>Drop\<close> of src/src/io/thread.rs. The operating system and \<open>libc\<close> are a parameter, \<open>os_api\<close>:
  every call takes and returns the state of the system.
\<close>

section \<open>The operating system\<close>

text \<open>
  \<open>os_cpu_set\<close> is \<open>CPU_SET\<close>, which checks the bounds of its index; a call that returns a code returns it with
  the new state, and \<open>os_last_error\<close> is \<open>io::Error::last_os_error\<close>, as its kind and text. \<open>os_local_addr\<close> is
  \<open>None\<close> for an IPv6 address. \<open>os_ppoll\<close> and \<open>os_poll\<close> return the code and the \<open>revents\<close> of each socket.
\<close>

record ('s, 'set, 'sock) os_api =
  os_cpu_zero :: 'set
  os_cpu_set :: "nat \<Rightarrow> 'set \<Rightarrow> 'set result"
  os_sched_setaffinity :: "'set \<Rightarrow> 's \<Rightarrow> int \<times> 's"
  os_set_timer_slack :: "u64 \<Rightarrow> 's \<Rightarrow> int \<times> 's"
  os_setschedparam_fifo :: "u32 \<Rightarrow> 's \<Rightarrow> int \<times> 's"
  os_last_error :: "'s \<Rightarrow> io_kind \<times> rstr"
  os_raw_error :: "int \<Rightarrow> io_kind \<times> rstr"
  os_now :: "'s \<Rightarrow> instant"
  os_ppoll :: "'sock list \<Rightarrow> nat \<times> nat \<Rightarrow> 's \<Rightarrow> (int \<times> u16 list) \<times> 's"
  os_poll :: "'sock list \<Rightarrow> nat \<Rightarrow> 's \<Rightarrow> (int \<times> u16 list) \<times> 's"
  os_sleep :: "duration \<Rightarrow> 's \<Rightarrow> 's"
  os_POLLIN :: u16
  os_POLLERR :: u16
  os_bind :: "SocketAddrV4 \<Rightarrow> ('s, error, 'sock) action"
  os_set_nonblocking :: "'sock \<Rightarrow> ('s, error, unit) action"
  os_local_addr :: "'sock \<Rightarrow> ('s, error, SocketAddrV4 option) action"
  os_connect :: "'sock \<Rightarrow> SocketAddrV4 option \<Rightarrow> ('s, error, unit) action"
  os_spawn_thread :: "rstr \<Rightarrow> ('s, error, unit) action"

section \<open>Real-time settings\<close>

text \<open>The priority is an \<open>i32\<close>, as its two's complement word.\<close>

record RealtimeConfig =
  rt_fifo_priority :: "u32 option"
  rt_cpu_affinity :: "nat list"
  rt_timer_slack_ns :: "u64 option"

definition realtime_default :: RealtimeConfig where
  "realtime_default = \<lparr>rt_fifo_priority = None, rt_cpu_affinity = [], rt_timer_slack_ns = None\<rparr>"

definition rt_is_default :: "RealtimeConfig \<Rightarrow> bool" where
  "rt_is_default cfg \<longleftrightarrow> cfg = realtime_default"

definition fmt_i32 :: "u32 \<Rightarrow> rstr" where
  "fmt_i32 n = (if sint n < 0 then 45 # fmt_dec (nat (- sint n)) else fmt_dec (nat (sint n)))"

definition rt_check :: "('s, 'set, 'sock) os_api \<Rightarrow> int \<Rightarrow> rstr \<Rightarrow> ('s, error, unit) action" where
  "rt_check Y rc what s =
     (if rc = 0 then (Ok (), s)
      else (case os_last_error Y s of (kind, e) \<Rightarrow> (Err (Io kind (what @ lit '': '' @ e)), s)))"

fun cpu_sets :: "('s, 'set, 'sock) os_api \<Rightarrow> nat list \<Rightarrow> 'set \<Rightarrow> 'set result" where
  "cpu_sets Y [] cpus = Ok cpus"
| "cpu_sets Y (cpu # r) cpus = rbind (os_cpu_set Y cpu cpus) (cpu_sets Y r)"

definition set_affinity :: "('s, 'set, 'sock) os_api \<Rightarrow> nat list \<Rightarrow> ('s, error, unit) action" where
  "set_affinity Y cpus =
     (if cpus = [] then sret () else
      sbind (slift (cpu_sets Y cpus (os_cpu_zero Y))) (\<lambda>cpus s.
        case os_sched_setaffinity Y cpus s of (rc, s) \<Rightarrow> rt_check Y rc (lit ''sched_setaffinity'') s))"

definition set_timer_slack :: "('s, 'set, 'sock) os_api \<Rightarrow> u64 option \<Rightarrow> ('s, error, unit) action" where
  "set_timer_slack Y slack s =
     (case slack of
        None \<Rightarrow> (Ok (), s)
      | Some ns \<Rightarrow> (case os_set_timer_slack Y ns s of (rc, s) \<Rightarrow> rt_check Y rc (lit ''prctl(PR_SET_TIMERSLACK)'') s))"

definition set_fifo_priority :: "('s, 'set, 'sock) os_api \<Rightarrow> u32 option \<Rightarrow> ('s, error, unit) action" where
  "set_fifo_priority Y prio s =
     (case prio of
        None \<Rightarrow> (Ok (), s)
      | Some p \<Rightarrow>
          (case os_setschedparam_fifo Y p s of (rc, s) \<Rightarrow>
             (if rc \<noteq> 0 then
                (case os_raw_error Y rc of (kind, e) \<Rightarrow>
                  (Err (Io kind (lit ''pthread_setschedparam(SCHED_FIFO, '' @ fmt_i32 p @ lit ''): '' @ e)), s))
              else (Ok (), s))))"

definition rt_apply :: "('s, 'set, 'sock) os_api \<Rightarrow> RealtimeConfig \<Rightarrow> ('s, error, unit) action" where
  "rt_apply Y cfg =
     sbind (set_affinity Y (rt_cpu_affinity cfg)) (\<lambda>_. sbind (set_timer_slack Y (rt_timer_slack_ns cfg))
       (\<lambda>_. set_fifo_priority Y (rt_fifo_priority cfg)))"

text \<open>On other systems than Linux.\<close>

definition rt_apply_other :: "RealtimeConfig \<Rightarrow> unit result" where
  "rt_apply_other cfg =
     (if rt_is_default cfg then Ok ()
      else Err (Unsupported (lit ''real-time IO thread settings are only supported on Linux'')))"

section \<open>The wait\<close>

text \<open>
  \<open>wait_readable\<close> with \<open>ppoll\<close>, with \<open>poll\<close> (whole milliseconds, rounded up), and without either.
\<close>

definition poll_result :: "('s, 'set, 'sock) os_api \<Rightarrow> 'sock list \<Rightarrow> (int \<times> u16 list) \<times> 's \<Rightarrow> (error + bool list) \<times> 's" where
  "poll_result Y sockets r =
     (case r of ((rc, revents), s) \<Rightarrow>
       if rc < 0 then
         (case os_last_error Y s of (kind, e) \<Rightarrow>
            if kind = Interrupted then (Ok (map (\<lambda>_. False) sockets), s) else (Err (Io kind e), s))
       else (Ok (map (\<lambda>f. f AND (os_POLLIN Y OR os_POLLERR Y) \<noteq> 0) revents), s))"

definition wait_readable :: "('s, 'set, 'sock) os_api \<Rightarrow> 'sock list \<Rightarrow> instant \<Rightarrow> ('s, error, bool list) action" where
  "wait_readable Y sockets deadline s =
     (let timeout = deadline - os_now Y s
      in poll_result Y sockets (os_ppoll Y sockets (timeout div 1000000000, timeout mod 1000000000) s))"

definition wait_readable_poll :: "('s, 'set, 'sock) os_api \<Rightarrow> 'sock list \<Rightarrow> instant \<Rightarrow> ('s, error, bool list) action" where
  "wait_readable_poll Y sockets deadline s =
     (let timeout = deadline - os_now Y s; ms = min (div_ceil (timeout div 1000) 1000) 2147483647
      in poll_result Y sockets (os_poll Y sockets ms s))"

definition wait_readable_fallback :: "('s, 'set, 'sock) os_api \<Rightarrow> 'sock list \<Rightarrow> instant \<Rightarrow> ('s, error, bool list) action" where
  "wait_readable_fallback Y sockets deadline s =
     (let timeout = deadline - os_now Y s
      in (Ok (map (\<lambda>_. True) sockets), os_sleep Y (min timeout 1000000) s))"

text \<open>What the worker does with the result: whether to receive, \<open>None\<close> when the wait failed and it sleeps.\<close>

definition wait_ready :: "error + bool list \<Rightarrow> bool option" where
  "wait_ready r = (case r of Inr (data_ready # _) \<Rightarrow> Some data_ready | _ \<Rightarrow> None)"

section \<open>Starting the thread\<close>

record IoThreadConfig =
  io_bind_addr :: SocketAddrV4
  io_realtime :: RealtimeConfig
  io_thread_name :: rstr
  io_idle_wait :: duration

definition io_thread_config_default :: IoThreadConfig where
  "io_thread_config_default = \<lparr>io_bind_addr = \<lparr>sa_ip = ipv4 0 0 0 0, sa_port = EIP_DEFAULT_IMPLICIT_PORT\<rparr>,
     io_realtime = realtime_default, io_thread_name = lit ''eip-io'', io_idle_wait = from_micros 100000\<rparr>"

text \<open>The handle: the sender's waker, the address, and the system the thread runs.\<close>

record 'sock IoThread =
  it_waker :: 'sock
  it_local_addr :: SocketAddrV4
  it_system :: io_system

text \<open>
  The new thread applies the settings and reports the result before it runs the worker; a thread that panics
  before its report drops the sender, which the spawning thread sees as an error of \<open>recv\<close>.
\<close>

definition thread_report :: "error + unit \<Rightarrow> error + unit" where
  "thread_report r = (case r of Inl e \<Rightarrow> if e = Panicked then Err IoThreadStopped else Err e | Inr _ \<Rightarrow> Ok ())"

definition io_thread_spawn :: "('s, 'set, 'sock) os_api \<Rightarrow> IoThreadConfig \<Rightarrow> ('s, error, 'sock IoThread) action" where
  "io_thread_spawn Y config =
     sbind (os_bind Y (io_bind_addr config)) (\<lambda>socket. sbind (os_set_nonblocking Y socket) (\<lambda>_.
     sbind (os_local_addr Y socket) (\<lambda>a. case a of None \<Rightarrow> sfail Panicked | Some local_addr \<Rightarrow>
     sbind (os_bind Y \<lparr>sa_ip = ipv4 127 0 0 1, sa_port = 0\<rparr>) (\<lambda>wake_rx. sbind (os_set_nonblocking Y wake_rx) (\<lambda>_.
     sbind (os_bind Y \<lparr>sa_ip = ipv4 127 0 0 1, sa_port = 0\<rparr>) (\<lambda>waker. sbind (os_local_addr Y wake_rx) (\<lambda>wake_addr.
     sbind (os_connect Y waker wake_addr) (\<lambda>_. sbind (os_spawn_thread Y (io_thread_name config)) (\<lambda>_ s.
       case rt_apply Y (io_realtime config) s of (r, s) \<Rightarrow>
         (rbind (thread_report r) (\<lambda>_. Ok \<lparr>it_waker = waker, it_local_addr = local_addr, it_system = io_start\<rparr>), s))))))))))"

definition io_thread_local_addr :: "'sock IoThread \<Rightarrow> SocketAddrV4" where
  "io_thread_local_addr t = it_local_addr t"

definition with_config :: "('s, 'set, 'sock) os_api \<Rightarrow> MessageRouter \<Rightarrow> IoThreadConfig \<Rightarrow> u64 \<Rightarrow> ('s, error, ConnectionManager) action" where
  "with_config Y R config random =
     sbind (io_thread_spawn Y config) (\<lambda>io. sret ((manager_new R random)\<lparr>cm_sys := it_system io\<rparr>))"

definition connection_manager_new :: "('s, 'set, 'sock) os_api \<Rightarrow> u64 \<Rightarrow> ('s, error, ConnectionManager) action" where
  "connection_manager_new Y random = with_config Y router_new io_thread_config_default random"

section \<open>Buffers\<close>

text \<open>A zero byte is written to each page of 4096 bytes.\<close>

function prefault_from :: "nat \<Rightarrow> bytes \<Rightarrow> bytes" where
  "prefault_from i buf = (if i < length buf then prefault_from (i + 4096) (buf[i := 0]) else buf)"
  by pat_completeness auto
termination
  by (relation "measure (\<lambda>(i, buf). length buf - i)") auto

declare prefault_from.simps [simp del]

definition prefault :: "bytes \<Rightarrow> bytes" where
  "prefault buf = prefault_from 0 buf"

text \<open>The receive and the send buffer of \<open>Worker::new\<close>.\<close>

definition worker_buffers :: "bytes \<times> bytes" where
  "worker_buffers = (prefault (replicate 65536 0), [])"

section \<open>Ending the thread\<close>

text \<open>\<open>Drop\<close>: the command is sent, its failure ignored; then the thread is joined.\<close>

definition io_thread_drop :: "io_system \<Rightarrow> io_system" where
  "io_thread_drop y =
     (case sender_send (running y) Shutdown (queue y) of Inl _ \<Rightarrow> y | Inr q \<Rightarrow> y\<lparr>queue := q\<rparr>)"


section \<open>Settings\<close>

text \<open>What a successful start has done: each requested setting accepted by the system, in this order.\<close>

definition settings_made :: "('s, 'set, 'sock) os_api \<Rightarrow> RealtimeConfig \<Rightarrow> 's \<Rightarrow> 's \<Rightarrow> bool" where
  "settings_made Y cfg s0 s3 \<longleftrightarrow> (\<exists>s1 s2.
     (if rt_cpu_affinity cfg = [] then s1 = s0
      else (\<exists>cpus. cpu_sets Y (rt_cpu_affinity cfg) (os_cpu_zero Y) = Ok cpus \<and> os_sched_setaffinity Y cpus s0 = (0, s1)))
     \<and> (case rt_timer_slack_ns cfg of None \<Rightarrow> s2 = s1 | Some ns \<Rightarrow> os_set_timer_slack Y ns s1 = (0, s2))
     \<and> (case rt_fifo_priority cfg of None \<Rightarrow> s3 = s2 | Some p \<Rightarrow> os_setschedparam_fifo Y p s2 = (0, s3)))"

lemma rt_check_Ok: "rt_check Y rc what s = (Ok (), s') \<longleftrightarrow> rc = 0 \<and> s' = s"
  by (auto simp: rt_check_def split: prod.splits)

lemma set_affinity_Ok:
  "set_affinity Y cpus s = (Ok (), s') \<longleftrightarrow>
     (if cpus = [] then s' = s else (\<exists>set. cpu_sets Y cpus (os_cpu_zero Y) = Ok set \<and> os_sched_setaffinity Y set s = (0, s')))"
  by (cases "cpu_sets Y cpus (os_cpu_zero Y)") (auto simp: set_affinity_def rt_check_Ok split: prod.splits)

lemma set_timer_slack_Ok:
  "set_timer_slack Y slack s = (Ok (), s') \<longleftrightarrow>
     (case slack of None \<Rightarrow> s' = s | Some ns \<Rightarrow> os_set_timer_slack Y ns s = (0, s'))"
  by (auto simp: set_timer_slack_def rt_check_Ok split: option.splits prod.splits)

lemma set_fifo_priority_Ok:
  "set_fifo_priority Y prio s = (Ok (), s') \<longleftrightarrow>
     (case prio of None \<Rightarrow> s' = s | Some p \<Rightarrow> os_setschedparam_fifo Y p s = (0, s'))"
  by (auto simp: set_fifo_priority_def split: option.splits prod.splits if_splits)

lemma rt_apply_Ok: "rt_apply Y cfg s = (Ok (), s') \<longleftrightarrow> settings_made Y cfg s s'"
  by (auto simp: rt_apply_def sbind_eq_Inr settings_made_def set_affinity_Ok set_timer_slack_Ok set_fifo_priority_Ok
      simp del: split_paired_Ex)

text \<open>The default settings make no call.\<close>

lemma rt_apply_default: "rt_apply Y realtime_default s = (Ok (), s)"
  by (simp add: rt_apply_Ok settings_made_def realtime_default_def)

text \<open>Prefaulting a zeroed buffer changes nothing.\<close>

lemma prefault_from_zero: "prefault_from i (replicate n 0) = replicate n 0"
proof (induction i "replicate n (0 :: u8)" rule: prefault_from.induct)
  case (1 i)
  have "(replicate n (0 :: u8))[i := 0] = replicate n 0" by (metis leI length_replicate list_update_beyond list_update_id nth_replicate)
  with 1 show ?case by (simp add: prefault_from.simps [of i])
qed

lemma worker_buffers_eq: "worker_buffers = (replicate 65536 0, [])"
  by (simp only: worker_buffers_def prefault_def prefault_from_zero)

section \<open>Properties\<close>

text \<open>
  The documented behaviour of the standard library's socket and thread calls: the socket calls return errors
  instead of panicking, a socket bound to an IPv4 address has an IPv4 address, and \<open>Builder::spawn\<close> panics when the
  name of the thread contains a null character, and only then.
\<close>

definition os_documented :: "('s, 'set, 'sock) os_api \<Rightarrow> bool" where
  "os_documented Y \<longleftrightarrow> (\<forall>s. (\<forall>a. fst (os_bind Y a s) \<noteq> Err Panicked) \<and> (\<forall>k. fst (os_set_nonblocking Y k s) \<noteq> Err Panicked)
     \<and> (\<forall>k. fst (os_local_addr Y k s) \<noteq> Err Panicked \<and> fst (os_local_addr Y k s) \<noteq> Ok None)
     \<and> (\<forall>k a. fst (os_connect Y k a s) \<noteq> Err Panicked) \<and> (\<forall>t. fst (os_spawn_thread Y t s) = Err Panicked \<longleftrightarrow> 0 \<in> set t))"

lemma fst_sbind_Inl:
  "fst (sbind m f s) = Inl e \<longleftrightarrow> fst (m s) = Inl e \<or> (\<exists>x s'. m s = (Inr x, s') \<and> fst (f x s') = Inl e)"
  by (auto simp: sbind_def split: prod.splits sum.splits)

lemma thread_report_no_panic: "thread_report r \<noteq> Err Panicked"
  by (auto simp: thread_report_def split: sum.split)

lemma thread_report_Ok: "thread_report r = Ok u \<longleftrightarrow> r = Ok ()"
  by (auto simp: thread_report_def split: sum.split)

text \<open>A successful start has spawned the thread, and that has made the settings.\<close>

lemma spawn_succeeds:
  assumes "io_thread_spawn Y c s = (Ok t, s')"
  shows "\<exists>s1 s2. os_spawn_thread Y (io_thread_name c) s1 = (Ok (), s2) \<and> settings_made Y (io_realtime c) s2 s'
    \<and> it_system t = io_start"
  using assms
  by (auto simp: io_thread_spawn_def sbind_eq_Inr rbind_eq_Inr thread_report_Ok rt_apply_Ok [symmetric]
      split: option.split_asm prod.split_asm)
      (metis IoThread.select_convs(3) surj_pair)

text \<open>The name only matters when the thread is spawned, after the sockets are made.\<close>

lemma spawn_named:
  assumes "os_documented Y" "is_ok (fst (io_thread_spawn Y c s))" "0 \<in> set name"
  shows "fst (io_thread_spawn Y (c\<lparr>io_thread_name := name\<rparr>) s) = Err Panicked"
proof -
  have "fst (os_spawn_thread Y name z) = Err Panicked" for z using assms(1,3) by (simp add: os_documented_def)
  moreover obtain t s' where "io_thread_spawn Y c s = (Ok t, s')"
    using assms(2) by (cases "io_thread_spawn Y c s"; cases "fst (io_thread_spawn Y c s)") auto
  ultimately show ?thesis
    by (auto simp: io_thread_spawn_def sbind_eq_Inr fst_sbind_Inl split: option.splits)
      (metis option.distinct(1) option.inject)
qed

text \<open>C32: Starting the IO thread succeeds only if every requested real-time setting has been accepted by the system,
  affinity before slack before priority, and the thread then starts from the empty table. Otherwise the caller gets an
  error, even when applying the settings panics the new thread (a CPU index out of range), with one exception: a thread
  name with a null character panics the caller, and a configuration that starts panics when it is given such a name.\<close>
theorem thread_start_outcome:
  assumes "os_documented Y"
  shows "(\<forall>t s'. io_thread_spawn Y c s = (Ok t, s') \<longrightarrow> 0 \<notin> set (io_thread_name c)
      \<and> it_system t = io_start \<and> (\<exists>s0. settings_made Y (io_realtime c) s0 s'))
    \<and> (fst (io_thread_spawn Y c s) = Err Panicked \<longrightarrow> 0 \<in> set (io_thread_name c))
    \<and> (is_ok (fst (io_thread_spawn Y c s)) \<and> 0 \<in> set name
      \<longrightarrow> fst (io_thread_spawn Y (c\<lparr>io_thread_name := name\<rparr>) s) = Err Panicked)"
proof (intro conjI impI allI)
  have np: "fst (os_bind Y a s) \<noteq> Err Panicked" "fst (os_set_nonblocking Y k s) \<noteq> Err Panicked"
    "fst (os_local_addr Y k s) \<noteq> Err Panicked" "os_local_addr Y k s \<noteq> (Ok None, s')" "fst (os_connect Y k b s) \<noteq> Err Panicked"
    "fst (os_spawn_thread Y t s) = Err Panicked \<longleftrightarrow> 0 \<in> set t" for a k b t s s'
    using assms by (auto simp: os_documented_def) (metis fst_conv)
  show "fst (io_thread_spawn Y c s) = Err Panicked \<Longrightarrow> 0 \<in> set (io_thread_name c)"
    by (auto simp: io_thread_spawn_def fst_sbind_Inl np rbind_eq_Inl thread_report_no_panic split: option.splits prod.splits)
  fix t s'
  assume ok: "io_thread_spawn Y c s = (Ok t, s')"
  from spawn_succeeds [OF ok] obtain s1 s2 where r: "os_spawn_thread Y (io_thread_name c) s1 = (Ok (), s2)"
    "settings_made Y (io_realtime c) s2 s'" "it_system t = io_start"
    by blast
  from r(1) np(6) [of "io_thread_name c" s1] show "0 \<notin> set (io_thread_name c)" by simp
  from r(2,3) show "it_system t = io_start" "\<exists>s0. settings_made Y (io_realtime c) s0 s'" by auto
next
  assume "is_ok (fst (io_thread_spawn Y c s)) \<and> 0 \<in> set name"
  then show "fst (io_thread_spawn Y (c\<lparr>io_thread_name := name\<rparr>) s) = Err Panicked"
    using spawn_named [OF assms] by blast
qed

text \<open>A system that grants everything: sockets are numbered, and each accepted setting is counted.\<close>

definition sample_os :: "(nat, nat list, nat) os_api" where
  "sample_os = \<lparr>os_cpu_zero = [], os_cpu_set = (\<lambda>c cs. if c < 1024 then Ok (c # cs) else Err Panicked),
     os_sched_setaffinity = (\<lambda>_ s. (0, s + 100)), os_set_timer_slack = (\<lambda>_ s. (0, s + 100)),
     os_setschedparam_fifo = (\<lambda>_ s. (0, s + 100)), os_last_error = (\<lambda>_. (OtherIo 1, [])), os_raw_error = (\<lambda>_. (OtherIo 1, [])),
     os_now = (\<lambda>_. 0), os_ppoll = (\<lambda>ks _ s. ((0, map (\<lambda>_. 0) ks), s)), os_poll = (\<lambda>ks _ s. ((0, map (\<lambda>_. 0) ks), s)),
     os_sleep = (\<lambda>_ s. s), os_POLLIN = 1, os_POLLERR = 8, os_bind = (\<lambda>_ s. (Ok s, s + 1)),
     os_set_nonblocking = (\<lambda>_ s. (Ok (), s)), os_local_addr = (\<lambda>_ s. (Ok (Some \<lparr>sa_ip = ipv4 127 0 0 1, sa_port = 2222\<rparr>), s)),
     os_connect = (\<lambda>_ _ s. (Ok (), s)), os_spawn_thread = (\<lambda>t s. (if 0 \<in> set t then Err Panicked else Ok (), s))\<rparr>"

lemma thread_start_outcome_witness:
  "(\<exists>t. io_thread_spawn sample_os io_thread_config_default 0 = (Ok t, 3) \<and> it_system t = io_start)
   \<and> fst (io_thread_spawn sample_os
        (io_thread_config_default\<lparr>io_realtime := realtime_default\<lparr>rt_cpu_affinity := [2000]\<rparr>\<rparr>) 0) = Err IoThreadStopped
   \<and> fst (io_thread_spawn sample_os (io_thread_config_default\<lparr>io_thread_name := [97, 0]\<rparr>) 0) = Err Panicked"
proof -
  have ok: "os_documented sample_os" by (simp add: os_documented_def sample_os_def)
  have run: "is_ok (fst (io_thread_spawn sample_os io_thread_config_default 0))" "snd (io_thread_spawn sample_os io_thread_config_default 0) = 3"
    by (simp_all add: io_thread_spawn_def sbind_def sample_os_def io_thread_config_default_def rt_apply_default
        thread_report_def lit_def)
  then obtain t where t: "io_thread_spawn sample_os io_thread_config_default 0 = (Ok t, 3)"
    by (cases "io_thread_spawn sample_os io_thread_config_default 0"; cases "fst (io_thread_spawn sample_os io_thread_config_default 0)") auto
  have "it_system t = io_start"
    using thread_start_outcome [OF ok, of io_thread_config_default 0] t by simp
  moreover have "fst (io_thread_spawn sample_os
      (io_thread_config_default\<lparr>io_realtime := realtime_default\<lparr>rt_cpu_affinity := [2000]\<rparr>\<rparr>) 0) = Err IoThreadStopped"
    by (simp add: io_thread_spawn_def sbind_def sample_os_def io_thread_config_default_def realtime_default_def rt_apply_def
        set_affinity_def thread_report_def lit_def)
  moreover have "fst (io_thread_spawn sample_os (io_thread_config_default\<lparr>io_thread_name := [97, 0]\<rparr>) 0) = Err Panicked"
    using thread_start_outcome [OF ok, of io_thread_config_default 0 "[97, 0]"] run(1) by simp
  ultimately show ?thesis using t by blast
qed

lemma run_command_effects [simp]: "effects (run_command c s) = effects s"
  by (cases c) (auto simp: update_conn_def flag_close_def Let_def split: option.splits)

lemma drain_to_shutdown:
  "Shutdown \<notin> set q \<Longrightarrow> drain_commands b (q @ Shutdown # r) s = (False, r, fold run_command q s)"
  by (induction b q s rule: drain_commands.induct) auto

lemma drain_shutdown:
  assumes "Shutdown \<in> set q"
  shows "\<exists>r s'. drain_commands b q s = (False, r, s') \<and> effects s' = effects s"
proof -
  obtain p r where q: "q = p @ Shutdown # r" "Shutdown \<notin> set p" using split_list_first [OF assms] by blast
  have "effects (fold run_command p s) = effects s" for s by (induction p arbitrary: s) simp_all
  with q show ?thesis by (auto simp: drain_to_shutdown)
qed

text \<open>C31: Dropping the IO thread's handle ends the thread: the round that finds the commands queued up to then
  (and whatever other handles send after it) is the worker's last, for any clock, wait and socket and any
  rounds that would follow; and that round sends no packet and calls no handler, so connections still open
  are left to time out on the target.\<close>
theorem drop_ends_worker:
  assumes "running y" "rd_queue rd = queue (io_thread_drop y) @ later"
  shows "worker_run B (rd # rds) (io y) = snd (run_round B rd (io y)) \<and> fst (run_round B rd (io y)) = False
    \<and> effects (worker_run B (rd # rds) (io y)) = effects (io y)"
proof -
  have "Shutdown \<in> set (rd_queue rd)"
    using assms by (simp add: io_thread_drop_def sender_send_def)
  from drain_shutdown [OF this, of "rd_senders rd" "io y"] show ?thesis
    by (auto simp: run_round_def)
qed

lemma drop_ends_worker_witness:
  "\<exists>rd. rd_queue rd = [SetRun \<lparr>key_peer_ip = ipv4 10 0 0 1, key_t2o_id = 1\<rparr> True, Shutdown]
     \<and> fst (run_round slice_bytes rd io_init) = False"
proof -
  let ?c = "SetRun \<lparr>key_peer_ip = ipv4 10 0 0 1, key_t2o_id = 1\<rparr> True"
  define y where "y = io_start\<lparr>queue := [?c]\<rparr>"
  define rd where "rd = \<lparr>rd_senders = True, rd_queue = queue (io_thread_drop y) @ [], rd_now = 5, rd_order = [],
    rd_ready = Some True, rd_datagrams = []\<rparr>"
  have y: "running y" "io y = io_init" "queue (io_thread_drop y) = [?c, Shutdown]"
    by (simp_all add: y_def io_start_def io_thread_drop_def sender_send_def)
  have "fst (run_round slice_bytes rd io_init) = False"
    using drop_ends_worker [OF y(1), of rd "[]" slice_bytes "[]"] y(2) by (simp add: rd_def)
  then show ?thesis using y(3) by (intro exI [of _ rd]) (simp add: rd_def)
qed

end
