(* ===== verification/File_Object.thy ===== *)
theory File_Object
  imports Mock_Session
begin

text \<open>
  The File object (src/src/objects/file.rs): its upload state machine and the blocking \<open>upload\<close>. An
  \<open>EndUploadHandler\<close> is a number, and calling it is recorded in \<open>f_calls\<close>; \<open>upload\<close>'s channel is the record of
  the calls of its own handler.
\<close>

section \<open>State\<close>

abbreviation FILE_CLASS_ID :: u16 where "FILE_CLASS_ID \<equiv> 0x37"
abbreviation STATE_ATTRIBUTE :: u16 where "STATE_ATTRIBUTE \<equiv> 1"
abbreviation MAX_TRANSFER_SIZE :: u8 where "MAX_TRANSFER_SIZE \<equiv> 255"

datatype FileState =
    NonExistent
  | Empty
  | Loaded
  | UploadInProgress (up_file_size: u32) (up_transfer_size: u8) (up_transfer_number: u8) (up_content: bytes) (up_handler: nat)

fun state_code :: "FileState \<Rightarrow> FileObjectStateCode" where
  "state_code NonExistent = FOS_NONEXISTENT"
| "state_code Empty = FOS_FILE_EMPTY"
| "state_code Loaded = FOS_FILE_LOADED"
| "state_code (UploadInProgress _ _ _ _ _) = FOS_TRANSFER_UPLOAD_IN_PROGRESS"

record FileObject =
  f_instance_id :: u16
  f_router :: MessageRouter
  f_state :: FileState
  f_calls :: "(nat \<times> GeneralStatusCode \<times> bytes) list"

definition call_handler :: "nat \<Rightarrow> GeneralStatusCode \<Rightarrow> bytes \<Rightarrow> FileObject \<Rightarrow> FileObject" where
  "call_handler h st d f = f\<lparr>f_calls := f_calls f @ [(h, st, d)]\<rparr>"

section \<open>Operations\<close>

definition initial_state :: "FileObjectStateCode \<Rightarrow> FileState result" where
  "initial_state code =
     (if code = FOS_NONEXISTENT then Ok NonExistent
      else if code = FOS_FILE_EMPTY then Ok Empty
      else if code = FOS_FILE_LOADED then Ok Loaded
      else if code = FOS_TRANSFER_UPLOAD_INITIATED \<or> code = FOS_TRANSFER_UPLOAD_IN_PROGRESS then Ok Loaded
      else Err (Unsupported (lit ''file object state '' @ display_file_object_state_code code @ lit '' is not supported'')))"

definition file_new :: "bytes_api \<Rightarrow> 's session \<Rightarrow> MessageRouter \<Rightarrow> u16 \<Rightarrow> ('s, error, FileObject) action" where
  "file_new B S R ident =
     sbind (request_checked B S R SC_GET_ATTRIBUTE_SINGLE (epath_attribute FILE_CLASS_ID ident STATE_ATTRIBUTE) []
        (lit ''read state of file object '' @ fmt_dec (unat ident)))
       (\<lambda>reply. slift (
          rbind (run_reader (try_q (try_get_u8 B) done_q) (resp_data reply)) (\<lambda>code.
          rbind (initial_state (FileObjectStateCode code)) (\<lambda>st.
          Ok \<lparr>f_instance_id = ident, f_router = R, f_state = st, f_calls = []\<rparr>))))"

definition file_instance_id :: "FileObject \<Rightarrow> u16" where
  "file_instance_id f = f_instance_id f"

definition file_state :: "FileObject \<Rightarrow> FileObjectStateCode" where
  "file_state f = state_code (f_state f)"

definition begin_upload ::
  "bytes_api \<Rightarrow> 's session \<Rightarrow> nat \<Rightarrow> 's \<times> FileObject \<Rightarrow> unit result \<times> 's \<times> FileObject" where
  "begin_upload B S handler sf =
     (case sf of (s, f) \<Rightarrow>
      if f_state f \<noteq> Loaded then (Ok (), s, f)
      else
        (case send_request B S (f_router f) SC_INITIATE_UPLOAD (epath_instance FILE_CLASS_ID (f_instance_id f))
            [MAX_TRANSFER_SIZE] s of
           (Inl e, s) \<Rightarrow> (Err e, s, f)
         | (Inr reply, s) \<Rightarrow>
             if \<not> is_success reply then (Ok (), s, call_handler handler (general_status reply) [] f)
             else
               (case run_reader (try_q (try_get_u32_le B) (\<lambda>file_size. try_q (try_get_u8 B) (\<lambda>transfer_size.
                   done_q (file_size, transfer_size)))) (resp_data reply) of
                  Inl e \<Rightarrow> (Err e, s, f)
                | Inr (file_size, transfer_size) \<Rightarrow>
                    (Ok (), s, f\<lparr>f_state := UploadInProgress file_size transfer_size 0 [] handler\<rparr>))))"

definition finish :: "GeneralStatusCode \<Rightarrow> bool \<Rightarrow> FileObject \<Rightarrow> FileObject" where
  "finish st check_size f =
     (case f_state f of
        UploadInProgress file_size _ _ content handler \<Rightarrow>
          let f = f\<lparr>f_state := Loaded\<rparr> in
          if check_size \<and> length content \<noteq> unat file_size then call_handler handler GSC_INVALID_PARAMETER [] f
          else if st = GSC_SUCCESS then call_handler handler st content f
          else call_handler handler st [] f
      | _ \<Rightarrow> f\<lparr>f_state := Loaded\<rparr>)"

text \<open>What is made of the data of a successful transfer reply.\<close>

definition transfer_reply :: "bytes_api \<Rightarrow> bytes \<Rightarrow> FileObject \<Rightarrow> bool result \<times> FileObject" where
  "transfer_reply B d f =
     (case run_reader (try_q (try_get_u8 B) (\<lambda>received. try_q (try_get_u8 B) (\<lambda>packet_type.
         rest_q (\<lambda>buf. done_q (received, TransferPacketType packet_type, buf))))) d of
        Inl e \<Rightarrow> (Err e, f)
      | Inr (received_number, packet_type, buf) \<Rightarrow>
         (case f_state f of
            UploadInProgress file_size transfer_size transfer_number content handler \<Rightarrow>
              if received_number \<noteq> transfer_number then (Ok False, finish GSC_INVALID_PARAMETER False f)
              else if packet_type = TPT_FIRST \<or> packet_type = TPT_MIDDLE then
                (case try_get_vec B (unat transfer_size) buf of
                   Inl e \<Rightarrow> (Err e, f)
                 | Inr (chunk, _) \<Rightarrow>
                     (Ok True, f\<lparr>f_state := UploadInProgress file_size transfer_size (transfer_number + 1)
                        (content @ chunk) handler\<rparr>))
              else if packet_type = TPT_LAST \<or> packet_type = TPT_FIRST_AND_LAST then
                (case try_get_vec B (length buf - 2) buf of
                   Inl e \<Rightarrow> (Err e, f)
                 | Inr (chunk, _) \<Rightarrow>
                     (Ok False, finish GSC_SUCCESS True
                        (f\<lparr>f_state := UploadInProgress file_size transfer_size transfer_number
                           (content @ chunk) handler\<rparr>)))
              else
                (Err (InvalidPacket (lit ''unexpected transfer packet type '' @ display_transfer_packet_type packet_type)),
                 finish GSC_INVALID_REPLY_RECEIVED False f)
          | _ \<Rightarrow> (Err Panicked, f)))"

definition handle_transfers :: "bytes_api \<Rightarrow> 's session \<Rightarrow> 's \<times> FileObject \<Rightarrow> bool result \<times> 's \<times> FileObject" where
  "handle_transfers B S sf =
     (case sf of (s, f) \<Rightarrow>
      case f_state f of
        UploadInProgress _ _ transfer_number _ _ \<Rightarrow>
         (case send_request B S (f_router f) SC_UPLOAD_TRANSFER (epath_instance FILE_CLASS_ID (f_instance_id f))
             [transfer_number] s of
            (Inl e, s) \<Rightarrow> (Err e, s, f)
          | (Inr reply, s) \<Rightarrow>
              if \<not> is_success reply then (Ok False, s, finish (general_status reply) False f)
              else (case transfer_reply B (resp_data reply) f of (r, f) \<Rightarrow> (r, s, f)))
      | _ \<Rightarrow> (Ok False, s, f))"

text \<open>\<open>while self.handle_transfers(session)? {}\<close>: nothing bounds the number of packets, so it may not return.\<close>

partial_function (option) transfer_loop ::
  "bytes_api \<Rightarrow> 's session \<Rightarrow> 's \<times> FileObject \<Rightarrow> (unit result \<times> 's \<times> FileObject) option" where
  "transfer_loop B S sf =
     (case handle_transfers B S sf of
        (Inl e, sf) \<Rightarrow> Some (Err e, sf)
      | (Inr again, sf) \<Rightarrow> if again then transfer_loop B S sf else Some (Ok (), sf))"

text \<open>\<open>try_recv\<close> on the channel the handler sends to: its first call, or an error.\<close>

definition first_call :: "nat \<Rightarrow> FileObject \<Rightarrow> (GeneralStatusCode \<times> bytes) option" where
  "first_call h f = map_of (f_calls f) h"

definition upload ::
  "bytes_api \<Rightarrow> 's session \<Rightarrow> nat \<Rightarrow> 's \<times> FileObject \<Rightarrow> (bytes result \<times> 's \<times> FileObject) option" where
  "upload B S handler sf =
     (case begin_upload B S handler sf of
        (Inl e, sf) \<Rightarrow> Some (Err e, sf)
      | (Inr _, sf) \<Rightarrow>
         (case transfer_loop B S sf of
            None \<Rightarrow> None
          | Some (Inl e, sf) \<Rightarrow> Some (Err e, sf)
          | Some (Inr _, (s, f)) \<Rightarrow>
              Some (case first_call handler f of
                      Some (st, d) \<Rightarrow>
                        if st = GSC_SUCCESS then Ok d
                        else Err (Cip (lit ''upload of file object '' @ fmt_dec (unat (f_instance_id f))) st [])
                    | None \<Rightarrow> Err (Unsupported (lit ''file object '' @ fmt_dec (unat (f_instance_id f)) @ lit '' is '' @
                        display_file_object_state_code (state_code (f_state f)) @ lit '' and cannot be uploaded'')),
                    s, f)))"

section \<open>A device that answers an upload\<close>

text \<open>
  The replies of a device: file size and packet size, then one packet per number, with a type, the data,
  and a 16-bit checksum after the last one's.
\<close>

fun packet_replies :: "u8 \<Rightarrow> (TransferPacketType \<times> bytes) list \<Rightarrow> Reply list" where
  "packet_replies n [] = []"
| "packet_replies n ((t, d) # ps) =
     (GSC_SUCCESS, n # transfer_packet_type_raw t # d, []) # packet_replies (n + 1) ps"

definition last_reply :: "u8 \<Rightarrow> TransferPacketType \<Rightarrow> bytes \<Rightarrow> u8 \<Rightarrow> u8 \<Rightarrow> Reply" where
  "last_reply n t d ck1 ck2 = (GSC_SUCCESS, n # transfer_packet_type_raw t # d @ [ck1, ck2], [])"

text \<open>The requests such an upload takes: one per packet, numbered from 0 modulo 256.\<close>

definition transfer_request :: "u16 \<Rightarrow> u8 \<Rightarrow> Request" where
  "transfer_request ident n = \<lparr>rq_service = SC_UPLOAD_TRANSFER, rq_path = epath_instance FILE_CLASS_ID ident, rq_data = [n]\<rparr>"

definition upload_requests :: "u16 \<Rightarrow> u8 \<Rightarrow> nat \<Rightarrow> Request list" where
  "upload_requests ident n k = map (\<lambda>i. transfer_request ident (n + of_nat i)) [0..<k]"

lemma upload_requests_Suc:
  "upload_requests ident n (Suc k) = transfer_request ident n # upload_requests ident (n + 1) k"
  by (simp add: upload_requests_def upt_conv_Cons map_Suc_upt [symmetric] comp_def add.assoc del: upt_Suc)

definition packets_ok :: "nat \<Rightarrow> (TransferPacketType \<times> bytes) list \<Rightarrow> bool" where
  "packets_ok ts ps \<longleftrightarrow> (\<forall>(t, d) \<in> set ps. length d = ts \<and> t \<in> {TPT_FIRST, TPT_MIDDLE})"

context bytes_crate
begin

lemma handle_transfers_reply:
  assumes "f_state f = UploadInProgress sz ts n acc h" "replies m = (GSC_SUCCESS, d, []) # rest" "length d < 65000"
  shows "handle_transfers B (mock_session B) (m, f) =
    (fst (transfer_reply B d f),
     m\<lparr>replies := rest, requests := requests m @ [transfer_request (f_instance_id f) n]\<rparr>,
     snd (transfer_reply B d f))"
proof -
  have "length [n] < 65000" by simp
  from mock_send_request [OF this assms(2,3)] show ?thesis
    by (simp add: handle_transfers_def assms(1) is_success_def transfer_request_def split: prod.split)
qed

lemma transfer_reply_more:
  assumes "f_state f = UploadInProgress sz ts n acc h" "t \<in> {TPT_FIRST, TPT_MIDDLE}" "length d = unat ts"
  shows "transfer_reply B (n # transfer_packet_type_raw t # d) f =
    (Ok True, f\<lparr>f_state := UploadInProgress sz ts (n + 1) (acc @ d) h\<rparr>)"
  using assms try_get_vec_append [of d "unat ts" "[]"]
  by (cases t) (auto simp: transfer_reply_def run_reader_def try_q_def)

lemma transfer_reply_last:
  assumes "f_state f = UploadInProgress sz ts n acc h" "t \<in> {TPT_LAST, TPT_FIRST_AND_LAST}"
  shows "transfer_reply B (n # transfer_packet_type_raw t # d @ [ck1, ck2]) f =
    (Ok False, f\<lparr>f_state := Loaded, f_calls := f_calls f @
       [(h, if length (acc @ d) = unat sz then (GSC_SUCCESS, acc @ d) else (GSC_INVALID_PARAMETER, []))]\<rparr>)"
  using assms try_get_vec_append [of d "length d" "[ck1, ck2]"]
  by (cases t) (auto simp: transfer_reply_def run_reader_def try_q_def finish_def call_handler_def)

lemma transfer_loop_device:
  assumes "packets_ok (unat ts) ps" "t \<in> {TPT_LAST, TPT_FIRST_AND_LAST}" "length d < 60000"
    and "f_state f = UploadInProgress sz ts n acc h"
    and "replies m = packet_replies n ps @ last_reply (n + of_nat (length ps)) t d ck1 ck2 # rest"
  shows "transfer_loop B (mock_session B) (m, f) = Some (Ok (),
    m\<lparr>replies := rest, requests := requests m @ upload_requests (f_instance_id f) n (Suc (length ps))\<rparr>,
    f\<lparr>f_state := Loaded, f_calls := f_calls f @ [(h, if length (acc @ concat (map snd ps) @ d) = unat sz
       then (GSC_SUCCESS, acc @ concat (map snd ps) @ d) else (GSC_INVALID_PARAMETER, []))]\<rparr>)"
  using assms
proof (induction ps arbitrary: n acc m f)
  case Nil
  then have r: "replies m = (GSC_SUCCESS, n # transfer_packet_type_raw t # d @ [ck1, ck2], []) # rest"
    by (simp add: last_reply_def)
  have "length (n # transfer_packet_type_raw t # d @ [ck1, ck2]) < 65000" using Nil.prems(3) by simp
  from handle_transfers_reply [OF Nil.prems(4) r this] transfer_reply_last [OF Nil.prems(4,2), of d ck1 ck2]
  show ?case
    by (subst transfer_loop.simps) (simp add: upload_requests_def)
next
  case (Cons p ps)
  obtain t' d' where p: "p = (t', d')" by (cases p)
  have ok: "t' \<in> {TPT_FIRST, TPT_MIDDLE}" "length d' = unat ts" "packets_ok (unat ts) ps"
    using Cons.prems(1) by (auto simp: packets_ok_def p)
  have r: "replies m = (GSC_SUCCESS, n # transfer_packet_type_raw t' # d', []) #
      packet_replies (n + 1) ps @ last_reply (n + 1 + of_nat (length ps)) t d ck1 ck2 # rest"
    using Cons.prems(5) by (simp add: p algebra_simps)
  have "unat ts < 256" using unsigned_less [of ts] by simp
  then have "length (n # transfer_packet_type_raw t' # d') < 65000" using ok(2) by simp
  note h = handle_transfers_reply [OF Cons.prems(4) r this] transfer_reply_more [OF Cons.prems(4) ok(1,2)]
  let ?f = "f\<lparr>f_state := UploadInProgress sz ts (n + 1) (acc @ d') h\<rparr>"
  let ?m = "m\<lparr>replies := packet_replies (n + 1) ps @ last_reply (n + 1 + of_nat (length ps)) t d ck1 ck2 # rest,
     requests := requests m @ [transfer_request (f_instance_id f) n]\<rparr>"
  have "f_state ?f = UploadInProgress sz ts (n + 1) (acc @ d') h" by simp
  from Cons.IH [OF ok(3) Cons.prems(2,3) this, of ?m]
  show ?case
    by (subst transfer_loop.simps) (simp add: h upload_requests_Suc p)
qed

end

section \<open>Whose handler is called\<close>

definition handler_is :: "nat \<Rightarrow> FileObject \<Rightarrow> bool" where
  "handler_is h f \<longleftrightarrow> (\<forall>sz ts n acc h'. f_state f = UploadInProgress sz ts n acc h' \<longrightarrow> h' = h)"

definition calls_only :: "nat \<Rightarrow> FileObject \<Rightarrow> FileObject \<Rightarrow> bool" where
  "calls_only h f f' \<longleftrightarrow> handler_is h f' \<and> (\<exists>cs. f_calls f' = f_calls f @ cs \<and> (\<forall>c \<in> set cs. fst c = h))"

lemma calls_only_refl: "handler_is h f \<Longrightarrow> calls_only h f f"
  by (simp add: calls_only_def)

lemma calls_only_trans: "calls_only h f f' \<Longrightarrow> calls_only h f' f'' \<Longrightarrow> calls_only h f f''"
  by (auto simp: calls_only_def)

lemma calls_only_finish: "handler_is h f \<Longrightarrow> calls_only h f (finish st c f)"
  by (auto simp: calls_only_def finish_def handler_is_def call_handler_def Let_def split: FileState.split)

lemma calls_only_update:
  "handler_is h f \<Longrightarrow> f_state f = UploadInProgress sz ts n acc h' \<Longrightarrow>
   calls_only h f (f\<lparr>f_state := UploadInProgress sz ts n' acc' h'\<rparr>)"
  by (simp add: calls_only_def handler_is_def)

lemma calls_only_transfer_reply: "handler_is h f \<Longrightarrow> calls_only h f (snd (transfer_reply B d f))"
proof -
  assume h: "handler_is h f"
  have upd: "calls_only h f (finish st c (f\<lparr>f_state := UploadInProgress sz ts n' acc' h'\<rparr>))"
    if "f_state f = UploadInProgress sz ts n acc h'" for sz ts n acc h' n' acc' st c
    using calls_only_update [OF h that] calls_only_finish calls_only_trans
    by (metis calls_only_def)
  show ?thesis
    using h upd by (auto simp: transfer_reply_def calls_only_refl calls_only_finish calls_only_update
        split: sum.split FileState.split)
qed

lemma calls_only_handle_transfers:
  "handler_is h f \<Longrightarrow> handle_transfers B S (s, f) = (r, s', f') \<Longrightarrow> calls_only h f f'"
proof -
  assume h: "handler_is h f" and r: "handle_transfers B S (s, f) = (r, s', f')"
  have t: "calls_only h f g" if "transfer_reply B d f = (q, g)" for d q g
    using calls_only_transfer_reply [OF h, of B d] that by simp
  from r h show ?thesis
    by (auto simp: handle_transfers_def calls_only_refl calls_only_finish dest: t
        split: FileState.splits prod.splits sum.splits if_splits)
qed

lemma calls_only_transfer_loop:
  assumes "transfer_loop B S sf = Some y" "handler_is h (snd sf)"
  shows "calls_only h (snd sf) (snd (snd y))"
proof -
  have "handler_is h (snd sf) \<longrightarrow> calls_only h (snd sf) (snd (snd y))"
  proof (rule transfer_loop.raw_induct
      [where P = "\<lambda>B S sf y. handler_is h (snd sf) \<longrightarrow> calls_only h (snd sf) (snd (snd y))", OF _ assms(1)], intro impI)
    fix loop B and S :: "'a session" and sf y
    assume IH: "\<And>B (S :: 'a session) sf y. loop B S sf = Some y \<Longrightarrow>
        handler_is h (snd sf) \<longrightarrow> calls_only h (snd sf) (snd (snd y))"
      and body: "(case handle_transfers B S sf of (Inl e, sf) \<Rightarrow> Some (Err e, sf)
        | (Inr again, sf) \<Rightarrow> if again then loop B S sf else Some (Ok (), sf)) = Some y"
      and h: "handler_is h (snd sf)"
    obtain r1 s1 f1 where step: "handle_transfers B S sf = (r1, s1, f1)" by (cases "handle_transfers B S sf") auto
    have one: "calls_only h (snd sf) f1"
      using calls_only_handle_transfers [of h "snd sf" B S "fst sf"] step h by simp
    then have "handler_is h f1" by (simp add: calls_only_def)
    then show "calls_only h (snd sf) (snd (snd y))"
      using IH [of B S "(s1, f1)" y] body one calls_only_trans [OF one]
      by (auto simp: step split: sum.splits if_splits)
  qed
  with assms(2) show ?thesis by simp
qed

section \<open>Properties\<close>

text \<open>C11: An upload from a device that sends the file in packets of the size it announced, with checksum,
  returns (the loop ends), and returns exactly the file when its length is the announced one, and an error
  status otherwise; in both cases the object is loaded again, and the device has been asked for exactly the
  packets, numbered from 0 modulo 256.\<close>
theorem upload_delivers_file:
  assumes "bytes_crate B" "f_state f = Loaded" "h \<notin> fst ` set (f_calls f)"
    and "packets_ok (unat ts) ps" "t \<in> {TPT_LAST, TPT_FIRST_AND_LAST}" "length d < 60000"
    and "replies m = (GSC_SUCCESS, le32 sz @ [ts], []) # packet_replies 0 ps
      @ last_reply (of_nat (length ps)) t d ck1 ck2 # rest"
    and "file = concat (map snd ps) @ d"
  shows "\<exists>m' f'. upload B (mock_session B) h (m, f) =
      Some (if length file = unat sz then Ok file
        else Err (Cip (lit ''upload of file object '' @ fmt_dec (unat (f_instance_id f))) GSC_INVALID_PARAMETER []), m', f')
    \<and> f_state f' = Loaded \<and> replies m' = rest
    \<and> requests m' = requests m @ \<lparr>rq_service = SC_INITIATE_UPLOAD, rq_path = epath_instance FILE_CLASS_ID (f_instance_id f),
        rq_data = [MAX_TRANSFER_SIZE]\<rparr> # upload_requests (f_instance_id f) 0 (Suc (length ps))"
proof -
  let ?rest = "packet_replies 0 ps @ last_reply (of_nat (length ps)) t d ck1 ck2 # rest"
  let ?rq = "\<lparr>rq_service = SC_INITIATE_UPLOAD, rq_path = epath_instance FILE_CLASS_ID (f_instance_id f),
        rq_data = [MAX_TRANSFER_SIZE]\<rparr>"
  let ?m = "m\<lparr>replies := ?rest, requests := requests m @ [?rq]\<rparr>"
  let ?f = "f\<lparr>f_state := UploadInProgress sz ts 0 [] h\<rparr>"
  have "length [MAX_TRANSFER_SIZE] < 65000" "length (le32 sz @ [ts]) < 65000" by simp_all
  from bytes_crate.mock_send_request [OF assms(1) this(1) assms(7) this(2)]
  have begun: "begin_upload B (mock_session B) h (m, f) = (Ok (), ?m, ?f)"
    by (simp add: begin_upload_def assms(2) is_success_def run_reader_def try_q_def bytes_crate.try_readers [OF assms(1)])
  have "f_state ?f = UploadInProgress sz ts 0 [] h" by simp
  from bytes_crate.transfer_loop_device [OF assms(1,4,5,6) this, of ?m ck1 ck2 rest]
  have loop: "transfer_loop B (mock_session B) (?m, ?f) = Some (Ok (),
      ?m\<lparr>replies := rest, requests := requests ?m @ upload_requests (f_instance_id f) 0 (Suc (length ps))\<rparr>,
      ?f\<lparr>f_state := Loaded, f_calls := f_calls f @ [(h, if length file = unat sz then (GSC_SUCCESS, file)
        else (GSC_INVALID_PARAMETER, []))]\<rparr>)"
    by (simp add: assms(8))
  have "map_of (f_calls f) h = None"
    using assms(3) by (simp add: map_of_eq_None_iff)
  then have "map_of (f_calls f @ [(h, x)]) h = Some x" for x by (simp add: map_add_def)
  then show ?thesis
    by (simp add: upload_def begun loop first_call_def)
qed

lemma upload_delivers_file_witness:
  "\<exists>m' f'. upload slice_bytes (mock_session slice_bytes) 0
     (mock_new\<lparr>replies := [(GSC_SUCCESS, le32 5 @ [2], []), (GSC_SUCCESS, [0, 0, 10, 11], []),
        (GSC_SUCCESS, [1, 1, 12, 13], []), (GSC_SUCCESS, [2, 2, 14, 0xAA, 0xBB], [])]\<rparr>,
      \<lparr>f_instance_id = 200, f_router = router_new, f_state = Loaded, f_calls = []\<rparr>)
     = Some (Ok [10, 11, 12, 13, 14], m', f')"
  using upload_delivers_file [OF slice.bytes_crate_axioms,
      of "\<lparr>f_instance_id = 200, f_router = router_new, f_state = Loaded, f_calls = []\<rparr>" 0 2
        "[(TPT_FIRST, [10, 11]), (TPT_MIDDLE, [12, 13])]" TPT_LAST "[14]"
        "mock_new\<lparr>replies := [(GSC_SUCCESS, le32 5 @ [2], []), (GSC_SUCCESS, [0, 0, 10, 11], []),
        (GSC_SUCCESS, [1, 1, 12, 13], []), (GSC_SUCCESS, [2, 2, 14, 0xAA, 0xBB], [])]\<rparr>" 5 "0xAA" "0xBB" "[]"
        "[10, 11, 12, 13, 14]"]
  by (auto simp: packets_ok_def last_reply_def)

text \<open>An upload in the middle of which the object is: the device answers with a packet that is too short, or with an
  error status.\<close>

context bytes_crate
begin

lemma short_packet_fails:
  assumes "f_state f = UploadInProgress sz ts n acc h" "t \<in> {TPT_FIRST, TPT_MIDDLE}" "length d < unat ts"
    and "replies m = (GSC_SUCCESS, n # transfer_packet_type_raw t # d, []) # rest"
  shows "transfer_loop B (mock_session B) (m, f) = Some (Err (Truncated (unat ts) (length d)),
    m\<lparr>replies := rest, requests := requests m @ [transfer_request (f_instance_id f) n]\<rparr>, f)"
proof -
  have "unat ts < 256" using unsigned_less [of ts] by simp
  then have len: "length (n # transfer_packet_type_raw t # d) < 65000" using assms(3) by simp
  have "transfer_reply B (n # transfer_packet_type_raw t # d) f = (Err (Truncated (unat ts) (length d)), f)"
    using assms(1,2) try_get_vec_short [OF assms(3)] by (cases t) (auto simp: transfer_reply_def run_reader_def try_q_def)
  with handle_transfers_reply [OF assms(1,4) len] show ?thesis
    by (subst transfer_loop.simps) simp
qed

lemma refused_transfer_ends:
  assumes "f_state f = UploadInProgress sz ts n acc h" "st \<noteq> GSC_SUCCESS" "replies m = (st, [], []) # rest"
  shows "transfer_loop B (mock_session B) (m, f) = Some (Ok (),
    m\<lparr>replies := rest, requests := requests m @ [transfer_request (f_instance_id f) n]\<rparr>,
    f\<lparr>f_state := Loaded, f_calls := f_calls f @ [(h, st, [])]\<rparr>)"
  using mock_send_request [of "[n]" m st "[]" "[]" rest] assms
  by (subst transfer_loop.simps)
    (simp add: handle_transfers_def is_success_def finish_def call_handler_def transfer_request_def)

end

lemma upload_in_progress:
  assumes "f_state f = UploadInProgress sz ts n acc h" "h' \<noteq> h" "h' \<notin> fst ` set (f_calls f)"
  shows "begin_upload B S h' (s, f) = (Ok (), s, f)"
    and "upload B S h' (s, f) = Some (r, s'', f'') \<Longrightarrow> \<exists>e. r = Err e"
proof -
  show begun: "begin_upload B S h' (s, f) = (Ok (), s, f)" by (simp add: begin_upload_def assms(1))
  assume up: "upload B S h' (s, f) = Some (r, s'', f'')"
  then obtain r1 s1 f1 where x: "transfer_loop B S (s, f) = Some (r1, s1, f1)"
    by (auto simp: upload_def begun split: option.splits)
  have "calls_only h f f1"
    using calls_only_transfer_loop [OF x, of h] assms(1) by (simp add: handler_is_def)
  then have "h' \<notin> fst ` set (f_calls f1)"
    using assms(2,3) unfolding calls_only_def by force
  then have "map_of (f_calls f1) h' = None"
    by (simp add: map_of_eq_None_iff)
  then show "\<exists>e. r = Err e"
    using up by (auto simp: upload_def begun x first_call_def split: sum.splits)
qed

text \<open>C38: A transfer packet shorter than the announced size ends \<open>upload\<close> with an error, but leaves the object
  in the middle of the upload. The next \<open>upload\<close> then skips the initiation and drives the old transfer, and can
  never deliver a file, whatever session it uses: when it returns, it returns an error. If the device answers it with
  a short packet again, the object is left exactly as it was, so that this repeats; if the device answers with an
  error status, that \<open>upload\<close> still fails, but the object is loaded again.\<close>
theorem short_packet_wedges_upload:
  assumes "bytes_crate B" "f_state f = Loaded" "t \<in> {TPT_FIRST, TPT_MIDDLE}" "length d < unat ts"
    and "replies m = [(GSC_SUCCESS, le32 sz @ [ts], []), (GSC_SUCCESS, 0 # transfer_packet_type_raw t # d, [])]"
    and "h' \<noteq> h" "h' \<notin> fst ` set (f_calls f)"
  shows "\<exists>m' f'. upload B (mock_session B) h (m, f) = Some (Err (Truncated (unat ts) (length d)), m', f')
    \<and> f_state f' = UploadInProgress sz ts 0 [] h
    \<and> (\<forall>(S :: 's session) s r s'' f''. upload B S h' (s, f') = Some (r, s'', f'') \<longrightarrow> (\<exists>e. r = Err e))
    \<and> (\<forall>n t' d' rest. t' \<in> {TPT_FIRST, TPT_MIDDLE} \<and> length d' < unat ts
        \<and> replies n = (GSC_SUCCESS, 0 # transfer_packet_type_raw t' # d', []) # rest
        \<longrightarrow> (\<exists>n'. upload B (mock_session B) h' (n, f') = Some (Err (Truncated (unat ts) (length d')), n', f')))
    \<and> (\<forall>n st rest. st \<noteq> GSC_SUCCESS \<and> replies n = (st, [], []) # rest
        \<longrightarrow> (\<exists>e n' f''. upload B (mock_session B) h' (n, f') = Some (Err e, n', f'') \<and> f_state f'' = Loaded))"
proof -
  let ?f = "f\<lparr>f_state := UploadInProgress sz ts 0 [] h\<rparr>"
  let ?rq = "\<lparr>rq_service = SC_INITIATE_UPLOAD, rq_path = epath_instance FILE_CLASS_ID (f_instance_id f),
        rq_data = [MAX_TRANSFER_SIZE]\<rparr>"
  let ?m = "m\<lparr>replies := [(GSC_SUCCESS, 0 # transfer_packet_type_raw t # d, [])], requests := requests m @ [?rq]\<rparr>"
  have "length [MAX_TRANSFER_SIZE] < 65000" "length (le32 sz @ [ts]) < 65000" by simp_all
  from bytes_crate.mock_send_request [OF assms(1) this(1) assms(5) this(2)]
  have begun: "begin_upload B (mock_session B) h (m, f) = (Ok (), ?m, ?f)"
    by (simp add: begin_upload_def assms(2) is_success_def run_reader_def try_q_def bytes_crate.try_readers [OF assms(1)])
  have st: "f_state ?f = UploadInProgress sz ts 0 [] h" and fresh: "h' \<notin> fst ` set (f_calls ?f)"
    using assms(7) by simp_all
  note short = bytes_crate.short_packet_fails [OF assms(1) st]
  note later = upload_in_progress [OF st assms(6) fresh]
  have "upload B (mock_session B) h (m, f) = Some (Err (Truncated (unat ts) (length d)),
      ?m\<lparr>replies := [], requests := requests ?m @ [transfer_request (f_instance_id ?f) 0]\<rparr>, ?f)"
    using short [OF assms(3,4), of ?m "[]"] by (simp add: upload_def begun)
  moreover have "\<exists>n'. upload B (mock_session B) h' (n, ?f) = Some (Err (Truncated (unat ts) (length d')), n', ?f)"
    if "t' \<in> {TPT_FIRST, TPT_MIDDLE}" "length d' < unat ts" "replies n = (GSC_SUCCESS, 0 # transfer_packet_type_raw t' # d', []) # rest"
    for n t' d' rest
    using short [OF that] by (simp add: upload_def later(1))
  moreover have "\<exists>e n' f''. upload B (mock_session B) h' (n, ?f) = Some (Err e, n', f'') \<and> f_state f'' = Loaded"
    if ended: "st \<noteq> GSC_SUCCESS" "replies n = (st, [], []) # rest" for n st rest
  proof -
    obtain r n' f'' where up: "upload B (mock_session B) h' (n, ?f) = Some (r, n', f'')" "f_state f'' = Loaded"
      using bytes_crate.refused_transfer_ends [OF assms(1) st ended] by (simp add: upload_def later(1))
    with later(2) [OF up(1)] show ?thesis by auto
  qed
  moreover note st later(2)
  ultimately show ?thesis by - (rule exI, rule exI, intro conjI allI impI; (assumption | blast)?)
qed

lemma short_packet_wedges_upload_witness:
  "\<exists>m' f' e n' f''. upload slice_bytes (mock_session slice_bytes) 0
     (mock_new\<lparr>replies := [(GSC_SUCCESS, le32 5 @ [2], []), (GSC_SUCCESS, [0, 0, 10], [])]\<rparr>,
      \<lparr>f_instance_id = 200, f_router = router_new, f_state = Loaded, f_calls = []\<rparr>)
     = Some (Err (Truncated 2 1), m', f') \<and> f_state f' = UploadInProgress 5 2 0 [] 0
    \<and> upload slice_bytes (mock_session slice_bytes) 1 (mock_new\<lparr>replies := [(GeneralStatusCode 5, [], [])]\<rparr>, f')
     = Some (Err e, n', f'') \<and> f_state f'' = Loaded"
proof -
  let ?f = "\<lparr>f_instance_id = 200, f_router = router_new, f_state = Loaded, f_calls = []\<rparr>"
  let ?m = "mock_new\<lparr>replies := [(GSC_SUCCESS, le32 5 @ [2], []), (GSC_SUCCESS, [0, 0, 10], [])]\<rparr>"
  let ?n = "mock_new\<lparr>replies := [(GeneralStatusCode 5, [], [])]\<rparr>"
  have "f_state ?f = Loaded" "TPT_FIRST \<in> {TPT_FIRST, TPT_MIDDLE}" "length [10 :: u8] < unat (2 :: u8)"
    "replies ?m = [(GSC_SUCCESS, le32 5 @ [2], []), (GSC_SUCCESS, 0 # transfer_packet_type_raw TPT_FIRST # [10], [])]"
    "(1 :: nat) \<noteq> 0" "1 \<notin> fst ` set (f_calls ?f)" by simp_all
  from short_packet_wedges_upload [OF slice.bytes_crate_axioms this] obtain m' f'
    where "upload slice_bytes (mock_session slice_bytes) 0 (?m, ?f) = Some (Err (Truncated (unat (2 :: u8)) (length [10 :: u8])), m', f')"
      "f_state f' = UploadInProgress 5 2 0 [] 0"
      "\<forall>n st rest. st \<noteq> GSC_SUCCESS \<and> replies n = (st, [], []) # rest
        \<longrightarrow> (\<exists>e n' f''. upload slice_bytes (mock_session slice_bytes) 1 (n, f') = Some (Err e, n', f'') \<and> f_state f'' = Loaded)"
    by (elim exE conjE) (rule that)
  moreover from spec [OF spec [OF spec [OF this(3), of ?n], of "GeneralStatusCode 5"], of "[]"] obtain e n' f''
    where "upload slice_bytes (mock_session slice_bytes) 1 (?n, f') = Some (Err e, n', f'')" "f_state f'' = Loaded"
    by auto
  ultimately show ?thesis by (simp only: length_Cons list.size unat_numeral) auto
qed

end
