(* ===== verification/Eds_Parse.thy ===== *)
theory Eds_Parse
  imports Errors
begin

text \<open>
  The EDS file syntax (src/src/eds/parse.rs): the cursor over the text, the parser of sections and entries, and
  integers. A cursor is the text left and the number of the current line. The loops are functions whose
  argument, the text left, gets shorter, so the parser is total.

  The second half is a grammar of EDS texts, independent of the parser, with comments and blanks wherever
  the syntax allows them; the parser accepts every text of the grammar with the sections it stands for.
\<close>

section \<open>Data\<close>

datatype Field = Field_Empty | Field_Str rstr | Field_Token rstr

fun field_string :: "Field \<Rightarrow> rstr option" where
  "field_string Field_Empty = None"
| "field_string (Field_Str s) = Some s"
| "field_string (Field_Token s) = Some s"

record EdsEntry =
  e_keyword :: rstr
  e_fields :: "Field list"
  e_line :: nat

definition entry_field :: "EdsEntry \<Rightarrow> nat \<Rightarrow> Field" where
  "entry_field e i = (if i < length (e_fields e) then e_fields e ! i else Field_Empty)"

record EdsSection =
  s_name :: rstr
  s_entries :: "EdsEntry list"

definition section_get :: "EdsSection \<Rightarrow> rstr \<Rightarrow> EdsEntry option" where
  "section_get s kw = find (\<lambda>e. eq_ignore_ascii_case (e_keyword e) kw) (s_entries s)"

section \<open>The cursor\<close>

abbreviation (input) NEWLINE :: rchar where "NEWLINE \<equiv> 10"
abbreviation (input) QUOTE :: rchar where "QUOTE \<equiv> 34"
abbreviation (input) DOLLAR :: rchar where "DOLLAR \<equiv> 36"
abbreviation (input) COMMA :: rchar where "COMMA \<equiv> 44"
abbreviation (input) SEMICOLON :: rchar where "SEMICOLON \<equiv> 59"
abbreviation (input) EQUALS :: rchar where "EQUALS \<equiv> 61"
abbreviation (input) LBRACKET :: rchar where "LBRACKET \<equiv> 91"
abbreviation (input) BACKSLASH :: rchar where "BACKSLASH \<equiv> 92"
abbreviation (input) RBRACKET :: rchar where "RBRACKET \<equiv> 93"
abbreviation (input) LETTER_N :: rchar where "LETTER_N \<equiv> 110"

type_synonym Cursor = "rstr \<times> nat"

fun cur_next :: "Cursor \<Rightarrow> rchar option \<times> Cursor" where
  "cur_next ([], l) = (None, ([], l))"
| "cur_next (c # s, l) = (Some c, (s, if c = NEWLINE then l + 1 else l))"

lemma cur_next_shorter: "cur_next cur = (Some c, cur') \<Longrightarrow> length (fst cur') < length (fst cur)"
  by (cases cur rule: cur_next.cases) auto

fun skip_comment :: "Cursor \<Rightarrow> Cursor" where
  "skip_comment ([], l) = ([], l)"
| "skip_comment (c # s, l) = (if c = NEWLINE then snd (cur_next (c # s, l)) else skip_comment (s, l))"

lemma skip_comment_shorter: "length (fst (skip_comment cur)) \<le> length (fst cur)"
  by (induction cur rule: skip_comment.induct) auto

function skip_blank :: "Cursor \<Rightarrow> Cursor" where
  "skip_blank ([], l) = ([], l)"
| "skip_blank (c # s, l) =
     (if c = DOLLAR then skip_blank (skip_comment (c # s, l))
      else if is_whitespace c then skip_blank (snd (cur_next (c # s, l)))
      else (c # s, l))"
  by pat_completeness auto
termination
proof (relation "measure (length \<circ> fst)")
  fix c :: rchar and s :: rstr and l :: nat
  assume "c = DOLLAR"
  then show "(skip_comment (c # s, l), c # s, l) \<in> measure (length \<circ> fst)"
    using skip_comment_shorter [of "(s, l)"] by simp
qed auto

definition cur_error :: "nat \<Rightarrow> rstr \<Rightarrow> error" where
  "cur_error l msg = Eds (lit ''line '' @ fmt_dec l @ lit '': '' @ msg)"

text \<open>\<open>'{}'\<close> in a message.\<close>

definition in_quotes :: "rstr \<Rightarrow> rstr" where
  "in_quotes s = [39] @ s @ [39]"

section \<open>Entries\<close>

fun keyword_loop :: "rstr \<Rightarrow> Cursor \<Rightarrow> (rstr \<times> Cursor) result" where
  "keyword_loop kw ([], l) = Err (cur_error l (lit ''expected '' @ in_quotes [EQUALS] @ lit '' after '' @ in_quotes (trim kw)))"
| "keyword_loop kw (c # s, l) =
     (if c = EQUALS then Ok (kw, (s, l))
      else if c \<in> {SEMICOLON, LBRACKET, QUOTE, COMMA} then
        Err (cur_error l (lit ''expected '' @ in_quotes [EQUALS] @ lit '' after '' @ in_quotes (trim kw) @
          lit '', found '' @ in_quotes [c]))
      else keyword_loop (kw @ [c]) (snd (cur_next (c # s, l))))"

function string_loop :: "rstr \<Rightarrow> Cursor \<Rightarrow> (rstr \<times> Cursor) result" where
  "string_loop acc ([], l) = Err (cur_error l (lit ''unterminated string''))"
| "string_loop acc (c # s, l) =
     (if c = QUOTE then Ok (acc, (s, l))
      else if c = BACKSLASH then
        (case cur_next (s, l) of
           (None, (_, l)) \<Rightarrow> Err (cur_error l (lit ''unterminated string''))
         | (Some d, cur) \<Rightarrow> string_loop (acc @ [if d = LETTER_N then NEWLINE else d]) cur)
      else string_loop (acc @ [c]) (snd (cur_next (c # s, l))))"
  by pat_completeness auto
termination
  by (relation "measure (\<lambda>(_, s, _). length s)") (auto dest!: cur_next_shorter [OF sym] split: if_splits)

fun token_loop :: "rstr \<Rightarrow> Cursor \<Rightarrow> rstr \<times> Cursor" where
  "token_loop token ([], l) = (token, ([], l))"
| "token_loop token (c # s, l) =
     (if c \<in> {COMMA, SEMICOLON, QUOTE, DOLLAR, NEWLINE} then (token, (c # s, l))
      else token_loop (token @ [c]) (snd (cur_next (c # s, l))))"


text \<open>How far a loop gets: what it returns is what is left after some text \<open>u\<close>, whose newlines it counted.\<close>

definition newlines :: "rstr \<Rightarrow> nat" where
  "newlines s = count_list s NEWLINE"

lemma newlines_simps [simp]:
  "newlines [] = 0" "newlines (c # s) = (if c = NEWLINE then Suc (newlines s) else newlines s)"
  "newlines (s @ t) = newlines s + newlines t"
  by (simp_all add: newlines_def)

definition advances :: "Cursor \<Rightarrow> Cursor \<Rightarrow> bool" where
  "advances cur cur' \<longleftrightarrow> (\<exists>u. fst cur = u @ fst cur' \<and> snd cur' = snd cur + newlines u)"

lemma advances_refl [simp]: "advances cur cur"
  by (auto simp: advances_def)

lemma advances_trans [trans]: "advances a b \<Longrightarrow> advances b c \<Longrightarrow> advances a c"
  unfolding advances_def by (metis append.assoc newlines_simps(3) add.assoc)

lemma advances_shorter: "advances cur cur' \<Longrightarrow> length (fst cur') \<le> length (fst cur)"
  unfolding advances_def by (metis le_add2 length_append)

lemma advances_char: "l' = (if c = NEWLINE then l + 1 else l) \<Longrightarrow> advances (c # s, l) (s, l')"
  by (auto simp: advances_def intro!: exI [of _ "[c]"])

lemma advances_next: "cur_next cur = (x, cur') \<Longrightarrow> advances cur cur'"
  by (cases cur rule: cur_next.cases) (auto intro: advances_char)

lemma advances_skip_comment: "advances cur (skip_comment cur)"
  by (induction cur rule: skip_comment.induct) (auto intro: advances_char advances_trans [OF advances_char])

lemma advances_skip_blank: "advances cur (skip_blank cur)"
proof (induction cur rule: skip_blank.induct)
  case (2 c s l)
  then show ?case
    using advances_trans [OF advances_skip_comment [of "(c # s, l)"]] advances_trans [OF advances_char]
    by (cases "c = DOLLAR") auto
qed simp

lemma advances_keyword_loop: "keyword_loop kw cur = Ok (kw', cur') \<Longrightarrow> advances cur cur'"
  by (induction kw cur rule: keyword_loop.induct)
    (auto split: if_splits intro: advances_char advances_trans [OF advances_char])

lemma advances_string_loop: "string_loop acc cur = Ok (s, cur') \<Longrightarrow> advances cur cur'"
proof (induction acc cur rule: string_loop.induct)
  case (2 acc c s l)
  show ?case
  proof (cases "c = BACKSLASH")
    case True
    with 2 obtain d cur where d: "cur_next (s, l) = (Some d, cur)"
      by (auto split: prod.splits option.splits)
    then have "advances cur cur'"
      using True 2(1) [of _ cur d] 2(3) by auto
    moreover have "advances (c # s, l) (s, l)" using True by (auto intro: advances_char)
    ultimately show ?thesis using advances_next [OF d] advances_trans by blast
  qed (use 2 in \<open>auto split: if_splits intro: advances_char advances_trans [OF advances_char]\<close>)
qed simp

lemma advances_token_loop: "token_loop token cur = (t, cur') \<Longrightarrow> advances cur cur'"
  by (induction token cur rule: token_loop.induct)
    (auto split: if_splits intro: advances_char advances_trans [OF advances_char])

lemma skip_blank_stops: "skip_blank cur = (c # s, l) \<Longrightarrow> \<not> is_whitespace c \<and> c \<noteq> DOLLAR"
  by (induction cur rule: skip_blank.induct) (auto split: if_splits)

text \<open>The field a comma or semicolon ends.\<close>

definition finish_field :: "rstr option \<Rightarrow> rstr \<Rightarrow> Field" where
  "finish_field strings token =
     (case strings of
        Some s \<Rightarrow> Field_Str s
      | None \<Rightarrow> if trim token = [] then Field_Empty else Field_Token (trim token))"

function parse_fields ::
  "rstr \<Rightarrow> nat \<Rightarrow> Field list \<Rightarrow> rstr option \<Rightarrow> rstr \<Rightarrow> Cursor \<Rightarrow> (EdsEntry \<times> Cursor) result" where
  "parse_fields kw line fs strings token cur =
     (case cur_next (skip_blank cur) of
        (None, _) \<Rightarrow> Err (cur_error line (lit ''entry '' @ in_quotes kw @ lit '' has no terminating '' @ in_quotes [SEMICOLON]))
      | (Some c, cur) \<Rightarrow>
          if c = QUOTE then
            (case string_loop (case strings of None \<Rightarrow> [] | Some s \<Rightarrow> s) cur of
               Inl e \<Rightarrow> Err e
             | Inr (s, cur) \<Rightarrow> parse_fields kw line fs (Some s) token cur)
          else if c \<in> {COMMA, SEMICOLON} then
            (if c = SEMICOLON then
               Ok (\<lparr>e_keyword = kw, e_fields = fs @ [finish_field strings token], e_line = line\<rparr>, cur)
             else parse_fields kw line (fs @ [finish_field strings token]) None [] cur)
          else
            (case token_loop (token @ [c]) cur of (token, cur) \<Rightarrow> parse_fields kw line fs strings token cur))"
  by pat_completeness auto

text \<open>Each turn consumes at least one char.\<close>

lemma next_blank_shorter:
  "cur_next (skip_blank cur) = (Some c, cur') \<Longrightarrow> length (fst cur') < length (fst cur)"
  using cur_next_shorter advances_shorter [OF advances_skip_blank, of cur] by fastforce

lemma token_loop_shorter: "length (fst (snd (token_loop token cur))) \<le> length (fst cur)"
  by (metis advances_shorter advances_token_loop surj_pair snd_conv)

termination parse_fields
  by (relation "measure (\<lambda>(_, _, _, _, _, cur). length (fst cur))")
    (auto simp: case_prod_unfold dest!: next_blank_shorter [OF sym] advances_shorter [OF advances_string_loop]
      intro: le_less_trans [OF token_loop_shorter])

declare parse_fields.simps [simp del]


lemma parse_fields_steps:
  "cur_next (skip_blank cur) = (None, cur1) \<Longrightarrow> parse_fields kw line fs strings token cur =
     Err (cur_error line (lit ''entry '' @ in_quotes kw @ lit '' has no terminating '' @ in_quotes [SEMICOLON]))"
  "cur_next (skip_blank cur) = (Some QUOTE, cur1) \<Longrightarrow> parse_fields kw line fs strings token cur =
     (case string_loop (case strings of None \<Rightarrow> [] | Some s \<Rightarrow> s) cur1 of
        Inl e \<Rightarrow> Err e | Inr (s, cur) \<Rightarrow> parse_fields kw line fs (Some s) token cur)"
  "cur_next (skip_blank cur) = (Some COMMA, cur1) \<Longrightarrow> parse_fields kw line fs strings token cur =
     parse_fields kw line (fs @ [finish_field strings token]) None [] cur1"
  "cur_next (skip_blank cur) = (Some SEMICOLON, cur1) \<Longrightarrow> parse_fields kw line fs strings token cur =
     Ok (\<lparr>e_keyword = kw, e_fields = fs @ [finish_field strings token], e_line = line\<rparr>, cur1)"
  "cur_next (skip_blank cur) = (Some c, cur1) \<Longrightarrow> c \<notin> {QUOTE, COMMA, SEMICOLON} \<Longrightarrow>
     parse_fields kw line fs strings token cur =
     (case token_loop (token @ [c]) cur1 of (token, cur) \<Rightarrow> parse_fields kw line fs strings token cur)"
  by (subst parse_fields.simps; simp)+

text \<open>Induction over a successful run: one case per kind of turn.\<close>

lemma parse_fields_ok_induct [consumes 1, case_names semicolon comma string token]:
  assumes "parse_fields kw line fs strings token cur = Ok (e, cur')"
    and "\<And>fs strings token cur cur1. cur_next (skip_blank cur) = (Some SEMICOLON, cur1) \<Longrightarrow>
      P fs strings token cur \<lparr>e_keyword = kw, e_fields = fs @ [finish_field strings token], e_line = line\<rparr> cur1"
    and "\<And>fs strings token cur cur1 e cur'. cur_next (skip_blank cur) = (Some COMMA, cur1) \<Longrightarrow>
      P (fs @ [finish_field strings token]) None [] cur1 e cur' \<Longrightarrow> P fs strings token cur e cur'"
    and "\<And>fs strings token cur cur1 s cur2 e cur'. cur_next (skip_blank cur) = (Some QUOTE, cur1) \<Longrightarrow>
      string_loop (case strings of None \<Rightarrow> [] | Some s \<Rightarrow> s) cur1 = Ok (s, cur2) \<Longrightarrow>
      P fs (Some s) token cur2 e cur' \<Longrightarrow> P fs strings token cur e cur'"
    and "\<And>fs strings token cur c cur1 t cur2 e cur'. cur_next (skip_blank cur) = (Some c, cur1) \<Longrightarrow>
      c \<notin> {QUOTE, COMMA, SEMICOLON} \<Longrightarrow> token_loop (token @ [c]) cur1 = (t, cur2) \<Longrightarrow>
      P fs strings t cur2 e cur' \<Longrightarrow> P fs strings token cur e cur'"
  shows "P fs strings token cur e cur'"
  using assms(1)
proof (induction "length (fst cur)" arbitrary: fs strings token cur rule: less_induct)
  case less
  obtain x cur1 where x: "cur_next (skip_blank cur) = (x, cur1)" by (meson surj_pair)
  show ?case
  proof (cases x)
    case None
    with less.prems x show ?thesis by (simp add: parse_fields_steps)
  next
    case (Some c)
    with x have shorter: "length (fst cur1) < length (fst cur)" by (simp add: next_blank_shorter)
    consider "c = QUOTE" | "c = COMMA" | "c = SEMICOLON" | "c \<notin> {QUOTE, COMMA, SEMICOLON}" by blast
    then show ?thesis
    proof cases
      case 1
      with less.prems x Some obtain s cur2
        where s: "string_loop (case strings of None \<Rightarrow> [] | Some s \<Rightarrow> s) cur1 = Ok (s, cur2)"
          and r: "parse_fields kw line fs (Some s) token cur2 = Ok (e, cur')"
        by (auto simp: parse_fields_steps(2) split: sum.splits)
      have "length (fst cur2) < length (fst cur)"
        using shorter advances_shorter [OF advances_string_loop [OF s]] by simp
      from assms(4) [OF _ s less.hyps [OF this r]] x Some 1 show ?thesis by simp
    next
      case 2
      with less.prems x Some have "parse_fields kw line (fs @ [finish_field strings token]) None [] cur1 = Ok (e, cur')"
        by (simp add: parse_fields_steps(3))
      from assms(3) [OF _ less.hyps [OF shorter this]] x Some 2 show ?thesis by simp
    next
      case 3
      with less.prems x Some assms(2) [of cur cur1 fs strings token] show ?thesis
        by (simp add: parse_fields_steps(4))
    next
      case 4
      obtain t cur2 where t: "token_loop (token @ [c]) cur1 = (t, cur2)" by (meson surj_pair)
      with less.prems x Some 4 have r: "parse_fields kw line fs strings t cur2 = Ok (e, cur')"
        by (simp add: parse_fields_steps(5))
      have "length (fst cur2) < length (fst cur)"
        using shorter advances_shorter [OF advances_token_loop [OF t]] by simp
      from assms(5) [OF _ 4 t less.hyps [OF this r]] x Some show ?thesis by simp
    qed
  qed
qed

lemma advances_next_blank: "cur_next (skip_blank cur) = (x, cur') \<Longrightarrow> advances cur cur'"
  using advances_trans [OF advances_skip_blank advances_next] .

lemma advances_parse_fields: "parse_fields kw line fs strings token cur = Ok (e, cur') \<Longrightarrow> advances cur cur'"
  by (induction rule: parse_fields_ok_induct)
    (meson advances_next_blank advances_string_loop advances_token_loop advances_trans)+

definition parse_entry :: "Cursor \<Rightarrow> nat \<Rightarrow> (EdsEntry \<times> Cursor) result" where
  "parse_entry cur line =
     rbind (keyword_loop [] cur) (\<lambda>(kw, cur). parse_fields (trim kw) line [] None [] cur)"

lemma advances_parse_entry: "parse_entry cur line = Ok (e, cur') \<Longrightarrow> advances cur cur'"
  unfolding parse_entry_def
  by (auto simp: rbind_eq_Inr dest!: advances_keyword_loop advances_parse_fields intro: advances_trans)

section \<open>Sections\<close>

fun header_loop :: "rstr \<Rightarrow> Cursor \<Rightarrow> (rstr \<times> Cursor) result" where
  "header_loop name ([], l) = Err (cur_error l (lit ''unterminated section header''))"
| "header_loop name (c # s, l) =
     (case cur_next (c # s, l) of (_, (s, l)) \<Rightarrow>
      if c = RBRACKET then Ok (name, (s, l))
      else if c = NEWLINE then Err (cur_error l (lit ''unterminated section header''))
      else header_loop (name @ [c]) (s, l))"

text \<open>\<open>sections.last_mut()\<close>, and pushing the entry.\<close>

definition push_entry :: "EdsSection list \<Rightarrow> EdsEntry \<Rightarrow> EdsSection list option" where
  "push_entry sections entry =
     (if sections = [] then None
      else Some (butlast sections @ [last sections\<lparr>s_entries := s_entries (last sections) @ [entry]\<rparr>]))"

lemma advances_header_loop: "header_loop name cur = Ok (name', cur') \<Longrightarrow> advances cur cur'"
  by (induction name cur rule: header_loop.induct)
    (auto split: if_splits intro: advances_char advances_trans [OF advances_char])


function parse_sections :: "EdsSection list \<Rightarrow> Cursor \<Rightarrow> EdsSection list result" where
  "parse_sections sections cur =
     (case skip_blank cur of
        ([], _) \<Rightarrow> Ok sections
      | (c # s, l) \<Rightarrow>
          if c = LBRACKET then
            (case header_loop [] (snd (cur_next (c # s, l))) of
               Inl e \<Rightarrow> Err e
             | Inr (name, cur) \<Rightarrow> parse_sections (sections @ [\<lparr>s_name = trim name, s_entries = []\<rparr>]) cur)
          else
            (case parse_entry (c # s, l) l of
               Inl e \<Rightarrow> Err e
             | Inr (entry, cur) \<Rightarrow>
                 (case push_entry sections entry of
                    None \<Rightarrow> Err (cur_error (snd cur) (lit ''entry '' @ in_quotes (e_keyword entry) @ lit '' before any section''))
                  | Some sections \<Rightarrow> parse_sections sections cur)))"
  by pat_completeness auto

lemma parse_entry_shorter:
  assumes "parse_entry cur line = Ok (e, cur')"
  shows "length (fst cur') < length (fst cur)"
proof -
  obtain kw cur1 where kw: "keyword_loop [] cur = Ok (kw, cur1)"
    and f: "parse_fields (trim kw) line [] None [] cur1 = Ok (e, cur')"
    using assms by (auto simp: parse_entry_def rbind_eq_Inr)
  have "length (fst cur1) < length (fst cur)" if "keyword_loop acc cur = Ok (kw, cur1)" for acc
    using that by (induction acc cur rule: keyword_loop.induct) (auto split: if_splits)
  from this [OF kw] advances_shorter [OF advances_parse_fields [OF f]] show ?thesis by simp
qed

lemma skip_blank_shorter: "skip_blank cur = (c # s, l) \<Longrightarrow> length s < length (fst cur)"
  using advances_shorter [OF advances_skip_blank, of cur] by simp

lemma parse_sections_shorter:
  "(c # s, l) = skip_blank cur \<Longrightarrow> header_loop [] (snd (cur_next (skip_blank cur))) = Ok (name, cur')
     \<Longrightarrow> length (fst cur') < length (fst cur)"
  "parse_entry (skip_blank cur) l = Ok (e, cur') \<Longrightarrow> length (fst cur') < length (fst cur)"
proof -
  assume "(c # s, l) = skip_blank cur" and h: "header_loop [] (snd (cur_next (skip_blank cur))) = Ok (name, cur')"
  then have c: "skip_blank cur = (c # s, l)" by simp
  show "length (fst cur') < length (fst cur)"
    using advances_shorter [OF advances_header_loop [OF h]] skip_blank_shorter [OF c] by (simp add: c)
next
  assume "parse_entry (skip_blank cur) l = Ok (e, cur')"
  then show "length (fst cur') < length (fst cur)"
    using parse_entry_shorter advances_shorter [OF advances_skip_blank, of cur] by fastforce
qed

termination parse_sections
  by (relation "measure (\<lambda>(_, cur). length (fst cur))") (auto dest: parse_sections_shorter(1) parse_sections_shorter(2))

declare parse_sections.simps [simp del]

definition parse :: "rstr \<Rightarrow> EdsSection list result" where
  "parse text = parse_sections [] (text, 1)"

text \<open>Decimal, or hexadecimal after \<open>0x\<close> or \<open>0X\<close>.\<close>

definition parse_int :: "rstr \<Rightarrow> nat option" where
  "parse_int s =
     (let s = trim s in
      if take 2 s = lit ''0x'' \<or> take 2 s = lit ''0X'' then from_str_radix 16 (2 ^ 64) (drop 2 s)
      else from_str_radix 10 (2 ^ 64) s)"


section \<open>A grammar of EDS texts\<close>

text \<open>Blanks: whitespace and comments. The last one of a file may be a comment without a newline.\<close>

inductive blank :: "rstr \<Rightarrow> bool" where
  none: "blank []"
| space: "is_whitespace c \<Longrightarrow> blank b \<Longrightarrow> blank (c # b)"
| comment: "NEWLINE \<notin> set w \<Longrightarrow> blank b \<Longrightarrow> blank (DOLLAR # w @ NEWLINE # b)"

definition final_blank :: "rstr \<Rightarrow> bool" where
  "final_blank t \<longleftrightarrow> blank t \<or> (\<exists>b w. t = b @ DOLLAR # w \<and> blank b \<and> NEWLINE \<notin> set w)"

text \<open>The inside of a quoted string, for the string it stands for.\<close>

inductive escaped :: "rstr \<Rightarrow> rstr \<Rightarrow> bool" where
  none: "escaped [] []"
| plain: "c \<notin> {QUOTE, BACKSLASH} \<Longrightarrow> escaped s e \<Longrightarrow> escaped (c # s) (c # e)"
| newline: "escaped s e \<Longrightarrow> escaped (NEWLINE # s) (BACKSLASH # LETTER_N # e)"
| char: "c \<noteq> LETTER_N \<Longrightarrow> escaped s e \<Longrightarrow> escaped (c # s) (BACKSLASH # c # e)"

inductive strings_text :: "rstr \<Rightarrow> rstr \<Rightarrow> bool" where
  one: "escaped s e \<Longrightarrow> blank b \<Longrightarrow> strings_text s (QUOTE # e @ QUOTE # b)"
| more: "escaped s e \<Longrightarrow> blank b \<Longrightarrow> strings_text s' t \<Longrightarrow> strings_text (s @ s') (QUOTE # e @ QUOTE # b @ t)"

definition token_ok :: "rstr \<Rightarrow> bool" where
  "token_ok t \<longleftrightarrow> t \<noteq> [] \<and> trim t = t \<and> set t \<inter> {COMMA, SEMICOLON, QUOTE, DOLLAR, NEWLINE} = {}"

inductive field_text :: "Field \<Rightarrow> rstr \<Rightarrow> bool" where
  empty: "blank b \<Longrightarrow> field_text Field_Empty b"
| token: "blank b \<Longrightarrow> token_ok t \<Longrightarrow> blank b' \<Longrightarrow> field_text (Field_Token t) (b @ t @ b')"
| strings: "blank b \<Longrightarrow> strings_text s t \<Longrightarrow> field_text (Field_Str s) (b @ t)"

inductive fields_text :: "Field list \<Rightarrow> rstr \<Rightarrow> bool" where
  last: "field_text f t \<Longrightarrow> fields_text [f] (t @ [SEMICOLON])"
| comma: "field_text f t \<Longrightarrow> fields_text fs u \<Longrightarrow> fields_text (f # fs) (t @ COMMA # u)"

definition keyword_ok :: "rstr \<Rightarrow> bool" where
  "keyword_ok raw \<longleftrightarrow> set raw \<inter> {EQUALS, SEMICOLON, LBRACKET, QUOTE, COMMA} = {}
     \<and> (raw \<noteq> [] \<longrightarrow> \<not> is_whitespace (hd raw) \<and> hd raw \<noteq> DOLLAR)"

text \<open>An entry whose text begins on line \<open>l\<close>; a section; a file.\<close>

inductive entry_text :: "nat \<Rightarrow> EdsEntry \<Rightarrow> rstr \<Rightarrow> bool" where
  "blank b \<Longrightarrow> keyword_ok raw \<Longrightarrow> fields_text fs t \<Longrightarrow>
   entry_text l \<lparr>e_keyword = trim raw, e_fields = fs, e_line = l + newlines b\<rparr> (b @ raw @ EQUALS # t)"

inductive entries_text :: "nat \<Rightarrow> EdsEntry list \<Rightarrow> rstr \<Rightarrow> bool" where
  none: "entries_text l [] []"
| more: "entry_text l e t \<Longrightarrow> entries_text (l + newlines t) es u \<Longrightarrow> entries_text l (e # es) (t @ u)"

inductive section_text :: "nat \<Rightarrow> EdsSection \<Rightarrow> rstr \<Rightarrow> bool" where
  "blank b \<Longrightarrow> set raw \<inter> {RBRACKET, NEWLINE} = {} \<Longrightarrow> entries_text (l + newlines b) es t \<Longrightarrow>
   section_text l \<lparr>s_name = trim raw, s_entries = es\<rparr> (b @ LBRACKET # raw @ RBRACKET # t)"

inductive file_text :: "nat \<Rightarrow> EdsSection list \<Rightarrow> rstr \<Rightarrow> bool" where
  final: "final_blank t \<Longrightarrow> file_text l [] t"
| section_: "section_text l s t \<Longrightarrow> file_text (l + newlines t) ss u \<Longrightarrow> file_text l (s # ss) (t @ u)"

section \<open>The parser accepts the grammar\<close>

lemma skip_comment_text: "NEWLINE \<notin> set w \<Longrightarrow> skip_comment (w @ NEWLINE # s, l) = (s, l + 1)"
  by (induction w) auto

lemma skip_comment_end: "NEWLINE \<notin> set w \<Longrightarrow> skip_comment (w, l) = ([], l)"
  by (induction w) auto

lemma newlines_none [simp]: "NEWLINE \<notin> set w \<Longrightarrow> newlines w = 0"
  by (simp add: newlines_def)

lemma skip_blank_text: "blank b \<Longrightarrow> skip_blank (b @ s, l) = skip_blank (s, l + newlines b)"
proof (induction b arbitrary: l rule: blank.induct)
  case (comment w b)
  then show ?case
    using skip_comment_text [of w "b @ s" l] by simp
qed (auto simp: is_whitespace_def)

lemma skip_blank_id: "\<not> is_whitespace c \<Longrightarrow> c \<noteq> DOLLAR \<Longrightarrow> skip_blank (c # s, l) = (c # s, l)"
  by simp

lemma skip_final_blank: "final_blank t \<Longrightarrow> \<exists>l'. skip_blank (t, l) = ([], l')"
proof -
  assume "final_blank t"
  then consider "blank t" | b w where "t = b @ DOLLAR # w" "blank b" "NEWLINE \<notin> set w"
    by (auto simp: final_blank_def)
  then show ?thesis
  proof cases
    case 1
    with skip_blank_text [of t "[]" l] show ?thesis by simp
  next
    case 2
    then show ?thesis by (simp add: skip_blank_text skip_comment_end)
  qed
qed

lemma keyword_loop_text:
  "set kw \<inter> {EQUALS, SEMICOLON, LBRACKET, QUOTE, COMMA} = {} \<Longrightarrow>
   keyword_loop acc (kw @ EQUALS # s, l) = Ok (acc @ kw, (s, l + newlines kw))"
  by (induction kw arbitrary: acc l) auto

lemma header_loop_text:
  "set raw \<inter> {RBRACKET, NEWLINE} = {} \<Longrightarrow> header_loop acc (raw @ RBRACKET # s, l) = Ok (acc @ raw, (s, l))"
  by (induction raw arbitrary: acc) auto

lemma string_loop_text:
  "escaped s e \<Longrightarrow> string_loop acc (e @ QUOTE # r, l) = Ok (acc @ s, (r, l + newlines e))"
  by (induction s e arbitrary: acc l rule: escaped.induct) auto

abbreviation stops_token :: "rchar \<Rightarrow> bool" where
  "stops_token c \<equiv> c \<in> {COMMA, SEMICOLON, QUOTE, DOLLAR, NEWLINE}"

lemma token_loop_text:
  "\<forall>c \<in> set t. \<not> stops_token c \<Longrightarrow> s = [] \<or> stops_token (hd s) \<Longrightarrow> token_loop acc (t @ s, l) = (acc @ t, (s, l))"
proof (induction t arbitrary: acc)
  case Nil
  then show ?case by (cases s) auto
qed auto

lemma space_no_stop: "is_whitespace c \<Longrightarrow> c \<noteq> NEWLINE \<Longrightarrow> \<not> stops_token c"
  by (auto simp: is_whitespace_def)

text \<open>Spaces before the first newline or comment go into the token, which is trimmed at its end.\<close>

lemma blank_after_token:
  "blank b \<Longrightarrow> \<exists>w b'. b = w @ b' \<and> (\<forall>c \<in> set w. is_whitespace c \<and> \<not> stops_token c) \<and> blank b'
     \<and> (b' = [] \<or> stops_token (hd b'))"
proof (induction rule: blank.induct)
  case (space c b)
  show ?case
  proof (cases "c = NEWLINE")
    case True
    with blank.space [OF space(1,2)] show ?thesis by (intro exI [of _ "[]"] exI [of _ "c # b"]) simp
  next
    case False
    from space.IH obtain w b' where "b = w @ b'" "\<forall>c \<in> set w. is_whitespace c \<and> \<not> stops_token c" "blank b'"
      "b' = [] \<or> stops_token (hd b')" by blast
    moreover have "is_whitespace c \<and> \<not> stops_token c" using space(1) space_no_stop [OF space(1) False] by blast
    ultimately show ?thesis
      by (intro exI [of _ "c # w"] exI [of _ b']) simp
  qed
next
  case (comment w b)
  from blank.comment [OF comment(1,2)] show ?case
    by (intro exI [of _ "[]"] exI [of _ "DOLLAR # w @ NEWLINE # b"]) simp
next
  case none
  show ?case by (intro exI [of _ "[]"]) (simp add: blank.none)
qed


lemma parse_fields_blank:
  "blank b \<Longrightarrow> parse_fields kw line fs strings token (b @ s, l) = parse_fields kw line fs strings token (s, l + newlines b)"
  by (subst (1 2) parse_fields.simps) (simp add: skip_blank_text)

lemma parse_fields_end:
  "parse_fields kw line fs strings token (COMMA # r, l) = parse_fields kw line (fs @ [finish_field strings token]) None [] (r, l)"
  "parse_fields kw line fs strings token (SEMICOLON # r, l) =
     Ok (\<lparr>e_keyword = kw, e_fields = fs @ [finish_field strings token], e_line = line\<rparr>, (r, l))"
  by (simp_all add: parse_fields_steps(3,4) is_whitespace_def)

lemma parse_fields_string:
  assumes "escaped s e" "blank b"
  shows "parse_fields kw line fs strings token (QUOTE # e @ QUOTE # b @ r, l) =
    parse_fields kw line fs (Some ((case strings of None \<Rightarrow> [] | Some s \<Rightarrow> s) @ s)) token (r, l + newlines (e @ b))"
proof -
  have "cur_next (skip_blank (QUOTE # e @ QUOTE # b @ r, l)) = (Some QUOTE, (e @ QUOTE # b @ r, l))"
    by (simp add: is_whitespace_def)
  from parse_fields_steps(2) [OF this, of kw line fs strings token] show ?thesis
    by (simp add: string_loop_text [OF assms(1)] parse_fields_blank [OF assms(2)] add.assoc)
qed

lemma parse_fields_strings:
  "strings_text s t \<Longrightarrow> parse_fields kw line fs strings token (t @ r, l) =
    parse_fields kw line fs (Some ((case strings of None \<Rightarrow> [] | Some s \<Rightarrow> s) @ s)) token (r, l + newlines t)"
proof (induction s t arbitrary: strings l rule: strings_text.induct)
  case (more s e b s' t)
  then show ?case
    using parse_fields_string [OF more(1,2), of kw line fs strings token "t @ r" l]
    by (simp add: add.assoc)
qed (simp add: parse_fields_string add.assoc)

lemma parse_fields_token:
  assumes "token_ok t" "blank b" "stops_token d"
  shows "\<exists>w. (\<forall>c \<in> set w. is_whitespace c) \<and> parse_fields kw line fs strings [] (t @ b @ d # r, l) =
    parse_fields kw line fs strings (t @ w) (d # r, l + newlines b)"
proof -
  obtain c t' where t: "t = c # t'" using assms(1) by (auto simp: token_ok_def neq_Nil_conv)
  obtain w b' where b: "b = w @ b'" "\<forall>c \<in> set w. is_whitespace c \<and> \<not> stops_token c" "blank b'"
      "b' = [] \<or> stops_token (hd b')"
    using blank_after_token [OF assms(2)] by blast
  have ok: "\<forall>c \<in> set t. \<not> stops_token c" using assms(1) unfolding token_ok_def by blast
  have edge: "\<not> is_whitespace c"
    using assms(1) trim_edges [of t] by (simp add: token_ok_def t)
  have nl: "newlines w = 0" using b(2) by (intro newlines_none) blast
  have rest: "b' @ d # r = [] \<or> stops_token (hd (b' @ d # r))"
    using b(4) assms(3) by (cases b') simp_all
  have next_c: "cur_next (skip_blank (t @ b @ d # r, l)) = (Some c, (t' @ b @ d # r, l))"
    using edge ok by (simp add: t)
  have loop: "token_loop ([] @ [c]) ((t' @ w) @ (b' @ d # r), l) = (([] @ [c]) @ (t' @ w), (b' @ d # r, l))"
    by (rule token_loop_text [OF _ rest]) (use ok b(2) in \<open>simp add: t ball_Un\<close>)
  have "parse_fields kw line fs strings [] (t @ b @ d # r, l) = parse_fields kw line fs strings (t @ w) (b' @ d # r, l)"
    using parse_fields_steps(5) [OF next_c, of kw line fs strings "[]"] ok loop by (simp add: t b(1))
  also have "\<dots> = parse_fields kw line fs strings (t @ w) (d # r, l + newlines b)"
    by (simp add: parse_fields_blank [OF b(3)] b(1) nl)
  finally show ?thesis using b(2) by blast
qed

lemma parse_field_text:
  assumes "field_text f t"
  shows "parse_fields kw line fs None [] (t @ COMMA # r, l) = parse_fields kw line (fs @ [f]) None [] (r, l + newlines t)"
    and "parse_fields kw line fs None [] (t @ SEMICOLON # r, l) =
      Ok (\<lparr>e_keyword = kw, e_fields = fs @ [f], e_line = line\<rparr>, (r, l + newlines t))"
proof -
  have "\<exists>strings token. finish_field strings token = f \<and>
      parse_fields kw line fs None [] (t @ d # r, l) = parse_fields kw line fs strings token (d # r, l + newlines t)"
    if d: "stops_token d" for d
    using assms
  proof cases
    case empty
    then show ?thesis
      by (intro exI [of _ None] exI [of _ "[]"]) (simp add: parse_fields_blank finish_field_def trim_id)
  next
    case (token b u b')
    obtain w where w: "\<forall>c \<in> set w. is_whitespace c"
      and p: "parse_fields kw line fs None [] (u @ b' @ d # r, l + newlines b) =
        parse_fields kw line fs None (u @ w) (d # r, l + newlines b + newlines b')"
      using parse_fields_token [OF token(4,5) d, of kw line fs None r "l + newlines b"] by blast
    have "newlines u = 0" using token(4) by (intro newlines_none) (auto simp: token_ok_def)
    moreover have "finish_field None (u @ w) = f"
      using token(4) by (simp add: finish_field_def trim_append_spaces [OF w] token_ok_def token(1))
    ultimately show ?thesis
      using p by (intro exI [of _ None] exI [of _ "u @ w"]) (simp add: token(2) parse_fields_blank [OF token(3)] add.assoc)
  next
    case (strings b s u)
    then show ?thesis
      by (intro exI [of _ "Some s"] exI [of _ "[]"])
        (simp add: parse_fields_blank parse_fields_strings finish_field_def add.assoc)
  qed
  from this [of COMMA] this [of SEMICOLON]
  show "parse_fields kw line fs None [] (t @ COMMA # r, l) = parse_fields kw line (fs @ [f]) None [] (r, l + newlines t)"
    and "parse_fields kw line fs None [] (t @ SEMICOLON # r, l) =
      Ok (\<lparr>e_keyword = kw, e_fields = fs @ [f], e_line = line\<rparr>, (r, l + newlines t))"
    by (auto simp: parse_fields_end)
qed

lemma parse_fields_text:
  "fields_text fs t \<Longrightarrow> parse_fields kw line fs0 None [] (t @ r, l) =
     Ok (\<lparr>e_keyword = kw, e_fields = fs0 @ fs, e_line = line\<rparr>, (r, l + newlines t))"
  by (induction fs t arbitrary: fs0 l rule: fields_text.induct) (simp_all add: parse_field_text add.assoc)


lemma parse_entry_text:
  assumes "entry_text l e t"
  shows "\<exists>b u. t = b @ u \<and> blank b \<and> u \<noteq> [] \<and> hd u \<noteq> LBRACKET \<and> \<not> is_whitespace (hd u) \<and> hd u \<noteq> DOLLAR
    \<and> parse_entry (u @ r, l + newlines b) (l + newlines b) = Ok (e, (r, l + newlines t))"
  using assms
proof cases
  case (1 b raw fs u)
  have kw: "keyword_loop [] (raw @ EQUALS # u @ r, l + newlines b) = Ok (raw, (u @ r, l + newlines b + newlines raw))"
    using keyword_loop_text [of raw "[]"] 1(4) by (simp add: keyword_ok_def)
  have "parse_entry ((raw @ EQUALS # u) @ r, l + newlines b) (l + newlines b) = Ok (e, (r, l + newlines t))"
    using parse_fields_text [OF 1(5), of "trim raw" "l + newlines b" "[]" r]
    by (simp add: parse_entry_def kw 1(1,2) add.assoc)
  moreover have "hd (raw @ EQUALS # u) \<noteq> LBRACKET \<and> \<not> is_whitespace (hd (raw @ EQUALS # u)) \<and> hd (raw @ EQUALS # u) \<noteq> DOLLAR"
  proof (cases raw)
    case Nil
    then show ?thesis by (simp add: is_whitespace_def)
  next
    case (Cons c raw')
    with 1(4) show ?thesis by (simp add: keyword_ok_def)
  qed
  ultimately show ?thesis
    using 1(2,3) by (intro exI [of _ b] exI [of _ "raw @ EQUALS # u"]) blast
qed

lemma parse_sections_blank:
  "blank b \<Longrightarrow> parse_sections secs (b @ s, l) = parse_sections secs (s, l + newlines b)"
  by (subst (1 2) parse_sections.simps) (simp add: skip_blank_text)

lemma parse_sections_entry:
  assumes "entry_text l e t"
  shows "parse_sections (secs @ [sec]) (t @ r, l) =
    parse_sections (secs @ [sec\<lparr>s_entries := s_entries sec @ [e]\<rparr>]) (r, l + newlines t)"
proof -
  obtain b u where t: "t = b @ u" "blank b" "u \<noteq> []" "hd u \<noteq> LBRACKET" "\<not> is_whitespace (hd u)" "hd u \<noteq> DOLLAR"
    and p: "parse_entry (u @ r, l + newlines b) (l + newlines b) = Ok (e, (r, l + newlines t))"
    using parse_entry_text [OF assms] by blast
  obtain c u' where u: "u = c # u'" using t(3) by (cases u) auto
  have "parse_sections (secs @ [sec]) (t @ r, l) = parse_sections (secs @ [sec]) (c # u' @ r, l + newlines b)"
    by (simp add: t(1) u parse_sections_blank [OF t(2)])
  also have "\<dots> = parse_sections (secs @ [sec\<lparr>s_entries := s_entries sec @ [e]\<rparr>]) (r, l + newlines t)"
    using t(4-6) p by (subst parse_sections.simps) (simp add: u push_entry_def)
  finally show ?thesis .
qed

lemma parse_sections_entries:
  "entries_text l es t \<Longrightarrow> parse_sections (secs @ [sec]) (t @ r, l) =
    parse_sections (secs @ [sec\<lparr>s_entries := s_entries sec @ es\<rparr>]) (r, l + newlines t)"
  by (induction l es t arbitrary: sec rule: entries_text.induct) (simp_all add: parse_sections_entry add.assoc)

lemma parse_sections_section:
  assumes "section_text l s t"
  shows "parse_sections secs (t @ r, l) = parse_sections (secs @ [s]) (r, l + newlines t)"
  using assms
proof cases
  case (1 b raw es u)
  have "parse_sections secs (t @ r, l) = parse_sections secs (LBRACKET # raw @ RBRACKET # u @ r, l + newlines b)"
    by (simp add: 1(2) parse_sections_blank [OF 1(3)])
  also have "\<dots> = parse_sections (secs @ [\<lparr>s_name = trim raw, s_entries = []\<rparr>]) (u @ r, l + newlines b)"
    using header_loop_text [OF 1(4), of "[]"]
    by (subst parse_sections.simps) (simp add: is_whitespace_def)
  also have "\<dots> = parse_sections (secs @ [s]) (r, l + newlines t)"
    using parse_sections_entries [OF 1(5), of secs "\<lparr>s_name = trim raw, s_entries = []\<rparr>" r] 1(4)
    by (simp add: 1(1,2) add.assoc)
  finally show ?thesis .
qed

lemma parse_sections_file: "file_text l ss t \<Longrightarrow> parse_sections secs (t, l) = Ok (secs @ ss)"
proof (induction l ss t arbitrary: secs rule: file_text.induct)
  case (final t l)
  from skip_final_blank [OF this, of l] show ?case by (subst parse_sections.simps) auto
next
  case (section_ l s t ss u)
  then show ?case by (simp add: parse_sections_section)
qed


section \<open>What the parser returns\<close>

definition field_ok :: "Field \<Rightarrow> bool" where
  "field_ok f = (case f of Field_Token t \<Rightarrow> token_ok t | _ \<Rightarrow> True)"

definition entry_ok :: "EdsEntry \<Rightarrow> bool" where
  "entry_ok e \<longleftrightarrow> trim (e_keyword e) = e_keyword e
     \<and> set (e_keyword e) \<inter> {EQUALS, SEMICOLON, LBRACKET, QUOTE, COMMA} = {}
     \<and> e_fields e \<noteq> [] \<and> list_all field_ok (e_fields e)"

definition section_ok :: "EdsSection \<Rightarrow> bool" where
  "section_ok s \<longleftrightarrow> trim (s_name s) = s_name s \<and> set (s_name s) \<inter> {RBRACKET, NEWLINE} = {}
     \<and> list_all entry_ok (s_entries s)"

text \<open>The lines of all entries, in file order: they ascend, from 1 to the line the parser has reached.\<close>

definition entry_lines :: "EdsSection list \<Rightarrow> nat list" where
  "entry_lines secs = map e_line (concat (map s_entries secs))"

definition sections_ok :: "nat \<Rightarrow> EdsSection list \<Rightarrow> bool" where
  "sections_ok n secs \<longleftrightarrow> list_all section_ok secs \<and> sorted (entry_lines secs)
     \<and> (\<forall>l \<in> set (entry_lines secs). 1 \<le> l \<and> l \<le> n)"

abbreviation no_stop :: "rstr \<Rightarrow> bool" where
  "no_stop s \<equiv> set s \<inter> {COMMA, SEMICOLON, QUOTE, DOLLAR, NEWLINE} = {}"

lemma finish_field_ok: "no_stop token \<Longrightarrow> field_ok (finish_field strings token)"
  using set_trim [of token]
  by (auto simp: finish_field_def field_ok_def token_ok_def split: option.split)

lemma token_loop_ok:
  "token_loop token cur = (t, cur') \<Longrightarrow> no_stop token \<Longrightarrow> no_stop t"
  by (induction token cur rule: token_loop.induct) (auto split: if_splits)

lemma next_blank_stops:
  assumes "cur_next (skip_blank cur) = (Some c, cur')" "c \<notin> {QUOTE, COMMA, SEMICOLON}"
  shows "\<not> stops_token c"
proof -
  obtain s l where "skip_blank cur = (c # s, l)"
    using assms(1) by (cases "skip_blank cur" rule: cur_next.cases) auto
  from skip_blank_stops [OF this] assms(2) show ?thesis by (auto simp: is_whitespace_def)
qed

lemma parse_fields_ok:
  "parse_fields kw line fs strings token cur = Ok (e, cur') \<Longrightarrow> no_stop token \<Longrightarrow>
   list_all field_ok fs \<Longrightarrow> e_keyword e = kw \<and> e_line e = line \<and> e_fields e \<noteq> [] \<and> list_all field_ok (e_fields e)"
proof (induction rule: parse_fields_ok_induct)
  case (token fs strings token cur c cur1 t cur2 e cur')
  have "no_stop (token @ [c])"
    using token.prems(1) next_blank_stops [OF token(1,2)] by simp
  from token_loop_ok [OF token(3) this] token.prems(2) show ?case by (rule token.IH)
qed (simp_all add: finish_field_ok)

lemma keyword_loop_ok:
  "keyword_loop acc cur = Ok (kw, cur') \<Longrightarrow> set acc \<inter> {EQUALS, SEMICOLON, LBRACKET, QUOTE, COMMA} = {} \<Longrightarrow>
   set kw \<inter> {EQUALS, SEMICOLON, LBRACKET, QUOTE, COMMA} = {}"
  by (induction acc cur rule: keyword_loop.induct) (auto split: if_splits)

lemma header_loop_ok:
  "header_loop acc cur = Ok (name, cur') \<Longrightarrow> set acc \<inter> {RBRACKET, NEWLINE} = {} \<Longrightarrow> set name \<inter> {RBRACKET, NEWLINE} = {}"
  by (induction acc cur rule: header_loop.induct) (auto split: if_splits)

lemma parse_entry_ok:
  assumes "parse_entry cur line = Ok (e, cur')"
  shows "entry_ok e \<and> e_line e = line"
proof -
  obtain kw cur1 where kw: "keyword_loop [] cur = Ok (kw, cur1)"
    and f: "parse_fields (trim kw) line [] None [] cur1 = Ok (e, cur')"
    using assms by (auto simp: parse_entry_def rbind_eq_Inr)
  have "set kw \<inter> {EQUALS, SEMICOLON, LBRACKET, QUOTE, COMMA} = {}" using keyword_loop_ok [OF kw] by simp
  then have "set (trim kw) \<inter> {EQUALS, SEMICOLON, LBRACKET, QUOTE, COMMA} = {}"
    using set_trim [of kw] by blast
  with parse_fields_ok [OF f] show ?thesis by (simp add: entry_ok_def)
qed

lemma sections_ok_push:
  assumes "sections_ok n secs" "push_entry secs e = Some secs'" "entry_ok e" "n \<le> e_line e" "1 \<le> e_line e"
  shows "sections_ok (e_line e) secs'"
proof -
  obtain front sec where secs: "secs = front @ [sec]" using assms(2) by (cases secs rule: rev_cases) (auto simp: push_entry_def)
  then have secs': "secs' = front @ [sec\<lparr>s_entries := s_entries sec @ [e]\<rparr>]" using assms(2) by (simp add: push_entry_def)
  have lines: "entry_lines secs' = entry_lines secs @ [e_line e]" by (simp add: entry_lines_def secs secs')
  have "list_all section_ok secs'" using assms(1,3) by (simp add: sections_ok_def section_ok_def secs secs')
  moreover have "\<forall>l \<in> set (entry_lines secs). 1 \<le> l \<and> l \<le> e_line e"
    using assms(1,4) unfolding sections_ok_def by (meson order_trans)
  ultimately show ?thesis
    using assms(1,5) by (simp add: sections_ok_def lines sorted_append)
qed

lemma sections_ok_mono: "sections_ok n secs \<Longrightarrow> n \<le> m \<Longrightarrow> sections_ok m secs"
  unfolding sections_ok_def by (meson order_trans)

lemma sections_ok_header:
  "sections_ok n secs \<Longrightarrow> set name \<inter> {RBRACKET, NEWLINE} = {} \<Longrightarrow> sections_ok n (secs @ [\<lparr>s_name = trim name, s_entries = []\<rparr>])"
  using set_trim [of name] by (auto simp: sections_ok_def section_ok_def entry_lines_def)

section \<open>Where errors are reported\<close>

definition error_within :: "Cursor \<Rightarrow> error \<Rightarrow> bool" where
  "error_within cur e \<longleftrightarrow> (\<exists>n msg. e = cur_error n msg \<and> snd cur \<le> n \<and> n \<le> snd cur + newlines (fst cur))"

lemma error_within_advances: "advances cur cur' \<Longrightarrow> error_within cur' e \<Longrightarrow> error_within cur e"
  by (auto simp: error_within_def advances_def)

lemma error_here: "error_within cur (cur_error (snd cur) msg)"
  by (auto simp: error_within_def)

lemma error_advanced: "advances cur cur' \<Longrightarrow> error_within cur (cur_error (snd cur') msg)"
  by (rule error_within_advances [OF _ error_here])

lemma keyword_loop_error: "keyword_loop acc cur = Err e \<Longrightarrow> error_within cur e"
  by (induction acc cur rule: keyword_loop.induct)
    (auto split: if_splits intro: error_within_advances [OF advances_char] simp: error_within_def)

lemma header_loop_error: "header_loop acc cur = Err e \<Longrightarrow> error_within cur e"
  by (induction acc cur rule: header_loop.induct)
    (auto split: if_splits intro: error_within_advances [OF advances_char] simp: error_within_def)


lemma string_loop_error: "string_loop acc cur = Err e \<Longrightarrow> error_within cur e"
proof (induction acc cur rule: string_loop.induct)
  case (2 acc c s l)
  consider "c = QUOTE" | "c = BACKSLASH" | "c \<notin> {QUOTE, BACKSLASH}" by blast
  then show ?case
  proof cases
    case 2
    have start: "advances (c # s, l) (s, l)" by (rule advances_char) (simp add: 2)
    show ?thesis
    proof (cases s)
      case Nil
      with "2.prems" 2 have "e = cur_error (snd (s, l)) (lit ''unterminated string'')" by simp
      with error_advanced [OF start] show ?thesis by metis
    next
      case (Cons d s')
      obtain cur where n: "cur_next (s, l) = (Some d, cur)" by (simp add: Cons)
      with "2.prems" "2.IH"(1) [of _ cur d] 2 have "error_within cur e" by simp
      with error_within_advances advances_trans [OF start advances_next [OF n]] show ?thesis by blast
    qed
  next
    case 3
    with "2.prems" "2.IH"(2) have "error_within (snd (cur_next (c # s, l))) e" by simp
    then show ?thesis by (rule error_within_advances [OF advances_next [OF prod.collapse [symmetric]]])
  qed (use "2.prems" in simp)
qed (auto simp: error_within_def)

lemma parse_fields_error:
  "parse_fields kw line fs strings token cur = Err e \<Longrightarrow> (\<exists>msg. e = cur_error line msg) \<or> error_within cur e"
proof (induction "length (fst cur)" arbitrary: fs strings token cur rule: less_induct)
  case less
  obtain x cur1 where x: "cur_next (skip_blank cur) = (x, cur1)" by (meson surj_pair)
  have adv: "advances cur cur1" by (rule advances_next_blank [OF x])
  show ?case
  proof (cases x)
    case None
    with less.prems x show ?thesis by (auto simp: parse_fields_steps)
  next
    case (Some c)
    with x have shorter: "length (fst cur1) < length (fst cur)" by (simp add: next_blank_shorter)
    have later: "(\<exists>msg. e = cur_error line msg) \<or> error_within cur e"
      if "advances cur1 cur2" "parse_fields kw line fs' strings' token' cur2 = Err e" for fs' strings' token' cur2
      using less.hyps [OF le_less_trans [OF advances_shorter [OF that(1)] shorter] that(2)]
        error_within_advances [OF advances_trans [OF adv that(1)]] by blast
    consider "c = QUOTE" | "c = COMMA" | "c = SEMICOLON" | "c \<notin> {QUOTE, COMMA, SEMICOLON}" by blast
    then show ?thesis
    proof cases
      case 1
      show ?thesis
      proof (cases "string_loop (case strings of None \<Rightarrow> [] | Some s \<Rightarrow> s) cur1")
        case (Inl e')
        with less.prems x Some 1 have "error_within cur1 e"
          using string_loop_error [OF Inl] by (simp add: parse_fields_steps(2))
        with error_within_advances [OF adv] show ?thesis by blast
      next
        case (Inr y)
        obtain s cur2 where y: "y = (s, cur2)" by (cases y)
        with less.prems x Some 1 Inr have "parse_fields kw line fs (Some s) token cur2 = Err e"
          by (simp add: parse_fields_steps(2))
        with advances_string_loop Inr y later show ?thesis by blast
      qed
    next
      case 2
      with less.prems x Some have "parse_fields kw line (fs @ [finish_field strings token]) None [] cur1 = Err e"
        by (simp add: parse_fields_steps(3))
      with later [OF advances_refl] show ?thesis .
    next
      case 3
      with less.prems x Some show ?thesis by (simp add: parse_fields_steps(4))
    next
      case 4
      obtain t cur2 where t: "token_loop (token @ [c]) cur1 = (t, cur2)" by (meson surj_pair)
      with less.prems x Some 4 have "parse_fields kw line fs strings t cur2 = Err e"
        by (simp add: parse_fields_steps(5))
      with later [OF advances_token_loop [OF t]] show ?thesis .
    qed
  qed
qed

lemma parse_entry_error:
  assumes "parse_entry cur (snd cur) = Err e"
  shows "error_within cur e"
proof (cases "keyword_loop [] cur")
  case (Inl e')
  with assms keyword_loop_error [OF Inl] show ?thesis by (simp add: parse_entry_def)
next
  case (Inr y)
  obtain kw cur1 where y: "y = (kw, cur1)" by (cases y)
  with assms Inr have "parse_fields (trim kw) (snd cur) [] None [] cur1 = Err e" by (simp add: parse_entry_def)
  from parse_fields_error [OF this] show ?thesis
    using error_here error_within_advances [OF advances_keyword_loop [OF Inr [unfolded y]]] by blast
qed

text \<open>The result of a run of the section loop from line \<open>l\<close>.\<close>

definition outcome_ok :: "Cursor \<Rightarrow> EdsSection list result \<Rightarrow> bool" where
  "outcome_ok cur r = (case r of
     Inl e \<Rightarrow> error_within cur e | Inr secs \<Rightarrow> sections_ok (snd cur + newlines (fst cur)) secs)"

lemma outcome_ok_advances: "advances cur cur' \<Longrightarrow> outcome_ok cur' r \<Longrightarrow> outcome_ok cur r"
  by (cases r) (auto simp: outcome_ok_def error_within_advances, auto simp: advances_def add.assoc)

text \<open>A turn of the loop ends it, or goes on later in the text with sections that are as good.\<close>

definition turn_ok :: "Cursor \<Rightarrow> EdsSection list \<Rightarrow> bool" where
  "turn_ok cur secs \<longleftrightarrow> (\<exists>e. parse_sections secs cur = Err e \<and> error_within cur e)
     \<or> (\<exists>secs' cur'. parse_sections secs cur = parse_sections secs' cur' \<and> advances cur cur'
          \<and> length (fst cur') < length (fst cur) \<and> sections_ok (snd cur') secs')"

lemma turn_ok_header:
  assumes "skip_blank cur = (LBRACKET # s, l)" "sections_ok l secs"
  shows "turn_ok cur secs"
proof -
  have "advances (LBRACKET # s, l) (s, l)" by (rule advances_char) simp
  then have adv: "advances cur (s, l)"
    by (rule advances_trans [OF advances_skip_blank [of cur, unfolded assms(1)]])
  show ?thesis
  proof (cases "header_loop [] (s, l)")
    case (Inl e)
    then have "parse_sections secs cur = Err e" by (subst parse_sections.simps) (simp add: assms(1))
    with error_within_advances [OF adv header_loop_error [OF Inl]] show ?thesis by (auto simp: turn_ok_def)
  next
    case (Inr y)
    obtain name cur' where h: "header_loop [] (s, l) = Ok (name, cur')" using Inr by (cases y) simp
    have p: "parse_sections secs cur = parse_sections (secs @ [\<lparr>s_name = trim name, s_entries = []\<rparr>]) cur'"
      using h by (subst parse_sections.simps) (simp add: assms(1))
    have "l \<le> snd cur'" using advances_header_loop [OF h] by (auto simp: advances_def)
    from sections_ok_header [OF sections_ok_mono [OF assms(2) this]] header_loop_ok [OF h]
    have "sections_ok (snd cur') (secs @ [\<lparr>s_name = trim name, s_entries = []\<rparr>])" by simp
    moreover have "length (fst cur') < length (fst cur)"
      using parse_sections_shorter(1) [of LBRACKET s l cur name cur'] h by (simp add: assms(1))
    ultimately show ?thesis
      using p advances_trans [OF adv advances_header_loop [OF h]] unfolding turn_ok_def by blast
  qed
qed

lemma turn_ok_entry:
  assumes "skip_blank cur = (c # s, l)" "c \<noteq> LBRACKET" "sections_ok l secs" "1 \<le> l"
  shows "turn_ok cur secs"
proof -
  have adv: "advances cur (c # s, l)" using advances_skip_blank [of cur] by (simp add: assms(1))
  show ?thesis
  proof (cases "parse_entry (c # s, l) l")
    case (Inl e)
    then have "parse_sections secs cur = Err e" using assms(2) by (subst parse_sections.simps) (simp add: assms(1))
    moreover have "error_within (c # s, l) e" using Inl by (intro parse_entry_error) simp
    ultimately show ?thesis using error_within_advances [OF adv] by (auto simp: turn_ok_def)
  next
    case (Inr y)
    obtain e cur' where en: "parse_entry (c # s, l) l = Ok (e, cur')" using Inr by (cases y) simp
    note adv' = advances_trans [OF adv advances_parse_entry [OF en]]
    show ?thesis
    proof (cases "push_entry secs e")
      case None
      then have "parse_sections secs cur = Err (cur_error (snd cur')
          (lit ''entry '' @ in_quotes (e_keyword e) @ lit '' before any section''))"
        using assms(2) en by (subst parse_sections.simps) (simp add: assms(1))
      with error_advanced [OF adv'] show ?thesis by (auto simp: turn_ok_def)
    next
      case (Some secs')
      then have p: "parse_sections secs cur = parse_sections secs' cur'"
        using assms(2) en by (subst parse_sections.simps) (simp add: assms(1))
      have "l \<le> snd cur'" using advances_parse_entry [OF en] by (auto simp: advances_def)
      moreover have "sections_ok l secs'"
        using sections_ok_push [OF assms(3) Some] parse_entry_ok [OF en] assms(4) by simp
      ultimately have "sections_ok (snd cur') secs'" by (rule sections_ok_mono [rotated])
      moreover have "length (fst cur') < length (fst cur)"
        using parse_sections_shorter(2) [of cur l e cur'] en by (simp add: assms(1))
      ultimately show ?thesis using p adv' unfolding turn_ok_def by blast
    qed
  qed
qed

lemma parse_sections_outcome:
  "sections_ok (snd cur) secs \<Longrightarrow> 1 \<le> snd cur \<Longrightarrow> outcome_ok cur (parse_sections secs cur)"
proof (induction "length (fst cur)" arbitrary: secs cur rule: less_induct)
  case less
  obtain s l where b: "skip_blank cur = (s, l)" by (meson surj_pair)
  have l: "snd cur \<le> l" "l \<le> snd cur + newlines (fst cur)"
    using advances_skip_blank [of cur] by (auto simp: b advances_def)
  note ok = sections_ok_mono [OF less.prems(1) l(1)]
  show ?case
  proof (cases s)
    case Nil
    then have "parse_sections secs cur = Ok secs" by (subst parse_sections.simps) (simp add: b)
    with sections_ok_mono [OF ok l(2)] show ?thesis by (simp add: outcome_ok_def)
  next
    case (Cons c s')
    have "turn_ok cur secs"
      using turn_ok_header [of cur s' l secs] turn_ok_entry [of cur c s' l secs] ok less.prems(2) l(1)
      by (cases "c = LBRACKET") (simp_all add: b Cons)
    then consider e where "parse_sections secs cur = Err e" "error_within cur e"
      | secs' cur' where "parse_sections secs cur = parse_sections secs' cur'" "advances cur cur'"
          "length (fst cur') < length (fst cur)" "sections_ok (snd cur') secs'"
      unfolding turn_ok_def by blast
    then show ?thesis
    proof cases
      case 1
      then show ?thesis by (simp add: outcome_ok_def)
    next
      case 2
      have "1 \<le> snd cur'" using 2(2) less.prems(2) by (auto simp: advances_def)
      with less.hyps [OF 2(3,4)] outcome_ok_advances [OF 2(2)] show ?thesis by (simp add: 2(1))
    qed
  qed
qed


section \<open>Integers\<close>

lemma trim_fmt_hex: "trim (fmt_hex n) = fmt_hex n"
  by (rule trim_fmt_dec_like)
    (auto simp: fmt_hex_def lit_eval is_whitespace_def dest!: radix_digits_bound [rotated],
      auto simp: digit_char_def split: if_splits)

lemma parse_int_hex: "n < 2 ^ 64 \<Longrightarrow> parse_int (fmt_hex n) = Some n"
proof -
  assume n: "n < 2 ^ 64"
  have "from_str_radix 16 (2 ^ 64) (map (digit_char False) (radix_digits 16 n)) = Some (digits_value 16 0 (radix_digits 16 n))"
    by (rule from_str_radix_map) (use n in \<open>auto simp: digits_value_radix_digits dest: radix_digits_bound [rotated]\<close>)
  then show ?thesis
    by (simp add: parse_int_def trim_fmt_hex Let_def digits_value_radix_digits) (simp add: fmt_hex_def)
qed

lemma parse_int_dec:
  assumes "n < 2 ^ 64" "\<forall>c \<in> set w \<union> set w'. is_whitespace c"
  shows "parse_int (w @ fmt_dec n @ w') = Some n"
proof -
  have digits: "\<forall>c \<in> set (fmt_dec n). \<not> is_whitespace c"
    by (auto simp: is_whitespace_def dest!: fmt_dec_digits)
  have "dropWhile is_whitespace (w @ fmt_dec n) = fmt_dec n"
    using assms(2) digits by (cases "fmt_dec n") (auto simp: dropWhile_append)
  then have "trim (w @ fmt_dec n) = trim (fmt_dec n)"
    by (simp add: trim_def trim_start_matches_def trim_start_id [unfolded trim_start_matches_def]) (use digits in \<open>cases "fmt_dec n"; auto\<close>)
  then have "trim ((w @ fmt_dec n) @ w') = fmt_dec n"
    using assms(2) trim_fmt_dec_like [OF digits] by (subst trim_append_spaces) auto
  moreover have "120 \<notin> set (fmt_dec n)" "88 \<notin> set (fmt_dec n)" using fmt_dec_digits [of _ n] by force+
  then have "take 2 (fmt_dec n) \<noteq> lit ''0x''" "take 2 (fmt_dec n) \<noteq> lit ''0X''"
    using set_take_subset [of 2 "fmt_dec n"] by (auto simp: lit_eval)
  ultimately show ?thesis using parse_fmt_dec [OF assms(1)] by (simp add: parse_int_def)
qed

section \<open>Properties\<close>

text \<open>C15: The parser accepts every text of the grammar, with comments, blanks, quoted strings in several parts and
  escapes wherever they may be, and returns exactly the sections the text stands for, each entry with the
  number of the line its keyword is on.\<close>
theorem parse_reads_grammar:
  assumes "file_text 1 secs text"
  shows "parse text = Ok secs"
  using parse_sections_file [OF assms, of "[]"] by (simp add: parse_def)

lemma parse_reads_grammar_witness:
  "parse (lit ''[A]$'' @ [NEWLINE] @ lit '' Key = 1 ,'' @ [QUOTE, 120, BACKSLASH, LETTER_N, QUOTE, NEWLINE, QUOTE, 121, QUOTE] @ lit '';$end'')
   = Ok [\<lparr>s_name = lit ''A'', s_entries = [\<lparr>e_keyword = lit ''Key'',
       e_fields = [Field_Token (lit ''1''), Field_Str [120, NEWLINE, 121]], e_line = 2\<rparr>]\<rparr>]"
proof (rule parse_reads_grammar)
  let ?sp = "[32] :: rstr"
  have sp: "blank ?sp" by (intro blank.intros) (simp add: is_whitespace_def)
  have nl: "blank [NEWLINE]" by (intro blank.intros) (simp add: is_whitespace_def)
  have start: "blank (DOLLAR # [] @ NEWLINE # ?sp)" by (intro blank.comment sp) simp
  have one: "field_text (Field_Token (lit ''1'')) (?sp @ lit ''1'' @ ?sp)"
    by (intro field_text.token sp)
      (simp add: token_ok_def lit_eval trim_def trim_start_matches_def trim_end_matches_def is_whitespace_def)
  have e1: "escaped [120, NEWLINE] [120, BACKSLASH, LETTER_N]" by (intro escaped.intros) simp_all
  have e2: "escaped [121] [121]" by (intro escaped.intros) simp_all
  have two: "field_text (Field_Str ([120, NEWLINE] @ [121])) ([] @ QUOTE # [120, BACKSLASH, LETTER_N] @ QUOTE # [NEWLINE] @ QUOTE # [121] @ QUOTE # [])"
    by (intro field_text.strings blank.none strings_text.more strings_text.one e1 e2 nl)
  have kw: "keyword_ok (lit ''Key '')" by (simp add: keyword_ok_def lit_eval is_whitespace_def)
  note en = entry_text.intros [OF start kw fields_text.comma [OF one fields_text.last [OF two]], of "1 + newlines []"]
  note sec = section_text.intros [OF blank.none, of "lit ''A''" 1, OF _ entries_text.more [OF en entries_text.none]]
  have fin: "final_blank (lit ''$end'')"
    unfolding final_blank_def
    by (intro disjI2 exI [of _ "[]"] exI [of _ "lit ''end''"]) (simp add: blank.none lit_eval)
  show "file_text 1 [\<lparr>s_name = lit ''A'', s_entries = [\<lparr>e_keyword = lit ''Key'',
       e_fields = [Field_Token (lit ''1''), Field_Str [120, NEWLINE, 121]], e_line = 2\<rparr>]\<rparr>]
     (lit ''[A]$'' @ [NEWLINE] @ lit '' Key = 1 ,'' @ [QUOTE, 120, BACKSLASH, LETTER_N, QUOTE, NEWLINE, QUOTE, 121, QUOTE] @ lit '';$end'')"
    using file_text.section_ [OF sec file_text.final [OF fin]]
    by (simp add: numeral_2_eq_2 [symmetric] lit_eval trim_def trim_start_matches_def trim_end_matches_def is_whitespace_def)
qed

text \<open>C16: Whatever the text is, the parser returns, without a panic: either sections in which every name and
  keyword is trimmed, every entry has a field, every token is non-empty, trimmed and free of separators,
  quotes, comments and newlines, and the line numbers of the entries ascend within the text; or an
  \<open>Error::Eds\<close> that names a line of the text.\<close>
theorem parse_outcome:
  "case parse text of
     Inr secs \<Rightarrow> sections_ok (1 + newlines text) secs
   | Inl e \<Rightarrow> (\<exists>n msg. e = Eds (lit ''line '' @ fmt_dec n @ lit '': '' @ msg) \<and> 1 \<le> n \<and> n \<le> 1 + newlines text)"
proof -
  have "sections_ok 1 []" by (simp add: sections_ok_def entry_lines_def)
  from parse_sections_outcome [of "(text, 1)" "[]"] this
  show ?thesis by (auto simp: parse_def outcome_ok_def error_within_def cur_error_def split: sum.split)
qed

end
