(* ===== verification/Eds.thy ===== *)
theory Eds
  imports Eds_Parse Forward_Open
begin

text \<open>
  EDS files (src/src/eds/mod.rs): lookup of sections and entries, the typed accessors, and the connection
  configuration an EDS connection entry stands for. \<open>usize\<close> is 64 bits wide, and the sum of member sizes
  wraps around as in a release build. The file read itself is left out, the conversion of its bytes to text
  (\<open>from_utf8_lossy\<close>) is part of \<open>Eds::read\<close>'s model.
\<close>

section \<open>Data\<close>

record Eds =
  eds_sections :: "EdsSection list"

record EdsDevice =
  ed_vendor_id :: u16
  ed_vendor_name :: rstr
  ed_product_type :: u16
  ed_product_code :: u16
  ed_major_revision :: u8
  ed_minor_revision :: u8
  ed_product_name :: rstr
  ed_catalog :: rstr

record EdsParam =
  ep_number :: nat
  ep_data_type :: CipDataType
  ep_data_size :: nat
  ep_name :: rstr
  ep_units :: rstr
  ep_help :: rstr
  ep_min :: "rstr option"
  ep_max :: "rstr option"
  ep_default :: "rstr option"

definition default_int :: "EdsParam \<Rightarrow> nat option" where
  "default_int p = Option.bind (ep_default p) parse_int"

record EdsAssembly =
  ea_number :: nat
  ea_name :: rstr
  ea_size :: nat

record EdsRpi =
  rpi_min :: "u32 option"
  rpi_max :: "u32 option"
  rpi_default :: "u32 option"

record EdsDirection =
  edir_rpi :: "EdsRpi option"
  edir_size :: nat
  edir_assembly :: "nat option"

record EdsConnection =
  ec_number :: nat
  ec_name :: rstr
  ec_help :: rstr
  ec_trigger_transport :: u32
  ec_connection_params :: u32
  ec_o2t :: EdsDirection
  ec_t2o :: EdsDirection
  ec_config_assembly :: "nat option"
  ec_path :: ConnectionPath

section \<open>Lookup\<close>

definition eds_parse :: "rstr \<Rightarrow> Eds result" where
  "eds_parse text = rbind (parse text) (\<lambda>secs. Ok \<lparr>eds_sections = secs\<rparr>)"

definition eds_read :: "bytes \<Rightarrow> Eds result" where
  "eds_read file = eds_parse (from_utf8_lossy file)"

definition eds_section :: "Eds \<Rightarrow> rstr \<Rightarrow> EdsSection option" where
  "eds_section eds name = find (\<lambda>s. eq_ignore_ascii_case (s_name s) name) (eds_sections eds)"

definition eds_entry :: "Eds \<Rightarrow> rstr \<Rightarrow> rstr \<Rightarrow> EdsEntry result" where
  "eds_entry eds sec kw =
     ok_or (Option.bind (eds_section eds sec) (\<lambda>s. section_get s kw))
       (error.Eds (lit ''['' @ sec @ lit ''] has no entry '' @ in_quotes kw))"

text \<open>A prefix in any case, then a decimal \<open>u32\<close>.\<close>

definition numbered :: "rstr \<Rightarrow> rstr \<Rightarrow> nat option" where
  "numbered text pre =
     (case split_at_byte (length (as_bytes pre)) text of
        None \<Rightarrow> None
      | Some (head, rest) \<Rightarrow>
          if \<not> eq_ignore_ascii_case head pre then None else from_str_radix 10 (2 ^ 32) rest)"

definition text_field :: "EdsEntry \<Rightarrow> nat \<Rightarrow> rstr" where
  "text_field e i = (case field_string (entry_field e i) of None \<Rightarrow> [] | Some t \<Rightarrow> t)"

definition int_field :: "EdsEntry \<Rightarrow> nat \<Rightarrow> (nat option) result" where
  "int_field e i =
     (case field_string (entry_field e i) of
        None \<Rightarrow> Ok None
      | Some t \<Rightarrow>
          ok_or (map_option Some (parse_int t))
            (error.Eds (lit ''line '' @ fmt_dec (e_line e) @ lit '': '' @ in_quotes (e_keyword e) @ lit '' field '' @
              fmt_dec i @ lit '' is not a number: '' @ in_quotes t)))"

section \<open>Device, parameters, assemblies\<close>

definition device_text :: "Eds \<Rightarrow> rstr \<Rightarrow> rstr result" where
  "device_text eds key = rbind (eds_entry eds (lit ''Device'') key) (\<lambda>e. Ok (text_field e 0))"

definition device_int :: "Eds \<Rightarrow> rstr \<Rightarrow> nat result" where
  "device_int eds key =
     rbind (eds_entry eds (lit ''Device'') key) (\<lambda>e. rbind (int_field e 0) (\<lambda>v.
       ok_or v (error.Eds (lit ''line '' @ fmt_dec (e_line e) @ lit '': '' @ key @ lit '' is empty''))))"

definition eds_device :: "Eds \<Rightarrow> EdsDevice result" where
  "eds_device eds =
     rbind (device_int eds (lit ''VendCode'')) (\<lambda>vendor_id.
     rbind (device_text eds (lit ''VendName'')) (\<lambda>vendor_name.
     rbind (device_int eds (lit ''ProdType'')) (\<lambda>product_type.
     rbind (device_int eds (lit ''ProdCode'')) (\<lambda>product_code.
     rbind (device_int eds (lit ''MajRev'')) (\<lambda>major.
     rbind (device_int eds (lit ''MinRev'')) (\<lambda>minor.
     rbind (device_text eds (lit ''ProdName'')) (\<lambda>product_name.
     Ok \<lparr>ed_vendor_id = of_nat vendor_id, ed_vendor_name = vendor_name, ed_product_type = of_nat product_type,
         ed_product_code = of_nat product_code, ed_major_revision = of_nat major, ed_minor_revision = of_nat minor,
         ed_product_name = product_name,
         ed_catalog = (case device_text eds (lit ''Catalog'') of Inr t \<Rightarrow> t | Inl _ \<Rightarrow> [])\<rparr>)))))))"

definition eds_param :: "Eds \<Rightarrow> nat \<Rightarrow> EdsParam result" where
  "eds_param eds number =
     rbind (eds_entry eds (lit ''Params'') (lit ''Param'' @ fmt_dec number)) (\<lambda>e.
     rbind (int_field e 4) (\<lambda>data_type.
     rbind (int_field e 5) (\<lambda>data_size.
     Ok \<lparr>ep_number = number, ep_data_type = CipDataType (of_nat (case data_type of None \<Rightarrow> 0 | Some v \<Rightarrow> v)),
         ep_data_size = (case data_size of None \<Rightarrow> 0 | Some v \<Rightarrow> v),
         ep_name = text_field e 6, ep_units = text_field e 7, ep_help = text_field e 8,
         ep_min = field_string (entry_field e 9), ep_max = field_string (entry_field e 10),
         ep_default = field_string (entry_field e 11)\<rparr>)))"

text \<open>The sizes in bits of an assembly's members: fields 6, 8, 10, ... that are numbers.\<close>

definition member_bits :: "EdsEntry \<Rightarrow> nat" where
  "member_bits e =
     sum_list (map (\<lambda>f. case Option.bind (field_string f) parse_int of None \<Rightarrow> 0 | Some n \<Rightarrow> n)
       (every_second (drop 6 (e_fields e)))) mod 2 ^ 64"

definition eds_assembly :: "Eds \<Rightarrow> nat \<Rightarrow> EdsAssembly result" where
  "eds_assembly eds number =
     rbind (eds_entry eds (lit ''Assembly'') (lit ''Assem'' @ fmt_dec number)) (\<lambda>e.
     rbind (int_field e 2) (\<lambda>bytes.
     Ok \<lparr>ea_number = number, ea_name = text_field e 0,
         ea_size = (case bytes of Some n \<Rightarrow> n | None \<Rightarrow> div_ceil (member_bits e) 8)\<rparr>))"


section \<open>Connections\<close>

definition param_int :: "rstr option \<Rightarrow> u32 option" where
  "param_int v = map_option of_nat (Option.bind v parse_int)"

text \<open>The packet interval a field gives: the limits of a parameter, or one fixed value.\<close>

definition rpi_field :: "Eds \<Rightarrow> EdsEntry \<Rightarrow> nat \<Rightarrow> (EdsRpi option) result" where
  "rpi_field eds e first =
     (case field_string (entry_field e first) of
        None \<Rightarrow> Ok None
      | Some t \<Rightarrow>
         (case numbered t (lit ''Param'') of
            Some n \<Rightarrow> rbind (eds_param eds n) (\<lambda>p. Ok (Some
              \<lparr>rpi_min = param_int (ep_min p), rpi_max = param_int (ep_max p), rpi_default = param_int (ep_default p)\<rparr>))
          | None \<Rightarrow>
              let v = map_option of_nat (parse_int t)
              in Ok (Some \<lparr>rpi_min = v, rpi_max = v, rpi_default = v\<rparr>)))"

text \<open>The size: a parameter's default, a number, or the size of the assembly the format field names.\<close>

definition size_field :: "Eds \<Rightarrow> EdsEntry \<Rightarrow> nat \<Rightarrow> nat option \<Rightarrow> nat result" where
  "size_field eds e i assembly =
     (case field_string (entry_field e i) of
        Some t \<Rightarrow>
         (case numbered t (lit ''Param'') of
            Some n \<Rightarrow> rbind (eds_param eds n) (\<lambda>p. Ok (case default_int p of None \<Rightarrow> 0 | Some v \<Rightarrow> v))
          | None \<Rightarrow> ok_or (parse_int t)
              (error.Eds (lit ''line '' @ fmt_dec (e_line e) @ lit '': bad connection size '' @ in_quotes t)))
      | None \<Rightarrow>
         (case assembly of
            Some n \<Rightarrow> rbind (eds_assembly eds n) (\<lambda>a. Ok (ea_size a))
          | None \<Rightarrow> Ok 0))"

definition eds_direction :: "Eds \<Rightarrow> EdsEntry \<Rightarrow> nat \<Rightarrow> EdsDirection result" where
  "eds_direction eds e first =
     rbind (rpi_field eds e first) (\<lambda>rpi.
       let assembly = Option.bind (field_string (entry_field e (first + 2))) (\<lambda>t. numbered t (lit ''Assem''))
       in rbind (size_field eds e (first + 1) assembly) (\<lambda>sz.
       Ok \<lparr>edir_rpi = rpi, edir_size = sz, edir_assembly = assembly\<rparr>))"

text \<open>One token of a path: hex, or a parameter whose default value is inserted in little-endian order.\<close>

definition path_token :: "Eds \<Rightarrow> rstr \<Rightarrow> bytes result" where
  "path_token eds token =
     (let name = trim_end_matches (\<lambda>c. c = 93) (trim_start_matches (\<lambda>c. c = 91) token) in
      case numbered name (lit ''Param'') of
        Some n \<Rightarrow>
          rbind (eds_param eds n) (\<lambda>p.
          rbind (ok_or (default_int p) (error.Eds (lit ''Param'' @ fmt_dec n @ lit '' in path has no default value'')))
            (\<lambda>v. Ok (take (max 1 (min (ep_data_size p) 8)) (le64 (of_nat v)))))
      | None \<Rightarrow>
          rbind (ok_or (from_str_radix 16 256 token) (error.Eds (lit ''unsupported path token '' @ in_quotes token)))
            (\<lambda>b. Ok [of_nat b]))"

fun path_tokens :: "Eds \<Rightarrow> rstr list \<Rightarrow> bytes \<Rightarrow> bytes result" where
  "path_tokens eds [] acc = Ok acc"
| "path_tokens eds (t # ts) acc = rbind (path_token eds t) (\<lambda>bs. path_tokens eds ts (acc @ bs))"

definition resolve_path :: "Eds \<Rightarrow> rstr \<Rightarrow> ConnectionPath result" where
  "resolve_path eds text = rbind (path_tokens eds (split_whitespace text) []) (\<lambda>bs. Ok (ConnectionPath bs))"

definition required :: "nat \<Rightarrow> EdsEntry \<Rightarrow> nat \<Rightarrow> rstr \<Rightarrow> u32 result" where
  "required number e i what =
     rbind (int_field e i) (\<lambda>v.
       ok_or (map_option of_nat v)
         (error.Eds (lit ''line '' @ fmt_dec (e_line e) @ lit '': Connection'' @ fmt_dec number @ lit '' has no '' @ what)))"

definition decode_connection :: "Eds \<Rightarrow> nat \<Rightarrow> EdsEntry \<Rightarrow> EdsConnection result" where
  "decode_connection eds number e =
     rbind (required number e 0 (lit ''trigger and transport field'')) (\<lambda>tt.
     rbind (required number e 1 (lit ''connection parameters field'')) (\<lambda>cp.
     rbind (eds_direction eds e 2) (\<lambda>o2t.
     rbind (eds_direction eds e 5) (\<lambda>t2o.
     rbind (case resolve_path eds (text_field e 14) of
              Inl err \<Rightarrow> Err (error.Eds (lit ''line '' @ fmt_dec (e_line e) @ lit '': Connection'' @ fmt_dec number @
                lit '': '' @ display_error err))
            | Inr p \<Rightarrow> Ok p) (\<lambda>path.
     Ok \<lparr>ec_number = number, ec_name = text_field e 12, ec_help = text_field e 13, ec_trigger_transport = tt,
         ec_connection_params = cp, ec_o2t = o2t, ec_t2o = t2o,
         ec_config_assembly =
           (case Option.bind (field_string (entry_field e 9)) (\<lambda>t. numbered t (lit ''Assem'')) of
              Some n \<Rightarrow> Some n
            | None \<Rightarrow> Option.bind (field_string (entry_field e 11)) (\<lambda>t. numbered t (lit ''Assem''))),
         ec_path = path\<rparr>)))))"

definition eds_connections :: "Eds \<Rightarrow> (EdsConnection list) result" where
  "eds_connections eds =
     (case eds_section eds (lit ''Connection Manager'') of
        None \<Rightarrow> Ok []
      | Some s \<Rightarrow>
          collect (map (\<lambda>(n, e). decode_connection eds n e)
            (List.map_filter (\<lambda>e. map_option (\<lambda>n. (n, e)) (numbered (e_keyword e) (lit ''Connection''))) (s_entries s))))"

definition eds_connection :: "Eds \<Rightarrow> nat \<Rightarrow> EdsConnection result" where
  "eds_connection eds number =
     rbind (eds_entry eds (lit ''Connection Manager'') (lit ''Connection'' @ fmt_dec number)) (decode_connection eds number)"

section \<open>The connection configuration\<close>

definition eds_bit :: "u32 \<Rightarrow> nat \<Rightarrow> bool" where
  "eds_bit v n \<longleftrightarrow> v AND push_bit n 1 \<noteq> 0"

abbreviation FORMAT_HEADER :: u32 where "FORMAT_HEADER \<equiv> 4"

definition unsupported_connection :: "EdsConnection \<Rightarrow> rstr \<Rightarrow> error" where
  "unsupported_connection ec what =
     Unsupported (lit ''Connection'' @ fmt_dec (ec_number ec) @ lit '' ('' @ ec_name ec @ lit ''): '' @ what)"

text \<open>The closure \<open>direction\<close>.\<close>

definition config_direction :: "EdsConnection \<Rightarrow> nat \<Rightarrow> nat \<Rightarrow> EdsDirection \<Rightarrow> rstr \<Rightarrow> Direction result" where
  "config_direction ec shift fixed_bit dir name =
     (let cp = ec_connection_params ec in
      rbind (if eds_bit cp (18 + shift) then Ok CT_PointToPoint
             else if eds_bit cp (16 + shift) then Ok CT_Null
             else Err (unsupported_connection ec (name @ lit '' is not point-to-point''))) (\<lambda>connection_type.
      let priority = (if eds_bit cp (26 + shift) then Prio_Scheduled
                      else if eds_bit cp (25 + shift) then Prio_High else Prio_Low);
          rpi_us = (case Option.bind (edir_rpi dir) (\<lambda>r. case rpi_default r of None \<Rightarrow> rpi_min r | Some d \<Rightarrow> Some d) of
                      None \<Rightarrow> 10000 | Some v \<Rightarrow> v)
      in Ok \<lparr>dir_size = of_nat (edir_size dir), dir_rpi = from_micros (unat rpi_us),
             dir_connection_type = connection_type, dir_priority = priority,
             dir_size_type = (if eds_bit cp fixed_bit then Fixed else Variable),
             dir_run_idle_header = (drop_bit (8 + shift) cp AND 0x7 = FORMAT_HEADER)\<rparr>))"

definition to_connection_config :: "EdsConnection \<Rightarrow> ConnectionConfig result" where
  "to_connection_config ec =
     (let tt = ec_trigger_transport ec in
      rbind (if eds_bit tt 1 then Ok Class1 else if eds_bit tt 0 then Ok Class0
             else Err (unsupported_connection ec (lit ''only transport classes 0 and 1 are supported for I/O'')))
        (\<lambda>transport_class.
      let trigger = (if eds_bit tt 17 \<and> \<not> eds_bit tt 16 then ChangeOfState
                     else if eds_bit tt 18 \<and> \<not> eds_bit tt 16 then Application else Cyclic)
      in
      rbind (config_direction ec 0 0 (ec_o2t ec) (lit ''O->T'')) (\<lambda>o2t.
      rbind (config_direction ec 4 2 (ec_t2o ec) (lit ''T->O'')) (\<lambda>t2o.
      Ok ((config_new (ec_path ec) o2t t2o)\<lparr>cc_transport_class := transport_class, cc_trigger := trigger\<rparr>)))))"


section \<open>Bits\<close>

lemma eds_bit_iff: "eds_bit v n \<longleftrightarrow> bit v n"
  unfolding eds_bit_def by (simp add: bit_iff_and_push_bit_not_eq_0)

lemma bit_7_4: "bit (7 :: u32) n \<longleftrightarrow> n < 3" "bit (4 :: u32) n \<longleftrightarrow> n = 2"
proof -
  have n: "(7 :: u32) = mask 3" "(4 :: u32) = 2 ^ 2" by (simp_all add: mask_eq_exp_minus_1)
  show "bit (7 :: u32) n \<longleftrightarrow> n < 3"
    unfolding n(1) by (simp only: bit_mask_iff possible_bit_word) auto
  show "bit (4 :: u32) n \<longleftrightarrow> n = 2"
    unfolding n(2) by (simp only: bit_exp_iff possible_bit_word) auto
qed

lemma format_header_iff:
  "drop_bit k (v :: u32) AND 7 = FORMAT_HEADER \<longleftrightarrow> bit v (k + 2) \<and> \<not> bit v (k + 1) \<and> \<not> bit v k"
proof
  assume "drop_bit k v AND 7 = FORMAT_HEADER"
  then have "bit (drop_bit k v AND 7) n \<longleftrightarrow> bit (FORMAT_HEADER) n" for n by simp
  from this [of 0] this [of 1] this [of 2] show "bit v (k + 2) \<and> \<not> bit v (k + 1) \<and> \<not> bit v k"
    by (simp add: bit_and_iff bit_drop_bit_eq bit_7_4)
next
  assume v: "bit v (k + 2) \<and> \<not> bit v (k + 1) \<and> \<not> bit v k"
  show "drop_bit k v AND 7 = FORMAT_HEADER"
  proof (rule bit_eqI)
    fix n :: nat
    have "n < 3 \<longleftrightarrow> n = 0 \<or> n = 1 \<or> n = 2" by linarith
    with v show "bit (drop_bit k v AND 7) n \<longleftrightarrow> bit FORMAT_HEADER n"
      by (simp only: bit_and_iff bit_drop_bit_eq bit_7_4 o_apply) auto
  qed
qed

text \<open>
  The fields an EDS would give a configuration: the support bits of exactly its options, its sizes, and its
  packet intervals as defaults.
\<close>

definition direction_bits :: "Direction \<Rightarrow> u32" where
  "direction_bits d =
     push_bit 2 (of_bool (dir_run_idle_header d))
     OR push_bit 8 (of_bool (dir_connection_type d = CT_Null)) OR push_bit 10 (of_bool (dir_connection_type d = CT_PointToPoint))
     OR push_bit 16 (of_bool (dir_priority d = Prio_Low)) OR push_bit 17 (of_bool (dir_priority d = Prio_High))
     OR push_bit 18 (of_bool (dir_priority d = Prio_Scheduled))"

definition params_bits :: "ConnectionConfig \<Rightarrow> u32" where
  "params_bits c =
     of_bool (dir_size_type (cc_o2t c) = Fixed) OR push_bit 1 (of_bool (dir_size_type (cc_o2t c) = Variable))
     OR push_bit 2 (of_bool (dir_size_type (cc_t2o c) = Fixed)) OR push_bit 3 (of_bool (dir_size_type (cc_t2o c) = Variable))
     OR push_bit 8 (direction_bits (cc_o2t c)) OR push_bit 12 (direction_bits (cc_t2o c))"

definition transport_bits :: "ConnectionConfig \<Rightarrow> u32" where
  "transport_bits c =
     of_bool (cc_transport_class c = Class0) OR push_bit 1 (of_bool (cc_transport_class c = Class1))
     OR push_bit 16 (of_bool (cc_trigger c = Cyclic)) OR push_bit 17 (of_bool (cc_trigger c = ChangeOfState))
     OR push_bit 18 (of_bool (cc_trigger c = Application))"

definition describes_direction :: "EdsDirection \<Rightarrow> Direction \<Rightarrow> bool" where
  "describes_direction ed d \<longleftrightarrow> edir_size ed = unat (dir_size d)
     \<and> (\<exists>r us. edir_rpi ed = Some r \<and> rpi_default r = Some us \<and> dir_rpi d = from_micros (unat us))
     \<and> dir_connection_type d \<in> {CT_Null, CT_PointToPoint} \<and> dir_priority d \<noteq> Prio_Urgent"

definition describes :: "EdsConnection \<Rightarrow> ConnectionConfig \<Rightarrow> bool" where
  "describes ec c \<longleftrightarrow> ec_path ec = cc_path c \<and> ec_trigger_transport ec = transport_bits c
     \<and> ec_connection_params ec = params_bits c
     \<and> describes_direction (ec_o2t ec) (cc_o2t c) \<and> describes_direction (ec_t2o ec) (cc_t2o c)
     \<and> cc_transport_class c \<in> {Class0, Class1}"

lemma bit_flag:
  "bit (push_bit m (of_bool b :: u32)) n \<longleftrightarrow> b \<and> n = m \<and> m < 32"
  "bit (of_bool b :: u32) n \<longleftrightarrow> b \<and> n = 0"
  by (simp_all only: bit_push_bit_iff bit_of_bool_iff possible_bit_word) auto

lemma bit_direction_bits:
  "bit (direction_bits d) n \<longleftrightarrow> (n = 2 \<and> dir_run_idle_header d)
     \<or> (n = 8 \<and> dir_connection_type d = CT_Null) \<or> (n = 10 \<and> dir_connection_type d = CT_PointToPoint)
     \<or> (n = 16 \<and> dir_priority d = Prio_Low) \<or> (n = 17 \<and> dir_priority d = Prio_High)
     \<or> (n = 18 \<and> dir_priority d = Prio_Scheduled)"
  by (simp only: direction_bits_def bit_or_iff bit_flag) auto

lemma bit_params_bits:
  "n < 32 \<Longrightarrow> bit (params_bits c) n \<longleftrightarrow> (n = 0 \<and> dir_size_type (cc_o2t c) = Fixed)
     \<or> (n = 1 \<and> dir_size_type (cc_o2t c) = Variable) \<or> (n = 2 \<and> dir_size_type (cc_t2o c) = Fixed)
     \<or> (n = 3 \<and> dir_size_type (cc_t2o c) = Variable)
     \<or> (8 \<le> n \<and> bit (direction_bits (cc_o2t c)) (n - 8)) \<or> (12 \<le> n \<and> bit (direction_bits (cc_t2o c)) (n - 12))"
  by (simp only: params_bits_def bit_or_iff bit_flag bit_push_bit_iff [of _ "direction_bits d" for d]) auto

lemma bit_transport_bits:
  "bit (transport_bits c) n \<longleftrightarrow> (n = 0 \<and> cc_transport_class c = Class0) \<or> (n = 1 \<and> cc_transport_class c = Class1)
     \<or> (n = 16 \<and> cc_trigger c = Cyclic) \<or> (n = 17 \<and> cc_trigger c = ChangeOfState) \<or> (n = 18 \<and> cc_trigger c = Application)"
  by (simp only: transport_bits_def bit_or_iff bit_flag) auto

lemma config_direction_bits:
  assumes "describes_direction ed d" "shift = 0 \<and> fb = 0 \<and> d = cc_o2t c \<or> shift = 4 \<and> fb = 2 \<and> d = cc_t2o c"
    and "ec_connection_params ec = params_bits c"
  shows "config_direction ec shift fb ed name = Ok d"
proof -
  obtain r us where r: "edir_rpi ed = Some r" "rpi_default r = Some us" "dir_rpi d = from_micros (unat us)"
    using assms(1) by (auto simp: describes_direction_def)
  have ty: "dir_connection_type d = CT_Null \<or> dir_connection_type d = CT_PointToPoint"
    and pr: "dir_priority d \<noteq> Prio_Urgent" and sz: "edir_size ed = unat (dir_size d)"
    using assms(1) by (auto simp: describes_direction_def)
  have bits: "bit (params_bits c) (18 + shift) \<longleftrightarrow> dir_connection_type d = CT_PointToPoint"
    "bit (params_bits c) (16 + shift) \<longleftrightarrow> dir_connection_type d = CT_Null"
    "bit (params_bits c) (26 + shift) \<longleftrightarrow> dir_priority d = Prio_Scheduled"
    "bit (params_bits c) (25 + shift) \<longleftrightarrow> dir_priority d = Prio_High"
    "bit (params_bits c) fb \<longleftrightarrow> dir_size_type d = Fixed"
    "drop_bit (8 + shift) (params_bits c) AND 7 = FORMAT_HEADER \<longleftrightarrow> dir_run_idle_header d"
    using assms(2) by (auto simp: bit_params_bits bit_direction_bits format_header_iff)
  show ?thesis
    using ty pr r(3)
    by (cases d; cases "dir_priority d"; cases "dir_size_type d")
      (auto simp: config_direction_def assms(3) eds_bit_iff bits r sz Let_def)
qed


section \<open>Paths and numbers\<close>

lemma as_bytes_ascii: "\<forall>c \<in> set s. c < 128 \<Longrightarrow> length (as_bytes s) = length s"
  by (induction s) (simp_all add: as_bytes_def encode_char_def)

lemma split_at_byte_ascii: "\<forall>c \<in> set s. c < 128 \<Longrightarrow> split_at_byte (length s) (s @ t) = Some (s, t)"
  by (induction s) (simp_all add: utf8_len_def, cases t, simp_all)

lemma numbered_lit:
  assumes "\<forall>c \<in> set pre. c < 128" "length h = length pre" "\<forall>c \<in> set h. c < 128"
    and "eq_ignore_ascii_case h pre" "n < 2 ^ 32"
  shows "numbered (h @ fmt_dec n) pre = Some n"
  using split_at_byte_ascii [OF assms(3), of "fmt_dec n"] assms(4,5)
  by (simp add: numbered_def as_bytes_ascii [OF assms(1)] assms(2) [symmetric] parse_fmt_dec)

lemma split_at_byte_short: "\<forall>c \<in> set s. c < 128 \<Longrightarrow> length s < n \<Longrightarrow> split_at_byte n s = None"
  by (induction s arbitrary: n) (auto simp: utf8_len_def)

lemma numbered_short: "\<forall>c \<in> set s. c < 128 \<Longrightarrow> \<forall>c \<in> set pre. c < 128 \<Longrightarrow> length s < length pre \<Longrightarrow> numbered s pre = None"
  by (simp add: numbered_def as_bytes_ascii split_at_byte_short)

abbreviation (input) PARAM :: rstr where "PARAM \<equiv> lit ''Param''"

lemma param_ascii [simp]: "\<forall>c \<in> set PARAM. c < 128"
  by (simp add: lit_eval)

text \<open>A path as EDS files write it: bytes in hex, and references to parameters, in brackets or not.\<close>

datatype path_item = PathByte u8 | PathParam bool nat

fun item_text :: "path_item \<Rightarrow> rstr" where
  "item_text (PathByte b) = fmt_02X (unat b)"
| "item_text (PathParam brackets n) =
     (if brackets then [91] @ PARAM @ fmt_dec n @ [93] else PARAM @ fmt_dec n)"

fun item_bytes :: "Eds \<Rightarrow> path_item \<Rightarrow> bytes" where
  "item_bytes eds (PathByte b) = [b]"
| "item_bytes eds (PathParam _ n) =
     (case eds_param eds n of
        Inr p \<Rightarrow> take (max 1 (min (ep_data_size p) 8)) (le64 (of_nat (the (default_int p))))
      | Inl _ \<Rightarrow> [])"

definition item_resolves :: "Eds \<Rightarrow> path_item \<Rightarrow> bool" where
  "item_resolves eds x = (case x of
     PathByte _ \<Rightarrow> True
   | PathParam _ n \<Rightarrow> n < 2 ^ 32 \<and> (\<exists>p v. eds_param eds n = Ok p \<and> default_int p = Some v))"

lemma path_token_param:
  assumes "item_resolves eds (PathParam brackets n)"
  shows "path_token eds (item_text (PathParam brackets n)) = Ok (item_bytes eds (PathParam brackets n))"
proof -
  let ?s = "PARAM @ fmt_dec n"
  obtain p v where p: "n < 2 ^ 32" "eds_param eds n = Ok p" "default_int p = Some v"
    using assms by (auto simp: item_resolves_def)
  have num: "numbered ?s PARAM = Some n" using p(1) by (intro numbered_lit) simp_all
  have ends: "hd ?s \<noteq> 91" "last ?s \<noteq> 93"
    using fmt_dec_digits [of "last (fmt_dec n)" n] by (auto simp: lit_eval)
  have start: "trim_start_matches (\<lambda>c. c = 91) ?s = ?s" "trim_start_matches (\<lambda>c. c = 91) (91 # ?s @ [93]) = ?s @ [93]"
    using ends(1) by (simp_all add: trim_start_matches_def lit_eval)
  have "trim_end_matches (\<lambda>c. c = 93) ?s = ?s" using ends(2) by (intro trim_end_id) simp
  moreover from this have "trim_end_matches (\<lambda>c. c = 93) (?s @ [93]) = ?s"
    by (simp add: trim_end_matches_def)
  ultimately have "numbered (trim_end_matches (\<lambda>c. c = 93) (trim_start_matches (\<lambda>c. c = 91) (item_text (PathParam brackets n)))) PARAM = Some n"
    using num start by (cases brackets) simp_all
  then show ?thesis by (simp add: path_token_def p del: item_text.simps)
qed

lemma path_token_byte: "path_token eds (fmt_02X (unat b)) = Ok [b :: u8]"
proof -
  have b: "unat b < 256" using unsigned_less [of b] by simp
  have digit: "digit_char True d < 128 \<and> digit_char True d \<noteq> 91 \<and> digit_char True d \<noteq> 93" if "d < 16" for d
    using that by (auto simp: digit_char_def)
  have "unat b div 16 < 16" "unat b mod 16 < 16" using b by auto
  note ds = digit [OF this(1)] digit [OF this(2)]
  have "trim_end_matches (\<lambda>c. c = 93) (trim_start_matches (\<lambda>c. c = 91) (fmt_02X (unat b))) = fmt_02X (unat b)"
    using ds by (simp add: fmt_02X_byte [OF b] trim_start_matches_def trim_end_matches_def)
  moreover have "numbered (fmt_02X (unat b)) PARAM = None"
    using ds by (intro numbered_short) (simp_all add: fmt_02X_byte [OF b])
  ultimately show ?thesis by (simp add: path_token_def parse_fmt_02X [OF b])
qed

lemma item_text_word: "item_text x \<noteq> [] \<and> list_all (\<lambda>c. \<not> is_whitespace c) (item_text x)"
proof (cases x)
  case (PathByte b)
  have b: "unat b < 256" using unsigned_less [of b] by simp
  then have "unat b div 16 < 36" "unat b mod 16 < 36" by auto
  then show ?thesis by (simp add: PathByte fmt_02X_byte [OF b])
next
  case (PathParam brackets n)
  have "list_all (\<lambda>c. \<not> is_whitespace c) (fmt_dec n)"
    by (auto simp: list_all_iff is_whitespace_def dest!: fmt_dec_digits)
  then show ?thesis by (simp add: PathParam lit_eval is_whitespace_def)
qed

lemma path_tokens_items:
  "\<forall>x \<in> set xs. item_resolves eds x \<Longrightarrow> path_tokens eds (map item_text xs) acc = Ok (acc @ concat (map (item_bytes eds) xs))"
proof (induction xs arbitrary: acc)
  case (Cons x xs)
  have "path_token eds (item_text x) = Ok (item_bytes eds x)"
    using Cons.prems by (cases x) (simp_all add: path_token_byte path_token_param del: item_text.simps(2) item_bytes.simps(2))
  with Cons show ?case by simp
qed simp


section \<open>Properties\<close>

text \<open>C17: The bit layout of an EDS connection: an entry whose support bits are those of a configuration (class 0
  or 1, any trigger, both directions null or point-to-point, priority, size type and run/idle header) is
  converted to exactly that configuration, with the caller's fields at their defaults; and the support bits
  of the two directions never get mixed.\<close>
theorem eds_config_roundtrip:
  assumes "describes ec c"
  shows "to_connection_config ec = Ok (c\<lparr>cc_config_data := [], cc_timeout_multiplier := 0,
    cc_originator_vendor_id := 0, cc_originator_serial_number := 0\<rparr>)"
proof -
  have d: "describes_direction (ec_o2t ec) (cc_o2t c)" "describes_direction (ec_t2o ec) (cc_t2o c)"
    and ec: "ec_connection_params ec = params_bits c" "ec_trigger_transport ec = transport_bits c" "ec_path ec = cc_path c"
    and cl: "cc_transport_class c = Class0 \<or> cc_transport_class c = Class1"
    using assms by (auto simp: describes_def)
  have o2t: "config_direction ec 0 0 (ec_o2t ec) n = Ok (cc_o2t c)" for n
    by (rule config_direction_bits [OF d(1) _ ec(1)]) simp
  have t2o: "config_direction ec 4 2 (ec_t2o ec) n = Ok (cc_t2o c)" for n
    by (rule config_direction_bits [OF d(2) _ ec(1)]) simp
  show ?thesis
    using cl by (cases "cc_trigger c"; cases c)
      (auto simp: to_connection_config_def Let_def o2t t2o ec eds_bit_iff bit_transport_bits config_new_def)
qed

definition sample_eds_direction :: "nat \<Rightarrow> EdsDirection" where
  "sample_eds_direction n = \<lparr>edir_rpi = Some \<lparr>rpi_min = None, rpi_max = None, rpi_default = Some 30000\<rparr>,
     edir_size = n, edir_assembly = None\<rparr>"

definition sample_eds_connection :: EdsConnection where
  "sample_eds_connection = \<lparr>ec_number = 1, ec_name = [], ec_help = [], ec_trigger_transport = 0x84010002,
     ec_connection_params = 0x44640405, ec_o2t = sample_eds_direction 32, ec_t2o = sample_eds_direction 32,
     ec_config_assembly = Some 151, ec_path = ConnectionPath [0x20, 4, 0x24, 151, 0x2C, 150, 0x2C, 100]\<rparr>"

lemma eds_config_roundtrip_witness:
  "to_connection_config (sample_eds_connection\<lparr>ec_trigger_transport := 0x10002, ec_connection_params := 0x44440405\<rparr>) = Ok
     (config_new (ConnectionPath [0x20, 4, 0x24, 151, 0x2C, 150, 0x2C, 100])
        (with_run_idle_header (direction_new 32 (from_micros 30000))) (direction_new 32 (from_micros 30000)))"
  using eds_config_roundtrip [of "sample_eds_connection\<lparr>ec_trigger_transport := 0x10002, ec_connection_params := 0x44440405\<rparr>"
     "config_new (ConnectionPath [0x20, 4, 0x24, 151, 0x2C, 150, 0x2C, 100])
        (with_run_idle_header (direction_new 32 (from_micros 30000))) (direction_new 32 (from_micros 30000))"]
  by (simp add: describes_def describes_direction_def sample_eds_connection_def sample_eds_direction_def config_new_def
      with_run_idle_header_def direction_new_def transport_bits_def params_bits_def direction_bits_def)

text \<open>C18: A path text of hex bytes and parameter references (in brackets or not), separated by spaces, resolves to
  those bytes, with each reference replaced by the parameter's default value in little-endian order, as
  many bytes as its data size says (at least one, at most eight). In particular a path's hex notation
  resolves to the path itself, whatever else the file holds.\<close>
theorem eds_path_resolves:
  assumes "\<forall>x \<in> set items. item_resolves eds x"
  shows "resolve_path eds (join [32] (map item_text items)) = Ok (ConnectionPath (concat (map (item_bytes eds) items)))
    \<and> resolve_path eds (display_cpath p) = Ok p"
proof -
  have words: "split_whitespace (join [32] (map item_text xs)) = map item_text xs" for xs
    by (rule words_aux_join) (use item_text_word in auto)
  have items: "resolve_path eds (join [32] (map item_text xs)) = Ok (ConnectionPath (concat (map (item_bytes eds) xs)))"
    if "\<forall>x \<in> set xs. item_resolves eds x" for xs
    using path_tokens_items [OF that, of "[]"] by (simp add: resolve_path_def words)
  have "display_cpath p = join [32] (map item_text (map PathByte (path_bytes p)))"
    by (simp add: display_cpath_def comp_def)
  moreover have "concat (map (item_bytes eds) (map PathByte bs)) = bs" for bs
    by (induction bs) simp_all
  ultimately have "resolve_path eds (display_cpath p) = Ok p"
    using items [of "map PathByte (path_bytes p)"] by (simp add: item_resolves_def)
  with items [OF assms] show ?thesis by blast
qed

definition sample_eds :: Eds where
  "sample_eds = \<lparr>eds_sections = [\<lparr>s_name = lit ''Params'', s_entries = [\<lparr>e_keyword = lit ''Param9'',
     e_fields = [Field_Token (lit ''0''), Field_Empty, Field_Empty, Field_Token (lit ''0x0000''), Field_Token (lit ''0xC6''),
       Field_Token (lit ''1''), Field_Str (lit ''Config instance''), Field_Str [], Field_Str [], Field_Empty, Field_Empty,
       Field_Token (lit ''0x97'')], e_line = 2\<rparr>]\<rparr>]\<rparr>"

definition sample_param :: EdsParam where
  "sample_param = \<lparr>ep_number = 9, ep_data_type = CipDataType 0xC6, ep_data_size = 1,
     ep_name = lit ''Config instance'', ep_units = [], ep_help = [], ep_min = None, ep_max = None,
     ep_default = Some (lit ''0x97'')\<rparr>"

lemma sample_param: "eds_param sample_eds 9 = Ok sample_param"
  by (simp add: sample_param_def eds_param_def sample_eds_def eds_entry_def eds_section_def section_get_def lit_eval
      fmt_dec_byte eq_ignore_ascii_case_def to_ascii_lowercase_def int_field_def entry_field_def text_field_def
      parse_int_def trim_def trim_start_matches_def trim_end_matches_def is_whitespace_def from_str_radix_def
      to_digit_def)

lemma sample_param_facts: "default_int sample_param = Some 0x97" "ep_data_size sample_param = 1"
  by (simp_all add: sample_param_def default_int_def parse_int_def lit_eval trim_def trim_start_matches_def
      trim_end_matches_def is_whitespace_def from_str_radix_def to_digit_def)

lemma eds_path_resolves_witness:
  "resolve_path sample_eds (lit ''20 04 24 [Param9] 2C 98'') = Ok (ConnectionPath [0x20, 4, 0x24, 0x97, 0x2C, 0x98])"
proof -
  have one: "take 1 (le64 0x97) = [0x97]" by (simp add: to_le_def upt_conv_Cons)
  have "\<forall>x \<in> set [PathByte 0x20, PathByte 4, PathByte 0x24, PathParam True 9, PathByte 0x2C, PathByte 0x98].
      item_resolves sample_eds x"
    by (simp add: item_resolves_def sample_param sample_param_facts)
  from eds_path_resolves [OF this] one show ?thesis
    by (simp add: sample_param sample_param_facts lit_eval fmt_02X_byte fmt_dec_byte digit_char_def)
qed

end
