(* ===== verification/Eds_Append.thy ===== *)
theory Eds_Append
  imports Eds_Parse
begin

text \<open>
  The parser of src/src/eds/parse.rs reads a text from left to right and never looks back: what it has read of a text
  is not changed by what is appended to it. So a file can be read in pieces, at any line between two entries.
\<close>

section \<open>A cursor with more text behind it\<close>

definition ext :: "rstr \<Rightarrow> Cursor \<Rightarrow> Cursor" where
  "ext r cur = (fst cur @ r, snd cur)"

lemma ext_simps [simp]: "ext r (u, l) = (u @ r, l)" "fst (ext r cur) = fst cur @ r" "snd (ext r cur) = snd cur"
  by (simp_all add: ext_def)

text \<open>A piece that ends where a line ends, so that its last comment is over.\<close>

definition ends_line :: "rstr \<Rightarrow> bool" where
  "ends_line u \<longleftrightarrow> u = [] \<or> last u = NEWLINE"

lemma ends_line_suffix: "ends_line (u @ v) \<Longrightarrow> ends_line v"
  by (cases "v = []") (auto simp: ends_line_def)

lemma ends_line_advances: "advances cur cur' \<Longrightarrow> ends_line (fst cur) \<Longrightarrow> ends_line (fst cur')"
  using ends_line_suffix by (auto simp: advances_def)

lemma ends_line_Cons: "ends_line (c # s) \<Longrightarrow> ends_line s"
  using ends_line_suffix [of "[c]"] by simp

section \<open>The loops\<close>

lemma skip_comment_ext: "NEWLINE \<in> set (fst cur) \<Longrightarrow> skip_comment (ext r cur) = ext r (skip_comment cur)"
  by (induction cur rule: skip_comment.induct) auto

lemma skip_comment_at_end: "NEWLINE \<notin> set (fst cur) \<Longrightarrow> fst (skip_comment cur) = []"
  by (induction cur rule: skip_comment.induct) auto

lemma skip_blank_ext: "skip_blank cur = (c # s, l) \<Longrightarrow> skip_blank (ext r cur) = (c # s @ r, l)"
proof (induction cur rule: skip_blank.induct)
  case (2 d s' l')
  show ?case
  proof (cases "d = DOLLAR")
    case True
    have "NEWLINE \<in> set (d # s')"
      using skip_comment_at_end [of "(d # s', l')"] 2(3) True by (cases "skip_comment (d # s', l')") fastforce
    then show ?thesis using 2(1) [OF True] 2(3) True skip_comment_ext [of "(d # s', l')" r] by simp
  qed (use 2 in \<open>auto split: if_splits\<close>)
qed simp

lemma skip_blank_ext_end: "skip_blank cur = ([], l) \<Longrightarrow> ends_line (fst cur) \<Longrightarrow> skip_blank (ext r cur) = skip_blank (r, l)"
proof (induction cur rule: skip_blank.induct)
  case (2 d s' l')
  show ?case
  proof (cases "d = DOLLAR")
    case True
    have nl: "NEWLINE \<in> set (d # s')" using 2(4) last_in_set [of "d # s'"] by (auto simp: ends_line_def)
    have "ends_line (fst (skip_comment (d # s', l')))"
      using ends_line_advances [OF advances_skip_comment 2(4)] .
    then show ?thesis using 2(1) [OF True] 2(3) True skip_comment_ext [of "(d # s', l')" r] nl by simp
  qed (use 2 ends_line_Cons [of d s'] in \<open>auto split: if_splits\<close>)
qed simp

lemma cur_next_ext: "cur_next cur = (Some c, cur') \<Longrightarrow> cur_next (ext r cur) = (Some c, ext r cur')"
  by (cases cur rule: cur_next.cases) auto

lemma next_blank_ext: "cur_next (skip_blank cur) = (Some c, cur') \<Longrightarrow> cur_next (skip_blank (ext r cur)) = (Some c, ext r cur')"
  using cur_next_ext [of "skip_blank cur" c cur' r] skip_blank_ext [of cur]
  by (cases "skip_blank cur" rule: cur_next.cases) auto

lemma keyword_loop_ext: "keyword_loop kw cur = Ok (kw', cur') \<Longrightarrow> keyword_loop kw (ext r cur) = Ok (kw', ext r cur')"
  by (induction kw cur rule: keyword_loop.induct) (auto split: if_splits)

lemma header_loop_ext: "header_loop n cur = Ok (n', cur') \<Longrightarrow> header_loop n (ext r cur) = Ok (n', ext r cur')"
  by (induction n cur rule: header_loop.induct) (auto split: if_splits)

lemma string_loop_ext: "string_loop acc cur = Ok (s, cur') \<Longrightarrow> string_loop acc (ext r cur) = Ok (s, ext r cur')"
proof (induction acc cur rule: string_loop.induct)
  case (2 acc c s' l)
  show ?case
  proof (cases "c = BACKSLASH")
    case True
    with 2(3) obtain d cur where d: "cur_next (s', l) = (Some d, cur)"
      by (auto split: prod.splits option.splits)
    then show ?thesis using True 2(1) [of _ cur d] 2(3) cur_next_ext [OF d, of r] by auto
  qed (use 2 in \<open>auto split: if_splits\<close>)
qed simp

lemma token_loop_ext: "token_loop t cur = (t', cur') \<Longrightarrow> fst cur' \<noteq> [] \<Longrightarrow> token_loop t (ext r cur) = (t', ext r cur')"
  by (induction t cur rule: token_loop.induct) (auto split: if_splits)

section \<open>Entries and sections\<close>

lemma parse_fields_ext:
  "parse_fields kw line fs strings token cur = Ok (e, cur') \<Longrightarrow>
   parse_fields kw line fs strings token (ext r cur) = Ok (e, ext r cur') \<and> fst cur \<noteq> []"
proof (induction rule: parse_fields_ok_induct)
  case (semicolon fs strings token cur cur1)
  then show ?case using next_blank_ext [OF semicolon, of r] by (cases cur; cases "fst cur") (auto simp: parse_fields_steps(4))
next
  case (comma fs strings token cur cur1 e cur')
  then show ?case using next_blank_ext [OF comma(1), of r] by (cases cur; cases "fst cur") (auto simp: parse_fields_steps(3))
next
  case (string fs strings token cur cur1 s cur2 e cur')
  then show ?case using next_blank_ext [OF string(1), of r] string_loop_ext [OF string(2), of r]
    by (cases cur; cases "fst cur") (auto simp: parse_fields_steps(2))
next
  case (token fs strings token cur c cur1 t cur2 e cur')
  then show ?case using next_blank_ext [OF token(1), of r] token_loop_ext [OF token(3), of r]
    by (cases cur; cases "fst cur") (auto simp: parse_fields_steps(5))
qed

lemma parse_entry_ext: "parse_entry cur line = Ok (e, cur') \<Longrightarrow> parse_entry (ext r cur) line = Ok (e, ext r cur')"
  using keyword_loop_ext [of "[]" cur _ _ r] parse_fields_ext [of _ line "[]" None "[]" _ e cur' r]
  by (fastforce simp: parse_entry_def rbind_eq_Inr)

lemma parse_sections_end: "skip_blank cur = ([], l) \<Longrightarrow> parse_sections secs cur = Ok secs"
  by (subst parse_sections.simps) simp

lemma parse_sections_ext:
  assumes "parse_sections secs cur = Ok secs'" "ends_line (fst cur)"
  shows "parse_sections secs (ext r cur) = parse_sections secs' (r, snd cur + newlines (fst cur))"
  using assms
proof (induction "length (fst cur)" arbitrary: secs cur rule: less_induct)
  case less
  have suffix: "ends_line (fst cur')" "snd cur' + newlines (fst cur') = snd cur + newlines (fst cur)" if "advances cur cur'" for cur'
    using that less.prems(2) ends_line_advances by (auto simp: advances_def)
  have blank: "snd (skip_blank cur) = snd cur + newlines (fst cur)" if "fst (skip_blank cur) = []"
    using advances_skip_blank [of cur] that by (auto simp: advances_def)
  obtain u l where u: "skip_blank cur = (u, l)" by (meson surj_pair)
  show ?case
  proof (cases u)
    case Nil
    then have "secs' = secs" "l = snd cur + newlines (fst cur)"
      using less.prems(1) u parse_sections_end [of cur l secs] blank by auto
    with u Nil skip_blank_ext_end [of cur l r] less.prems(2) show ?thesis
      by (simp only: parse_sections.simps [of secs])
  next
    case (Cons c s)
    note c = u [unfolded Cons] skip_blank_ext [OF u [unfolded Cons], of r]
    show ?thesis
    proof (cases "c = LBRACKET")
      case True
      with less.prems(1) c obtain n cur2 where n: "header_loop [] (snd (cur_next (c # s, l))) = Ok (n, cur2)"
        and rest: "parse_sections (secs @ [\<lparr>s_name = trim n, s_entries = []\<rparr>]) cur2 = Ok secs'"
        by (subst (asm) parse_sections.simps) (auto split: sum.splits)
      have adv: "advances cur cur2"
        using advances_trans [OF advances_skip_blank [of cur]] c(1) advances_header_loop [OF n] advances_next advances_trans
        by (metis surjective_pairing)
      have "length (fst cur2) < length (fst cur)"
        using n c(1) skip_blank_shorter [OF c(1)] advances_shorter [OF advances_header_loop [OF n]] by simp
      from less.hyps [OF this rest suffix(1) [OF adv]] suffix(2) [OF adv] header_loop_ext [OF n, of r] True c
      show ?thesis by (subst parse_sections.simps) simp
    next
      case False
      with less.prems(1) c obtain e cur2 secs2 where e: "parse_entry (c # s, l) l = Ok (e, cur2)"
        and p: "push_entry secs e = Some secs2" and rest: "parse_sections secs2 cur2 = Ok secs'"
        by (subst (asm) parse_sections.simps) (auto split: sum.splits option.splits)
      have adv: "advances cur cur2"
        using advances_trans [OF advances_skip_blank [of cur]] c(1) advances_parse_entry [OF e] by simp
      have "length (fst cur2) < length (fst cur)"
        using parse_entry_shorter [OF e] skip_blank_shorter [OF c(1)] advances_shorter [OF advances_skip_blank [of cur]] c(1) by simp
      from less.hyps [OF this rest suffix(1) [OF adv]] suffix(2) [OF adv] parse_entry_ext [OF e, of r] False c p
      show ?thesis by (subst parse_sections.simps) simp
    qed
  qed
qed

text \<open>A piece and what follows it, in the form in which a file is read piece by piece.\<close>

lemma parse_piece:
  assumes "parse_sections secs (u, l) = Ok secs'" "ends_line u" "newlines u = n"
  shows "parse_sections secs (u @ r, l) = parse_sections secs' (r, l + n)"
  using parse_sections_ext [of secs "(u, l)" secs' r] assms by simp

end
