(* ===== verification/Identity_Object.thy ===== *)
theory Identity_Object
  imports Mock_Session
begin

text \<open>
  The Identity object (src/src/objects/identity.rs): its attributes as Get_Attributes_All returns them. The
  same fields make up a ListIdentity item (src/src/discovery.rs), so their reader is a definition of its own.
\<close>

record IdentityObject =
  id_instance_id :: u16
  id_vendor_id :: u16
  id_device_type :: u16
  id_product_code :: u16
  id_revision :: CipRevision
  id_status :: u16
  id_serial_number :: u32
  id_product_name :: rstr

abbreviation IDENTITY_CLASS_ID :: u16 where "IDENTITY_CLASS_ID \<equiv> 0x01"

definition identity_fields :: "bytes_api \<Rightarrow> u16 \<Rightarrow> IdentityObject reader" where
  "identity_fields B ident =
     try_q (try_get_u16_le B) (\<lambda>vendor_id. try_q (try_get_u16_le B) (\<lambda>device_type.
     try_q (try_get_u16_le B) (\<lambda>product_code. read_q (revision_decode B) (\<lambda>revision.
     try_q (try_get_u16_le B) (\<lambda>status. try_q (try_get_u32_le B) (\<lambda>serial_number.
     read_q (try_get_short_string B) (\<lambda>product_name.
     done_q \<lparr>id_instance_id = ident, id_vendor_id = vendor_id, id_device_type = device_type,
       id_product_code = product_code, id_revision = revision, id_status = status,
       id_serial_number = serial_number, id_product_name = product_name\<rparr>)))))))"

definition identity_read :: "bytes_api \<Rightarrow> 's session \<Rightarrow> MessageRouter \<Rightarrow> u16 \<Rightarrow> ('s, error, IdentityObject) action" where
  "identity_read B S R ident =
     sbind (request_checked B S R SC_GET_ATTRIBUTE_ALL (epath_instance IDENTITY_CLASS_ID ident) []
        (lit ''read identity object''))
       (\<lambda>response. slift (run_reader (identity_fields B ident) (resp_data response)))"

text \<open>The fields as a device sends them, the product name as bytes.\<close>

definition identity_wire :: "IdentityObject \<Rightarrow> bytes \<Rightarrow> bytes" where
  "identity_wire i name =
     le16 (id_vendor_id i) @ le16 (id_device_type i) @ le16 (id_product_code i) @ [major (id_revision i), minor (id_revision i)]
     @ le16 (id_status i) @ le32 (id_serial_number i) @ [of_nat (length name)] @ name"

lemma length_identity_wire [simp]: "length (identity_wire i name) = 15 + length name"
  by (simp add: identity_wire_def)

context bytes_crate
begin

lemma identity_fields_wire:
  assumes "length name < 256"
  shows "identity_fields B (id_instance_id i) (identity_wire i name @ r) = Ok (i\<lparr>id_product_name := from_utf8_lossy name\<rparr>, r)"
  using assms
  by (cases i; cases "id_revision i")
    (simp add: identity_fields_def identity_wire_def try_q_def read_q_def revision_decode_def
      try_get_short_string_def unat_of_nat_small)

text \<open>The reader accepts exactly the buffers that hold all fields and as many name bytes as they announce.\<close>

lemma identity_fields_ok_iff:
  "is_ok (identity_fields B ident buf) \<longleftrightarrow> 15 \<le> length buf \<and> 15 + unat (buf ! 14) \<le> length buf"
  by (auto simp: identity_fields_def try_q_def read_q_def revision_decode_def try_get_short_string_def try_get_vec_def
      try_get_u8 try_get_u16_le try_get_u32_le try_copy_to_slice try_take_def hd_drop_conv_nth)

lemma identity_fields_no_panic: "identity_fields B ident buf \<noteq> Err Panicked"
  by (auto simp: identity_fields_def try_q_def read_q_def revision_decode_def try_get_short_string_def try_get_vec_def
      try_get_u8 try_get_u16_le try_get_u32_le try_copy_to_slice try_take_def from_try_get_error_def)

end

text \<open>Reading the Identity object from a device: one Get_Attributes_All request for the instance, and the
  device's fields come back exactly, the name decoded from UTF-8, whatever follows them; while an answer cut
  off anywhere inside the fields is an error, never a panic.\<close>
theorem identity_end_to_end:
  assumes "bytes_crate B" "length name < 256" "length rest < 60000"
    and "replies m = (GSC_SUCCESS, identity_wire i name @ rest, []) # rs"
    and "n < length (identity_wire i name)" "replies m' = (GSC_SUCCESS, take n (identity_wire i name), []) # rs'"
  shows "identity_read B (mock_session B) R (id_instance_id i) m =
      (Ok (i\<lparr>id_product_name := from_utf8_lossy name\<rparr>),
       m\<lparr>replies := rs, requests := requests m @ [\<lparr>rq_service = SC_GET_ATTRIBUTE_ALL,
          rq_path = epath_instance IDENTITY_CLASS_ID (id_instance_id i), rq_data = []\<rparr>]\<rparr>)
    \<and> (\<exists>e m''. identity_read B (mock_session B) R (id_instance_id i) m' = (Err e, m'') \<and> e \<noteq> Panicked)"
proof
  have len: "length (identity_wire i name @ rest) < 65000" "length (take n (identity_wire i name)) < 65000"
    using assms(2,3) by simp_all
  note rc = bytes_crate.mock_request_checked [OF assms(1) _ assms(4) len(1), of "[]" R SC_GET_ATTRIBUTE_ALL
      "epath_instance IDENTITY_CLASS_ID (id_instance_id i)" "lit ''read identity object''", simplified]
  show "identity_read B (mock_session B) R (id_instance_id i) m =
      (Ok (i\<lparr>id_product_name := from_utf8_lossy name\<rparr>),
       m\<lparr>replies := rs, requests := requests m @ [\<lparr>rq_service = SC_GET_ATTRIBUTE_ALL,
          rq_path = epath_instance IDENTITY_CLASS_ID (id_instance_id i), rq_data = []\<rparr>]\<rparr>)"
    by (simp add: identity_read_def sbind_def rc run_reader_def bytes_crate.identity_fields_wire [OF assms(1,2)])
  have "\<not> is_ok (identity_fields B (id_instance_id i) (take n (identity_wire i name)))"
  proof (cases "15 \<le> n")
    case True
    then have "take n (identity_wire i name) ! 14 = of_nat (length name)"
      by (simp add: identity_wire_def nth_append to_le_def numeral_eq_Suc)
    then show ?thesis
      using assms(2,5) by (simp add: bytes_crate.identity_fields_ok_iff [OF assms(1)] unat_of_nat_small)
  qed (simp add: bytes_crate.identity_fields_ok_iff [OF assms(1)])
  then obtain e where e: "identity_fields B (id_instance_id i) (take n (identity_wire i name)) = Err e"
    by (cases "identity_fields B (id_instance_id i) (take n (identity_wire i name))") auto
  note rc' = bytes_crate.mock_request_checked [OF assms(1) _ assms(6) len(2), of "[]" R SC_GET_ATTRIBUTE_ALL
      "epath_instance IDENTITY_CLASS_ID (id_instance_id i)" "lit ''read identity object''", simplified]
  show "\<exists>e m''. identity_read B (mock_session B) R (id_instance_id i) m' = (Err e, m'') \<and> e \<noteq> Panicked"
    using bytes_crate.identity_fields_no_panic [OF assms(1)] e
    by (auto simp: identity_read_def sbind_def rc' run_reader_def)
qed

definition sample_identity :: IdentityObject where
  "sample_identity = \<lparr>id_instance_id = 1, id_vendor_id = 1, id_device_type = 0x96, id_product_code = 9,
     id_revision = \<lparr>major = 5, minor = 1\<rparr>, id_status = 0x30, id_serial_number = 0x808DE192, id_product_name = [80, 70]\<rparr>"

lemma identity_end_to_end_witness:
  "fst (identity_read slice_bytes (mock_session slice_bytes) router_new 1 (mock_reply (identity_wire sample_identity [80, 70]) mock_new))
     = Ok sample_identity"
  using identity_end_to_end [OF slice.bytes_crate_axioms, of "[80, 70]" "[]"
      "mock_reply (identity_wire sample_identity [80, 70]) mock_new" sample_identity "[]" 3
      "mock_reply (take 3 (identity_wire sample_identity [80, 70])) mock_new" "[]" router_new]
  by (simp add: mock_reply_def mock_reply_status_def mock_new_def sample_identity_def)

end
