(* ===== verification/Discovery.thy ===== *)
theory Discovery
  imports Identity_Object
begin

text \<open>
  Discovery (src/src/discovery.rs) and the broadcast addresses it uses (src/src/netif.rs, the Unix variant).
  The interface list is what \<open>getifaddrs\<close> returns and the constants of \<open>libc\<close> are parameters; the socket is a
  script of what each \<open>recv_from\<close> finds, with the moment it was called. The replies to
  \<open>set_broadcast\<close> and \<open>set_read_timeout\<close> are taken to be successes, and what \<open>send_to\<close> returns is only logged.
\<close>

section \<open>Broadcast addresses\<close>

record libc =
  IFF_UP :: u32
  IFF_BROADCAST :: u32
  IFF_LOOPBACK :: u32
  AF_INET :: u32

text \<open>One node of the list: its flags, and the broadcast address, if any, as family and octets.\<close>

record ifaddrs =
  ifa_flags :: u32
  ifa_broadcast :: "(u32 \<times> bytes) option"

definition broadcast_addr :: "libc \<Rightarrow> ifaddrs \<Rightarrow> Ipv4Addr option" where
  "broadcast_addr L ifa =
     (let wanted = IFF_UP L OR IFF_BROADCAST L in
      if ifa_flags ifa AND wanted \<noteq> wanted \<or> ifa_flags ifa AND IFF_LOOPBACK L \<noteq> 0 then None
      else
       (case ifa_broadcast ifa of
          None \<Rightarrow> None
        | Some (family, addr) \<Rightarrow> if family = AF_INET L then Some (Ipv4Addr (of_be addr)) else None))"

definition ipv4_broadcast_addrs :: "libc \<Rightarrow> ifaddrs list result \<Rightarrow> Ipv4Addr list result" where
  "ipv4_broadcast_addrs L getifaddrs =
     rbind getifaddrs (\<lambda>ifas. Ok (remdups_adj (sort (List.map_filter (broadcast_addr L) ifas))))"

text \<open>Without \<open>getifaddrs\<close> the limited broadcast address stands for all interfaces.\<close>

definition ipv4_broadcast_addrs_fallback :: "Ipv4Addr list result" where
  "ipv4_broadcast_addrs_fallback = Ok [ipv4 255 255 255 255]"

section \<open>Replies\<close>

record IdentityItem =
  ii_identity :: IdentityObject
  ii_socket_address :: SocketAddrV4

definition identity_item_read :: "bytes_api \<Rightarrow> IdentityItem reader" where
  "identity_item_read B =
     try_q (try_get_u16_le B) (\<lambda>_. read_q (decode_sockaddr B) (\<lambda>socket_address.
     read_q (identity_fields B 1) (\<lambda>identity.
     done_q \<lparr>ii_identity = identity, ii_socket_address = socket_address\<rparr>)))"

definition parse_list_identity_response :: "bytes_api \<Rightarrow> bytes \<Rightarrow> IdentityItem list result" where
  "parse_list_identity_response B d =
     run_reader (read_q (try_skip B HEADER_SIZE) (\<lambda>_. rest_q (\<lambda>buf.
       case rbind (cpf_decode B buf) (\<lambda>packet.
          collect (map (\<lambda>item. run_reader (identity_item_read B) (item_data item))
            (filter (\<lambda>item. type_id item = CPI_LIST_IDENTITY) (cp_items packet)))) of
         Inl e \<Rightarrow> fail_q e
       | Inr items \<Rightarrow> done_q items))) d"

section \<open>The exchange\<close>

datatype BroadcastTarget = AllInterfaces | Address SocketAddrV4

record DiscoveryManager =
  dm_target :: BroadcastTarget
  dm_timeout :: nat

definition discovery_new :: "BroadcastTarget \<Rightarrow> nat \<Rightarrow> DiscoveryManager" where
  "discovery_new target timeout = \<lparr>dm_target = target, dm_timeout = timeout\<rparr>"

definition with_timeout :: "nat \<Rightarrow> DiscoveryManager" where
  "with_timeout timeout = discovery_new AllInterfaces timeout"

datatype recv_from = Heard bytes | RecvFailed io_kind

text \<open>
  The receive loop. Each element of the script is the moment a turn starts and what its \<open>recv_from\<close> returns;
  a datagram longer than the buffer is cut to its 1500 bytes. After the script nothing more arrives and the
  read times out.
\<close>

abbreviation RECV_BUFFER :: nat where "RECV_BUFFER \<equiv> 1500"

fun discover_loop :: "bytes_api \<Rightarrow> nat \<Rightarrow> (nat \<times> recv_from) list \<Rightarrow> IdentityItem list \<Rightarrow> IdentityItem list result" where
  "discover_loop B deadline [] devices = Ok devices"
| "discover_loop B deadline ((now, r) # rs) devices =
     (if deadline - now = 0 then Ok devices
      else
        case r of
          Heard d \<Rightarrow>
            (case parse_list_identity_response B (take RECV_BUFFER d) of
               Inr found \<Rightarrow> discover_loop B deadline rs (devices @ found)
             | Inl _ \<Rightarrow> discover_loop B deadline rs devices)
        | RecvFailed k \<Rightarrow>
            if k = Interrupted then discover_loop B deadline rs devices
            else if k = WouldBlock \<or> k = TimedOut then Ok devices
            else Err (Io k []))"

definition discovery_targets :: "libc \<Rightarrow> ifaddrs list result \<Rightarrow> BroadcastTarget \<Rightarrow> SocketAddrV4 list result" where
  "discovery_targets L getifaddrs target =
     (case target of
        Address addr \<Rightarrow> Ok [addr]
      | AllInterfaces \<Rightarrow>
          rbind (ipv4_broadcast_addrs L getifaddrs) (\<lambda>ips. Ok (map (\<lambda>ip. \<lparr>sa_ip = ip, sa_port = 44818\<rparr>) ips)))"

text \<open>\<open>discover\<close>: the datagrams sent, with their destinations, and the result.\<close>

definition discover ::
  "bytes_api \<Rightarrow> libc \<Rightarrow> DiscoveryManager \<Rightarrow> unit result \<Rightarrow> ifaddrs list result \<Rightarrow> nat \<Rightarrow> (nat \<times> recv_from) list
     \<Rightarrow> (SocketAddrV4 \<times> bytes) list \<times> IdentityItem list result" where
  "discover B L dm bind getifaddrs now script =
     (case rbind bind (\<lambda>_. discovery_targets L getifaddrs (dm_target dm)) of
        Inl e \<Rightarrow> ([], Err e)
      | Inr targets \<Rightarrow>
          (map (\<lambda>t. (t, encaps_encode B list_identity)) targets,
           discover_loop B (now + dm_timeout dm) script []))"


section \<open>Properties\<close>

text \<open>A device's item: protocol version, address, identity fields, and a state byte or more.\<close>

record announcement =
  an_version :: u16
  an_item :: IdentityItem
  an_name :: bytes
  an_trail :: bytes

definition announce :: "bytes_api \<Rightarrow> announcement \<Rightarrow> CommonPacketItem" where
  "announce B a = item_new CPI_LIST_IDENTITY (le16 (an_version a) @ encode_sockaddr B (ii_socket_address (an_item a)) []
     @ identity_wire (ii_identity (an_item a)) (an_name a) @ an_trail a)"

definition announcement_ok :: "announcement \<Rightarrow> bool" where
  "announcement_ok a \<longleftrightarrow> length (an_name a) < 256 \<and> length (an_trail a) < 60000
     \<and> id_instance_id (ii_identity (an_item a)) = 1
     \<and> id_product_name (ii_identity (an_item a)) = from_utf8_lossy (an_name a)"

definition reply_datagram :: "bytes_api \<Rightarrow> bytes \<Rightarrow> CommonPacketItem list \<Rightarrow> announcement list \<Rightarrow> bytes" where
  "reply_datagram B header others as = header @ cpf_encode B \<lparr>cp_items = others @ map (announce B) as\<rparr>"

definition reply_ok :: "bytes \<Rightarrow> CommonPacketItem list \<Rightarrow> announcement list \<Rightarrow> bool" where
  "reply_ok header others as \<longleftrightarrow> length header = HEADER_SIZE
     \<and> (\<forall>item \<in> set others. item_ok item \<and> type_id item \<noteq> CPI_LIST_IDENTITY)
     \<and> (\<forall>a \<in> set as. announcement_ok a) \<and> length others + length as < 65536"

context bytes_crate
begin

lemma identity_item_read_announce:
  assumes "announcement_ok a"
  shows "run_reader (identity_item_read B) (item_data (announce B a)) = Ok (an_item a)"
proof -
  let ?i = "ii_identity (an_item a)"
  have "identity_fields B 1 (identity_wire ?i (an_name a) @ an_trail a) = Ok (?i, an_trail a)"
    using identity_fields_wire [of "an_name a" ?i "an_trail a"] assms by (simp add: announcement_ok_def)
  then show ?thesis
    by (simp add: announce_def item_new_def run_reader_def identity_item_read_def try_q_def read_q_def decode_sockaddr_encode)
qed

lemma announce_ok:
  assumes "announcement_ok a"
  shows "item_ok (announce B a)"
  using assms by (simp add: item_ok_def announce_def item_new_def announcement_ok_def encode_sockaddr_def octets_def Let_def)

lemma parse_reply:
  assumes "reply_ok header others as"
  shows "parse_list_identity_response B (reply_datagram B header others as) = Ok (map an_item as)"
proof -
  have "cpf_ok \<lparr>cp_items = others @ map (announce B) as\<rparr>"
    using assms announce_ok by (auto simp: reply_ok_def cpf_ok_def)
  note dec = cpf_decode_encode [OF this, of "[]", simplified]
  have "filter (\<lambda>item. type_id item = CPI_LIST_IDENTITY) (others @ map (announce B) as) = map (announce B) as"
    using assms by (auto simp: reply_ok_def announce_def item_new_def filter_empty_conv filter_map comp_def)
  moreover have "collect (map (\<lambda>item. run_reader (identity_item_read B) (item_data item)) (map (announce B) as)) = Ok (map an_item as)"
    using assms identity_item_read_announce
    unfolding map_map by (intro collect_map_Inr) (auto simp: reply_ok_def)
  ultimately show ?thesis
    using assms dec
    by (simp add: parse_list_identity_response_def reply_datagram_def run_reader_def [of "read_q r f" for r f] read_q_def
        try_skip_eq reply_ok_def)
qed

end

text \<open>What a turn of the loop adds.\<close>

definition heard :: "bytes_api \<Rightarrow> recv_from \<Rightarrow> IdentityItem list" where
  "heard B r = (case r of
     Heard d \<Rightarrow> (case parse_list_identity_response B (take RECV_BUFFER d) of Inr found \<Rightarrow> found | Inl _ \<Rightarrow> [])
   | RecvFailed _ \<Rightarrow> [])"

lemma heard_simps [simp]:
  "heard B (Heard d) = (case parse_list_identity_response B (take RECV_BUFFER d) of Inr found \<Rightarrow> found | Inl _ \<Rightarrow> [])"
  "heard B (RecvFailed k) = []"
  by (simp_all add: heard_def)

lemma discover_loop_collects:
  "\<forall>(t, r) \<in> set script. t < deadline \<and> (r = RecvFailed Interrupted \<or> (\<exists>d. r = Heard d)) \<Longrightarrow>
   discover_loop B deadline (script @ (t', RecvFailed k) # rest) devices =
     (if deadline \<le> t' \<or> k \<in> {WouldBlock, TimedOut} then Ok (devices @ concat (map (\<lambda>x. heard B (snd x)) script))
      else if k = Interrupted then discover_loop B deadline rest (devices @ concat (map (\<lambda>x. heard B (snd x)) script))
      else Err (Io k []))"
proof (induction script arbitrary: devices)
  case (Cons x script)
  then show ?case by (cases x) (auto split: sum.splits)
qed auto

lemma sorted_distinct_adj: "sorted (xs :: 'a::linorder list) \<Longrightarrow> distinct_adj xs \<Longrightarrow> distinct xs"
proof (induction xs)
  case (Cons x xs)
  then show ?case by (cases xs) (auto simp: distinct_adj_Cons)
qed simp

lemma ipv4_broadcast_addrs_ok:
  assumes "ipv4_broadcast_addrs L (Ok ifas) = Ok ips"
  shows "sorted ips" "distinct ips" "set ips = {a. \<exists>ifa \<in> set ifas. broadcast_addr L ifa = Some a}"
proof -
  let ?as = "List.map_filter (broadcast_addr L) ifas"
  have ips: "ips = remdups_adj (sort ?as)" using assms by (simp add: ipv4_broadcast_addrs_def)
  show "sorted ips" by (simp add: ips)
  then show "distinct ips" by (rule sorted_distinct_adj) (simp add: ips)
  have "set (List.map_filter f xs) = {a. \<exists>x \<in> set xs. f x = Some a}" for f :: "ifaddrs \<Rightarrow> Ipv4Addr option" and xs
    by (induction xs) (auto split: option.splits)
  then show "set ips = {a. \<exists>ifa \<in> set ifas. broadcast_addr L ifa = Some a}" by (simp add: ips)
qed

text \<open>C27: Discovery end to end. ListIdentity goes to each broadcast address of an interface that is up, has one and
  is no loopback, exactly once, in ascending order; until the timeout every reply is collected in order of
  arrival, interruptions and malformed datagrams contribute nothing and stop nothing; and a well-formed reply
  that fits the buffer contributes exactly the devices it announces, whatever other items it carries.\<close>
theorem discovery_end_to_end:
  assumes "bytes_crate B" "discover B L (with_timeout timeout) (Ok ()) (Ok ifas) now (script @ [(t', RecvFailed k)]) = (sent, r)"
    and "\<forall>(t, ev) \<in> set script. t < now + timeout \<and> (ev = RecvFailed Interrupted \<or> (\<exists>d. ev = Heard d))"
    and "k \<in> {WouldBlock, TimedOut} \<or> now + timeout \<le> t'"
    and "reply_ok header others as" "length (reply_datagram B header others as) \<le> RECV_BUFFER"
  shows "r = Ok (concat (map (\<lambda>x. heard B (snd x)) script))
    \<and> heard B (Heard (reply_datagram B header others as)) = map an_item as
    \<and> (\<forall>s \<in> set sent. snd s = encaps_encode B list_identity \<and> sa_port (fst s) = 44818)
    \<and> sorted (map (\<lambda>x. sa_ip (fst x)) sent) \<and> distinct (map (\<lambda>x. sa_ip (fst x)) sent)
    \<and> set (map (\<lambda>x. sa_ip (fst x)) sent) = {a. \<exists>ifa \<in> set ifas. broadcast_addr L ifa = Some a}"
proof -
  obtain ips where ips: "ipv4_broadcast_addrs L (Ok ifas) = Ok ips" by (simp add: ipv4_broadcast_addrs_def)
  have sent: "sent = map (\<lambda>ip. (\<lparr>sa_ip = ip, sa_port = 44818\<rparr>, encaps_encode B list_identity)) ips"
    and r: "r = discover_loop B (now + timeout) (script @ [(t', RecvFailed k)]) []"
    using assms(2)
    by (auto simp: discover_def discovery_targets_def with_timeout_def discovery_new_def ips comp_def)
  have addrs: "map (\<lambda>x. sa_ip (fst x)) sent = ips" by (simp add: sent comp_def)
  have res: "r = Ok (concat (map (\<lambda>x. heard B (snd x)) script))"
    using discover_loop_collects [OF assms(3), of B t' k "[]" "[]"] assms(4) by (auto simp: r)
  have "heard B (Heard (reply_datagram B header others as)) = map an_item as"
    using bytes_crate.parse_reply [OF assms(1,5)] assms(6) by simp
  with res show ?thesis
    using ipv4_broadcast_addrs_ok [OF ips] unfolding addrs by (simp add: sent)
qed

definition sample_announcement :: announcement where
  "sample_announcement = \<lparr>an_version = 1, an_item = \<lparr>ii_identity = sample_identity,
     ii_socket_address = \<lparr>sa_ip = ipv4 192 168 1 15, sa_port = 44818\<rparr>\<rparr>, an_name = [80, 70], an_trail = [255]\<rparr>"

lemma discovery_end_to_end_witness:
  "discover slice_bytes \<lparr>IFF_UP = 1, IFF_BROADCAST = 2, IFF_LOOPBACK = 8, AF_INET = 2\<rparr> (with_timeout 100) (Ok ())
     (Ok [\<lparr>ifa_flags = 3, ifa_broadcast = Some (2, [192, 168, 1, 255])\<rparr>]) 0
     ([(1, Heard [0]), (2, Heard (reply_datagram slice_bytes (replicate 24 0) [] [sample_announcement]))] @ [(3, RecvFailed TimedOut)])
   = ([(\<lparr>sa_ip = ipv4 192 168 1 255, sa_port = 44818\<rparr>, encaps_encode slice_bytes list_identity)], Ok [an_item sample_announcement])"
  (is "discover ?B ?L ?dm ?b (Ok ?ifas) 0 (?script @ [(3, _)]) = _")
proof -
  have ok: "reply_ok (replicate 24 0) [] [sample_announcement]"
    by (simp add: reply_ok_def announcement_ok_def sample_announcement_def sample_identity_def from_utf8_lossy_ascii)
  have len: "length (reply_datagram ?B (replicate 24 0) [] [sample_announcement]) \<le> RECV_BUFFER"
    by (simp add: reply_datagram_def slice.cpf_encode_eq item_bytes_def announce_def item_new_def encode_sockaddr_def
        octets_def sample_announcement_def Let_def)
  obtain sent r where d: "discover ?B ?L ?dm ?b (Ok ?ifas) 0 (?script @ [(3, RecvFailed TimedOut)]) = (sent, r)"
    by (meson surj_pair)
  have bad: "heard ?B (Heard [0]) = []"
    by (simp add: parse_list_identity_response_def run_reader_def read_q_def slice.try_skip_eq)
  have "r = Ok (heard ?B (Heard [0]) @ map an_item [sample_announcement])"
    using discovery_end_to_end [OF slice.bytes_crate_axioms d _ _ ok len] by simp
  moreover have "sent = [(\<lparr>sa_ip = ipv4 192 168 1 255, sa_port = 44818\<rparr>, encaps_encode ?B list_identity)]"
    using d by (auto simp: discover_def discovery_targets_def with_timeout_def discovery_new_def
        ipv4_broadcast_addrs_def broadcast_addr_def ipv4_def)
  ultimately show ?thesis using d bad by simp
qed

end
