(* ===== verification/Parameter_Object.thy ===== *)
theory Parameter_Object
  imports Mock_Session
begin

text \<open>
  The Parameter object (src/src/objects/parameter.rs). Floating-point arithmetic is a parameter: \<open>f64_api\<close>
  holds the operations of \<open>f64\<close> the code uses. A \<open>CipValue\<close> type is the record of what its implementation
  provides; the macro's integer implementations are \<open>unsigned_value\<close> and \<open>signed_value\<close>. A signed integer is
  its two's complement word.
\<close>

section \<open>Floating point\<close>

text \<open>\<open>f_as_int lo hi v\<close> is \<open>v as t\<close> for an integer type with the values from \<open>lo\<close> to \<open>hi\<close>.\<close>

record 'f f64_api =
  f_of_int :: "int \<Rightarrow> 'f"
  f_add :: "'f \<Rightarrow> 'f \<Rightarrow> 'f"
  f_sub :: "'f \<Rightarrow> 'f \<Rightarrow> 'f"
  f_mul :: "'f \<Rightarrow> 'f \<Rightarrow> 'f"
  f_div :: "'f \<Rightarrow> 'f \<Rightarrow> 'f"
  f_powi :: "'f \<Rightarrow> int \<Rightarrow> 'f"
  f_round :: "'f \<Rightarrow> 'f"
  f_as_int :: "int \<Rightarrow> int \<Rightarrow> 'f \<Rightarrow> int"

text \<open>\<open>10f64.powi(n)\<close>.\<close>

definition f_ten_pow :: "'f f64_api \<Rightarrow> u8 \<Rightarrow> 'f" where
  "f_ten_pow F n = f_powi F (f_of_int F 10) (uint n)"

section \<open>Values\<close>

record ('f, 't) CipValue =
  cv_size :: nat
  cv_decode :: "bytes \<Rightarrow> 't"
  cv_encode :: "'t \<Rightarrow> bytes"
  cv_to_f64 :: "'t \<Rightarrow> 'f"
  cv_from_f64 :: "'f \<Rightarrow> 't"

definition unsigned_value :: "'f f64_api \<Rightarrow> ('f, 'w::len word) CipValue" where
  "unsigned_value F = \<lparr>cv_size = LENGTH('w) div 8, cv_decode = of_le, cv_encode = to_le (LENGTH('w) div 8),
     cv_to_f64 = (\<lambda>w. f_of_int F (uint w)),
     cv_from_f64 = (\<lambda>v. word_of_int (f_as_int F 0 (2 ^ LENGTH('w) - 1) (f_round F v)))\<rparr>"

definition signed_value :: "'f f64_api \<Rightarrow> ('f, 'w::len word) CipValue" where
  "signed_value F = \<lparr>cv_size = LENGTH('w) div 8, cv_decode = of_le, cv_encode = to_le (LENGTH('w) div 8),
     cv_to_f64 = (\<lambda>w. f_of_int F (sint w)),
     cv_from_f64 = (\<lambda>v. word_of_int (f_as_int F (- (2 ^ (LENGTH('w) - 1))) (2 ^ (LENGTH('w) - 1) - 1) (f_round F v)))\<rparr>"

text \<open>
  The floating-point types go through the same macro with the identity as conversion. Their byte layout and the casts
  between them are the standard library's, a parameter.
\<close>

record ('f, 't) float_codec =
  fl_size :: nat
  fl_from_le_bytes :: "bytes \<Rightarrow> 't"
  fl_to_le_bytes :: "'t \<Rightarrow> bytes"
  fl_as_f64 :: "'t \<Rightarrow> 'f"
  fl_of_f64 :: "'f \<Rightarrow> 't"

definition float_value :: "('f, 't) float_codec \<Rightarrow> ('f, 't) CipValue" where
  "float_value C = \<lparr>cv_size = fl_size C, cv_decode = fl_from_le_bytes C, cv_encode = fl_to_le_bytes C,
     cv_to_f64 = fl_as_f64 C, cv_from_f64 = (\<lambda>v. fl_of_f64 C (id v))\<rparr>"

definition cip_value_decode :: "('f, 't) CipValue \<Rightarrow> bytes \<Rightarrow> 't result" where
  "cip_value_decode T bs =
     (if length bs \<noteq> cv_size T then
        Err (InvalidPacket (lit ''parameter value is '' @ fmt_dec (length bs) @ lit '' bytes, requested type is '' @
          fmt_dec (cv_size T)))
      else Ok (cv_decode T bs))"

section \<open>The object\<close>

record ParameterObject =
  p_instance_id :: u16
  p_has_full_attributes :: bool
  p_is_scalable :: bool
  p_is_read_only :: bool
  p_data_type :: CipDataType
  p_name :: rstr
  p_units :: rstr
  p_help :: rstr
  p_scaling_multiplier :: u16
  p_scaling_divisor :: u16
  p_scaling_base :: u16
  p_scaling_offset :: u16
  p_precision :: u8
  p_value :: bytes
  p_min_value :: bytes
  p_max_value :: bytes
  p_default_value :: bytes

abbreviation PARAMETER_CLASS_ID :: u16 where "PARAMETER_CLASS_ID \<equiv> 0x0F"
abbreviation ATTR_VALUE :: u16 where "ATTR_VALUE \<equiv> 1"
abbreviation ATTR_DATA_SIZE :: u16 where "ATTR_DATA_SIZE \<equiv> 6"
abbreviation SUPPORTS_SCALING :: u16 where "SUPPORTS_SCALING \<equiv> 0x04"
abbreviation READ_ONLY :: u16 where "READ_ONLY \<equiv> 0x10"

definition parameter_new :: "u16 \<Rightarrow> bool \<Rightarrow> nat \<Rightarrow> ParameterObject" where
  "parameter_new ident full type_size = \<lparr>p_instance_id = ident, p_has_full_attributes = full, p_is_scalable = False,
     p_is_read_only = False, p_data_type = CDT_ANY, p_name = [], p_units = [], p_help = [],
     p_scaling_multiplier = 1, p_scaling_divisor = 1, p_scaling_base = 1, p_scaling_offset = 0, p_precision = 0,
     p_value = replicate type_size 0, p_min_value = replicate type_size 0, p_max_value = replicate type_size 0,
     p_default_value = replicate type_size 0\<rparr>"

text \<open>The attributes every object has, the ones of a full object, and the precision of a scalable one.\<close>

definition basic_attributes :: "bytes_api \<Rightarrow> nat \<Rightarrow> ParameterObject \<Rightarrow> ParameterObject reader" where
  "basic_attributes B data_size p =
     read_q (try_get_vec B data_size) (\<lambda>value. try_q (try_get_u8 B) (\<lambda>link_path_size.
     read_q (try_skip B (unat link_path_size)) (\<lambda>_. try_q (try_get_u16_le B) (\<lambda>desc.
     try_q (try_get_u8 B) (\<lambda>data_type.
     done_q (p\<lparr>p_value := value, p_data_type := CipDataType data_type,
       p_is_scalable := (desc AND SUPPORTS_SCALING \<noteq> 0), p_is_read_only := (desc AND READ_ONLY \<noteq> 0)\<rparr>))))))"

definition full_attributes :: "bytes_api \<Rightarrow> nat \<Rightarrow> ParameterObject \<Rightarrow> ParameterObject reader" where
  "full_attributes B data_size p =
     read_q (try_skip B 1) (\<lambda>_. read_q (try_get_short_string B) (\<lambda>name. read_q (try_get_short_string B) (\<lambda>units.
     read_q (try_get_short_string B) (\<lambda>help. read_q (try_get_vec B data_size) (\<lambda>min_value.
     read_q (try_get_vec B data_size) (\<lambda>max_value. read_q (try_get_vec B data_size) (\<lambda>default_value.
     let p = p\<lparr>p_name := name, p_units := units, p_help := help, p_min_value := min_value, p_max_value := max_value,
               p_default_value := default_value\<rparr>
     in if p_is_scalable p then
          read_q (try_skip B 16) (\<lambda>_. try_q (try_get_u8 B) (\<lambda>precision. done_q (p\<lparr>p_precision := precision\<rparr>)))
        else done_q p)))))))"

text \<open>The loop over the scaling attributes 13 to 16, and what is read from their data.\<close>

fun read_scaling ::
  "bytes_api \<Rightarrow> 's session \<Rightarrow> MessageRouter \<Rightarrow> u16 \<Rightarrow> u16 list \<Rightarrow> bytes \<Rightarrow> ('s, error, bytes) action" where
  "read_scaling B S R ident [] scaling = sret scaling"
| "read_scaling B S R ident (a # as) scaling =
     sbind (request_checked B S R SC_GET_ATTRIBUTE_SINGLE (epath_attribute PARAMETER_CLASS_ID ident a) []
        (lit ''read parameter attribute '' @ fmt_dec (unat a)))
       (\<lambda>reply. read_scaling B S R ident as (scaling @ resp_data reply))"

definition scaling_fields :: "bytes_api \<Rightarrow> ParameterObject \<Rightarrow> ParameterObject reader" where
  "scaling_fields B p =
     try_q (try_get_u16_le B) (\<lambda>multiplier. try_q (try_get_u16_le B) (\<lambda>divisor. try_q (try_get_u16_le B) (\<lambda>base.
     try_q (try_get_i16_le B) (\<lambda>offset.
     done_q (p\<lparr>p_scaling_multiplier := multiplier, p_scaling_divisor := divisor, p_scaling_base := base,
       p_scaling_offset := offset\<rparr>)))))"

definition parameter_read ::
  "bytes_api \<Rightarrow> 's session \<Rightarrow> MessageRouter \<Rightarrow> u16 \<Rightarrow> bool \<Rightarrow> ('s, error, ParameterObject) action" where
  "parameter_read B S R ident full =
     sbind (request_checked B S R SC_GET_ATTRIBUTE_SINGLE (epath_attribute PARAMETER_CLASS_ID ident ATTR_DATA_SIZE) []
        (lit ''read parameter data size'')) (\<lambda>size_reply.
     sbind (slift (run_reader (try_q (try_get_u8 B) done_q) (resp_data size_reply))) (\<lambda>n.
     let data_size = unat n; p = parameter_new ident full data_size in
     sbind (request_checked B S R SC_GET_ATTRIBUTE_ALL (epath_instance PARAMETER_CLASS_ID ident) []
        (lit ''read parameter attributes'')) (\<lambda>reply.
     sbind (slift (run_reader
         (read_q (basic_attributes B data_size p) (\<lambda>p. if full then full_attributes B data_size p else done_q p))
         (resp_data reply))) (\<lambda>p.
     if full \<and> p_is_scalable p then
       sbind (read_scaling B S R ident [13, 14, 15, 16] []) (\<lambda>scaling. slift (run_reader (scaling_fields B p) scaling))
     else sret p))))"

definition update_value ::
  "bytes_api \<Rightarrow> 's session \<Rightarrow> MessageRouter \<Rightarrow> ParameterObject \<Rightarrow> ('s, error, ParameterObject) action" where
  "update_value B S R p =
     sbind (request_checked B S R SC_GET_ATTRIBUTE_SINGLE (epath_attribute PARAMETER_CLASS_ID (p_instance_id p) ATTR_VALUE) []
        (lit ''read parameter value'')) (\<lambda>reply. sret (p\<lparr>p_value := resp_data reply\<rparr>))"

definition raw_value :: "ParameterObject \<Rightarrow> bytes" where
  "raw_value p = p_value p"

section \<open>Engineering values\<close>

definition actual_value :: "('f, 't) CipValue \<Rightarrow> ParameterObject \<Rightarrow> 't result" where
  "actual_value T p = cip_value_decode T (p_value p)"

definition min_value :: "('f, 't) CipValue \<Rightarrow> ParameterObject \<Rightarrow> 't result" where
  "min_value T p = cip_value_decode T (p_min_value p)"

definition max_value :: "('f, 't) CipValue \<Rightarrow> ParameterObject \<Rightarrow> 't result" where
  "max_value T p = cip_value_decode T (p_max_value p)"

definition default_value :: "('f, 't) CipValue \<Rightarrow> ParameterObject \<Rightarrow> 't result" where
  "default_value T p = cip_value_decode T (p_default_value p)"

definition actual_to_eng :: "'f f64_api \<Rightarrow> ParameterObject \<Rightarrow> 'f \<Rightarrow> 'f" where
  "actual_to_eng F p actual =
     (if \<not> p_is_scalable p then actual
      else f_div F
        (f_mul F (f_mul F (f_add F actual (f_of_int F (sint (p_scaling_offset p)))) (f_of_int F (uint (p_scaling_multiplier p))))
          (f_of_int F (uint (p_scaling_base p))))
        (f_mul F (f_of_int F (uint (p_scaling_divisor p))) (f_ten_pow F (p_precision p))))"

definition eng_to_actual :: "'f f64_api \<Rightarrow> ParameterObject \<Rightarrow> 'f \<Rightarrow> 'f" where
  "eng_to_actual F p eng =
     (if \<not> p_is_scalable p then eng
      else f_sub F
        (f_div F (f_mul F (f_mul F eng (f_of_int F (uint (p_scaling_divisor p)))) (f_ten_pow F (p_precision p)))
          (f_mul F (f_of_int F (uint (p_scaling_multiplier p))) (f_of_int F (uint (p_scaling_base p)))))
        (f_of_int F (sint (p_scaling_offset p))))"

definition eng_value :: "'f f64_api \<Rightarrow> ('f, 't) CipValue \<Rightarrow> ParameterObject \<Rightarrow> 'f result" where
  "eng_value F T p = rbind (actual_value T p) (\<lambda>v. Ok (actual_to_eng F p (cv_to_f64 T v)))"

definition eng_min_value :: "'f f64_api \<Rightarrow> ('f, 't) CipValue \<Rightarrow> ParameterObject \<Rightarrow> 'f result" where
  "eng_min_value F T p = rbind (min_value T p) (\<lambda>v. Ok (actual_to_eng F p (cv_to_f64 T v)))"

definition eng_max_value :: "'f f64_api \<Rightarrow> ('f, 't) CipValue \<Rightarrow> ParameterObject \<Rightarrow> 'f result" where
  "eng_max_value F T p = rbind (max_value T p) (\<lambda>v. Ok (actual_to_eng F p (cv_to_f64 T v)))"

definition eng_default_value :: "'f f64_api \<Rightarrow> ('f, 't) CipValue \<Rightarrow> ParameterObject \<Rightarrow> 'f result" where
  "eng_default_value F T p = rbind (default_value T p) (\<lambda>v. Ok (actual_to_eng F p (cv_to_f64 T v)))"

definition set_eng_min_value :: "'f f64_api \<Rightarrow> ('f, 't) CipValue \<Rightarrow> 'f \<Rightarrow> ParameterObject \<Rightarrow> ParameterObject" where
  "set_eng_min_value F T v p = p\<lparr>p_min_value := cv_encode T (cv_from_f64 T (eng_to_actual F p v))\<rparr>"

definition set_eng_max_value :: "'f f64_api \<Rightarrow> ('f, 't) CipValue \<Rightarrow> 'f \<Rightarrow> ParameterObject \<Rightarrow> ParameterObject" where
  "set_eng_max_value F T v p = p\<lparr>p_max_value := cv_encode T (cv_from_f64 T (eng_to_actual F p v))\<rparr>"

definition set_eng_default_value :: "'f f64_api \<Rightarrow> ('f, 't) CipValue \<Rightarrow> 'f \<Rightarrow> ParameterObject \<Rightarrow> ParameterObject" where
  "set_eng_default_value F T v p = p\<lparr>p_default_value := cv_encode T (cv_from_f64 T (eng_to_actual F p v))\<rparr>"


section \<open>A device that holds a parameter\<close>

context bytes_crate
begin

text \<open>A request without data to a device with a reply queued, in the form a sequence of them rewrites with.\<close>

lemma mock_get:
  assumes "length d < 65000"
  shows "request_checked B (mock_session B) R sc path [] ctxt (m\<lparr>replies := (GSC_SUCCESS, d, []) # rest, requests := q\<rparr>) =
     (Ok \<lparr>service = ServiceCode (service_code_raw sc OR 0x80), general_status = GSC_SUCCESS, additional_status = [],
        resp_data = d, additional_packet_items = []\<rparr>,
      m\<lparr>replies := rest, requests := q @ [\<lparr>rq_service = sc, rq_path = path, rq_data = []\<rparr>]\<rparr>)"
  using mock_request_checked [of "[]" "m\<lparr>replies := (GSC_SUCCESS, d, []) # rest, requests := q\<rparr>" d "[]" rest R sc path ctxt]
    assms by simp

lemma try_get_short_string_wire:
  "length s < 256 \<Longrightarrow> try_get_short_string B (of_nat (length s) # s @ r) = Ok (from_utf8_lossy s, r)"
  by (simp add: try_get_short_string_def try_q_def read_q_def unat_of_nat_small)

end

text \<open>
  Get_Attributes_All of a parameter with the given descriptor and texts, and what a device answers to the
  sequence of requests; \<open>holds_parameter\<close> says that the bytes are those of \<open>p\<close>.
\<close>

record parameter_texts =
  t_link :: bytes
  t_name :: bytes
  t_units :: bytes
  t_help :: bytes
  t_scaling :: bytes

definition short :: "bytes \<Rightarrow> bytes" where
  "short s = of_nat (length s) # s"

definition parameter_wire :: "u16 \<Rightarrow> parameter_texts \<Rightarrow> ParameterObject \<Rightarrow> bytes" where
  "parameter_wire desc t p =
     p_value p @ short (t_link t) @ le16 desc @ [cip_data_type_raw (p_data_type p), of_nat (length (p_value p))]
     @ short (t_name t) @ short (t_units t) @ short (t_help t) @ p_min_value p @ p_max_value p @ p_default_value p
     @ (if p_is_scalable p then t_scaling t @ [p_precision p] else [])"

definition holds_parameter :: "u16 \<Rightarrow> parameter_texts \<Rightarrow> ParameterObject \<Rightarrow> bool" where
  "holds_parameter desc t p \<longleftrightarrow> p_has_full_attributes p \<and> length (p_value p) < 256
     \<and> length (p_min_value p) = length (p_value p) \<and> length (p_max_value p) = length (p_value p)
     \<and> length (p_default_value p) = length (p_value p)
     \<and> (p_is_scalable p \<longleftrightarrow> desc AND SUPPORTS_SCALING \<noteq> 0) \<and> (p_is_read_only p \<longleftrightarrow> desc AND READ_ONLY \<noteq> 0)
     \<and> length (t_link t) < 256 \<and> length (t_name t) < 256 \<and> length (t_units t) < 256 \<and> length (t_help t) < 256
     \<and> p_name p = from_utf8_lossy (t_name t) \<and> p_units p = from_utf8_lossy (t_units t)
     \<and> p_help p = from_utf8_lossy (t_help t) \<and> length (t_scaling t) = 16
     \<and> (\<not> p_is_scalable p \<longrightarrow> p_scaling_multiplier p = 1 \<and> p_scaling_divisor p = 1 \<and> p_scaling_base p = 1
          \<and> p_scaling_offset p = 0 \<and> p_precision p = 0)"

definition scaling_values :: "ParameterObject \<Rightarrow> u16 list" where
  "scaling_values p = [p_scaling_multiplier p, p_scaling_divisor p, p_scaling_base p, p_scaling_offset p]"

definition parameter_replies :: "u16 \<Rightarrow> parameter_texts \<Rightarrow> ParameterObject \<Rightarrow> bytes \<Rightarrow> Reply list" where
  "parameter_replies desc t p rest =
     [(GSC_SUCCESS, [of_nat (length (p_value p))], []), (GSC_SUCCESS, parameter_wire desc t p @ rest, [])]
     @ (if p_is_scalable p then map (\<lambda>x. (GSC_SUCCESS, le16 x, [])) (scaling_values p) else [])"

definition get_single :: "u16 \<Rightarrow> u16 \<Rightarrow> Request" where
  "get_single ident a = \<lparr>rq_service = SC_GET_ATTRIBUTE_SINGLE, rq_path = epath_attribute PARAMETER_CLASS_ID ident a, rq_data = []\<rparr>"

definition parameter_requests :: "ParameterObject \<Rightarrow> Request list" where
  "parameter_requests p =
     [get_single (p_instance_id p) ATTR_DATA_SIZE,
      \<lparr>rq_service = SC_GET_ATTRIBUTE_ALL, rq_path = epath_instance PARAMETER_CLASS_ID (p_instance_id p), rq_data = []\<rparr>]
     @ (if p_is_scalable p then map (get_single (p_instance_id p)) [13, 14, 15, 16] else [])"

lemma length_short [simp]: "length (short s) = Suc (length s)"
  by (simp add: short_def)

context bytes_crate
begin

lemma basic_attributes_wire:
  assumes "holds_parameter desc t p"
  shows "basic_attributes B (length (p_value p)) p0 (p_value p @ short (t_link t) @ le16 desc @ cip_data_type_raw (p_data_type p) # r) =
    Ok (p0\<lparr>p_value := p_value p, p_data_type := p_data_type p, p_is_scalable := p_is_scalable p, p_is_read_only := p_is_read_only p\<rparr>, r)"
proof -
  have len: "unat (of_nat (length (t_link t)) :: u8) = length (t_link t)"
    using assms by (simp add: holds_parameter_def unat_of_nat_small)
  have "CipDataType (cip_data_type_raw (p_data_type p)) = p_data_type p" by (cases "p_data_type p") simp
  with assms len show ?thesis
    by (simp add: basic_attributes_def read_q_def try_q_def short_def try_skip_eq holds_parameter_def)
qed

lemma full_attributes_wire:
  assumes "holds_parameter desc t p"
  shows "full_attributes B (length (p_value p)) p0 (x # short (t_name t) @ short (t_units t) @ short (t_help t) @ p_min_value p
      @ p_max_value p @ p_default_value p @ (if p_is_scalable p0 then t_scaling t @ [p_precision p] else []) @ r) =
    Ok (p0\<lparr>p_name := p_name p, p_units := p_units p, p_help := p_help p, p_min_value := p_min_value p,
      p_max_value := p_max_value p, p_default_value := p_default_value p,
      p_precision := (if p_is_scalable p0 then p_precision p else p_precision p0)\<rparr>, r)"
  using assms
  by (simp add: full_attributes_def read_q_def try_q_def short_def try_skip_eq try_get_short_string_wire
      holds_parameter_def Let_def)

lemma read_scaling_device:
  "length as = length xs \<Longrightarrow>
   read_scaling B (mock_session B) R ident as acc
     (m\<lparr>replies := map (\<lambda>x. (GSC_SUCCESS, le16 x, [])) xs @ rest, requests := q\<rparr>) =
   (Ok (acc @ concat (map le16 xs)), m\<lparr>replies := rest, requests := q @ map (get_single ident) as\<rparr>)"
proof (induction as arbitrary: xs acc q)
  case (Cons a as)
  then obtain x xs' where "xs = x # xs'" by (cases xs) auto
  with Cons show ?case by (simp add: sbind_def mock_get get_single_def)
qed simp

lemma scaling_fields_values:
  "scaling_fields B p0 (concat (map le16 (scaling_values p))) =
    Ok (p0\<lparr>p_scaling_multiplier := p_scaling_multiplier p, p_scaling_divisor := p_scaling_divisor p,
      p_scaling_base := p_scaling_base p, p_scaling_offset := p_scaling_offset p\<rparr>, [])"
  by (simp add: scaling_fields_def scaling_values_def try_q_def)

end


context bytes_crate
begin

lemma parameter_read_device:
  assumes h: "holds_parameter desc t p" and rest: "length rest < 60000"
  shows "parameter_read B (mock_session B) R (p_instance_id p) True
      (m\<lparr>replies := parameter_replies desc t p rest @ rs, requests := q\<rparr>) =
    (Ok p, m\<lparr>replies := rs, requests := q @ parameter_requests p\<rparr>)"
proof -
  let ?n = "length (p_value p)"
  let ?p0 = "parameter_new (p_instance_id p) True ?n"
  let ?p1 = "?p0\<lparr>p_value := p_value p, p_data_type := p_data_type p, p_is_scalable := p_is_scalable p, p_is_read_only := p_is_read_only p\<rparr>"
  let ?p2 = "?p1\<lparr>p_name := p_name p, p_units := p_units p, p_help := p_help p, p_min_value := p_min_value p,
      p_max_value := p_max_value p, p_default_value := p_default_value p,
      p_precision := (if p_is_scalable p then p_precision p else 0)\<rparr>"
  have n: "unat (of_nat ?n :: u8) = ?n" using h by (simp add: holds_parameter_def unat_of_nat_small)
  have len: "length (parameter_wire desc t p @ rest) < 65000"
    using h rest by (simp add: parameter_wire_def holds_parameter_def)
  have wire: "parameter_wire desc t p @ rest = p_value p @ short (t_link t) @ le16 desc @ cip_data_type_raw (p_data_type p)
      # (of_nat ?n # short (t_name t) @ short (t_units t) @ short (t_help t) @ p_min_value p @ p_max_value p @ p_default_value p
        @ (if p_is_scalable ?p1 then t_scaling t @ [p_precision p] else []) @ rest)"
    by (simp add: parameter_wire_def)
  have fields: "read_q (basic_attributes B ?n ?p0) (\<lambda>p. full_attributes B ?n p) (parameter_wire desc t p @ rest) = Ok (?p2, rest)"
    unfolding wire read_q_def basic_attributes_wire [OF h]
    using full_attributes_wire [OF h, of ?p1 "of_nat ?n" rest] by (simp add: parameter_new_def)
  show ?thesis
  proof (cases "p_is_scalable p")
    case True
    have "?p2\<lparr>p_scaling_multiplier := p_scaling_multiplier p, p_scaling_divisor := p_scaling_divisor p,
        p_scaling_base := p_scaling_base p, p_scaling_offset := p_scaling_offset p\<rparr> = p"
      using h True by (simp add: parameter_new_def holds_parameter_def)
    then show ?thesis
      using True n fields scaling_fields_values [of ?p2 p]
        read_scaling_device [of "[13, 14, 15, 16]" "scaling_values p", where acc = "[]"]
      by (simp add: parameter_read_def parameter_replies_def parameter_requests_def sbind_def mock_get [OF len] mock_get
          get_single_def run_reader_def try_q_def Let_def scaling_values_def)
  next
    case False
    have "?p2 = p" using h False by (simp add: parameter_new_def holds_parameter_def)
    then show ?thesis
      using False n fields
      by (simp add: parameter_read_def parameter_replies_def parameter_requests_def sbind_def mock_get [OF len] mock_get
          get_single_def run_reader_def try_q_def Let_def)
  qed
qed

end


section \<open>Properties\<close>

text \<open>C28: Reading a full parameter from a device that holds it, scalable or not: every field comes back (value,
  limits and default with the announced size, texts, descriptor flags, precision and the four scaling
  values), the link path and further bytes are skipped, and the device has been asked for exactly the data
  size, all attributes and, when scalable, attributes 13 to 16 in order.\<close>
theorem parameter_read_end_to_end:
  assumes "bytes_crate B" "holds_parameter desc t p" "length rest < 60000"
    and "replies m = parameter_replies desc t p rest @ rs"
  shows "parameter_read B (mock_session B) R (p_instance_id p) True m =
    (Ok p, m\<lparr>replies := rs, requests := requests m @ parameter_requests p\<rparr>)"
proof -
  have "m = m\<lparr>replies := parameter_replies desc t p rest @ rs, requests := requests m\<rparr>"
    by (simp add: assms(4) [symmetric])
  with bytes_crate.parameter_read_device [OF assms(1-3), where m = m and rs = rs and q = "requests m"] show ?thesis by simp
qed

definition sample_texts :: parameter_texts where
  "sample_texts = \<lparr>t_link = [0x20, 4], t_name = [70], t_units = [72, 122], t_help = [], t_scaling = replicate 16 0\<rparr>"

definition sample_parameter :: ParameterObject where
  "sample_parameter = (parameter_new 5 True 2)\<lparr>p_is_scalable := True, p_data_type := CipDataType 0xC7, p_name := [70],
     p_units := [72, 122], p_scaling_divisor := 10, p_scaling_offset := 0xFFFF, p_precision := 1, p_value := [44, 1],
     p_max_value := [0xFF, 0xFF]\<rparr>"

lemma parameter_read_end_to_end_witness:
  "\<exists>m. fst (parameter_read slice_bytes (mock_session slice_bytes) router_new 5 True m) = Ok sample_parameter
     \<and> length (replies m) = 6"
proof -
  have h: "holds_parameter 4 sample_texts sample_parameter"
    by (simp add: holds_parameter_def sample_texts_def sample_parameter_def parameter_new_def from_utf8_lossy_ascii)
  have "p_instance_id sample_parameter = 5" "p_is_scalable sample_parameter"
    by (simp_all add: sample_parameter_def parameter_new_def)
  with parameter_read_end_to_end [OF slice.bytes_crate_axioms h, of "[]"
      "mock_new\<lparr>replies := parameter_replies 4 sample_texts sample_parameter []\<rparr>" "[]" router_new]
  show ?thesis
    by (intro exI [of _ "mock_new\<lparr>replies := parameter_replies 4 sample_texts sample_parameter []\<rparr>"])
      (simp add: parameter_replies_def scaling_values_def)
qed

text \<open>Documented behaviour of \<open>v as t\<close>: it saturates, so the result is a value of the type.\<close>

definition f64_casts :: "'f f64_api \<Rightarrow> bool" where
  "f64_casts F \<longleftrightarrow> (\<forall>lo hi v. lo \<le> 0 \<longrightarrow> 0 \<le> hi \<longrightarrow> lo \<le> f_as_int F lo hi v \<and> f_as_int F lo hi v \<le> hi)"

lemma int_value_codec:
  assumes "8 dvd LENGTH('w)" "T = unsigned_value F \<or> T = (signed_value F :: ('f, 'w::len word) CipValue)"
  shows "cip_value_decode T bs = Ok w \<longleftrightarrow> bs = cv_encode T w"
    and "length (cv_encode T w) = cv_size T"
proof -
  have n: "8 * (LENGTH('w) div 8) = LENGTH('w)" using assms(1) by simp
  have T: "cv_size T = LENGTH('w) div 8" "cv_decode T = of_le" "cv_encode T = to_le (LENGTH('w) div 8)"
    using assms(2) by (auto simp: unsigned_value_def signed_value_def)
  show "length (cv_encode T w) = cv_size T" by (simp add: T)
  show "cip_value_decode T bs = Ok w \<longleftrightarrow> bs = cv_encode T w"
    using of_le_to_le [of "LENGTH('w) div 8" w] to_le_of_le [of bs, where 'a = 'w] n
    by (auto simp: cip_value_decode_def T)
qed

text \<open>C29: Typed access to a parameter as an integer type of whole bytes, signed or not: a value is returned exactly
  when its stored bytes are the little-endian encoding of it, so every other length is an error and none
  panics; a limit or default set in engineering units is stored so that it reads back as the converted
  number in that type, saturated to the type's range and not wrapped, and changes no other field.\<close>
theorem parameter_typed_access:
  fixes F :: "'f f64_api"
  assumes "f64_casts F" "8 dvd LENGTH('w)"
  shows "(actual_value (unsigned_value F) p = Ok (w :: 'w::len word) \<longleftrightarrow> p_value p = to_le (LENGTH('w) div 8) w)
    \<and> (actual_value (signed_value F) p = Ok w \<longleftrightarrow> p_value p = to_le (LENGTH('w) div 8) w)
    \<and> min_value (signed_value F) (set_eng_min_value F (signed_value F :: ('f, 'w word) CipValue) v p) =
        Ok (word_of_int (f_as_int F (- (2 ^ (LENGTH('w) - 1))) (2 ^ (LENGTH('w) - 1) - 1) (f_round F (eng_to_actual F p v))) :: 'w word)
    \<and> (\<exists>n :: 'w word. max_value (unsigned_value F) (set_eng_max_value F (unsigned_value F :: ('f, 'w word) CipValue) v p) = Ok n
        \<and> uint n = f_as_int F 0 (2 ^ LENGTH('w) - 1) (f_round F (eng_to_actual F p v)))
    \<and> p_value (set_eng_default_value F (unsigned_value F :: ('f, 'w word) CipValue) v p) = p_value p
    \<and> p_min_value (set_eng_max_value F (unsigned_value F :: ('f, 'w word) CipValue) v p) = p_min_value p"
proof -
  have codec: "cip_value_decode T (cv_encode T w) = Ok w"
    if "T = unsigned_value F \<or> T = (signed_value F :: ('f, 'w word) CipValue)" for T and w :: "'w word"
    using int_value_codec(1) [OF assms(2) that] by simp
  let ?k = "f_as_int F 0 (2 ^ LENGTH('w) - 1) (f_round F (eng_to_actual F p v))"
  have "(0::int) \<le> 2 ^ LENGTH('w) - 1" by simp
  with assms(1) have "0 \<le> ?k" "?k \<le> 2 ^ LENGTH('w) - 1" unfolding f64_casts_def by blast+
  then have k: "uint (word_of_int ?k :: 'w word) = ?k" by (simp add: uint_word_of_int_eq take_bit_int_eq_self)
  have codec_le: "cip_value_decode (unsigned_value F) (to_le (LENGTH('w) div 8) w) = Ok w"
    "cip_value_decode (signed_value F) (to_le (LENGTH('w) div 8) w) = Ok w" for w :: "'w word"
    using codec [of "unsigned_value F" w] codec [of "signed_value F" w] by (simp_all add: unsigned_value_def signed_value_def)
  have enc: "cv_encode (unsigned_value F) w = to_le (LENGTH('w) div 8) w" "cv_encode (signed_value F) w = to_le (LENGTH('w) div 8) w"
    for w :: "'w word" by (simp_all add: unsigned_value_def signed_value_def)
  have "cv_from_f64 (unsigned_value F) (eng_to_actual F p v) = (word_of_int ?k :: 'w word)"
    by (simp add: unsigned_value_def)
  moreover have "cv_from_f64 (signed_value F) (eng_to_actual F p v) = (word_of_int (f_as_int F (- (2 ^ (LENGTH('w) - 1)))
      (2 ^ (LENGTH('w) - 1) - 1) (f_round F (eng_to_actual F p v))) :: 'w word)"
    by (simp add: signed_value_def)
  ultimately show ?thesis
    using int_value_codec(1) [OF assms(2), of "unsigned_value F" F "p_value p" w]
      int_value_codec(1) [OF assms(2), of "signed_value F" F "p_value p" w] k
    by (simp add: actual_value_def min_value_def max_value_def set_eng_min_value_def set_eng_max_value_def
        set_eng_default_value_def enc codec_le)
qed

definition int_arith :: "int f64_api" where
  "int_arith = \<lparr>f_of_int = (\<lambda>n. n), f_add = (+), f_sub = (-), f_mul = (*), f_div = (div), f_powi = (\<lambda>x n. x ^ nat n),
     f_round = (\<lambda>v. v), f_as_int = (\<lambda>lo hi v. max lo (min hi v))\<rparr>"

lemma parameter_typed_access_witness:
  "actual_value (unsigned_value int_arith) sample_parameter = Ok (300 :: u16)
   \<and> (\<exists>n :: u8. max_value (unsigned_value int_arith) (set_eng_max_value int_arith (unsigned_value int_arith :: (int, u8) CipValue) 900
        (parameter_new 1 True 1)) = Ok n \<and> uint n = 255)"
proof -
  have F: "f64_casts int_arith" by (simp add: f64_casts_def int_arith_def)
  have eng: "eng_to_actual int_arith (parameter_new 1 True 1) 900 = 900"
    by (simp add: eng_to_actual_def parameter_new_def)
  have stored: "p_value sample_parameter = le16 300" by (simp add: sample_parameter_def to_le_2)
  have "actual_value (unsigned_value int_arith) sample_parameter = Ok (300 :: u16)"
    using parameter_typed_access [OF F, where 'w = 16 and p = sample_parameter and w = 300] stored by simp
  moreover have "\<exists>n :: u8. max_value (unsigned_value int_arith) (set_eng_max_value int_arith (unsigned_value int_arith :: (int, u8) CipValue) 900
        (parameter_new 1 True 1)) = Ok n \<and> uint n = f_as_int int_arith 0 (2 ^ LENGTH(8) - 1) (f_round int_arith 900)"
    using parameter_typed_access [OF F, where 'w = 8 and p = "parameter_new 1 True 1" and v = 900] eng by simp
  ultimately show ?thesis by (simp add: int_arith_def)
qed

end
