(* ===== verification/Fault_Code.thy ===== *)
theory Fault_Code
  imports Rust_Text
begin

text \<open>
  The PowerFlex 525 fault table (src/src/vendor/ra/powerflex525/fault_code.rs) and its lookup. The lookup is
  the standard library's binary search, written out as its loop; the lemmas show that on a table sorted by
  code it finds exactly the entries of the table.
\<close>

section \<open>The binary search\<close>

text \<open>
  The loop of \<open>slice::binary_search_by\<close>: while more than one candidate is left it halves the candidates,
  keeping \<open>base\<close> at an entry whose code is not greater than the one looked for.
\<close>

function narrow :: "(u16 \<times> 'a) list \<Rightarrow> u16 \<Rightarrow> nat \<Rightarrow> nat \<Rightarrow> nat" where
  "narrow table code base left =
     (if left \<le> 1 then base
      else (let half = left div 2; mid = base + half in
            narrow table code (if code < fst (table ! mid) then base else mid) (left - half)))"
  by pat_completeness auto
termination
  by (relation "measure (\<lambda>(_, _, _, left). left)") auto

declare narrow.simps [simp del]

text \<open>The index of the entry on the right, the index to insert it at on the left.\<close>

definition binary_search_by_key :: "(u16 \<times> 'a) list \<Rightarrow> u16 \<Rightarrow> nat + nat" where
  "binary_search_by_key table code =
     (if table = [] then Err 0 else
      let base = narrow table code 0 (length table); key = fst (table ! base) in
      if key = code then Ok base else Err (base + (if key < code then 1 else 0)))"

text \<open>
  What the loop keeps: the candidates start at an entry that is not beyond the code (or at the first one), and
  the entry after them is beyond it.
\<close>

lemma narrow_result:
  assumes "sorted_wrt (<) (map fst table)" "1 \<le> left" "base + left \<le> length table"
    and "base = 0 \<or> fst (table ! base) \<le> code"
    and "base + left < length table \<Longrightarrow> code < fst (table ! (base + left))"
    and "r = narrow table code base left"
  shows "r < length table \<and> (r = 0 \<or> fst (table ! r) \<le> code) \<and> (Suc r < length table \<longrightarrow> code < fst (table ! Suc r))"
  using assms
proof (induction table code base left arbitrary: r rule: narrow.induct)
  case (1 table code base left)
  show ?case
  proof (cases "left \<le> 1")
    case True
    with "1.prems" show ?thesis by (auto simp: narrow.simps le_Suc_eq)
  next
    case False
    let ?mid = "base + left div 2"
    have r: "r = narrow table code (if code < fst (table ! ?mid) then base else ?mid) (left - left div 2)"
      using "1.prems"(6) False by (simp add: narrow.simps [of table code base left] Let_def)
    have mid: "?mid < base + left" using False by simp
    show ?thesis
    proof (rule "1.IH" [OF False refl refl])
      show "(if code < fst (table ! ?mid) then base else ?mid) + (left - left div 2) \<le> length table"
        using "1.prems"(3) mid by auto
      show "(if code < fst (table ! ?mid) then base else ?mid) = 0 \<or>
          fst (table ! (if code < fst (table ! ?mid) then base else ?mid)) \<le> code"
        using "1.prems"(4) by auto
      show "code < fst (table ! ((if code < fst (table ! ?mid) then base else ?mid) + (left - left div 2)))"
        if above: "(if code < fst (table ! ?mid) then base else ?mid) + (left - left div 2) < length table"
      proof (cases "code < fst (table ! ?mid)")
        case True
        have "?mid \<le> base + (left - left div 2)" by simp
        then have "fst (table ! ?mid) \<le> fst (table ! (base + (left - left div 2)))"
          using above True sorted_wrt_nth_less [OF "1.prems"(1), of ?mid "base + (left - left div 2)"]
          by (cases "?mid = base + (left - left div 2)") (auto simp: less_imp_le)
        with True show ?thesis by (simp add: less_le_trans)
      next
        case False
        with above "1.prems"(5) show ?thesis by simp
      qed
    qed (use "1.prems" False r in auto)
  qed
qed

lemma binary_search_by_key_Ok:
  assumes "sorted_wrt (<) (map fst table)"
  shows "binary_search_by_key table code = Ok i \<longleftrightarrow> i < length table \<and> fst (table ! i) = code"
proof (cases "table = []")
  case False
  define r where "r = narrow table code 0 (length table)"
  have "1 \<le> length table" using False by (simp add: Suc_le_eq)
  then have r: "r < length table" "r = 0 \<or> fst (table ! r) \<le> code" "Suc r < length table \<Longrightarrow> code < fst (table ! Suc r)"
    using narrow_result [OF assms, of "length table" 0 code r] r_def by auto
  have mono: "fst (table ! j) < fst (table ! k)" if "j < k" "k < length table" for j k
    using sorted_wrt_nth_less [OF assms, of j k] that by simp
  have "i = r" if i: "i < length table" "fst (table ! i) = code"
  proof (rule linorder_cases [of i r])
    assume "i < r"
    with mono [of i r] r i show ?thesis by auto
  next
    assume "r < i"
    with r(3) mono [of "Suc r" i] i show ?thesis by (cases "i = Suc r") auto
  qed
  then show ?thesis
    using False r(1) by (auto simp: binary_search_by_key_def r_def [symmetric] Let_def)
qed (simp add: binary_search_by_key_def)

section \<open>The table\<close>

record FaultDescription =
  fault_type :: u8
  fault_text :: rstr
  fault_descr :: rstr

definition fault_row :: "u8 \<Rightarrow> rstr \<Rightarrow> rstr \<Rightarrow> FaultDescription" where
  "fault_row ty text descr = \<lparr>fault_type = ty, fault_text = text, fault_descr = descr\<rparr>"

text \<open>The entries of \<open>FAULTS\<close>, in three parts.\<close>

definition FAULTS_1 :: "(u16 \<times> FaultDescription) list" where
  "FAULTS_1 = [
    (0, fault_row 0 (lit ''No Fault'')
       (lit ''No fault present.'')),
    (2, fault_row 1 (lit ''Heatsink OvrTmp'')
       (lit ''Heatsink/Power Module temperature exceeds a predefined value.'')),
    (3, fault_row 2 (lit ''Power Loss'')
       (lit ''Single phase operation detected with excessive load.'')),
    (4, fault_row 1 (lit ''UnderVoltage'')
       (lit ''DC bus voltage fell below the minimum value.'')),
    (5, fault_row 1 (lit ''OverVoltage'')
       (lit ''DC bus voltage exceeded maximum value.'')),
    (6, fault_row 1 (lit ''Motor Stalled'')
       (lit ''Drive is unable to accelerate or decelerate motor.'')),
    (7, fault_row 1 (lit ''Motor Overload'')
       (lit ''Internal electronic overload trip.'')),
    (8, fault_row 1 (lit ''Heatsink OvrTmp'')
       (lit ''Heatsink/Power Module temperature exceeds a predefined value.'')),
    (9, fault_row 1 (lit ''CC OvrTmp'')
       (lit ''Control module temperature exceeds a predefined value.'')),
    (12, fault_row 2 (lit ''HW OverCurrent'')
       (lit ''The drive output current has exceeded the hardware current limit.'')),
    (13, fault_row 1 (lit ''Ground Fault'')
       (lit ''A current path to earth ground has been detected at one or more of the drive output terminals.'')),
    (15, fault_row 2 (lit ''Load Loss'')
       (lit ''The output torque current is below the value programmed in A490 [Load Loss Level] for a time period greater than the time programmed in A491 [Load Loss Time].'')),
    (21, fault_row 1 (lit ''Output Ph Loss'')
       (lit ''Output Phase Loss (if enabled). Configure with A557 [Output Phas Loss En]'')),
    (29, fault_row 1 (lit ''Analog In Loss'')
       (lit ''An analog input is configured to fault on signal loss. A signal loss has occurred. Configure with t094 [Anlg In V Loss] or t097 [Anlg In mA Loss].'')),
    (33, fault_row 2 (lit ''Auto Rstrt Tries'')
       (lit ''Drive unsuccessfully attempted to reset a fault and resume running for the programmed number of A541 [Auto Rstrt Tries].'')),
    (38, fault_row 2 (lit ''Phase U to Gnd'')
       (lit ''A phase to ground fault has been detected between the drive and motor in this phase.''))]"

definition FAULTS_2 :: "(u16 \<times> FaultDescription) list" where
  "FAULTS_2 = [
    (39, fault_row 2 (lit '' Phase V to Gnd'')
       (lit ''A phase to ground fault has been detected between the drive and motor in this phase.'')),
    (40, fault_row 2 (lit '' Phase W to Gnd'')
       (lit ''A phase to ground fault has been detected between the drive and motor in this phase.'')),
    (41, fault_row 2 (lit ''Phase UV Short'')
       (lit ''Excessive current has been detected between these two output terminals'')),
    (42, fault_row 2 (lit ''Phase UW Short'')
       (lit ''Excessive current has been detected between these two output terminals'')),
    (43, fault_row 2 (lit ''Phase VW Short'')
       (lit ''Excessive current has been detected between these two output terminals'')),
    (48, fault_row 1 (lit ''Params Defaulted'')
       (lit '' The drive was commanded to write default values to EEPROM.'')),
    (59, fault_row 1 (lit ''Safety Open'')
       (lit ''Both of the safety inputs (Safety 1, Safety 2) are not enabled. Configure with t105 [Safety Open En].'')),
    (63, fault_row 1 (lit ''SW OverCurrent'')
       (lit ''Programmed A486, A488 [Shear Pinx Level] has been exceeded for a time period greater than the time programmed in A487, A489 [Shear Pin x Time].'')),
    (64, fault_row 2 (lit ''Drive Overload'')
       (lit ''Drive overload rating has been exceeded.'')),
    (70, fault_row 2 (lit ''Power Unit'')
       (lit ''Failure has been detected in the drive power section.'')),
    (71, fault_row 2 (lit ''DSI Net Loss'')
       (lit ''Control over the Modbus or DSI communications link has been interrupted.'')),
    (72, fault_row 2 (lit ''Opt Net Loss'')
       (lit ''Control over the network option card'' @ [8217] @ lit ''s remote network has been interrupted.'')),
    (73, fault_row 2 (lit ''EN Net Loss'')
       (lit ''Control through the embedded EtherNet/IP adapter has been interrupted.'')),
    (80, fault_row 2 (lit ''Autotune Failure'')
       (lit ''The autotune function was either cancelled by the user or failed.'')),
    (81, fault_row 2 (lit ''DSI Comm Loss'')
       (lit ''Communications between the drive and the Modbus or DSI master device have been interrupted.'')),
    (82, fault_row 2 (lit ''Opt Comm Loss'')
       (lit ''Communications between the drive and the network option card have been interrupted.''))]"

definition FAULTS_3 :: "(u16 \<times> FaultDescription) list" where
  "FAULTS_3 = [
    (83, fault_row 2 (lit ''EN Comm Loss'')
       (lit ''Internal communications between the drive and the embedded EtherNet/IP adapter have been interrupted.'')),
    (91, fault_row 2 (lit ''Encoder Loss'')
       (lit ''Requires differential encoder. One of the 2 encoder channel signals is missing'')),
    (94, fault_row 2 (lit ''Function Loss'')
       ([39] @ lit ''Freeze-Fire'' @ [39] @ lit '' (Function Loss) input is inactive, input to the programmed terminal is open.'')),
    (100, fault_row 2 (lit ''Parameter Chksum'')
       (lit ''Drive parameter non-volatile storage is corrupted.'')),
    (101, fault_row 2 (lit ''External Storage'')
       (lit ''External non-volatile storage has failed.'')),
    (105, fault_row 2 (lit ''C Connect Err'')
       (lit ''Control module was disconnected while drive was powered.'')),
    (106, fault_row 2 (lit ''Incompat C-P'')
       (lit ''The PowerFlex 525 control module does not support power modules with 0.25 HP power rating'')),
    (107, fault_row 2 (lit ''Replaced C-P'')
       (lit ''The control module could not recognize the power module. Hardware failure.'')),
    (109, fault_row 2 (lit ''Mismatch C-P'')
       (lit ''The control module was mounted to a different drive type power module'')),
    (110, fault_row 2 (lit ''Keypad Membrane'')
       (lit ''Keypad membrane failure / disconnected.'')),
    (111, fault_row 2 (lit ''Safety Hardware'')
       (lit ''Safety input enable hardware malfunction. One of the safety inputs is not enabled.'')),
    (114, fault_row 2 (lit ''uC Failure'')
       (lit ''Microprocessor failure.'')),
    (122, fault_row 2 (lit ''I/O Board Fail'')
       (lit ''Failure has been detected in the drive control and I/O section.'')),
    (125, fault_row 2 (lit ''Flash Update Req'')
       (lit ''The firmware in the drive is corrupt, mismatched, or incompatible with the hardware.'')),
    (126, fault_row 2 (lit ''NonRecoverablErr'')
       (lit ''A non-recoverable firmware or hardware error was detected. The drive was automatically stopped and reset.'')),
    (127, fault_row 2 (lit ''DSIFlashUpdatReq'')
       (lit ''A critical problem with the firmware was detected and the drive is running using backup firmware that only supports DSI communications.''))]"

definition FAULTS :: "(u16 \<times> FaultDescription) list" where
  "FAULTS = FAULTS_1 @ FAULTS_2 @ FAULTS_3"

definition fault_description :: "u16 \<Rightarrow> FaultDescription option" where
  "fault_description code =
     (case binary_search_by_key FAULTS code of Inl _ \<Rightarrow> None | Inr i \<Rightarrow> Some (snd (FAULTS ! i)))"

lemmas FAULTS_defs = FAULTS_def FAULTS_1_def FAULTS_2_def FAULTS_3_def

lemma faults_sorted: "sorted_wrt (<) (map fst FAULTS)"
proof -
  have "successively (<) (map fst FAULTS)"
    by (simp add: FAULTS_defs)
  then show ?thesis
    by (simp add: successively_conv_sorted_wrt transp_def)
qed

lemma in_fst_image: "k \<notin> fst ` r \<longleftrightarrow> (\<forall>v. (k, v) \<notin> r)"
  by force

text \<open>C33: The lookup of a fault code finds exactly the entries of the table: it returns a description if and
  only if the table has it under that code, and so a code the table lacks is answered with \<open>None\<close>.\<close>
theorem fault_description_complete:
  "(fault_description code = Some d \<longleftrightarrow> (code, d) \<in> set FAULTS) \<and>
   (fault_description code = None \<longleftrightarrow> code \<notin> fst ` set FAULTS)"
proof
  note found = binary_search_by_key_Ok [OF faults_sorted]
  show some: "fault_description code = Some d \<longleftrightarrow> (code, d) \<in> set FAULTS" for d
  proof
    assume "fault_description code = Some d"
    then obtain i where "binary_search_by_key FAULTS code = Ok i" "d = snd (FAULTS ! i)"
      by (auto simp: fault_description_def split: sum.splits)
    then have "i < length FAULTS" "(code, d) = FAULTS ! i" using found [of code i] by auto
    then show "(code, d) \<in> set FAULTS" by simp
  next
    assume "(code, d) \<in> set FAULTS"
    then obtain i where "i < length FAULTS" "FAULTS ! i = (code, d)" by (auto simp only: in_set_conv_nth)
    then show "fault_description code = Some d"
      using found [of code i] by (simp add: fault_description_def)
  qed
  show "fault_description code = None \<longleftrightarrow> code \<notin> fst ` set FAULTS"
  proof -
    have "fault_description code = None \<longleftrightarrow> (\<forall>d. (code, d) \<notin> set FAULTS)"
      by (cases "fault_description code") (simp_all add: some [symmetric])
    then show ?thesis by (simp only: in_fst_image)
  qed
qed

end
