(* ===== verification/PowerFlex525.thy ===== *)
theory PowerFlex525
  imports Fault_Code Parameter_Object
begin

text \<open>
  Faults of the PowerFlex 525 drive (src/src/vendor/ra/powerflex525): the DPI Fault object
  (fault_object.rs), one entry of the fault queue read from parameters (fault_parameter.rs) and the manager
  that reads the queue, reports each fault and clears the queue (fault_manager.rs). The handler, a boxed
  \<open>FnMut\<close>, is a function with the state it has captured, so that a call changes the manager.
\<close>

section \<open>The DPI Fault object\<close>

abbreviation (input) DPI_FAULT_CLASS_ID :: u16 where "DPI_FAULT_CLASS_ID \<equiv> 0x97"
abbreviation (input) FULL_INFORMATION :: u16 where "FULL_INFORMATION \<equiv> 0"
abbreviation (input) VALID_DATA :: u16 where "VALID_DATA \<equiv> 1"
abbreviation (input) REAL_TIME :: u16 where "REAL_TIME \<equiv> 2"

record FullInformation =
  fi_fault_code :: u16
  fi_dsi_port :: u8
  fi_dsi_device_object :: u8
  fi_fault_text :: rstr
  fi_timer_value :: u64
  fi_is_valid_data :: bool
  fi_is_real_time :: bool

record DpiFaultObject =
  dfo_instance_id :: u16
  dfo_full_information :: FullInformation

definition full_information_fields :: "bytes_api \<Rightarrow> FullInformation reader" where
  "full_information_fields B =
     try_q (try_get_u16_le B) (\<lambda>fault_code. try_q (try_get_u8 B) (\<lambda>dsi_port. try_q (try_get_u8 B) (\<lambda>dsi_device_object.
     read_q (try_get_vec B 16) (\<lambda>text. try_q (try_get_u64_le B) (\<lambda>timer_value. try_q (try_get_u16_le B) (\<lambda>flags.
     done_q \<lparr>fi_fault_code = fault_code, fi_dsi_port = dsi_port, fi_dsi_device_object = dsi_device_object,
       fi_fault_text = trim_end_matches (\<lambda>c. c = 0) (from_utf8_lossy text), fi_timer_value = timer_value,
       fi_is_valid_data = (flags AND VALID_DATA \<noteq> 0), fi_is_real_time = (flags AND REAL_TIME \<noteq> 0)\<rparr>))))))"

definition fault_object_read :: "bytes_api \<Rightarrow> 's session \<Rightarrow> MessageRouter \<Rightarrow> u16 \<Rightarrow> ('s, error, DpiFaultObject) action" where
  "fault_object_read B S R ident =
     sbind (request_checked B S R SC_GET_ATTRIBUTE_SINGLE (epath_attribute DPI_FAULT_CLASS_ID ident FULL_INFORMATION) []
        (lit ''read DPI fault full information''))
       (\<lambda>reply. sbind (slift (run_reader (full_information_fields B) (resp_data reply)))
         (\<lambda>info. sret \<lparr>dfo_instance_id = ident, dfo_full_information = info\<rparr>))"

section \<open>An entry of the fault queue\<close>

definition CODE_PARAMS :: "u16 list" where
  "CODE_PARAMS = [7, 8, 9, 604, 605, 606, 607, 608, 609, 610]"

definition FREQUENCY_PARAMS :: "u16 list" where
  "FREQUENCY_PARAMS = [631, 632, 633, 634, 635, 636, 637, 638, 639, 640]"

definition CURRENT_PARAMS :: "u16 list" where
  "CURRENT_PARAMS = [641, 642, 643, 644, 645, 646, 647, 648, 649, 650]"

definition BUS_VOLTS_PARAMS :: "u16 list" where
  "BUS_VOLTS_PARAMS = [651, 652, 653, 654, 655, 656, 657, 658, 659, 660]"

record 'f FaultDetails =
  fd_fault_number :: u8
  fd_fault_code :: u16
  fd_bus_voltage :: 'f
  fd_current :: 'f
  fd_frequency :: 'f

record 'f DpiFaultParameter =
  dfp_fault_details :: "'f FaultDetails"
  dfp_fault_description :: "FaultDescription option"

definition read_param :: "bytes_api \<Rightarrow> 's session \<Rightarrow> MessageRouter \<Rightarrow> u16 \<Rightarrow> ('s, error, u16) action" where
  "read_param B S R parameter =
     sbind (request_checked B S R SC_GET_ATTRIBUTE_SINGLE (epath_attribute PARAMETER_CLASS_ID parameter 1) []
        (lit ''read fault parameter '' @ fmt_dec (unat parameter)))
       (\<lambda>reply. slift (run_reader (try_q (try_get_u16_le B) done_q) (resp_data reply)))"

definition f_scale :: "'f f64_api \<Rightarrow> u16 \<Rightarrow> u8 \<Rightarrow> 'f" where
  "f_scale F raw precision = f_div F (f_of_int F (uint raw)) (f_ten_pow F precision)"

text \<open>
  \<open>queue_index\<close> is the checked position: \<open>checked_sub(1)\<close> filtered by the table's length.
\<close>

definition queue_index :: "u8 \<Rightarrow> nat result" where
  "queue_index fault_number =
     (if fault_number = 0 \<or> \<not> unat (fault_number - 1) < length CODE_PARAMS
      then Err (Unsupported (lit ''fault number '' @ fmt_dec (unat fault_number) @ lit '' must be 1-10''))
      else Ok (unat (fault_number - 1)))"

definition fault_parameter_read ::
  "bytes_api \<Rightarrow> 'f f64_api \<Rightarrow> 's session \<Rightarrow> MessageRouter \<Rightarrow> u8 \<Rightarrow> bool \<Rightarrow> ('s, error, 'f DpiFaultParameter) action" where
  "fault_parameter_read B F S R fault_number get_details =
     sbind (slift (queue_index fault_number)) (\<lambda>i.
     sbind (read_param B S R (CODE_PARAMS ! i)) (\<lambda>fault_code.
     let details = \<lparr>fd_fault_number = fault_number, fd_fault_code = fault_code, fd_bus_voltage = f_of_int F 0,
           fd_current = f_of_int F 0, fd_frequency = f_of_int F 0\<rparr> in
     sbind
       (if fault_code \<noteq> 0 \<and> get_details then
          sbind (read_param B S R (BUS_VOLTS_PARAMS ! i)) (\<lambda>volts.
          sbind (read_param B S R (CURRENT_PARAMS ! i)) (\<lambda>amps.
          sbind (read_param B S R (FREQUENCY_PARAMS ! i)) (\<lambda>hertz.
          sret (details\<lparr>fd_bus_voltage := f_scale F volts 0, fd_current := f_scale F amps 2,
            fd_frequency := f_scale F hertz 2\<rparr>))))
        else sret details) (\<lambda>details.
     sret \<lparr>dfp_fault_details = details, dfp_fault_description = fault_description fault_code\<rparr>)))"

section \<open>The manager\<close>

abbreviation (input) FAULT_COMMAND_WRITE :: u16 where "FAULT_COMMAND_WRITE \<equiv> 3"

record ('f, 'h) DpiFaultManager =
  fm_clear_faults :: bool
  fm_get_fault_details :: bool
  fm_on_new_fault :: "(('f DpiFaultParameter \<Rightarrow> 'h \<Rightarrow> 'h) \<times> 'h) option"

definition fault_manager_new :: "bool \<Rightarrow> bool \<Rightarrow> ('f, 'h) DpiFaultManager" where
  "fault_manager_new clear details =
     \<lparr>fm_clear_faults = clear, fm_get_fault_details = details, fm_on_new_fault = None\<rparr>"

definition fault_manager_default :: "('f, 'h) DpiFaultManager" where
  "fault_manager_default = fault_manager_new True False"

definition on_new_fault :: "('f DpiFaultParameter \<Rightarrow> 'h \<Rightarrow> 'h) \<Rightarrow> 'h \<Rightarrow> ('f, 'h) DpiFaultManager \<Rightarrow> ('f, 'h) DpiFaultManager" where
  "on_new_fault f h m = m\<lparr>fm_on_new_fault := Some (f, h)\<rparr>"

definition call_fault_handler :: "'f DpiFaultParameter \<Rightarrow> ('f, 'h) DpiFaultManager \<Rightarrow> ('f, 'h) DpiFaultManager" where
  "call_fault_handler fault m =
     (case fm_on_new_fault m of None \<Rightarrow> m | Some (f, h) \<Rightarrow> m\<lparr>fm_on_new_fault := Some (f, f fault h)\<rparr>)"

definition write_command :: "bytes_api \<Rightarrow> DpiFaultCommand \<Rightarrow> 's session \<Rightarrow> MessageRouter \<Rightarrow> ('s, error, unit) action" where
  "write_command B cmd S R =
     sbind (request_checked B S R SC_SET_ATTRIBUTE_SINGLE (epath_attribute DPI_FAULT_CLASS_ID 0 FAULT_COMMAND_WRITE)
        [dpi_fault_command_raw cmd] (lit ''write DPI fault command '' @ display_dpi_fault_command cmd)) (\<lambda>_. sret ())"

text \<open>
  The loop over the fault numbers. An error keeps what the handler was told before it: the manager is part of
  the state.
\<close>

fun read_faults ::
  "bytes_api \<Rightarrow> 'f f64_api \<Rightarrow> 's session \<Rightarrow> MessageRouter \<Rightarrow> u8 list \<Rightarrow> 'f DpiFaultParameter list
   \<Rightarrow> (('f, 'h) DpiFaultManager \<times> 's, error, 'f DpiFaultParameter list) action" where
  "read_faults B F S R [] faults ms = (Ok faults, ms)"
| "read_faults B F S R (number # numbers) faults (m, s) =
     (case fault_parameter_read B F S R number (fm_get_fault_details m) s of
        (Inl e, s) \<Rightarrow> (Err e, m, s)
      | (Inr fault, s) \<Rightarrow>
          (if fd_fault_code (dfp_fault_details fault) = 0 then (Ok faults, m, s)
           else read_faults B F S R numbers (faults @ [fault]) (call_fault_handler fault m, s)))"

definition FAULT_NUMBERS :: "u8 list" where
  "FAULT_NUMBERS = [1, 2, 3, 4, 5, 6, 7, 8, 9, 10]"

definition handle_fault_parameters ::
  "bytes_api \<Rightarrow> 'f f64_api \<Rightarrow> 's session \<Rightarrow> MessageRouter
   \<Rightarrow> (('f, 'h) DpiFaultManager \<times> 's, error, 'f DpiFaultParameter list) action" where
  "handle_fault_parameters B F S R =
     sbind (read_faults B F S R FAULT_NUMBERS []) (\<lambda>faults (m, s).
       if faults \<noteq> [] \<and> fm_clear_faults m then
         (case write_command B DFC_CLEAR_FAULT_QUEUE S R s of
            (Inl e, s) \<Rightarrow> (Err e, m, s)
          | (Inr _, s) \<Rightarrow> (Ok faults, m, s))
       else (Ok faults, m, s))"


section \<open>Against a device\<close>

text \<open>A fault in the drive's queue, and what the drive answers when it is read.\<close>

record queued_fault =
  q_code :: u16
  q_volts :: u16
  q_amps :: u16
  q_hertz :: u16

definition queued_values :: "bool \<Rightarrow> queued_fault \<Rightarrow> u16 list" where
  "queued_values details q = q_code q # (if details then [q_volts q, q_amps q, q_hertz q] else [])"

definition queued_params :: "bool \<Rightarrow> nat \<Rightarrow> u16 list" where
  "queued_params details i =
     CODE_PARAMS ! i # (if details then [BUS_VOLTS_PARAMS ! i, CURRENT_PARAMS ! i, FREQUENCY_PARAMS ! i] else [])"

definition value_reply :: "u16 \<Rightarrow> Reply" where
  "value_reply x = (GSC_SUCCESS, le16 x, [])"

definition get_param :: "u16 \<Rightarrow> Request" where
  "get_param p = get_single p 1"

definition queued_entry :: "'f f64_api \<Rightarrow> bool \<Rightarrow> nat \<Rightarrow> queued_fault \<Rightarrow> 'f DpiFaultParameter" where
  "queued_entry F details i q =
     \<lparr>dfp_fault_details = \<lparr>fd_fault_number = of_nat (Suc i), fd_fault_code = q_code q,
        fd_bus_voltage = (if details then f_scale F (q_volts q) 0 else f_of_int F 0),
        fd_current = (if details then f_scale F (q_amps q) 2 else f_of_int F 0),
        fd_frequency = (if details then f_scale F (q_hertz q) 2 else f_of_int F 0)\<rparr>,
      dfp_fault_description = fault_description (q_code q)\<rparr>"

definition clear_request :: Request where
  "clear_request = \<lparr>rq_service = SC_SET_ATTRIBUTE_SINGLE, rq_path = epath_attribute DPI_FAULT_CLASS_ID 0 3, rq_data = [2]\<rparr>"

text \<open>The fault numbers still to read at position \<open>n\<close>.\<close>

definition numbers_from :: "nat \<Rightarrow> u8 list" where
  "numbers_from n = map (\<lambda>i. of_nat (Suc i)) [n..<10]"

lemma numbers_from_simps:
  "FAULT_NUMBERS = numbers_from 0"
  "n < 10 \<Longrightarrow> numbers_from n = of_nat (Suc n) # numbers_from (Suc n)"
  "numbers_from 10 = []"
  by (simp_all add: FAULT_NUMBERS_def numbers_from_def upt_rec)

lemma queue_index_position: "i < 10 \<Longrightarrow> queue_index (of_nat (Suc i)) = Ok i"
proof -
  assume "i < 10"
  then have "unat (of_nat (Suc i) :: u8) = Suc i" by (intro unat_of_nat_small) simp
  moreover from this have "(of_nat (Suc i) :: u8) \<noteq> 0" by (metis nat.simps(3) unat_0)
  moreover have "unat (of_nat i :: u8) = i" using \<open>i < 10\<close> by (intro unat_of_nat_small) simp
  ultimately show ?thesis using \<open>i < 10\<close> by (simp add: queue_index_def CODE_PARAMS_def)
qed

lemma call_fault_handler_config [simp]:
  "fm_get_fault_details (call_fault_handler f m) = fm_get_fault_details m"
  "fm_clear_faults (call_fault_handler f m) = fm_clear_faults m"
  by (simp_all add: call_fault_handler_def split: option.split)

lemma fold_call_fault_handler_config [simp]:
  "fm_get_fault_details (fold call_fault_handler fs m) = fm_get_fault_details m"
  "fm_clear_faults (fold call_fault_handler fs m) = fm_clear_faults m"
  by (induction fs arbitrary: m) simp_all

context bytes_crate
begin

lemma read_param_device:
  "read_param B (mock_session B) R p (m\<lparr>replies := value_reply x # rest, requests := q\<rparr>) =
    (Ok x, m\<lparr>replies := rest, requests := q @ [get_param p]\<rparr>)"
  by (simp add: read_param_def sbind_def mock_get run_reader_def try_q_def value_reply_def get_param_def get_single_def)

lemma fault_parameter_read_device:
  assumes "i < 10" "q_code f \<noteq> 0"
  shows "fault_parameter_read B F (mock_session B) R (of_nat (Suc i)) details
      (m\<lparr>replies := map value_reply (queued_values details f) @ rest, requests := q\<rparr>) =
    (Ok (queued_entry F details i f), m\<lparr>replies := rest, requests := q @ map get_param (queued_params details i)\<rparr>)"
  using assms
  by (cases details)
    (simp_all add: fault_parameter_read_def queue_index_position sbind_def read_param_device queued_values_def
      queued_params_def queued_entry_def Let_def del: of_nat_Suc)

lemma fault_parameter_read_empty:
  assumes "i < 10"
  shows "fault_parameter_read B F (mock_session B) R (of_nat (Suc i)) details
      (m\<lparr>replies := value_reply 0 # rest, requests := q\<rparr>) =
    (Ok (queued_entry F False i \<lparr>q_code = 0, q_volts = 0, q_amps = 0, q_hertz = 0\<rparr>),
     m\<lparr>replies := rest, requests := q @ [get_param (CODE_PARAMS ! i)]\<rparr>)"
  using assms
  by (simp add: fault_parameter_read_def queue_index_position sbind_def read_param_device queued_entry_def Let_def
      del: of_nat_Suc)

end

text \<open>The replies and requests of reading the faults \<open>fs\<close> from position \<open>n\<close> on, and what is read.\<close>

definition queue_replies :: "bool \<Rightarrow> queued_fault list \<Rightarrow> Reply list" where
  "queue_replies details fs = concat (map (\<lambda>f. map value_reply (queued_values details f)) fs)"

definition queue_requests :: "bool \<Rightarrow> nat \<Rightarrow> nat \<Rightarrow> Request list" where
  "queue_requests details n k = concat (map (\<lambda>i. map get_param (queued_params details i)) [n..<n + k])"

definition queue_entries :: "'f f64_api \<Rightarrow> bool \<Rightarrow> nat \<Rightarrow> queued_fault list \<Rightarrow> 'f DpiFaultParameter list" where
  "queue_entries F details n fs = map (\<lambda>(i, f). queued_entry F details i f) (zip [n..<n + length fs] fs)"

lemma queue_Nil [simp]: "queue_replies details [] = []" "queue_requests details n 0 = []" "queue_entries F details n [] = []"
  by (simp_all add: queue_replies_def queue_requests_def queue_entries_def)

lemma queue_Cons [simp]:
  "queue_replies details (f # fs) = map value_reply (queued_values details f) @ queue_replies details fs"
  "queue_requests details n (Suc k) = map get_param (queued_params details n) @ queue_requests details (Suc n) k"
  "queue_entries F details n (f # fs) = queued_entry F details n f # queue_entries F details (Suc n) fs"
  by (simp_all add: queue_replies_def queue_requests_def queue_entries_def upt_conv_Cons del: upt.simps)

text \<open>
  The whole exchange: the queue, the empty entry after it if it is shorter than ten, then the clear command if
  a fault was read and clearing is on.
\<close>

definition clears :: "('f, 'h) DpiFaultManager \<Rightarrow> queued_fault list \<Rightarrow> bool" where
  "clears m fs \<longleftrightarrow> fs \<noteq> [] \<and> fm_clear_faults m"

definition handling_replies :: "('f, 'h) DpiFaultManager \<Rightarrow> queued_fault list \<Rightarrow> Reply list" where
  "handling_replies m fs = queue_replies (fm_get_fault_details m) fs @ (if length fs < 10 then [value_reply 0] else [])
     @ (if clears m fs then [(GSC_SUCCESS, [], [])] else [])"

definition handling_requests :: "('f, 'h) DpiFaultManager \<Rightarrow> queued_fault list \<Rightarrow> Request list" where
  "handling_requests m fs = queue_requests (fm_get_fault_details m) 0 (length fs)
     @ (if length fs < 10 then [get_param (CODE_PARAMS ! length fs)] else []) @ (if clears m fs then [clear_request] else [])"

text \<open>
  The manager after its handler has been told of the faults: the handler, if there is one, has run once on each
  entry, in their order, each time on the state the call before left; nothing else of the manager has changed.
\<close>

definition told :: "'f f64_api \<Rightarrow> queued_fault list \<Rightarrow> ('f, 'h) DpiFaultManager \<Rightarrow> ('f, 'h) DpiFaultManager" where
  "told F fs m = m\<lparr>fm_on_new_fault :=
     map_option (\<lambda>(f, h). (f, fold f (queue_entries F (fm_get_fault_details m) 0 fs) h)) (fm_on_new_fault m)\<rparr>"

lemma fold_call_fault_handler:
  "fold call_fault_handler es m =
     m\<lparr>fm_on_new_fault := map_option (\<lambda>(f, h). (f, fold f es h)) (fm_on_new_fault m)\<rparr>"
proof (induction es arbitrary: m)
  case Nil
  show ?case by (cases m) (simp add: option.map_id option.map_ident)
qed (auto simp: call_fault_handler_def split: option.split)

lemma told_fold: "told F fs m = fold call_fault_handler (queue_entries F (fm_get_fault_details m) 0 fs) m"
  by (simp add: told_def fold_call_fault_handler)

context bytes_crate
begin

text \<open>Reading the faults of the queue leaves the loop at the next number, whatever comes then.\<close>

lemma read_faults_prefix:
  assumes "n + length fs \<le> 10" "\<forall>f \<in> set fs. q_code f \<noteq> 0"
  shows "read_faults B F (mock_session B) R (numbers_from n) acc
      (m, s\<lparr>replies := queue_replies (fm_get_fault_details m) fs @ rest, requests := q\<rparr>) =
    read_faults B F (mock_session B) R (numbers_from (n + length fs))
      (acc @ queue_entries F (fm_get_fault_details m) n fs)
      (fold call_fault_handler (queue_entries F (fm_get_fault_details m) n fs) m,
       s\<lparr>replies := rest, requests := q @ queue_requests (fm_get_fault_details m) n (length fs)\<rparr>)"
  using assms
proof (induction fs arbitrary: n acc m q)
  case (Cons f fs)
  then have n: "n < 10" and f: "q_code f \<noteq> 0" by auto
  have code: "fd_fault_code (dfp_fault_details (queued_entry F d n f)) \<noteq> 0" for d
    using f by (simp add: queued_entry_def)
  show ?case
    using Cons.IH [of "Suc n" _ "call_fault_handler (queued_entry F (fm_get_fault_details m) n f) m"] Cons.prems
    by (simp add: numbers_from_simps(2) [OF n] fault_parameter_read_device [OF n f] code del: of_nat_Suc)
qed simp

lemma handle_fault_parameters_device:
  assumes "length fs \<le> 10" "\<forall>f \<in> set fs. q_code f \<noteq> 0"
  shows "handle_fault_parameters B F (mock_session B) R
      (m, s\<lparr>replies := handling_replies m fs @ rest, requests := q\<rparr>) =
    (Ok (queue_entries F (fm_get_fault_details m) 0 fs), told F fs m,
     s\<lparr>replies := rest, requests := q @ handling_requests m fs\<rparr>)"
proof -
  let ?e = "queue_entries F (fm_get_fault_details m) 0 fs"
  have none: "?e = [] \<longleftrightarrow> fs = []" by (cases fs) simp_all
  have clear: "write_command B DFC_CLEAR_FAULT_QUEUE (mock_session B) R
      (s\<lparr>replies := (GSC_SUCCESS, [], []) # rest, requests := q'\<rparr>) =
    (Ok (), s\<lparr>replies := rest, requests := q' @ [clear_request]\<rparr>)" for q'
    by (simp add: write_command_def sbind_def clear_request_def
        mock_request_checked [where d' = "[]" and extra = "[]" and rest = rest])
  have loop: "read_faults B F (mock_session B) R FAULT_NUMBERS []
      (m, s\<lparr>replies := queue_replies (fm_get_fault_details m) fs @ (if length fs < 10 then [value_reply 0] else []) @ rest',
        requests := q\<rparr>) =
    (Ok ?e, told F fs m, s\<lparr>replies := rest', requests := q @ queue_requests (fm_get_fault_details m) 0 (length fs)
        @ (if length fs < 10 then [get_param (CODE_PARAMS ! length fs)] else [])\<rparr>)" for rest'
    using assms
    by (cases "length fs = 10")
      (simp_all add: numbers_from_simps(1,3) numbers_from_simps(2) [of "length fs"] read_faults_prefix [of 0 fs] fault_parameter_read_empty queued_entry_def told_fold
        del: of_nat_Suc)
  show ?thesis
    using none
    by (simp add: handle_fault_parameters_def sbind_def handling_replies_def handling_requests_def clears_def clear loop)
      (simp add: told_fold)
qed

text \<open>A read the device refuses ends the handling with its error.\<close>

lemma handle_fault_parameters_refused:
  assumes "length fs < 10" "\<forall>f \<in> set fs. q_code f \<noteq> 0" "st \<noteq> GSC_SUCCESS"
  shows "handle_fault_parameters B F (mock_session B) R
      (m, s\<lparr>replies := queue_replies (fm_get_fault_details m) fs @ (st, [], []) # rest, requests := q\<rparr>) =
    (Err (Cip (lit ''read fault parameter '' @ fmt_dec (unat (CODE_PARAMS ! length fs))) st []), told F fs m,
     s\<lparr>replies := rest, requests := q @ queue_requests (fm_get_fault_details m) 0 (length fs)
        @ [get_param (CODE_PARAMS ! length fs)]\<rparr>)"
proof -
  have refused: "read_param B (mock_session B) R p (s\<lparr>replies := (st, [], []) # rest, requests := q'\<rparr>) =
    (Err (Cip (lit ''read fault parameter '' @ fmt_dec (unat p)) st []),
     s\<lparr>replies := rest, requests := q' @ [get_param p]\<rparr>)" for p q'
    using mock_send_request [of "[]" "s\<lparr>replies := (st, [], []) # rest, requests := q'\<rparr>" st "[]" "[]" rest] assms(3)
    by (simp add: read_param_def request_checked_def sbind_def check_def is_success_def get_param_def get_single_def)
  have read: "fault_parameter_read B F (mock_session B) R (of_nat (Suc i)) d (s\<lparr>replies := (st, [], []) # rest, requests := q'\<rparr>) =
    (Err (Cip (lit ''read fault parameter '' @ fmt_dec (unat (CODE_PARAMS ! i))) st []),
     s\<lparr>replies := rest, requests := q' @ [get_param (CODE_PARAMS ! i)]\<rparr>)" if "i < 10" for i d q'
    using that by (simp add: fault_parameter_read_def queue_index_position sbind_def refused del: of_nat_Suc)
  show ?thesis
    using assms
    by (simp add: handle_fault_parameters_def numbers_from_simps(1) numbers_from_simps(2) [of "length fs"] sbind_def
        read_faults_prefix [of 0 fs] read told_fold del: of_nat_Suc)
qed

end

section \<open>Properties\<close>

text \<open>C30: Handling the fault queue of a drive that holds up to ten faults: the faults come back in queue order
  with their position, code, description and, when asked for, their scaled details; the handler, if one is set, has
  been called with each of them once, in that order, each call on the state the one before left (its state is the
  fold of its function over the faults), and the manager is otherwise unchanged; the drive has been asked for exactly the parameters of these entries
  and of the empty one after them, and then, only if there was a fault and clearing is on, to clear its queue.
  When a read is refused instead, its error is returned, the handler has been called so with the faults before it
  and the queue is not cleared.\<close>
theorem fault_queue_end_to_end:
  assumes "bytes_crate B" "length fs \<le> 10" "\<forall>f \<in> set fs. q_code f \<noteq> 0" "replies s = handling_replies m fs @ rest"
    and "length fs' < 10" "\<forall>f \<in> set fs'. q_code f \<noteq> 0" "st \<noteq> GSC_SUCCESS"
    and "replies s' = queue_replies (fm_get_fault_details m) fs' @ (st, [], []) # rest'"
  shows "handle_fault_parameters B F (mock_session B) R (m, s) =
      (Ok (queue_entries F (fm_get_fault_details m) 0 fs), told F fs m,
       s\<lparr>replies := rest, requests := requests s @ handling_requests m fs\<rparr>)
    \<and> handle_fault_parameters B F (mock_session B) R (m, s') =
      (Err (Cip (lit ''read fault parameter '' @ fmt_dec (unat (CODE_PARAMS ! length fs'))) st []), told F fs' m,
       s'\<lparr>replies := rest', requests := requests s' @ queue_requests (fm_get_fault_details m) 0 (length fs')
          @ [get_param (CODE_PARAMS ! length fs')]\<rparr>)"
proof -
  have "s = s\<lparr>replies := handling_replies m fs @ rest, requests := requests s\<rparr>"
    "s' = s'\<lparr>replies := queue_replies (fm_get_fault_details m) fs' @ (st, [], []) # rest', requests := requests s'\<rparr>"
    by (simp_all add: assms(4,8) [symmetric])
  with bytes_crate.handle_fault_parameters_device [OF assms(1-3), where F = F and R = R and m = m and s = s and rest = rest
      and q = "requests s"]
    bytes_crate.handle_fault_parameters_refused [OF assms(1,5-7), where F = F and R = R and m = m and s = s' and rest = rest'
      and q = "requests s'"]
  show ?thesis by simp
qed


definition sample_queue :: "queued_fault list" where
  "sample_queue = [\<lparr>q_code = 4, q_volts = 320, q_amps = 1000, q_hertz = 6000\<rparr>, \<lparr>q_code = 500, q_volts = 0, q_amps = 0, q_hertz = 1\<rparr>]"

text \<open>A manager whose handler collects the codes.\<close>

definition sample_fault_manager :: "(int, u16 list) DpiFaultManager" where
  "sample_fault_manager = on_new_fault (\<lambda>f seen. seen @ [fd_fault_code (dfp_fault_details f)]) [] (fault_manager_new True True)"

lemma told_sample: "fm_on_new_fault (told int_arith sample_queue sample_fault_manager) =
    Some (\<lambda>f seen. seen @ [fd_fault_code (dfp_fault_details f)], [4, 500])"
  by (simp add: told_def sample_queue_def sample_fault_manager_def on_new_fault_def fault_manager_new_def queued_entry_def)

lemma fault_queue_end_to_end_witness:
  "\<exists>faults m' s'. handle_fault_parameters slice_bytes int_arith (mock_session slice_bytes) router_new
      (sample_fault_manager, mock_new\<lparr>replies := handling_replies sample_fault_manager sample_queue\<rparr>) = (Ok faults, m', s')
    \<and> map (\<lambda>f. fd_fault_code (dfp_fault_details f)) faults = [4, 500] \<and> map_option snd (fm_on_new_fault m') = Some [4, 500]
    \<and> replies s' = [] \<and> last (requests s') = clear_request \<and> length (requests s') = 10"
proof -
  have two: "length sample_queue = Suc (Suc 0)" by (simp add: sample_queue_def)
  have nz: "\<forall>f \<in> set sample_queue. q_code f \<noteq> 0" by (simp add: sample_queue_def)
  have clears: "clears sample_fault_manager sample_queue" "fm_get_fault_details sample_fault_manager"
    by (simp_all add: clears_def sample_queue_def sample_fault_manager_def on_new_fault_def fault_manager_new_def)
  have codes: "map (\<lambda>f. fd_fault_code (dfp_fault_details f)) (queue_entries int_arith True 0 sample_queue) = [4, 500]"
    by (simp add: sample_queue_def queued_entry_def)
  have refused: "\<exists>s' rest'. replies (s' :: MockSession) = queue_replies True sample_queue @ (GeneralStatusCode 5, [], []) # rest'"
    by (intro exI [of _ "mock_new\<lparr>replies := queue_replies True sample_queue @ [(GeneralStatusCode 5, [], [])]\<rparr>"] exI [of _ "[]"]) simp
  then obtain s' :: MockSession and rest'
    where s': "replies s' = queue_replies (fm_get_fault_details sample_fault_manager) sample_queue @ (GeneralStatusCode 5, [], []) # rest'"
    using clears by auto
  have "handle_fault_parameters slice_bytes int_arith (mock_session slice_bytes) router_new
      (sample_fault_manager, mock_new\<lparr>replies := handling_replies sample_fault_manager sample_queue\<rparr>) =
    (Ok (queue_entries int_arith True 0 sample_queue), told int_arith sample_queue sample_fault_manager,
     mock_new\<lparr>replies := [], requests := handling_requests sample_fault_manager sample_queue\<rparr>)"
    using fault_queue_end_to_end [OF slice.bytes_crate_axioms _ nz _ _ nz _ s', of
        "mock_new\<lparr>replies := handling_replies sample_fault_manager sample_queue\<rparr>" "[]" int_arith router_new] two clears
    by (simp add: mock_new_def)
  with codes told_sample show ?thesis
    using two clears by (simp add: handling_requests_def queued_params_def)
qed

text \<open>The full information as a drive sends it, the text padded with zero bytes.\<close>

definition full_information_wire :: "u16 \<Rightarrow> u8 \<Rightarrow> u8 \<Rightarrow> bytes \<Rightarrow> u64 \<Rightarrow> u16 \<Rightarrow> bytes" where
  "full_information_wire code port obj text timer flags =
     le16 code @ [port, obj] @ text @ replicate (16 - length text) 0 @ le64 timer @ le16 flags"

lemma trim_end_padding:
  assumes "s = [] \<or> last s \<noteq> 0"
  shows "trim_end_matches (\<lambda>c. c = 0) (s @ replicate k 0) = s"
  using assms
  by (induction k) (simp_all add: trim_end_id replicate_append_same [symmetric], simp add: trim_end_matches_def)

lemma flag_bits:
  "(flags :: u16) AND 1 \<noteq> 0 \<longleftrightarrow> bit flags 0"
  "(flags :: u16) AND 2 \<noteq> 0 \<longleftrightarrow> bit flags 1"
proof -
  have "flags AND 1 \<noteq> 0 \<longleftrightarrow> odd flags" by (simp add: and_one_eq odd_iff_mod_2_eq_one)
  then show "flags AND 1 \<noteq> 0 \<longleftrightarrow> bit flags 0" by (simp add: bit_0)
  have "flags AND push_bit 1 1 \<noteq> 0 \<longleftrightarrow> bit flags 1"
    by (simp only: and_exp_eq_0_iff_not_bit push_bit_of_1 not_not)
  then show "flags AND 2 \<noteq> 0 \<longleftrightarrow> bit flags 1" by simp
qed

context bytes_crate
begin

lemma full_information_fields_wire:
  assumes "length text \<le> 16" "\<forall>b \<in> set text. b \<le> 127" "text = [] \<or> last text \<noteq> 0"
  shows "full_information_fields B (full_information_wire code port obj text timer flags @ r) =
    Ok (\<lparr>fi_fault_code = code, fi_dsi_port = port, fi_dsi_device_object = obj, fi_fault_text = map unat text,
      fi_timer_value = timer, fi_is_valid_data = bit flags 0, fi_is_real_time = bit flags 1\<rparr>, r)"
proof -
  let ?padded = "text @ replicate (16 - length text) 0"
  have last: "map unat text = [] \<or> last (map unat text) \<noteq> 0"
    using assms(3) by (cases "text" rule: rev_cases) (auto simp: unat_eq_zero)
  have ascii: "trim_end_matches (\<lambda>c. c = 0) (from_utf8_lossy ?padded) = map unat text"
    using assms(2) trim_end_padding [OF last] by (subst from_utf8_lossy_ascii) auto
  have wire: "full_information_wire code port obj text timer flags @ r =
      le16 code @ port # obj # ?padded @ le64 timer @ le16 flags @ r"
    by (simp add: full_information_wire_def)
  have vec: "try_get_vec B 16 (?padded @ x) = Ok (?padded, x)" for x
    using assms(1) by (intro try_get_vec_append) simp
  show ?thesis
    unfolding wire full_information_fields_def
    by (simp add: try_q_def read_q_def vec ascii flag_bits del: append_assoc)
qed

lemma full_information_fields_short:
  assumes "length buf < 30"
  shows "\<exists>req avail. full_information_fields B buf = Err (Truncated req avail) \<and> avail < req"
  using assms
  by (auto simp: full_information_fields_def try_q_def read_q_def try_get_vec_def try_get_u8 try_get_u16_le try_get_u64_le
      try_copy_to_slice try_take_def from_try_get_error_def)

end

text \<open>Reading the DPI Fault object: one Get_Attribute_Single request for attribute 0, and the fault code,
  port, device object, timer and both flags come back as the drive sent them, with the ASCII text freed of
  the zero bytes that pad it to sixteen; an answer that ends inside the fields is the error \<open>Truncated\<close>.\<close>
theorem fault_object_end_to_end:
  assumes "bytes_crate B" "length text \<le> 16" "\<forall>b \<in> set text. b \<le> 127" "text = [] \<or> last text \<noteq> 0" "length rest < 60000"
    and "replies m = (GSC_SUCCESS, full_information_wire code port obj text timer flags @ rest, []) # rs"
    and "length stub < 30" "replies m' = (GSC_SUCCESS, stub, []) # rs'"
  shows "fault_object_read B (mock_session B) R i m =
      (Ok \<lparr>dfo_instance_id = i, dfo_full_information = \<lparr>fi_fault_code = code, fi_dsi_port = port, fi_dsi_device_object = obj,
         fi_fault_text = map unat text, fi_timer_value = timer, fi_is_valid_data = bit flags 0, fi_is_real_time = bit flags 1\<rparr>\<rparr>,
       m\<lparr>replies := rs, requests := requests m @ [\<lparr>rq_service = SC_GET_ATTRIBUTE_SINGLE,
          rq_path = epath_attribute DPI_FAULT_CLASS_ID i 0, rq_data = []\<rparr>]\<rparr>)
    \<and> (\<exists>req avail. fst (fault_object_read B (mock_session B) R i m') = Err (Truncated req avail) \<and> avail < req)"
proof
  let ?w = "full_information_wire code port obj text timer flags @ rest"
  have len: "length ?w < 65000" using assms(2,5) by (simp add: full_information_wire_def)
  note request = bytes_crate.mock_request_checked [OF assms(1), where d = "[]" and extra = "[]"]
  show "fault_object_read B (mock_session B) R i m =
      (Ok \<lparr>dfo_instance_id = i, dfo_full_information = \<lparr>fi_fault_code = code, fi_dsi_port = port, fi_dsi_device_object = obj,
         fi_fault_text = map unat text, fi_timer_value = timer, fi_is_valid_data = bit flags 0, fi_is_real_time = bit flags 1\<rparr>\<rparr>,
       m\<lparr>replies := rs, requests := requests m @ [\<lparr>rq_service = SC_GET_ATTRIBUTE_SINGLE,
          rq_path = epath_attribute DPI_FAULT_CLASS_ID i 0, rq_data = []\<rparr>]\<rparr>)"
    using request [where m = m and rest = rs and d' = ?w] assms(6) len
    by (simp add: fault_object_read_def sbind_def run_reader_def bytes_crate.full_information_fields_wire [OF assms(1-4)])
  obtain req avail where "full_information_fields B stub = Err (Truncated req avail)" "avail < req"
    using bytes_crate.full_information_fields_short [OF assms(1,7)] by blast
  with request [where m = m' and rest = rs' and d' = stub] assms(7,8)
  show "\<exists>req avail. fst (fault_object_read B (mock_session B) R i m') = Err (Truncated req avail) \<and> avail < req"
    by (simp add: fault_object_read_def sbind_def run_reader_def)
qed

lemma fault_object_end_to_end_witness:
  "\<exists>m f. fault_object_read slice_bytes (mock_session slice_bytes) router_new 1 m = (Ok f, m\<lparr>replies := [],
      requests := requests m @ [\<lparr>rq_service = SC_GET_ATTRIBUTE_SINGLE, rq_path = epath_attribute DPI_FAULT_CLASS_ID 1 0, rq_data = []\<rparr>]\<rparr>)
    \<and> fi_fault_text (dfo_full_information f) = [71, 110, 100] \<and> fi_is_valid_data (dfo_full_information f)
    \<and> \<not> fi_is_real_time (dfo_full_information f)"
proof (intro exI conjI)
  define m where "m = mock_reply (full_information_wire 13 1 2 [71, 110, 100] 5 1) mock_new"
  have m: "replies m = (GSC_SUCCESS, full_information_wire 13 1 2 [71, 110, 100] 5 1 @ [], []) # []"
    by (simp add: m_def mock_reply_def mock_reply_status_def mock_new_def)
  have m': "replies (mock_reply [13] mock_new) = (GSC_SUCCESS, [13], []) # []"
    by (simp add: mock_reply_def mock_reply_status_def mock_new_def)
  show "fault_object_read slice_bytes (mock_session slice_bytes) router_new 1 m = (Ok \<lparr>dfo_instance_id = 1,
      dfo_full_information = \<lparr>fi_fault_code = 13, fi_dsi_port = 1, fi_dsi_device_object = 2, fi_fault_text = map unat [71 :: u8, 110, 100],
        fi_timer_value = 5, fi_is_valid_data = bit (1 :: u16) 0, fi_is_real_time = bit (1 :: u16) 1\<rparr>\<rparr>,
      m\<lparr>replies := [], requests := requests m @ [\<lparr>rq_service = SC_GET_ATTRIBUTE_SINGLE,
          rq_path = epath_attribute DPI_FAULT_CLASS_ID 1 0, rq_data = []\<rparr>]\<rparr>)"
    using fault_object_end_to_end [OF slice.bytes_crate_axioms _ _ _ _ m _ m', of router_new 1] by simp
qed simp_all

end
