(* ===== verification/Example_Programs.thy ===== *)
theory Example_Programs
  imports Mock_Session Tcp_Session Identity_Object File_Object Discovery Parameter_Object
    PowerFlex525 Eds
begin

text \<open>
  The example programs that make explicit requests or read files (src/examples): each connects a session, calls the
  library and prints what it returns. A program is an action on the state of the session and on what has been printed;
  its command line (clap), the log setup and writing a file are left to arguments. Floating-point numbers are
  printed by a parameter.
\<close>

section \<open>Programs\<close>

datatype printed = Out rstr | Err_Out rstr

type_synonym ('s, 'a) program = "('s \<times> printed list, error, 'a) action"

definition println :: "rstr \<Rightarrow> ('s, unit) program" where
  "println t = (\<lambda>(s, out). (Ok (), s, out @ [Out t]))"

definition eprintln :: "rstr \<Rightarrow> ('s, unit) program" where
  "eprintln t = (\<lambda>(s, out). (Ok (), s, out @ [Err_Out t]))"

definition calling :: "('s, error, 'a) action \<Rightarrow> ('s, 'a) program" where
  "calling act = (\<lambda>(s, out). case act s of (r, s) \<Rightarrow> (r, s, out))"

fun for_each :: "'a list \<Rightarrow> ('a \<Rightarrow> ('s, unit) program) \<Rightarrow> ('s, unit) program" where
  "for_each [] f = sret ()"
| "for_each (x # xs) f = sbind (f x) (\<lambda>_. for_each xs f)"

text \<open>\<open>(&data[..]).get_u16_le()\<close>, which panics on a short buffer.\<close>

definition read_u16_le :: "bytes_api \<Rightarrow> bytes \<Rightarrow> ('s, u16) program" where
  "read_u16_le B d = slift (run_reader (panic_q (get_u16_le B) done_q) d)"

text \<open>Text: \<open>{:<w}\<close>, \<open>Ipv4Addr\<close> and \<open>SocketAddrV4\<close>, \<open>{:02x?}\<close> of bytes.\<close>

definition pad_right :: "nat \<Rightarrow> rstr \<Rightarrow> rstr" where
  "pad_right w t = t @ replicate (w - length t) 32"

definition display_ipv4 :: "Ipv4Addr \<Rightarrow> rstr" where
  "display_ipv4 ip = join (lit ''.'') (map (\<lambda>b. fmt_dec (unat b)) (octets ip))"

definition display_sockaddr :: "SocketAddrV4 \<Rightarrow> rstr" where
  "display_sockaddr a = display_ipv4 (sa_ip a) @ lit '':'' @ fmt_dec (unat (sa_port a))"

definition debug_02x :: "bytes \<Rightarrow> rstr" where
  "debug_02x bs = lit ''['' @ join (lit '', '') (map (\<lambda>b. pad_zero 2 (map (digit_char False) (radix_digits 16 (unat b)))) bs) @ lit '']''"

text \<open>
  \<open>main\<close>: the session is connected first, and dropped when the program ends, however it does.
\<close>

record network =
  net_resolve :: "rstr \<Rightarrow> u16 \<Rightarrow> error + SocketAddr list"
  net_connect :: "nat \<Rightarrow> SocketAddrV4 \<Rightarrow> error + tcp_stream"

record Device =
  dev_host :: rstr
  dev_port :: u16

definition with_device ::
  "bytes_api \<Rightarrow> network \<Rightarrow> Device \<Rightarrow> (SessionInfo session \<Rightarrow> (SessionInfo, unit) program)
     \<Rightarrow> unit result \<times> printed list \<times> tcp_stream option" where
  "with_device B net device body =
     (case session_connect B (dev_host device) (net_resolve net (dev_host device) (dev_port device)) (net_connect net) of
        Inl (e, st) \<Rightarrow> (Err e, [], st)
      | Inr session \<Rightarrow>
          (case body (tcp_session B) (session, []) of (r, session, out) \<Rightarrow> (r, out, Some (session_drop B session))))"

section \<open>explicit\_messaging.rs\<close>

definition explicit_messaging :: "bytes_api \<Rightarrow> u16 \<Rightarrow> 's session \<Rightarrow> ('s, unit) program" where
  "explicit_messaging B write_assembly S =
     sbind (calling (send_request B S router_new SC_GET_ATTRIBUTE_SINGLE (epath_attribute 0x01 1 1) [])) (\<lambda>reply.
     sbind (if is_success reply
            then sbind (read_u16_le B (resp_data reply)) (\<lambda>v. println (lit ''vendor ID: '' @ fmt_dec (unat v)))
            else eprintln (lit ''read failed: '' @ display_general_status_code (general_status reply))) (\<lambda>_.
     let d = map of_nat [1..<11] in
     sbind (calling (send_request B S router_new SC_SET_ATTRIBUTE_SINGLE (epath_attribute 0x04 write_assembly 3) d)) (\<lambda>reply.
     if is_success reply
     then println (lit ''write to assembly '' @ fmt_dec (unat write_assembly) @ lit '' succeeded'')
     else eprintln (lit ''write failed: '' @ display_general_status_code (general_status reply)))))"

section \<open>identity\_object.rs\<close>

definition identity_object_example :: "bytes_api \<Rightarrow> 's session \<Rightarrow> ('s, unit) program" where
  "identity_object_example B S =
     sbind (calling (identity_read B S router_new 1)) (\<lambda>i.
     sbind (println (lit ''vendor ID:      '' @ fmt_dec (unat (id_vendor_id i)))) (\<lambda>_.
     sbind (println (lit ''device type:    '' @ fmt_dec (unat (id_device_type i)))) (\<lambda>_.
     sbind (println (lit ''product code:   '' @ fmt_dec (unat (id_product_code i)))) (\<lambda>_.
     sbind (println (lit ''revision:       '' @ display_revision (id_revision i))) (\<lambda>_.
     sbind (println (lit ''status:         '' @ fmt_hex_pad 6 (unat (id_status i)))) (\<lambda>_.
     sbind (println (lit ''serial number:  '' @ fmt_hex_pad 10 (unat (id_serial_number i)))) (\<lambda>_.
     println (lit ''product name:   '' @ id_product_name i))))))))"

section \<open>file\_object.rs\<close>

text \<open>
  The file is written by a parameter, with the path it is given and how that path prints. An upload that never returns
  is the value \<open>None\<close>.
\<close>

definition file_object_example ::
  "bytes_api \<Rightarrow> u16 \<Rightarrow> (rstr \<times> (bytes \<Rightarrow> unit result)) option \<Rightarrow> 's session \<Rightarrow> 's \<times> printed list
     \<Rightarrow> (unit result \<times> 's \<times> printed list) option" where
  "file_object_example B ident dest S so =
     (case calling (file_new B S router_new ident) so of
        (Inl e, so) \<Rightarrow> Some (Err e, so)
      | (Inr file, s, out) \<Rightarrow>
          (case upload B S 0 (s, file) of
             None \<Rightarrow> None
           | Some (Inl e, s, file) \<Rightarrow> Some (Err e, s, out)
           | Some (Inr content, s, file) \<Rightarrow> Some (
               (case dest of
                  Some (path, write) \<Rightarrow>
                    sbind (slift (write content)) (\<lambda>_.
                    println (lit ''wrote '' @ fmt_dec (length content) @ lit '' bytes to '' @ path))
                | None \<Rightarrow> println (lit ''uploaded '' @ fmt_dec (length content) @ lit '' bytes'')) (s, out))))"

section \<open>parameter\_object.rs\<close>

text \<open>\<open>show_f p v\<close> is \<open>{}\<close> of a floating-point number, or \<open>{:.p}\<close>.\<close>

definition parameter_line :: "'f f64_api \<Rightarrow> 'f \<Rightarrow> (nat option \<Rightarrow> 'f \<Rightarrow> rstr) \<Rightarrow> u16 \<Rightarrow> ParameterObject \<Rightarrow> rstr result" where
  "parameter_line F nan show_f ident p =
     rbind (if length (raw_value p) = 1 then eng_value F (unsigned_value F :: ('f, u8) CipValue) p
            else if length (raw_value p) = 2 then eng_value F (unsigned_value F :: ('f, u16) CipValue) p
            else if length (raw_value p) = 4 then eng_value F (unsigned_value F :: ('f, u32) CipValue) p
            else Ok nan) (\<lambda>v.
     Ok (lit ''#'' @ pad_right 4 (fmt_dec (unat ident)) @ lit '' '' @ pad_right 24 (p_name p) @ lit '' '' @ show_f None v @ lit '' '' @
       p_units p @ lit '' ('' @ display_cip_data_type (p_data_type p) @ lit '')''))"

definition parameter_object_example ::
  "bytes_api \<Rightarrow> 'f f64_api \<Rightarrow> 'f \<Rightarrow> (nat option \<Rightarrow> 'f \<Rightarrow> rstr) \<Rightarrow> u16 \<Rightarrow> 's session \<Rightarrow> ('s, unit) program" where
  "parameter_object_example B F nan show_f max_count S =
     sbind (calling (request_checked B S router_new SC_GET_ATTRIBUTE_SINGLE (epath_attribute PARAMETER_CLASS_ID 0 2) []
        (lit ''read number of parameters''))) (\<lambda>reply.
     sbind (read_u16_le B (resp_data reply)) (\<lambda>count.
     sbind (println (lit ''device has '' @ fmt_dec (unat count) @ lit '' parameters'')) (\<lambda>_.
     for_each (map of_nat [1..<unat (min count max_count) + 1]) (\<lambda>ident.
       sbind (calling (parameter_read B S router_new ident True)) (\<lambda>p.
       sbind (slift (parameter_line F nan show_f ident p)) println)))))"

section \<open>powerflex525\_faults.rs\<close>

definition fault_line :: "(nat option \<Rightarrow> 'f \<Rightarrow> rstr) \<Rightarrow> 'f DpiFaultParameter \<Rightarrow> rstr" where
  "fault_line show_f fault =
     (let d = dfp_fault_details fault;
          text = (case dfp_fault_description fault of None \<Rightarrow> lit ''unknown fault code'' | Some f \<Rightarrow> fault_text f)
      in lit ''#'' @ fmt_dec (unat (fd_fault_number d)) @ lit '' code '' @ fmt_dec (unat (fd_fault_code d)) @ lit '' ('' @ text @
         lit ''): '' @ show_f (Some 0) (fd_bus_voltage d) @ lit '' V, '' @ show_f (Some 2) (fd_current d) @ lit '' A, '' @
         show_f (Some 2) (fd_frequency d) @ lit '' Hz'')"

definition powerflex525_faults ::
  "bytes_api \<Rightarrow> 'f f64_api \<Rightarrow> (nat option \<Rightarrow> 'f \<Rightarrow> rstr) \<Rightarrow> bool \<Rightarrow> bool \<Rightarrow> 's session \<Rightarrow> ('s, unit) program" where
  "powerflex525_faults B F show_f clear details S =
     sbind (calling (\<lambda>s. case handle_fault_parameters B F S router_new (fault_manager_new clear details :: ('f, unit) DpiFaultManager, s) of
        (r, _, s) \<Rightarrow> (r, s))) (\<lambda>faults.
     sbind (if faults = [] then println (lit ''no faults'') else sret ()) (\<lambda>_.
     for_each faults (\<lambda>fault. println (fault_line show_f fault))))"

section \<open>yaskawa\_assembly.rs\<close>

abbreviation ASSEMBLY_OBJECT :: u16 where "ASSEMBLY_OBJECT \<equiv> 0x04"

definition yaskawa_assembly :: "bytes_api \<Rightarrow> u16 \<Rightarrow> nat \<Rightarrow> 's session \<Rightarrow> ('s, unit) program" where
  "yaskawa_assembly B ident n S =
     (let router = mp3300iec_message_router; path = epath_attribute ASSEMBLY_OBJECT ident 3
      in sbind (calling (request_checked B S router SC_SET_ATTRIBUTE_SINGLE path (replicate n 0xDE) (lit ''write assembly''))) (\<lambda>_.
         sbind (calling (request_checked B S router SC_GET_ATTRIBUTE_SINGLE path [] (lit ''read assembly''))) (\<lambda>reply.
         println (lit ''assembly '' @ fmt_dec (unat ident) @ lit '': '' @ debug_02x (resp_data reply)))))"

section \<open>discovery.rs\<close>

definition device_line :: "IdentityItem \<Rightarrow> rstr" where
  "device_line device =
     (let i = ii_identity device
      in display_sockaddr (ii_socket_address device) @ lit ''  '' @ id_product_name i @ lit ''  vendor='' @ fmt_dec (unat (id_vendor_id i)) @
         lit '' type='' @ fmt_dec (unat (id_device_type i)) @ lit '' product='' @ fmt_dec (unat (id_product_code i)) @
         lit '' rev='' @ display_revision (id_revision i) @ lit '' serial='' @ fmt_hex_pad 10 (unat (id_serial_number i)))"

abbreviation EIP_DEFAULT_EXPLICIT_PORT :: u16 where "EIP_DEFAULT_EXPLICIT_PORT \<equiv> 0xAF12"

definition discovery_target :: "Ipv4Addr option \<Rightarrow> BroadcastTarget" where
  "discovery_target broadcast =
     (case broadcast of Some ip \<Rightarrow> BroadcastTarget.Address \<lparr>sa_ip = ip, sa_port = EIP_DEFAULT_EXPLICIT_PORT\<rparr> | None \<Rightarrow> AllInterfaces)"

definition discovery_example ::
  "bytes_api \<Rightarrow> libc \<Rightarrow> Ipv4Addr option \<Rightarrow> u64 \<Rightarrow> unit result \<Rightarrow> ifaddrs list result \<Rightarrow> nat \<Rightarrow> (nat \<times> recv_from) list
     \<Rightarrow> (SocketAddrV4 \<times> bytes) list \<times> unit result \<times> printed list" where
  "discovery_example B L broadcast timeout_ms bind getifaddrs now script =
     (case discover B L (discovery_new (discovery_target broadcast) (unat timeout_ms * 1000000)) bind getifaddrs now script of
        (sent, Inl e) \<Rightarrow> (sent, Err e, [])
      | (sent, Inr devices) \<Rightarrow> (sent, Ok (),
          (if devices = [] then [Err_Out (lit ''no devices answered'')] else []) @ map (\<lambda>d. Out (device_line d)) devices))"

section \<open>eds\_info.rs\<close>

definition opt_text :: "u32 option \<Rightarrow> rstr" where
  "opt_text v = (case v of None \<Rightarrow> lit ''-'' | Some v \<Rightarrow> fmt_dec (unat v))"

definition direction_text :: "EdsDirection \<Rightarrow> rstr" where
  "direction_text d =
     (let assembly = (case edir_assembly d of None \<Rightarrow> [] | Some n \<Rightarrow> lit '' (Assem'' @ fmt_dec n @ lit '')'');
          rpi = (case edir_rpi d of
                   Some r \<Rightarrow> lit '', RPI default '' @ opt_text (rpi_default r) @ lit '' min '' @ opt_text (rpi_min r) @
                     lit '' max '' @ opt_text (rpi_max r) @ lit '' '' @ [181] @ lit ''s''
                 | None \<Rightarrow> [])
      in fmt_dec (edir_size d) @ lit '' bytes'' @ assembly @ rpi)"

text \<open>The derived \<open>Debug\<close> of the configuration is a parameter.\<close>

definition connection_info :: "(ConnectionConfig \<Rightarrow> rstr) \<Rightarrow> EdsConnection \<Rightarrow> rstr list" where
  \<open>connection_info debug_config c =
     [[10] @ lit ''Connection'' @ fmt_dec (ec_number c) @ lit '' "'' @ ec_name c @ lit ''"'',
      lit ''  path  '' @ display_cpath (ec_path c),
      lit ''  O->T  '' @ direction_text (ec_o2t c),
      lit ''  T->O  '' @ direction_text (ec_t2o c),
      (case to_connection_config c of
         Inr config \<Rightarrow> lit ''  '' @ debug_config config
       | Inl e \<Rightarrow> lit ''  cannot open: '' @ display_error e)]\<close>

definition eds_info :: "(ConnectionConfig \<Rightarrow> rstr) \<Rightarrow> bytes result \<Rightarrow> (unit, unit) program" where
  "eds_info debug_config file =
     sbind (slift (rbind file eds_read)) (\<lambda>eds.
     sbind (slift (eds_device eds)) (\<lambda>d.
     sbind (println (ed_product_name d @ lit '' ('' @ ed_vendor_name d @ lit ''), catalog '' @ ed_catalog d)) (\<lambda>_.
     sbind (println (lit ''  vendor '' @ fmt_dec (unat (ed_vendor_id d)) @ lit '' product type '' @ fmt_dec (unat (ed_product_type d)) @
       lit '' product code '' @ fmt_dec (unat (ed_product_code d)) @ lit '' revision '' @ fmt_dec (unat (ed_major_revision d)) @
       lit ''.'' @ fmt_dec (unat (ed_minor_revision d)))) (\<lambda>_.
     sbind (slift (eds_connections eds)) (\<lambda>cs.
     for_each (concat (map (connection_info debug_config) cs)) println)))))"

section \<open>Outcomes\<close>

lemma program_steps:
  "act s = (Ok x, s') \<Longrightarrow> sbind (calling act) f (s, out) = f x (s', out)"
  "act s = (Err e, s') \<Longrightarrow> sbind (calling act) f (s, out) = (Err e, s', out)"
  "sbind (println t) g (s, out) = g () (s, out @ [Out t])"
  "sbind (eprintln t) g (s, out) = g () (s, out @ [Err_Out t])"
  "println t (s, out) = (Ok (), s, out @ [Out t])" "eprintln t (s, out) = (Ok (), s, out @ [Err_Out t])"
  by (simp_all add: sbind_def calling_def println_def eprintln_def)

lemma sbind_assoc: "sbind (sbind m f) g s = sbind m (\<lambda>x. sbind (f x) g) s"
  by (simp add: sbind_def split: prod.split sum.split)

lemma read_u16_le_outcome:
  assumes "bytes_crate B"
  shows "sbind (read_u16_le B d) f so = (if length d < 2 then (Err Panicked, so) else f (of_le (take 2 d)) so)"
  using assms
  by (simp add: read_u16_le_def run_reader_def panic_q_def done_q_def bytes_crate.get_u16_le take_or_panic_def)

text \<open>
  explicit\_messaging against any device: both replies are reported, good or bad, the write carries the bytes 1 to 10,
  and a reply that is a success with less than two bytes panics before the write.
\<close>

lemma explicit_messaging_outcome:
  assumes "bytes_crate B" "replies s = (st1, d1, []) # (st2, d2, []) # rs" "length d1 < 65000" "length d2 < 65000"
  shows "\<exists>s'. explicit_messaging B w (mock_session B) (s, []) =
      (if st1 = GSC_SUCCESS \<and> length d1 < 2 then (Err Panicked, s', [])
       else (Ok (), s',
         [if st1 = GSC_SUCCESS then Out (lit ''vendor ID: '' @ fmt_dec (unat (of_le (take 2 d1) :: u16)))
          else Err_Out (lit ''read failed: '' @ display_general_status_code st1),
          if st2 = GSC_SUCCESS then Out (lit ''write to assembly '' @ fmt_dec (unat w) @ lit '' succeeded'')
          else Err_Out (lit ''write failed: '' @ display_general_status_code st2)]))
    \<and> requests s' = requests s @ \<lparr>rq_service = SC_GET_ATTRIBUTE_SINGLE, rq_path = epath_attribute 1 1 1, rq_data = []\<rparr> #
        (if st1 = GSC_SUCCESS \<and> length d1 < 2 then [] else
          [\<lparr>rq_service = SC_SET_ATTRIBUTE_SINGLE, rq_path = epath_attribute 4 w 3, rq_data = [1, 2, 3, 4, 5, 6, 7, 8, 9, 10]\<rparr>])"
proof -
  let ?s1 = "s\<lparr>replies := (st2, d2, []) # rs, requests := requests s @
    [\<lparr>rq_service = SC_GET_ATTRIBUTE_SINGLE, rq_path = epath_attribute 1 1 1, rq_data = []\<rparr>]\<rparr>"
  note r1 = bytes_crate.mock_send_request [OF assms(1), of "[]" s st1 d1 "[]" "(st2, d2, []) # rs"]
  note r2 = bytes_crate.mock_send_request [OF assms(1), of "[1, 2, 3, 4, 5, 6, 7, 8, 9, 10]" ?s1 st2 d2 "[]" rs]
  have "map of_nat [1..<11] = [1, 2, 3, 4, 5, 6, 7, 8, 9, 10 :: u8]" by (simp add: upt_rec)
  with r1 r2 assms(2-4) show ?thesis
    by (auto simp: explicit_messaging_def program_steps sbind_assoc read_u16_le_outcome [OF assms(1)] is_success_def Let_def)
qed

text \<open>parameter\_object chooses an unsigned type by the size alone, so a negative value of a signed parameter is printed as a large one.\<close>

lemma signed_parameter_printed_unsigned:
  assumes "p_value p = [0xFF, 0xFF]" "p_data_type p = CipDataType 0xC3" "\<not> p_is_scalable p"
  shows "parameter_line F nan show_f ident p = Ok (lit ''#'' @ pad_right 4 (fmt_dec (unat ident)) @ lit '' '' @ pad_right 24 (p_name p) @
      lit '' '' @ show_f None (f_of_int F 65535) @ lit '' '' @ p_units p @ lit '' ('' @ display_cip_data_type (CipDataType 0xC3) @ lit '')'')"
  using assms by (simp add: parameter_line_def raw_value_def eng_value_def actual_value_def cip_value_decode_def unsigned_value_def
      actual_to_eng_def)

end
