(* ===== verification/Example_Implicit.thy ===== *)
theory Example_Implicit
  imports Example_Programs Exchange Io_Startup Eds
begin

text \<open>
  The example that exchanges I/O data (src/examples/implicit_messaging.rs): its command line, the configuration it makes
  of it, the statistics its three callbacks keep, the loop that opens a connection to every host, and the report.
  The loops run over any kind of session, the state of which each host has its own; \<open>main\<close> takes the TCP session. What
  the IO thread does to the manager's state in the meantime, the clock and what the callbacks have seen are arguments.
\<close>

section \<open>The command line\<close>

record 'f Cli =
  cli_hosts :: "rstr list"
  cli_port :: u16
  cli_eds :: "rstr option"
  cli_connection :: u32
  cli_rpi_ms :: "'f option"
  cli_timeout_multiplier :: u8
  cli_seconds :: u64
  cli_config_data :: "bytes option"
  cli_size :: "u16 option"
  cli_fifo_priority :: "u32 option"
  cli_cpu :: "nat option"
  cli_lock_memory :: bool
  cli_timer_slack_ns :: "u64 option"

definition parse_hex :: "rstr \<Rightarrow> rstr + bytes" where
  "parse_hex s = collect (map (\<lambda>t. case from_str_radix 16 256 t of
       None \<Rightarrow> Err ([39] @ t @ [39] @ lit '' is not a hex byte'')
     | Some v \<Rightarrow> Ok (of_nat v)) (split_whitespace s))"

text \<open>\<open>mlockall\<close> and the last error are the system's; the second is \<open>lock_memory\<close> on other systems than Linux.\<close>

definition lock_memory :: "('s \<Rightarrow> int \<times> 's) \<Rightarrow> ('s \<Rightarrow> io_kind \<times> rstr) \<Rightarrow> ('s, error, unit) action" where
  "lock_memory mlockall last_error s =
     (case mlockall s of (rc, s) \<Rightarrow>
        if rc \<noteq> 0 then (case last_error s of (kind, e) \<Rightarrow> (Err (Io kind e), s)) else (Ok (), s))"

definition lock_memory_other :: "unit result" where
  "lock_memory_other = Err (Unsupported (lit ''--lock-memory is Linux only''))"

definition realtime_of :: "'f Cli \<Rightarrow> RealtimeConfig" where
  "realtime_of cli = \<lparr>rt_fifo_priority = cli_fifo_priority cli,
     rt_cpu_affinity = (case cli_cpu cli of None \<Rightarrow> [] | Some n \<Rightarrow> [n]), rt_timer_slack_ns = cli_timer_slack_ns cli\<rparr>"

section \<open>The configuration\<close>

definition builtin_config :: "bytes_api \<Rightarrow> ConnectionConfig" where
  "builtin_config B =
     (let rpi = 10000000
      in config_new (cpath_assembly B 151 150 100) (with_run_idle_header (direction_new 32 rpi)) (direction_new 32 rpi))"

definition chosen_config :: "bytes_api \<Rightarrow> (rstr \<Rightarrow> bytes result) \<Rightarrow> 'f Cli \<Rightarrow> ('s, ConnectionConfig) program" where
  \<open>chosen_config B read_file cli =
     (case cli_eds cli of
        Some path \<Rightarrow>
          sbind (slift (rbind (read_file path) eds_read)) (\<lambda>eds.
          sbind (slift (eds_connection eds (unat (cli_connection cli)))) (\<lambda>conn.
          sbind (println (path @ lit '': Connection'' @ fmt_dec (ec_number conn) @ lit '' "'' @ ec_name conn @ lit ''", path '' @
            display_cpath (ec_path conn))) (\<lambda>_.
          slift (to_connection_config conn))))
      | None \<Rightarrow> sret (builtin_config B))\<close>

text \<open>\<open>Duration::from_secs_f64\<close>, which panics on negative and overflowing values, is a parameter.\<close>

definition with_options :: "'f f64_api \<Rightarrow> ('f \<Rightarrow> duration option) \<Rightarrow> 'f Cli \<Rightarrow> ConnectionConfig \<Rightarrow> ConnectionConfig result" where
  "with_options F from_secs_f64 cli config =
     (let config = config\<lparr>cc_originator_vendor_id := 342, cc_originator_serial_number := 0x12345,
            cc_timeout_multiplier := cli_timeout_multiplier cli\<rparr>;
          config = (case cli_config_data cli of None \<Rightarrow> config | Some d \<Rightarrow> config\<lparr>cc_config_data := d\<rparr>)
      in rbind
           (case cli_rpi_ms cli of
              None \<Rightarrow> Ok config
            | Some ms \<Rightarrow>
                (case from_secs_f64 (f_div F ms (f_of_int F 1000)) of
                   None \<Rightarrow> Err Panicked
                 | Some rpi \<Rightarrow> Ok (config\<lparr>cc_o2t := (cc_o2t config)\<lparr>dir_rpi := rpi\<rparr>, cc_t2o := (cc_t2o config)\<lparr>dir_rpi := rpi\<rparr>\<rparr>)))
           (\<lambda>config. Ok
             (case cli_size cli of
                None \<Rightarrow> config
              | Some n \<Rightarrow> config\<lparr>cc_o2t := (cc_o2t config)\<lparr>dir_size := n\<rparr>, cc_t2o := (cc_t2o config)\<lparr>dir_size := n\<rparr>\<rparr>)))"

section \<open>The statistics\<close>

record Stats =
  st_last_send :: "instant option"
  st_sends :: u64
  st_send_sum :: duration
  st_send_min :: "duration option"
  st_send_max :: duration
  st_received :: u64
  st_echoed :: u64
  st_timed_out :: bool

definition stats_default :: Stats where
  "stats_default = \<lparr>st_last_send = None, st_sends = 0, st_send_sum = 0, st_send_min = None, st_send_max = 0,
     st_received = 0, st_echoed = 0, st_timed_out = False\<rparr>"

text \<open>The three closures, \<open>Instant\<close> differences saturating at zero.\<close>

definition echoes :: "u8 \<Rightarrow> bytes \<Rightarrow> bool" where
  "echoes fill d \<longleftrightarrow> d \<noteq> [] \<and> list_all (\<lambda>b. b = fill) d"

definition on_input :: "u8 \<Rightarrow> bytes \<Rightarrow> Stats \<Rightarrow> Stats" where
  "on_input fill d s =
     (let s = s\<lparr>st_received := st_received s + 1\<rparr>
      in if echoes fill d then s\<lparr>st_echoed := st_echoed s + 1\<rparr> else s)"

definition on_output :: "instant \<Rightarrow> Stats \<Rightarrow> Stats" where
  "on_output now s =
     (let s = (case st_last_send s of
            None \<Rightarrow> s
          | Some l \<Rightarrow>
              let dt = now - l
              in s\<lparr>st_sends := st_sends s + 1, st_send_sum := st_send_sum s + dt,
                   st_send_min := Some (case st_send_min s of None \<Rightarrow> dt | Some m \<Rightarrow> min m dt),
                   st_send_max := max (st_send_max s) dt\<rparr>)
      in s\<lparr>st_last_send := Some now\<rparr>)"

definition on_closed :: "Stats \<Rightarrow> Stats" where
  "on_closed s = s\<lparr>st_timed_out := True\<rparr>"

text \<open>What the closures of a connection have counted after the events they were called for.\<close>

datatype stats_event = Input bytes | Sending instant | Closed

fun count_event :: "u8 \<Rightarrow> stats_event \<Rightarrow> Stats \<Rightarrow> Stats" where
  "count_event fill (Input d) s = on_input fill d s"
| "count_event fill (Sending now) s = on_output now s"
| "count_event fill Closed s = on_closed s"

definition stats_of :: "u8 \<Rightarrow> stats_event list \<Rightarrow> Stats" where
  "stats_of fill es = fold (count_event fill) es stats_default"

text \<open>\<open>{:?}\<close> of a \<open>Duration\<close>: the largest unit that is not zero, with the fraction it needs.\<close>

definition decimal_text :: "nat \<Rightarrow> nat \<Rightarrow> nat \<Rightarrow> rstr" where
  "decimal_text n frac digits =
     (let f = trim_end_matches (\<lambda>c. c = 48) (pad_zero digits (fmt_dec frac))
      in fmt_dec n @ (if f = [] then [] else 46 # f))"

definition debug_duration :: "duration \<Rightarrow> rstr" where
  "debug_duration d =
     (let secs = d div 1000000000; nanos = d mod 1000000000
      in if 0 < secs then decimal_text secs nanos 9 @ lit ''s''
         else if 1000000 \<le> nanos then decimal_text (nanos div 1000000) (nanos mod 1000000) 6 @ lit ''ms''
         else if 1000 \<le> nanos then decimal_text (nanos div 1000) (nanos mod 1000) 3 @ [181] @ lit ''s''
         else decimal_text nanos 0 0 @ lit ''ns'')"

text \<open>The line printed for a connection; the mean divides by the low 32 bits of the count, and panics when they are zero.\<close>

definition stats_report :: "rstr \<Rightarrow> u16 \<Rightarrow> Stats \<Rightarrow> rstr result" where
  "stats_report host n s =
     rbind
       (if 0 < st_sends s then
          (let d = (ucast (st_sends s) :: u32)
           in if d = 0 then Err Panicked
              else Ok (lit ''sent '' @ fmt_dec (unat (st_sends s + 1)) @
                lit '', interval min '' @ debug_duration (case st_send_min s of None \<Rightarrow> 0 | Some m \<Rightarrow> m) @
                lit '' mean '' @ debug_duration (st_send_sum s div unat d) @ lit '' max '' @ debug_duration (st_send_max s)))
        else Ok (lit ''sent 0-1''))
       (\<lambda>sends.
     let echoed = (if 0 < n then lit '', echoed '' @ fmt_dec (unat (st_echoed s)) else [])
     in Ok (host @ lit '': '' @ sends @ lit ''; received '' @ fmt_dec (unat (st_received s)) @ echoed @
          (if st_timed_out s then lit ''; TIMED OUT'' else [])))"

section \<open>Opening and closing\<close>

text \<open>The output is left as it is by the \<open>on_send\<close> closure.\<close>

primcorec keep_output :: send_handler where
  "call_send keep_output = (\<lambda>out. (out, keep_output))"

definition example_callbacks :: IoCallbacks where
  "example_callbacks = with_on_close (with_on_send keep_output (with_on_receive callbacks_new))"

definition fill_byte :: "nat \<Rightarrow> u8" where
  "fill_byte i = 0x10 + of_nat i"

definition open_host ::
  "bytes_api \<Rightarrow> 's session \<Rightarrow> (rstr \<Rightarrow> 's result) \<Rightarrow> ConnectionConfig \<Rightarrow> instant \<Rightarrow> nat \<Rightarrow> rstr
     \<Rightarrow> (ConnectionManager, rstr \<times> 's \<times> IoConnectionHandle) program" where
  "open_host B S connect config now i host =
     sbind (slift (connect host)) (\<lambda>session (m, out).
       case forward_open B S config example_callbacks now (session, m) of
         (Inl e, session, m) \<Rightarrow> (Err e, m, out)
       | (Inr h, session, m) \<Rightarrow>
           sbind (calling (handle_set_output h (replicate (unat (dir_size (cc_o2t config))) (fill_byte i)))) (\<lambda>_.
           sbind (println (host @ lit '': connection open, O->T API '' @ debug_duration (handle_o2t_api h) @
             lit '', T->O API '' @ debug_duration (handle_t2o_api h))) (\<lambda>_.
           sret (host, session, h))) (m, out))"

fun open_hosts ::
  "bytes_api \<Rightarrow> 's session \<Rightarrow> (rstr \<Rightarrow> 's result) \<Rightarrow> ConnectionConfig \<Rightarrow> (nat \<Rightarrow> instant) \<Rightarrow> (nat \<Rightarrow> ConnectionManager \<Rightarrow> ConnectionManager)
     \<Rightarrow> nat \<Rightarrow> rstr list \<Rightarrow> (ConnectionManager, (rstr \<times> 's \<times> IoConnectionHandle) list) program" where
  "open_hosts B S connect config nows thread i [] = sret []"
| "open_hosts B S connect config nows thread i (host # hosts) =
     sbind (\<lambda>(m, out). open_host B S connect config (nows i) i host (thread i m, out)) (\<lambda>opened.
     sbind (open_hosts B S connect config nows thread (Suc i) hosts) (\<lambda>rest.
     sret (opened # rest)))"

text \<open>
  The wait: what the time since the start and the manager's state are at each check. The list ends where the program is
  no longer watched.
\<close>

fun wait_while_open :: "duration \<Rightarrow> (duration \<times> ConnectionManager) list \<Rightarrow> ConnectionManager \<Rightarrow> ConnectionManager" where
  "wait_while_open run_for [] m = m"
| "wait_while_open run_for ((elapsed, m') # checks) m =
     (if has_open_connections m' \<and> elapsed < run_for then wait_while_open run_for checks m' else m')"

fun close_hosts ::
  "bytes_api \<Rightarrow> 's session \<Rightarrow> u16 \<Rightarrow> (IoConnectionHandle \<Rightarrow> Stats) \<Rightarrow> (rstr \<times> 's \<times> IoConnectionHandle) list
     \<Rightarrow> (ConnectionManager, unit) program" where
  "close_hosts B S n stats [] = sret ()"
| "close_hosts B S n stats ((host, session, h) # rest) = (\<lambda>(m, out).
     case forward_close B S h (session, m) of
       (Inl e, session, m) \<Rightarrow> (Err e, m, out)
     | (Inr _, session, m) \<Rightarrow>
         sbind (slift (stats_report host n (stats h))) (\<lambda>line.
         sbind (println line) (\<lambda>_. close_hosts B S n stats rest)) (m, out))"

text \<open>\<open>main\<close> after the manager has started: configuration, opening, waiting and closing.\<close>

definition exchange_data ::
  "bytes_api \<Rightarrow> 's session \<Rightarrow> (rstr \<Rightarrow> 's result) \<Rightarrow> 'f f64_api \<Rightarrow> ('f \<Rightarrow> duration option) \<Rightarrow> (rstr \<Rightarrow> bytes result) \<Rightarrow> (nat \<Rightarrow> instant)
     \<Rightarrow> (nat \<Rightarrow> ConnectionManager \<Rightarrow> ConnectionManager) \<Rightarrow> (ConnectionManager \<Rightarrow> (duration \<times> ConnectionManager) list)
     \<Rightarrow> (IoConnectionHandle \<Rightarrow> Stats) \<Rightarrow> 'f Cli \<Rightarrow> (ConnectionManager, unit) program" where
  "exchange_data B S connect F from_secs_f64 read_file nows thread checks stats cli =
     sbind (chosen_config B read_file cli) (\<lambda>config.
     sbind (slift (with_options F from_secs_f64 cli config)) (\<lambda>config.
     sbind (open_hosts B S connect config nows thread 0 (cli_hosts cli)) (\<lambda>opened.
     sbind (\<lambda>(m, out). (Ok (), wait_while_open (unat (cli_seconds cli) * 1000000000) (checks m) m, out)) (\<lambda>_.
     close_hosts B S (dir_size (cc_o2t config)) stats opened))))"

definition tcp_connect_host :: "bytes_api \<Rightarrow> network \<Rightarrow> u16 \<Rightarrow> rstr \<Rightarrow> SessionInfo result" where
  "tcp_connect_host B net port host =
     (case session_connect B host (net_resolve net host port) (net_connect net) of
        Inl (e, _) \<Rightarrow> Err e | Inr session \<Rightarrow> Ok session)"

definition implicit_messaging ::
  "bytes_api \<Rightarrow> network \<Rightarrow> ('o, 'set, 'sock) os_api \<Rightarrow> ('o \<Rightarrow> int \<times> 'o) \<Rightarrow> 'f f64_api \<Rightarrow> ('f \<Rightarrow> duration option) \<Rightarrow> (rstr \<Rightarrow> bytes result)
     \<Rightarrow> u64 \<Rightarrow> (nat \<Rightarrow> instant) \<Rightarrow> (nat \<Rightarrow> ConnectionManager \<Rightarrow> ConnectionManager)
     \<Rightarrow> (ConnectionManager \<Rightarrow> (duration \<times> ConnectionManager) list) \<Rightarrow> (IoConnectionHandle \<Rightarrow> Stats) \<Rightarrow> 'f Cli
     \<Rightarrow> 'o \<Rightarrow> (unit result \<times> printed list) \<times> 'o" where
  "implicit_messaging B net Y mlockall F from_secs_f64 read_file random nows thread checks stats cli os =
     (case sbind (if cli_lock_memory cli then lock_memory mlockall (os_last_error Y) else sret ()) (\<lambda>_.
           with_config Y router_new (io_thread_config_default\<lparr>io_realtime := realtime_of cli\<rparr>) random) os of
        (Inl e, os) \<Rightarrow> ((Err e, []), os)
      | (Inr manager, os) \<Rightarrow>
          (case exchange_data B (tcp_session B) (tcp_connect_host B net (cli_port cli)) F from_secs_f64 read_file nows thread
                  checks stats cli (manager, []) of
             (r, _, out) \<Rightarrow> ((r, out), os)))"

section \<open>What the statistics say\<close>

text \<open>The send moments and the inputs among the events, and the time between sends.\<close>

fun send_times :: "stats_event list \<Rightarrow> instant list" where
  "send_times [] = []"
| "send_times (Sending now # es) = now # send_times es"
| "send_times (_ # es) = send_times es"

fun inputs :: "stats_event list \<Rightarrow> bytes list" where
  "inputs [] = []"
| "inputs (Input d # es) = d # inputs es"
| "inputs (_ # es) = inputs es"

fun gaps :: "instant list \<Rightarrow> duration list" where
  "gaps (a # b # r) = (b - a) # gaps (b # r)"
| "gaps _ = []"

lemma events_snoc:
  "send_times (es @ [e]) = send_times es @ (case e of Sending now \<Rightarrow> [now] | _ \<Rightarrow> [])"
  "inputs (es @ [e]) = inputs es @ (case e of Input d \<Rightarrow> [d] | _ \<Rightarrow> [])"
  by (induction es rule: send_times.induct) (simp_all split: stats_event.split)

lemma gaps_snoc: "gaps (ts @ [t]) = (if ts = [] then [] else gaps ts @ [t - last ts])"
  by (induction ts rule: gaps.induct) auto

lemma length_gaps: "length (gaps ts) = length ts - 1"
  by (induction ts rule: gaps.induct) auto

lemma sum_gaps: "sorted ts \<Longrightarrow> ts \<noteq> [] \<Longrightarrow> sum_list (gaps ts) = last ts - hd ts \<and> hd ts \<le> last ts"
  by (induction ts rule: gaps.induct) auto

lemma stats_snoc: "stats_of fill (es @ [e]) = count_event fill e (stats_of fill es)"
  by (simp add: stats_of_def)

lemma stats_Nil: "stats_of fill [] = stats_default"
  by (simp add: stats_of_def)

lemmas stats_simps = stats_snoc stats_Nil stats_default_def events_snoc on_input_def on_closed_def on_output_def Let_def

lemma stats_inputs:
  "st_received (stats_of fill es) = of_nat (length (inputs es))"
  "st_echoed (stats_of fill es) = of_nat (length (filter (echoes fill) (inputs es)))"
  "st_timed_out (stats_of fill es) \<longleftrightarrow> Closed \<in> set es"
proof -
  show "st_received (stats_of fill es) = of_nat (length (inputs es))"
  proof (induction es rule: rev_induct)
    case (snoc e es)
    then show ?case by (cases e) (simp_all add: stats_simps split: option.split)
  qed (simp add: stats_simps)
  show "st_echoed (stats_of fill es) = of_nat (length (filter (echoes fill) (inputs es)))"
  proof (induction es rule: rev_induct)
    case (snoc e es)
    then show ?case by (cases e) (simp_all add: stats_simps split: option.split)
  qed (simp add: stats_simps)
  show "st_timed_out (stats_of fill es) \<longleftrightarrow> Closed \<in> set es"
  proof (induction es rule: rev_induct)
    case (snoc e es)
    then show ?case by (cases e) (simp_all add: stats_simps split: option.split)
  qed (simp add: stats_simps)
qed

lemma stats_last: "st_last_send (stats_of fill es) = (if send_times es = [] then None else Some (last (send_times es)))"
proof (induction es rule: rev_induct)
  case (snoc e es)
  then show ?case by (cases e) (simp_all add: stats_simps)
qed (simp add: stats_simps)

lemma stats_sends:
  "st_sends (stats_of fill es) = of_nat (length (gaps (send_times es)))"
  "st_send_sum (stats_of fill es) = sum_list (gaps (send_times es))"
proof -
  show "st_sends (stats_of fill es) = of_nat (length (gaps (send_times es)))"
  proof (induction es rule: rev_induct)
    case (snoc e es)
    then show ?case by (cases e) (simp_all add: stats_simps stats_last gaps_snoc)
  qed (simp add: stats_simps)
  show "st_send_sum (stats_of fill es) = sum_list (gaps (send_times es))"
  proof (induction es rule: rev_induct)
    case (snoc e es)
    then show ?case by (cases e) (simp_all add: stats_simps stats_last gaps_snoc)
  qed (simp add: stats_simps)
qed

lemma Max_snoc: "Max (insert 0 (set (xs @ [x :: nat]))) = max (Max (insert 0 (set xs))) x"
proof -
  have "insert 0 (set (xs @ [x])) = insert x (insert 0 (set xs))" by auto
  then show ?thesis by (simp del: Max_insert add: Max_insert [of "insert 0 (set xs)"] max.commute)
qed

lemma stats_max: "st_send_max (stats_of fill es) = Max (insert 0 (set (gaps (send_times es))))"
proof (induction es rule: rev_induct)
  case (snoc e es)
  show ?case
  proof (cases e)
    case (Sending now)
    then show ?thesis
      using snoc.IH Max_snoc [of "gaps (send_times es)" "now - last (send_times es)"]
      by (simp add: stats_simps stats_last gaps_snoc)
  qed (use snoc.IH in \<open>simp_all add: stats_simps\<close>)
qed (simp add: stats_simps)

lemma gaps_Nil: "ts \<noteq> [] \<Longrightarrow> gaps ts = [] \<longleftrightarrow> length ts = 1"
  by (induction ts rule: gaps.induct) auto

lemma stats_min:
  "st_send_min (stats_of fill es) = (if gaps (send_times es) = [] then None else Some (Min (set (gaps (send_times es)))))"
proof (induction es rule: rev_induct)
  case (snoc e es)
  show ?case
  proof (cases e)
    case (Sending now)
    then show ?thesis
      using snoc.IH by (simp add: stats_simps stats_last gaps_snoc min.commute)
  qed (use snoc.IH in \<open>simp_all add: stats_simps\<close>)
qed (simp add: stats_simps)

lemma mean_bounds:
  fixes ds :: "nat list"
  assumes "ds \<noteq> []"
  shows "Min (set ds) \<le> sum_list ds div length ds \<and> sum_list ds div length ds \<le> Max (set ds)"
proof -
  have "length ds * Min (set ds) \<le> sum_list ds" "sum_list ds \<le> length ds * Max (set ds)"
    using sum_list_mono [of ds "\<lambda>_. Min (set ds)" id] sum_list_mono [of ds id "\<lambda>_. Max (set ds)"]
    by (simp_all add: sum_list_triv id_def)
  from div_le_mono [OF this(1), of "length ds"] div_le_mono [OF this(2), of "length ds"] show ?thesis
    using assms by simp
qed

section \<open>Properties\<close>

text \<open>C20: What the implicit example prints of a connection is true of it. Whatever its callbacks were called for, in any
  order (sends, inputs, the timeout), if it was sent at least two packets at moments \<open>ts\<close>, and not
  2^32 of them, the report does not panic; the count of intervals, their sum, the shortest and the longest are
  those of \<open>ts\<close>, the mean lies between them, the numbers of inputs and of echoes (inputs of the connection's fill byte alone)
  are exact modulo 2^64, and TIMED OUT is printed exactly after a timeout.\<close>
theorem example_statistics:
  assumes "ts = send_times es" "sorted ts" "2 \<le> length ts" "length ts < 2 ^ 32" "s = stats_of fill es"
  shows "\<exists>lo hi. unat (st_sends s) = length ts - 1 \<and> st_send_sum s = last ts - hd ts
    \<and> st_send_min s = Some lo \<and> st_send_max s = hi \<and> {lo, hi} \<subseteq> set (gaps ts) \<and> (\<forall>d \<in> set (gaps ts). lo \<le> d \<and> d \<le> hi)
    \<and> lo \<le> (last ts - hd ts) div (length ts - 1) \<and> (last ts - hd ts) div (length ts - 1) \<le> hi
    \<and> st_received s = of_nat (length (inputs es)) \<and> st_echoed s = of_nat (length (filter (echoes fill) (inputs es)))
    \<and> stats_report host n s = Ok (host @ lit '': '' @ lit ''sent '' @ fmt_dec (length ts) @ lit '', interval min '' @ debug_duration lo @
        lit '' mean '' @ debug_duration ((last ts - hd ts) div (length ts - 1)) @ lit '' max '' @ debug_duration hi @
        lit ''; received '' @ fmt_dec (unat (st_received s)) @ (if 0 < n then lit '', echoed '' @ fmt_dec (unat (st_echoed s)) else []) @
        (if Closed \<in> set es then lit ''; TIMED OUT'' else []))"
proof -
  let ?g = "gaps ts"
  have len: "length ?g = length ts - 1" by (rule length_gaps)
  then have g: "?g \<noteq> []" using assms(3) by auto
  have ne: "ts \<noteq> []" using assms(3) by auto
  have sends: "unat (st_sends s) = length ts - 1" "unat (ucast (st_sends s) :: u32) = length ts - 1"
    "unat (st_sends s + 1) = length ts"
  proof -
    have k: "st_sends s = of_nat (length ts - 1)" using stats_sends(1) [of fill es] assms(1,5) len by simp
    then show a: "unat (st_sends s) = length ts - 1" using assms(4) by (simp add: unat_of_nat_small)
    then show "unat (ucast (st_sends s) :: u32) = length ts - 1"
      using assms(4) by (simp add: unsigned_ucast_eq unsigned_take_bit_eq take_bit_nat_eq_self)
    have "st_sends s + 1 = of_nat (length ts)" using assms(3) by (simp add: k of_nat_diff)
    then show "unat (st_sends s + 1) = length ts" using assms(4) by (simp add: unat_of_nat_small)
  qed
  have sum: "st_send_sum s = last ts - hd ts" "sum_list ?g = last ts - hd ts"
    using stats_sends(2) [of fill es] sum_gaps [OF assms(2)] ne assms(1,5) by auto
  have lo: "st_send_min s = Some (Min (set ?g))" and hi: "st_send_max s = Max (set ?g)"
    using stats_min [of fill es] stats_max [of fill es] g assms(1,5) by simp_all
  have timed_out: "st_timed_out s \<longleftrightarrow> Closed \<in> set es" using stats_inputs(3) assms(5) by simp
  have mean: "Min (set ?g) \<le> (last ts - hd ts) div (length ts - 1)" "(last ts - hd ts) div (length ts - 1) \<le> Max (set ?g)"
    using mean_bounds [OF g] by (simp_all add: sum(2) len)
  have pos: "0 < st_sends s" "(ucast (st_sends s) :: u32) \<noteq> 0"
    using sends(1,2) assms(3) by (auto simp: word_gt_0)
  have "stats_report host n s = Ok (host @ lit '': '' @ lit ''sent '' @ fmt_dec (length ts) @ lit '', interval min '' @ debug_duration (Min (set ?g)) @
        lit '' mean '' @ debug_duration ((last ts - hd ts) div (length ts - 1)) @ lit '' max '' @ debug_duration (Max (set ?g)) @
        lit ''; received '' @ fmt_dec (unat (st_received s)) @ (if 0 < n then lit '', echoed '' @ fmt_dec (unat (st_echoed s)) else []) @
        (if Closed \<in> set es then lit ''; TIMED OUT'' else []))"
    using pos timed_out by (simp add: stats_report_def sends sum lo hi Let_def)
  then show ?thesis
    using sends(1) sum(1) lo hi mean g stats_inputs(1,2) [of fill es] assms(5)
    by (intro exI [of _ "Min (set ?g)"] exI [of _ "Max (set ?g)"]) auto
qed


definition sample_stats :: "stats_event list" where
  "sample_stats = [Sending 0, Input [7, 7], Sending 10000000, Input [7, 8], Sending 22500000, Closed]"

lemma example_statistics_witness:
  "unat (st_sends (stats_of 7 sample_stats)) = 2 \<and> st_send_sum (stats_of 7 sample_stats) = 22500000
    \<and> st_send_max (stats_of 7 sample_stats) = 12500000 \<and> st_echoed (stats_of 7 sample_stats) = 1
    \<and> is_ok (stats_report (lit ''a'') 2 (stats_of 7 sample_stats))"
proof -
  have ts: "send_times sample_stats = [0, 10000000, 22500000]" "inputs sample_stats = [[7, 7], [7, 8]]"
    by (simp_all add: sample_stats_def)
  then show ?thesis
    using example_statistics [OF refl _ _ _ refl, of sample_stats 7 "lit ''a''" 2] by (auto simp: ts echoes_def)
qed

end
