(* ===== verification/Tests_Wire.thy ===== *)
theory Tests_Wire
  imports Mock_Session "HOL-Library.Code_Target_Nat"
begin

text \<open>
  The crate's unit tests of the wire layer (the \<open>tests\<close> modules of src/src/codec.rs, cip/types.rs, eip/encaps.rs,
  eip/cpf.rs, eip/sockaddr.rs, cip/epath.rs, cip/revision.rs and cip/message_router.rs), run on the model: each test
  is a definition that says what the Rust function asserts, and the kernel evaluates it. They check that the
  model computes what the code is tested to compute. \<open>slice_bytes\<close> stands for the crate \<open>bytes\<close>.
\<close>

section \<open>Assertions\<close>

text \<open>\<open>unwrap\<close> followed by assertions, \<open>is_err\<close>, and both on a function that may not return.\<close>

definition passes :: "'e + 'a \<Rightarrow> ('a \<Rightarrow> bool) \<Rightarrow> bool" where
  "passes r P = (case r of Inl _ \<Rightarrow> False | Inr x \<Rightarrow> P x)"

definition is_err :: "'e + 'a \<Rightarrow> bool" where
  "is_err r = (case r of Inl _ \<Rightarrow> True | Inr _ \<Rightarrow> False)"

definition returns :: "'a option \<Rightarrow> ('a \<Rightarrow> bool) \<Rightarrow> bool" where
  "returns r P = (case r of None \<Rightarrow> False | Some x \<Rightarrow> P x)"

section \<open>Evaluation\<close>

text \<open>
  Tests are evaluated by the kernel: \<open>code_simp\<close> where words play no part in the work, and otherwise the simplifier
  with the readers and writers of \<open>slice_bytes\<close>, kept from working under the continuation of a reader before its
  input is known.
\<close>

lemma to_le_eval:
  "to_le 2 w = [ucast w, ucast (drop_bit 8 w)]"
  "to_le 4 w = [ucast w, ucast (drop_bit 8 w), ucast (drop_bit 16 w), ucast (drop_bit 24 w)]"
  by (simp_all add: to_le_def upt_rec)

lemma slice_reads:
  "try_get_u8 slice_bytes (a # r) = Inr (a, r)"
  "try_get_u16_le slice_bytes (a # b # r) = Inr (of_le [a, b], r)"
  "try_get_i16_le slice_bytes (a # b # r) = Inr (of_le [a, b], r)"
  "try_get_u32_le slice_bytes (a # b # c # d # r) = Inr (of_le [a, b, c, d], r)"
  "get_u8 slice_bytes (a # r) = Some (a, r)"
  "get_u16 slice_bytes (a # b # r) = Some (of_be [a, b], r)"
  "get_u16_le slice_bytes (a # b # r) = Some (of_le [a, b], r)"
  "get_u32 slice_bytes (a # b # c # d # r) = Some (of_be [a, b, c, d], r)"
  "get_u32_le slice_bytes (a # b # c # d # r) = Some (of_le [a, b, c, d], r)"
  by (simp_all add: slice_bytes_def try_take_def take_or_panic_def)

lemma slice_short_reads:
  "try_get_u8 slice_bytes [] = Inl \<lparr>requested = 1, available = 0\<rparr>"
  "length buf < 2 \<Longrightarrow> try_get_u16_le slice_bytes buf = Inl \<lparr>requested = 2, available = length buf\<rparr>"
  "length buf < 4 \<Longrightarrow> try_get_u32_le slice_bytes buf = Inl \<lparr>requested = 4, available = length buf\<rparr>"
  "try_copy_to_slice slice_bytes n buf =
     (if length buf < n then Inl \<lparr>requested = n, available = length buf\<rparr> else Inr (take n buf, drop n buf))"
  "copy_to_slice slice_bytes n buf = (if length buf < n then None else Some (take n buf, drop n buf))"
  "advance slice_bytes n buf = (if length buf < n then None else Some ((), drop n buf))"
  by (simp_all add: slice_bytes_def try_take_def take_or_panic_def)

lemma reader_weak_congs:
  "r = r' \<Longrightarrow> buf = buf' \<Longrightarrow> try_q r f buf = try_q r' f buf'"
  "s = s' \<Longrightarrow> buf = buf' \<Longrightarrow> read_q s g buf = read_q s' g buf'"
  "t = t' \<Longrightarrow> buf = buf' \<Longrightarrow> panic_q t h buf = panic_q t' h buf'"
  by simp_all

lemmas eval_congs = reader_weak_congs prod.case_cong_weak option.case_cong_weak sum.case_cong_weak if_weak_cong

lemmas reader_eval = try_q_def read_q_def panic_q_def rest_q_def run_reader_def try_get_vec_def try_skip_def

lemmas slice_eval = slice_reads slice_short_reads to_le_eval to_be_def of_be_def reader_eval from_try_get_error_def
  passes_def is_err_def returns_def

text \<open>The encoders thread the buffer by \<open>let\<close>; evaluation uses their equations with the lets expanded.\<close>

lemmas encoders_code [code] =
  encaps_encode_def [unfolded Let_def] encode_sockaddr_def [unfolded Let_def] item_encode_into_def [unfolded Let_def]
  revision_encode_def [unfolded Let_def] epath_encode_def [unfolded Let_def]

section \<open>codec.rs, cip/types.rs\<close>

definition codec_short_string :: bool where
  "codec_short_string =
     passes (try_get_short_string slice_bytes (6 # as_bytes (lit ''Hello!''))) (\<lambda>(s, rd). s = lit ''Hello!'' \<and> rd = [])"

definition codec_truncated_read_is_an_error :: bool where
  "codec_truncated_read_is_an_error =
     (case try_get_short_string slice_bytes (3 # as_bytes (lit ''a'')) of Inl e \<Rightarrow> e = Truncated 3 1 | Inr _ \<Rightarrow> False)"

definition types_known_and_unknown_codes_format :: bool where
  "types_known_and_unknown_codes_format =
     (display_general_status_code (GeneralStatusCode 0x05) = lit ''PATH_DESTINATION_UNKNOWN(0x5)'' \<and>
      display_general_status_code (GeneralStatusCode 0x7f) = lit ''GeneralStatusCode(0x7f)'' \<and>
      ServiceCode 0x0E = SC_GET_ATTRIBUTE_SINGLE)"

lemma codec_tests: codec_short_string codec_truncated_read_is_an_error types_known_and_unknown_codes_format
  by code_simp+

section \<open>eip/encaps.rs\<close>

definition RR_DATA :: bytes where
  "RR_DATA = [0x6F, 0, 0xB, 0, 0xDD, 0xCC, 0xBB, 0xAA, 0, 0, 0, 0, 0, 0, 0, 0, 0, 0, 0, 0, 0, 0, 0, 0, 0,
     0, 0, 0, 0x64, 0, 1, 2, 3, 4, 5]"

definition encaps_test_decode :: bool where
  "encaps_test_decode = passes (encaps_decode slice_bytes RR_DATA) (\<lambda>packet.
     command packet = EC_SEND_RR_DATA \<and> status packet = ES_SUCCESS \<and> session_handle packet = 0xaabbccdd \<and>
     data packet = [0, 0, 0, 0, 0x64, 0, 1, 2, 3, 4, 5])"

definition encaps_decode_errors :: bool where
  "encaps_decode_errors =
     (is_err (encaps_decode slice_bytes (take 23 RR_DATA)) \<and> is_err (encaps_decode slice_bytes (RR_DATA @ [10])))"

definition encaps_register_session :: bool where
  "encaps_register_session =
     (encaps_encode slice_bytes register_session = [0x65, 0, 4, 0] @ replicate 20 0 @ [1, 0, 0, 0])"

definition encaps_unregister_session :: bool where
  "encaps_unregister_session =
     (encaps_encode slice_bytes (unregister_session 0xaabbccdd) = [0x66, 0, 0, 0, 0xdd, 0xcc, 0xbb, 0xaa] @ replicate 16 0)"

definition encaps_send_rr_data :: bool where
  "encaps_send_rr_data =
     (encaps_encode slice_bytes (send_rr_data slice_bytes 0xaabbccdd 100 [1, 2, 3, 4, 5]) = RR_DATA)"

definition encaps_list_identity :: bool where
  "encaps_list_identity = (encaps_encode slice_bytes list_identity = [0x63] @ replicate 23 0)"

definition encaps_length_from_header :: bool where
  "encaps_length_from_header = (length_from_header (take HEADER_SIZE RR_DATA) = 11)"

lemma encaps_tests:
  encaps_test_decode encaps_decode_errors encaps_register_session encaps_unregister_session
  encaps_send_rr_data encaps_list_identity encaps_length_from_header
  by code_simp+

section \<open>eip/cpf.rs, eip/sockaddr.rs\<close>

definition cpf_item_encoding :: bool where
  "cpf_item_encoding =
     (item_encode slice_bytes (unconnected_data [1, 2, 3, 4]) = [0xB2, 0, 4, 0, 1, 2, 3, 4] \<and>
      item_encode slice_bytes null_address = [0, 0, 0, 0])"

definition cpf_decode_packet :: bool where
  "cpf_decode_packet =
     (let cp = common_packet_new [null_address, unconnected_data [0, 2]]
      in passes (cpf_decode slice_bytes (cpf_encode slice_bytes cp)) (\<lambda>decoded.
           length (cp_items decoded) = 2 \<and> type_id (cp_items decoded ! 0) = CPI_NULL_ADDRESS \<and>
           type_id (cp_items decoded ! 1) = CPI_UNCONNECTED_MESSAGE \<and> decoded = cp))"

definition cpf_decode_truncated_packet :: bool where
  "cpf_decode_truncated_packet =
     (let cp = common_packet_new [unconnected_data [], unconnected_data []];
          data = butlast (cpf_encode slice_bytes cp)
      in is_err (cpf_decode slice_bytes data))"

definition cpf_connected_packet_round_trip :: bool where
  "cpf_connected_packet_round_trip =
     (let out = encode_connected_packet slice_bytes 0x11223344 7 [[1, 0], [0xAA, 0xBB]];
          generic = common_packet_new [sequenced_address slice_bytes 0x11223344 7, connected_data [1, 0, 0xAA, 0xBB]]
      in out = cpf_encode slice_bytes generic \<and>
         passes (decode_connected_packet slice_bytes out) (\<lambda>pkt.
           connection_id pkt = 0x11223344 \<and> sequence_number pkt = 7 \<and> cp_data pkt = [1, 0, 0xAA, 0xBB]) \<and>
         is_err (decode_connected_packet slice_bytes (butlast out)))"

definition LOCALHOST_2222 :: bytes where
  "LOCALHOST_2222 = [0x00, 0x02, 0x08, 0xae, 0x7f, 0, 0, 1, 0, 0, 0, 0, 0, 0, 0, 0]"

definition sockaddr_encode :: bool where
  "sockaddr_encode = (encode_sockaddr slice_bytes \<lparr>sa_ip = ipv4 127 0 0 1, sa_port = 2222\<rparr> [] = LOCALHOST_2222)"

definition sockaddr_decode :: bool where
  "sockaddr_decode =
     passes (decode_sockaddr slice_bytes LOCALHOST_2222) (\<lambda>(addr, _). addr = \<lparr>sa_ip = ipv4 127 0 0 1, sa_port = 2222\<rparr>)"

lemma cpf_tests:
  cpf_item_encoding cpf_decode_packet cpf_decode_truncated_packet cpf_connected_packet_round_trip
  sockaddr_encode sockaddr_decode
  by code_simp+

section \<open>cip/epath.rs, cip/revision.rs\<close>

text \<open>\<open>EPath::decode(bytes).unwrap()\<close> compared with a path.\<close>

definition decodes_to :: "bytes \<Rightarrow> EPath \<Rightarrow> bool" where
  "decodes_to bs p = returns (epath_decode slice_bytes bs) (\<lambda>r. passes r (\<lambda>path. path = p))"

definition epath_encode_16_bit :: bool where
  "epath_encode_16_bit =
     (epath_encode slice_bytes (epath_attribute 5 2 1) Bits16 = [0x21, 0, 5, 0, 0x25, 0, 2, 0, 0x31, 0, 1, 0] \<and>
      epath_encode slice_bytes (epath_class 5) Bits16 = [0x21, 0, 5, 0])"

definition epath_encode_8_bit_falls_back_for_large_ids :: bool where
  "epath_encode_8_bit_falls_back_for_large_ids =
     (epath_encode slice_bytes (epath_attribute 5 2 1) Bits8 = [0x20, 5, 0x24, 2, 0x30, 1] \<and>
      epath_encode slice_bytes (epath_instance 4 300) Bits8 = [0x20, 4, 0x25, 0, 0x2c, 0x01])"

definition epath_decode_8_bit :: bool where
  "epath_decode_8_bit = decodes_to [0x20, 0x05, 0x24, 0x02, 0x30, 0x01] (epath_attribute 5 2 1)"

definition epath_decode_16_bit :: bool where
  "epath_decode_16_bit =
     decodes_to [0x21, 0, 0x05, 0, 0x25, 0, 0x02, 0, 0x31, 0, 0x01, 0] (epath_attribute 5 2 1)"

definition epath_decode_mixed :: bool where
  "epath_decode_mixed = decodes_to [0x21, 0, 0x05, 0, 0x24, 0x02, 0x31, 0, 0x01, 0] (epath_attribute 5 2 1)"

definition epath_decode_partial_paths :: bool where
  "epath_decode_partial_paths =
     (decodes_to [0x21, 0, 0x05, 0] (epath_class 5) \<and> decodes_to [0x21, 0, 0x05, 0, 0x24, 0x02] (epath_instance 5 2))"

definition epath_decode_errors :: bool where
  "epath_decode_errors =
     (returns (epath_decode slice_bytes [0x21, 0, 0x05, 0, 0xf4, 0x02]) is_err \<and>
      returns (epath_decode slice_bytes [0x21, 0, 0x05, 0, 0x24]) is_err)"

definition epath_display :: bool where
  "epath_display =
     (display_epath (epath_attribute 1 2 3) = lit ''[classId=1 objectId=2 attributeId=3]'' \<and>
      display_epath (epath_class 1) = lit ''[classId=1]'')"

definition revision_round_trip_and_display :: bool where
  "revision_round_trip_and_display =
     (let rev = revision_new 1 2; buf = revision_encode slice_bytes rev []
      in buf = [1, 2] \<and> passes (revision_decode slice_bytes buf) (\<lambda>(r, _). r = rev) \<and>
         display_revision rev = lit ''1.2'' \<and> revision_default = revision_new 0 0)"

lemma epath_tests:
  epath_encode_16_bit epath_encode_8_bit_falls_back_for_large_ids epath_decode_8_bit epath_decode_16_bit
  epath_decode_mixed epath_decode_partial_paths epath_decode_errors epath_display revision_round_trip_and_display
  by code_simp+

section \<open>cip/message_router.rs\<close>

definition router_encode_get_attribute_single :: bool where
  "router_encode_get_attribute_single =
     (encode_request slice_bytes SC_GET_ATTRIBUTE_SINGLE (epath_attribute 1 1 1) [] Bits16
        = [0x0E, 6, 0x21, 0, 1, 0, 0x25, 0, 1, 0, 0x31, 0, 1, 0])"

definition router_decode_with_additional_status :: bool where
  "router_decode_with_additional_status =
     passes (response_decode slice_bytes [0x8E, 0, 0x1F, 1, 0x34, 0x12, 0xAA]) (\<lambda>resp.
       service resp = ServiceCode 0x8E \<and> general_status resp = GeneralStatusCode 0x1F \<and>
       additional_status resp = [0x1234] \<and> resp_data resp = [0xAA] \<and>
       (case check (lit ''read'') resp of Inl (Cip _ _ _) \<Rightarrow> True | _ \<Rightarrow> False))"

definition router_decode_errors :: bool where
  "router_decode_errors =
     (is_err (response_decode slice_bytes [0, 0, 0]) \<and> is_err (response_decode slice_bytes [0, 0, 0, 2, 0, 1]))"

lemma message_router_tests:
  router_encode_get_attribute_single router_decode_with_additional_status router_decode_errors
  by code_simp+

end
