(* ===== verification/Tests_Connections.thy ===== *)
theory Tests_Connections
  imports Tests_Wire Forward_Open Io_Connection
begin

text \<open>
  The unit tests of connections, run on the model: parameters, paths, Forward Open and Close
  (src/src/cip/connection_manager/params.rs, path.rs, forward_open.rs, forward_close.rs) and the connection itself
  (src/src/io/connection.rs). The monotonic clock of a test starts at an arbitrary instant, here 1000 ns.
\<close>

lemmas path_builders_code [code] = electronic_key_def [unfolded Let_def] cpath_logical_def [unfolded Let_def]

section \<open>params.rs\<close>

definition network_params_small :: bool where
  "network_params_small =
     (let p = \<lparr>redundant_owner = False, connection_type = CT_PointToPoint, priority = Prio_Scheduled,
         size_type = Variable, np_size = 32\<rparr>
      in params_encode p False = push_bit 13 2 OR push_bit 10 2 OR push_bit 9 1 OR 32 \<and>
         params_decode (params_encode p False) False = p)"

definition network_params_large :: bool where
  "network_params_large =
     (let p = \<lparr>redundant_owner = True, connection_type = CT_Multicast, priority = Prio_Urgent,
         size_type = Fixed, np_size = 1000\<rparr>
      in params_encode p True = push_bit 31 1 OR push_bit 29 1 OR push_bit 26 3 OR 1000 \<and>
         params_decode (params_encode p True) True = p)"

definition transport_trigger :: bool where
  "transport_trigger =
     (let t = \<lparr>tt_class = Class1, tt_trigger = ChangeOfState, tt_server = False\<rparr>
      in transport_encode t = 0x11 \<and> transport_decode 0x11 = t \<and>
         tt_class (transport_decode 0x83) = Class3 \<and> tt_server (transport_decode 0x83))"

definition from_millis :: "nat \<Rightarrow> duration" where
  "from_millis n = 1000000 * n"

definition wire_sizes_and_config_segment :: bool where
  "wire_sizes_and_config_segment =
     (let rpi = from_millis 10;
          c = config_new (cpath_assembly slice_bytes 151 150 100) (with_run_idle_header (direction_new 32 rpi))
            (direction_new 32 rpi);
          first = (wire_size c (cc_o2t c) = 38 \<and> wire_size c (cc_t2o c) = 34 \<and>
            encoded_path c = cpath_as_bytes (cc_path c));
          c = c\<lparr>cc_config_data := [1, 2, 3]\<rparr>;
          second = (encoded_path c = [0x20, 0x04, 0x24, 0x97, 0x2C, 0x96, 0x2C, 0x64, 0x80, 2, 1, 2, 3, 0]);
          c = c\<lparr>cc_transport_class := Class0\<rparr>
      in first \<and> second \<and> wire_size c (cc_o2t c) = 36)"

lemma params_tests: network_params_small network_params_large transport_trigger wire_sizes_and_config_segment
  by (simp_all add: network_params_small_def network_params_large_def params_encode_def params_decode_def) code_simp+

section \<open>path.rs\<close>

definition path_assembly_path :: bool where
  "path_assembly_path =
     (cpath_as_bytes (cpath_assembly slice_bytes 151 150 100) = [0x20, 0x04, 0x24, 0x97, 0x2C, 0x96, 0x2C, 0x64])"

definition path_large_ids_use_16_bit_segments :: bool where
  "path_large_ids_use_16_bit_segments =
     (cpath_as_bytes (connection_point slice_bytes 0x0102 (cpath_instance slice_bytes 0x0300 (cpath_class slice_bytes 4 cpath_new)))
        = [0x20, 0x04, 0x25, 0x00, 0x00, 0x03, 0x2D, 0x00, 0x02, 0x01])"

definition path_port_segments :: bool where
  "path_port_segments =
     (cpath_as_bytes (backplane_slot slice_bytes 3 cpath_new) = [0x01, 0x03] \<and>
      cpath_as_bytes (cpath_port slice_bytes 2 (as_bytes (lit ''10.0.0.1'')) cpath_new)
        = [0x12, 0x08] @ as_bytes (lit ''10.0.0.1'') \<and>
      cpath_as_bytes (cpath_port slice_bytes 2 (as_bytes (lit ''10.0.0.10'')) cpath_new)
        = [0x12, 0x09] @ as_bytes (lit ''10.0.0.10'') @ [0] \<and>
      cpath_as_bytes (cpath_port slice_bytes 20 [5] cpath_new) = [0x0F, 20, 0, 5])"

definition path_electronic_key :: bool where
  "path_electronic_key =
     (let key = \<lparr>key_vendor_id = 1, key_device_type = 12, key_product_code = 65001, key_major_revision = 2,
         key_minor_revision = 3, key_compatibility = True\<rparr>
      in cpath_as_bytes (electronic_key slice_bytes key cpath_new) = [0x34, 0x04, 1, 0, 12, 0, 0xE9, 0xFD, 0x82, 3])"

definition path_hex_round_trip :: bool where
  "path_hex_round_trip =
     (passes (cpath_from_str (lit ''20 04 24 97 2C 96 2C 64'')) (\<lambda>path.
        path = cpath_assembly slice_bytes 151 150 100 \<and> display_cpath path = lit ''20 04 24 97 2C 96 2C 64'') \<and>
      is_err (cpath_from_str (lit ''20 xx'')))"

text \<open>\<open>matches!(r, Err(Error::InvalidInput(_)))\<close>.\<close>

definition is_invalid_input :: "'a result \<Rightarrow> bool" where
  "is_invalid_input r = (case r of Inl (InvalidInput _) \<Rightarrow> True | _ \<Rightarrow> False)"

definition path_route_strings :: bool where
  "path_route_strings =
     (passes (cpath_route slice_bytes (lit ''1,0'')) (\<lambda>p. cpath_as_bytes p = [0x01, 0x00]) \<and>
      passes (cpath_route slice_bytes (lit '' 1, 0, 1 ,3 '')) (\<lambda>p. cpath_as_bytes p = [0x01, 0x00, 0x01, 0x03]) \<and>
      passes (cpath_route slice_bytes (lit ''2,10.0.0.1''))
        (\<lambda>p. p = cpath_port slice_bytes 2 (as_bytes (lit ''10.0.0.1'')) cpath_new) \<and>
      passes (cpath_route slice_bytes (lit ''20,5'')) (\<lambda>p. cpath_as_bytes p = [0x0F, 20, 0, 5]) \<and>
      passes (cpath_route slice_bytes (lit '''')) (\<lambda>p. p = cpath_new) \<and>
      list_all (\<lambda>bad. is_invalid_input (cpath_route slice_bytes (lit bad)))
        [''1'', ''0,1'', ''x,1'', ''1,256'', ''1,host''])"

lemma path_tests:
  path_assembly_path path_large_ids_use_16_bit_segments path_port_segments path_electronic_key
  path_hex_round_trip path_route_strings
  by code_simp+

section \<open>forward_open.rs, forward_close.rs\<close>

definition open_test_request :: ForwardOpenRequest where
  "open_test_request = \<lparr>fo_priority_time_tick = 0x0A, fo_timeout_ticks = 0x0E, fo_o2t_connection_id = 0,
     fo_t2o_connection_id = 0x12340001, fo_serial = 1, fo_vendor = 342, fo_orig_serial = 0x12345,
     fo_multiplier = 1, fo_o2t_rpi = 10000, fo_o2t_params = params_decode 0x4822 False, fo_t2o_rpi = 10000,
     fo_t2o_params = params_decode 0x4822 False, fo_transport = transport_decode 1, fo_path = [0x20, 0x04, 0x24, 0x01]\<rparr>"

definition forward_open_layout :: bool where
  "forward_open_layout =
     (let body = forward_open_encode slice_bytes open_test_request False
      in length body = 36 + 4 \<and> take 2 body = [0x0A, 0x0E] \<and> take 4 (drop 6 body) = le32 0x12340001 \<and>
         take 2 (drop 26 body) = [0x22, 0x48] \<and> drop 34 body = [1, 2, 0x20, 0x04, 0x24, 0x01])"

definition large_forward_open_layout :: bool where
  "large_forward_open_layout =
     (let body = forward_open_encode slice_bytes open_test_request True
      in length body = 40 + 4 \<and> take 4 (drop 26 body) = [0x22, 0, 0, 0x48])"

definition forward_open_decode_response :: bool where
  "forward_open_decode_response =
     (let data = put_u32_le slice_bytes 0xAABBCCDD [];
          data = put_u32_le slice_bytes 0x12340001 data;
          data = put_u16_le slice_bytes 1 data;
          data = put_u16_le slice_bytes 342 data;
          data = put_u32_le slice_bytes 0x12345 data;
          data = put_u32_le slice_bytes 10000 data;
          data = put_u32_le slice_bytes 20000 data;
          data = put_u8 slice_bytes 1 data;
          data = put_u8 slice_bytes 0 data;
          data = put_slice slice_bytes [9, 8] data
      in passes (forward_open_response_decode slice_bytes data) (\<lambda>resp.
           fr_o2t_id resp = 0xAABBCCDD \<and> fr_t2o_api resp = 20000 \<and> fr_application_reply resp = [9, 8]) \<and>
         is_err (forward_open_response_decode slice_bytes (take 20 data)))"

definition forward_close_layout :: bool where
  "forward_close_layout =
     (let req = \<lparr>fc_serial = 0x0102, fc_vendor = 0x0304, fc_orig_serial = 0x05060708, fc_path = [0x20, 0x04, 0x24, 0x01]\<rparr>
      in forward_close_encode slice_bytes req
           = [0, 0, 0x02, 0x01, 0x04, 0x03, 0x08, 0x07, 0x06, 0x05, 2, 0, 0x20, 0x04, 0x24, 0x01])"

lemmas forward_open_eval = forward_open_encode_def forward_open_response_decode_def forward_open_response_read_def
  forward_close_encode_def Let_def transport_decode_def transport_encode_def put_params_def params_encode_def params_decode_def
  div_ceil_def slice_eval

lemma forward_open_tests: forward_open_layout large_forward_open_layout forward_open_decode_response forward_close_layout
  by (simp_all add: forward_open_layout_def large_forward_open_layout_def open_test_request_def forward_open_decode_response_def
    forward_close_layout_def forward_open_eval cong: eval_congs)

section \<open>io/connection.rs\<close>

definition conn_test_config :: IoConnectionConfig where
  "conn_test_config = \<lparr>io_o2t_id = 0x100, io_t2o_id = 0x200, io_serial_number = 1, io_o2t_api = from_millis 10,
     io_timeout = from_millis 40, io_o2t_size = 2, io_t2o_size = 3, io_o2t_fixed = True, io_t2o_fixed = True,
     io_has_sequence_count = True, io_o2t_real_time_format = True, io_t2o_real_time_format = False,
     io_destination = \<lparr>sa_ip = ipv4 127 0 0 1, sa_port = 2222\<rparr>, io_peer_ip = ipv4 127 0 0 1\<rparr>"

text \<open>\<open>Instant::now()\<close>.\<close>

definition t0 :: instant where
  "t0 = 1000"

definition o2t_packet_layout_and_counters :: bool where
  "o2t_packet_layout_and_counters =
     (let conn = conn_new conn_test_config t0;
          conn = set_output [0xAA, 0xBB] conn;
          due = is_send_due conn t0;
          (out, conn) = build_packet slice_bytes t0 conn;
          first = returns out (\<lambda>out. passes (decode_connected_packet slice_bytes out) (\<lambda>pkt.
            connection_id pkt = 0x100 \<and> sequence_number pkt = 1 \<and> cp_data pkt = [1, 0, 1, 0, 0, 0, 0xAA, 0xBB]));
          conn = set_run False conn;
          (out, _) = build_packet slice_bytes (t0 + from_millis 10) conn;
          second = returns out (\<lambda>out. passes (decode_connected_packet slice_bytes out) (\<lambda>pkt.
            sequence_number pkt = 2 \<and> cp_data pkt = [2, 0, 0, 0, 0, 0, 0xAA, 0xBB]))
      in due \<and> first \<and> second)"

definition schedule_keeps_phase_and_skips_missed_slots :: bool where
  "schedule_keeps_phase_and_skips_missed_slots =
     (let conn = conn_new conn_test_config t0;
          conn1 = snd (build_packet slice_bytes t0 conn);
          conn2 = snd (build_packet slice_bytes (t0 + from_millis 12) conn1);
          conn3 = snd (build_packet slice_bytes (t0 + from_millis 55) conn2)
      in ic_next_send conn1 = t0 + from_millis 10 \<and> ic_next_send conn2 = t0 + from_millis 20 \<and>
         ic_next_send conn3 = t0 + from_millis 60)"

definition fixed_size_mismatch_is_not_sent :: bool where
  "fixed_size_mismatch_is_not_sent =
     (let conn = set_output [1, 2, 3] (conn_new conn_test_config t0)
      in fst (build_packet slice_bytes t0 conn) = None)"

definition receive_resets_timeout :: bool where
  "receive_resets_timeout =
     (let conn = conn_new conn_test_config t0;
          t1 = t0 + from_millis 30;
          pkt = \<lparr>connection_id = 0x200, sequence_number = 9, cp_data = [5, 0, 1, 2, 3]\<rparr>;
          (input, conn) = on_receive slice_bytes pkt t1 conn
      in returns input (\<lambda>input. in_sequence_count input = 5 \<and> in_data input = [1, 2, 3]) \<and>
         \<not> is_timed_out conn (t0 + from_millis 60) \<and> is_timed_out conn (t1 + from_millis 40))"

definition wrong_size_input_is_ignored :: bool where
  "wrong_size_input_is_ignored =
     (let conn = conn_new conn_test_config t0;
          pkt = \<lparr>connection_id = 0x200, sequence_number = 1, cp_data = [5, 0, 1, 2]\<rparr>;
          (input, conn) = on_receive slice_bytes pkt (t0 + from_millis 30) conn
      in input = None \<and> is_timed_out conn (t0 + from_millis 40))"

lemmas packet_eval = build_packet_def advance_schedule_def conn_new_def set_output_def set_run_def conn_test_config_def t0_def
  from_millis_def is_send_due_def is_timed_out_def timeout_at_def on_receive_def receive_header_def
  encode_connected_packet_def decode_connected_packet_def Let_def slice_eval

lemma connection_tests:
  o2t_packet_layout_and_counters schedule_keeps_phase_and_skips_missed_slots fixed_size_mismatch_is_not_sent
  receive_resets_timeout wrong_size_input_is_ignored
  by (simp_all add: o2t_packet_layout_and_counters_def schedule_keeps_phase_and_skips_missed_slots_def
    fixed_size_mismatch_is_not_sent_def receive_resets_timeout_def wrong_size_input_is_ignored_def packet_eval cong: eval_congs)

end
