(* ===== verification/Tests_Objects.thy ===== *)
theory Tests_Objects
  imports Complex_Main Tests_Wire Identity_Object File_Object Discovery Parameter_Object
begin

text \<open>
  The unit tests of the objects and of discovery, run on the model (src/src/objects/identity.rs, objects/file.rs,
  objects/parameter.rs, discovery.rs). They talk to \<open>mock_session\<close>, whose replies are queued before.
\<close>

section \<open>Talking to the mock session\<close>

definition mock_replies :: "bytes list \<Rightarrow> MockSession" where
  "mock_replies ds = fold mock_reply ds mock_new"

text \<open>The session of a test in normal form, which a request takes a step forward.\<close>

definition mock_at :: "SocketAddrV4 \<Rightarrow> Reply list \<Rightarrow> Request list \<Rightarrow> MockSession" where
  "mock_at a rs qs = \<lparr>replies = rs, requests = qs, mock_remote = a\<rparr>"

lemma mock_at_simps [simp]: "replies (mock_at a rs qs) = rs" "requests (mock_at a rs qs) = qs" "mock_remote (mock_at a rs qs) = a"
  by (simp_all add: mock_at_def)

lemma mock_reply_at [simp]:
  "mock_new = mock_at \<lparr>sa_ip = ipv4 127 0 0 1, sa_port = 44818\<rparr> [] []"
  "with_remote b (mock_at a rs qs) = mock_at b rs qs"
  "mock_reply_status st d (mock_at a rs qs) = mock_at a (rs @ [(st, d, [])]) qs"
  "mock_reply d (mock_at a rs qs) = mock_at a (rs @ [(GSC_SUCCESS, d, [])]) qs"
  "mock_reply_with_items d items (mock_at a rs qs) = mock_at a (rs @ [(GSC_SUCCESS, d, items)]) qs"
  by (simp_all add: mock_at_def mock_new_def with_remote_def mock_reply_def mock_reply_status_def mock_reply_with_items_def)

lemma mock_replies_eq:
  "mock_replies ds = mock_at \<lparr>sa_ip = ipv4 127 0 0 1, sa_port = 44818\<rparr> (map (\<lambda>d. (GSC_SUCCESS, d, [])) ds) []"
proof -
  have "fold mock_reply ds (mock_at a rs []) = mock_at a (rs @ map (\<lambda>d. (GSC_SUCCESS, d, [])) ds) []" for a rs
    by (induction ds arbitrary: rs) simp_all
  from this [of _ "[]"] show ?thesis by (simp add: mock_replies_def)
qed

lemma send_request_at:
  assumes "length d < 65000" "length d' < 65000" "\<forall>item \<in> set extra. item_ok item" "length extra < 65534"
  shows "send_request slice_bytes (mock_session slice_bytes) R sc path d (mock_at a ((st, d', extra) # rest) q) =
     (Ok \<lparr>service = ServiceCode (service_code_raw sc OR 0x80), general_status = st, additional_status = [],
        resp_data = d', additional_packet_items = extra\<rparr>,
      mock_at a rest (q @ [\<lparr>rq_service = sc, rq_path = path, rq_data = d\<rparr>]))"
  using slice.mock_send_request [OF assms(1) _ assms(2-4), of "mock_at a ((st, d', extra) # rest) q" st rest R sc path]
  by (simp add: mock_at_def)

lemma request_checked_at:
  assumes "length d < 65000" "length d' < 65000" "\<forall>item \<in> set extra. item_ok item" "length extra < 65534"
  shows "request_checked slice_bytes (mock_session slice_bytes) R sc path d ctxt (mock_at a ((st, d', extra) # rest) q) =
     (if st = GSC_SUCCESS
      then Ok \<lparr>service = ServiceCode (service_code_raw sc OR 0x80), general_status = st, additional_status = [],
        resp_data = d', additional_packet_items = extra\<rparr>
      else Err (Cip ctxt st []),
      mock_at a rest (q @ [\<lparr>rq_service = sc, rq_path = path, rq_data = d\<rparr>]))"
  using assms by (simp add: request_checked_def sbind_def send_request_at check_def is_success_def)

lemmas mock_eval = mock_replies_eq send_request_at request_checked_at sbind_def

section \<open>identity.rs\<close>

definition read_all_attributes :: bool where
  "read_all_attributes =
     (let session = mock_replies [[1, 0, 2, 0, 3, 0, 4, 5, 0x30, 0, 0x78, 0x56, 0x34, 0x12, 5] @ as_bytes (lit ''Drive'')];
          (r, session) = identity_read slice_bytes (mock_session slice_bytes) router_new 1 session;
          req = requests session ! 0
      in passes r (\<lambda>identity. id_vendor_id identity = 1 \<and> id_device_type identity = 2 \<and> id_product_code identity = 3 \<and>
           id_revision identity = revision_new 4 5 \<and> id_status identity = 0x30 \<and>
           id_serial_number identity = 0x12345678 \<and> id_product_name identity = lit ''Drive'') \<and>
         rq_service req = SC_GET_ATTRIBUTE_ALL \<and> rq_path req = epath_instance 1 1)"

definition error_status :: bool where
  "error_status =
     (let session = mock_reply_status (GeneralStatusCode 0x16) [] mock_new
      in case fst (identity_read slice_bytes (mock_session slice_bytes) router_new 1 session) of
           Inl (Cip _ st _) \<Rightarrow> st = GeneralStatusCode 0x16 | _ \<Rightarrow> False)"

definition short_reply :: bool where
  "short_reply =
     (case fst (identity_read slice_bytes (mock_session slice_bytes) router_new 1 (mock_replies [[1, 0, 2]])) of
        Inl (Truncated _ _) \<Rightarrow> True | _ \<Rightarrow> False)"

lemma identity_tests: read_all_attributes error_status short_reply
  by (simp_all add: read_all_attributes_def error_status_def short_reply_def mock_eval slice_eval identity_read_def
    identity_fields_def revision_decode_def revision_new_def try_get_short_string_def from_utf8_lossy_ascii
    as_bytes_def encode_char_def lit_def cong: eval_congs)

section \<open>file.rs\<close>

definition upload_in_three_packets :: bool where
  "upload_in_three_packets =
     (let s = mock_replies [[2], [7, 0, 0, 0, 3], [0, 0] @ as_bytes (lit ''abc''), [1, 1] @ as_bytes (lit ''def''),
            [2, 2] @ as_bytes (lit ''g'') @ [0xAA, 0xBB]]
      in case file_new slice_bytes (mock_session slice_bytes) router_new 1 s of (r, s) \<Rightarrow> passes r (\<lambda>file.
         file_state file = FOS_FILE_LOADED \<and>
         returns (upload slice_bytes (mock_session slice_bytes) 0 (s, file)) (\<lambda>(r, s, file).
           passes r (\<lambda>content. content = as_bytes (lit ''abcdefg'')) \<and> file_state file = FOS_FILE_LOADED \<and>
           (let reqs = requests s
            in rq_service (reqs ! 1) = SC_INITIATE_UPLOAD \<and> rq_data (reqs ! 1) = [255] \<and>
               rq_data (reqs ! 2) = [0] \<and> rq_data (reqs ! 4) = [2]))))"

definition wrong_file_size :: bool where
  "wrong_file_size =
     (let s = mock_replies [[2], [5, 0, 0, 0, 3], [0, 4] @ as_bytes (lit ''ab'') @ [0, 0]]
      in case file_new slice_bytes (mock_session slice_bytes) router_new 1 s of (r, s) \<Rightarrow> passes r (\<lambda>file.
         returns (upload slice_bytes (mock_session slice_bytes) 0 (s, file)) (\<lambda>(r, s, file).
           case r of Inl (Cip _ st _) \<Rightarrow> st = GSC_INVALID_PARAMETER | _ \<Rightarrow> False)))"

definition wrong_transfer_number :: bool where
  "wrong_transfer_number =
     (let s = mock_replies [[2], [5, 0, 0, 0, 3], [3, 0, 1, 2, 3]]
      in case file_new slice_bytes (mock_session slice_bytes) router_new 1 s of (r, s) \<Rightarrow> passes r (\<lambda>file.
         returns (upload slice_bytes (mock_session slice_bytes) 0 (s, file)) (\<lambda>(r, s, file). is_err r)))"

definition empty_file_cannot_be_uploaded :: bool where
  "empty_file_cannot_be_uploaded =
     (case file_new slice_bytes (mock_session slice_bytes) router_new 1 (mock_replies [[1]]) of (r, s) \<Rightarrow> passes r (\<lambda>file.
        file_state file = FOS_FILE_EMPTY \<and>
        returns (upload slice_bytes (mock_session slice_bytes) 0 (s, file)) (\<lambda>(r, s, file).
          is_err r \<and> length (requests s) = 1)))"

definition uploading_state_is_treated_as_loaded :: bool where
  "uploading_state_is_treated_as_loaded =
     passes (fst (file_new slice_bytes (mock_session slice_bytes) router_new 1 (mock_replies [[5]])))
       (\<lambda>file. file_state file = FOS_FILE_LOADED)"

lemmas file_eval = file_new_def initial_state_def file_state_def upload_def begin_upload_def transfer_loop.simps
  handle_transfers_def transfer_reply_def finish_def call_handler_def first_call_def is_success_def

lemma file_tests:
  upload_in_three_packets wrong_file_size wrong_transfer_number empty_file_cannot_be_uploaded
  uploading_state_is_treated_as_loaded
  by (simp_all add: upload_in_three_packets_def wrong_file_size_def wrong_transfer_number_def empty_file_cannot_be_uploaded_def
    uploading_state_is_treated_as_loaded_def mock_eval slice_eval file_eval as_bytes_def encode_char_def lit_def cong: eval_congs)

section \<open>parameter.rs\<close>

text \<open>
  The tests compare floating-point results within \<open>1e-12\<close>. The model takes exact rational arithmetic for \<open>f64\<close>,
  which the tolerance covers. \<open>round\<close> goes half away from zero; \<open>as\<close> truncates and saturates.
\<close>

definition f_trunc :: "rat \<Rightarrow> int" where
  "f_trunc v = (if 0 \<le> v then \<lfloor>v\<rfloor> else \<lceil>v\<rceil>)"

definition rat_arith :: "rat f64_api" where
  "rat_arith = \<lparr>f_of_int = of_int, f_add = (+), f_sub = (-), f_mul = (*), f_div = (/), f_powi = (\<lambda>x n. x ^ nat n),
     f_round = (\<lambda>v. of_int (if 0 \<le> v then \<lfloor>v + 1/2\<rfloor> else \<lceil>v - 1/2\<rceil>)),
     f_as_int = (\<lambda>lo hi v. max lo (min hi (f_trunc v)))\<rparr>"

definition U32 :: "(rat, u32) CipValue" where
  "U32 = unsigned_value rat_arith"

definition U16 :: "(rat, u16) CipValue" where
  "U16 = unsigned_value rat_arith"

definition near :: "rat \<Rightarrow> rat \<Rightarrow> bool" where
  "near v w \<longleftrightarrow> \<bar>v - w\<bar> < 1 / 10 ^ 12"

definition param_data :: "u8 \<Rightarrow> bytes" where
  "param_data descriptor =
     [0x01, 0, 0, 0, 6, 0x20, 0x05, 0x24, 0x02, 0x30, 0x01, descriptor, 0] @ [0xC8] @ [4]
     @ ([5] @ as_bytes (lit ''PARAM'') @ [3] @ as_bytes (lit ''MPa'') @ [4] @ as_bytes (lit ''HELP''))
     @ [0, 0, 0, 0, 5, 0, 0, 0, 3, 0, 0, 0] @ [2, 0, 4, 0, 1, 0, 6, 0, 0, 0, 0, 0, 0, 0, 0, 0, 1]"

definition param_session :: "bool \<Rightarrow> u8 \<Rightarrow> MockSession" where
  "param_session full descriptor =
     mock_replies ([[4], param_data descriptor]
       @ (if full \<and> descriptor AND 0x04 \<noteq> 0 then [[2, 0], [4, 0], [1, 0], [6, 0]] else []))"

definition read_stub_data :: bool where
  "read_stub_data =
     (case parameter_read slice_bytes (mock_session slice_bytes) router_new 1 False (param_session False 0x04) of
        (r, s) \<Rightarrow> passes r (\<lambda>p.
          \<not> p_has_full_attributes p \<and> p_is_scalable p \<and> \<not> p_is_read_only p \<and>
          passes (actual_value U32 p) (\<lambda>v. v = 1) \<and> p_data_type p = CipDataType 0xC8 \<and> p_name p = [] \<and>
          rq_path (requests s ! 0) = epath_attribute 0x0F 1 6 \<and> rq_service (requests s ! 1) = SC_GET_ATTRIBUTE_ALL))"

definition read_full_data :: bool where
  "read_full_data =
     (case parameter_read slice_bytes (mock_session slice_bytes) router_new 1 True (param_session True 0x04) of
        (r, s) \<Rightarrow> passes r (\<lambda>p.
          p_has_full_attributes p \<and> p_name p = lit ''PARAM'' \<and> p_units p = lit ''MPa'' \<and> p_help p = lit ''HELP'' \<and>
          passes (min_value U32 p) (\<lambda>v. v = 0) \<and> passes (max_value U32 p) (\<lambda>v. v = 5) \<and>
          passes (default_value U32 p) (\<lambda>v. v = 3) \<and>
          p_scaling_multiplier p = 2 \<and> p_scaling_divisor p = 4 \<and> p_scaling_base p = 1 \<and>
          p_scaling_offset p = 6 \<and> p_precision p = 1 \<and>
          passes (eng_value rat_arith U32 p) (\<lambda>v. near v (35 / 100)) \<and>
          passes (eng_min_value rat_arith U32 p) (\<lambda>v. near v (3 / 10)) \<and>
          passes (eng_max_value rat_arith U32 p) (\<lambda>v. near v (55 / 100)) \<and>
          passes (eng_default_value rat_arith U32 p) (\<lambda>v. near v (45 / 100)) \<and>
          map (\<lambda>r. attribute_id (rq_path r)) (drop 2 (requests s)) = [Some 13, Some 14, Some 15, Some 16]))"

definition parameter_update_value :: bool where
  "parameter_update_value =
     (case parameter_read slice_bytes (mock_session slice_bytes) router_new 1 True
         (mock_reply [4, 0, 0, 0] (param_session True 0x04)) of
        (r, s) \<Rightarrow> passes r (\<lambda>p. case update_value slice_bytes (mock_session slice_bytes) router_new p s of
          (r, s) \<Rightarrow> passes r (\<lambda>p. passes (actual_value U32 p) (\<lambda>v. v = 4) \<and>
            rq_path (last (requests s)) = epath_attribute 0x0F 1 1)))"

definition offline_parameter :: ParameterObject where
  "offline_parameter = (parameter_new 1 True 4)\<lparr>p_is_read_only := True, p_is_scalable := True,
     p_scaling_multiplier := 2, p_scaling_divisor := 4, p_scaling_base := 1, p_scaling_offset := 6, p_precision := 1\<rparr>"

definition offline_setters :: bool where
  "offline_setters =
     (let p = offline_parameter;
          p1 = set_eng_min_value rat_arith U32 (3 / 10) p;
          p2 = set_eng_max_value rat_arith U32 (55 / 100) p1;
          p3 = set_eng_default_value rat_arith U32 (45 / 100) p2
      in passes (eng_value rat_arith U32 p) (\<lambda>v. near v (3 / 10)) \<and> passes (min_value U32 p1) (\<lambda>v. v = 0) \<and>
         passes (max_value U32 p2) (\<lambda>v. v = 5) \<and> passes (default_value U32 p3) (\<lambda>v. v = 3))"

definition read_only_descriptor :: bool where
  "read_only_descriptor =
     passes (fst (parameter_read slice_bytes (mock_session slice_bytes) router_new 1 False (param_session False 0x10)))
       p_is_read_only"

definition wrong_type_size :: bool where
  "wrong_type_size = is_err (actual_value U16 (parameter_new 1 False 4))"

lemmas parameter_eval = parameter_read_def param_session_def param_data_def basic_attributes_def full_attributes_def
  try_get_short_string_def from_utf8_lossy_ascii parameter_new_def scaling_fields_def update_value_def slift_def sret_def
  actual_value_def min_value_def max_value_def default_value_def cip_value_decode_def U32_def U16_def unsigned_value_def

lemmas engineering_eval = eng_value_def eng_min_value_def eng_max_value_def eng_default_value_def actual_to_eng_def
  set_eng_min_value_def set_eng_max_value_def set_eng_default_value_def eng_to_actual_def f_ten_pow_def rat_arith_def f_trunc_def
  near_def offline_parameter_def

lemma read_stub_data_passes: read_stub_data
  by (simp add: read_stub_data_def mock_eval slice_eval parameter_eval engineering_eval as_bytes_def encode_char_def lit_def Let_def
    cong: eval_congs)

lemma read_full_data_passes: read_full_data
  by (simp add: read_full_data_def epath_attribute_def mock_eval slice_eval parameter_eval engineering_eval as_bytes_def encode_char_def lit_def Let_def
    cong: eval_congs)

lemma parameter_update_value_passes: parameter_update_value
  by (simp add: parameter_update_value_def mock_eval slice_eval parameter_eval engineering_eval as_bytes_def encode_char_def lit_def Let_def
    cong: eval_congs)

lemma offline_values:
  "eng_to_actual rat_arith offline_parameter (3 / 10) = 0"
  "eng_to_actual rat_arith offline_parameter (55 / 100) = 5"
  "eng_to_actual rat_arith offline_parameter (45 / 100) = 3"
  by (simp_all add: eng_to_actual_def f_ten_pow_def rat_arith_def offline_parameter_def)

lemma eng_to_actual_limits:
  "eng_to_actual F (p\<lparr>p_min_value := a\<rparr>) = eng_to_actual F p" "eng_to_actual F (p\<lparr>p_max_value := a\<rparr>) = eng_to_actual F p"
  by (simp_all add: eng_to_actual_def fun_eq_iff)

lemma rounded: "\<lfloor>11 / 2 :: rat\<rfloor> = 5" "\<lfloor>7 / 2 :: rat\<rfloor> = 3"
  by (rule floor_unique; simp)+

lemma zeros: "replicate 4 (0 :: u8) = [0, 0, 0, 0]"
  by (simp add: numeral_eq_Suc)

lemma offline_setters_passes: offline_setters
  unfolding offline_setters_def Let_def set_eng_min_value_def set_eng_max_value_def set_eng_default_value_def eng_to_actual_limits
    offline_values
  by (simp add: offline_parameter_def parameter_new_def eng_value_def actual_to_eng_def f_ten_pow_def passes_def near_def
    actual_value_def min_value_def max_value_def default_value_def cip_value_decode_def U32_def unsigned_value_def to_le_eval
    rat_arith_def f_trunc_def rounded zeros)

lemma read_only_descriptor_passes: read_only_descriptor
  by (simp add: read_only_descriptor_def mock_eval slice_eval parameter_eval engineering_eval as_bytes_def encode_char_def lit_def Let_def
    cong: eval_congs)

lemma wrong_type_size_passes: wrong_type_size
  by (simp add: wrong_type_size_def mock_eval slice_eval parameter_eval engineering_eval as_bytes_def encode_char_def lit_def Let_def
    cong: eval_congs)

section \<open>discovery.rs\<close>

definition LIST_IDENTITY_ITEM :: bytes where
  "LIST_IDENTITY_ITEM =
     [0x0c, 0x00, 0x42, 0x00, 0x01, 0x00, 0x00, 0x02, 0xaf, 0x12, 0xc0, 0xa8,
      0x01, 0x0f, 0x00, 0x00, 0x00, 0x00, 0x00, 0x00, 0x00, 0x00, 0x01, 0x00, 0x96, 0x00, 0x09, 0x00,
      0x05, 0x01, 0x30, 0x00, 0x92, 0xe1, 0x8d, 0x80, 0x1d, 0x50, 0x6f, 0x77, 0x65, 0x72, 0x46, 0x6c,
      0x65, 0x78, 0x20, 0x35, 0x32, 0x35, 0x20, 0x31, 0x50, 0x20, 0x31, 0x31, 0x30, 0x56, 0x20, 0x20,
      0x20, 0x2e, 0x35, 0x30, 0x48, 0x50, 0x00, 0x00, 0x00, 0xff]"

definition LIST_IDENTITY_RESPONSE :: bytes where
  "LIST_IDENTITY_RESPONSE =
     [0x63, 0x00, 0x00, 0x00, 0x00, 0x00, 0x00, 0x00, 0x00, 0x00, 0x00, 0x00,
      0x00, 0x00, 0x00, 0x00, 0x00, 0x00, 0x00, 0x00, 0x00, 0x00, 0x00, 0x00,
      0x02, 0x00] @ LIST_IDENTITY_ITEM @ LIST_IDENTITY_ITEM"

definition parse_powerflex_reply :: bool where
  "parse_powerflex_reply =
     passes (parse_list_identity_response slice_bytes LIST_IDENTITY_RESPONSE) (\<lambda>devices.
       length devices = 2 \<and>
       (let d = devices ! 1
        in ii_socket_address d = \<lparr>sa_ip = ipv4 192 168 1 15, sa_port = 44818\<rparr> \<and>
           id_vendor_id (ii_identity d) = 1 \<and> id_device_type (ii_identity d) = 0x96 \<and>
           id_product_code (ii_identity d) = 9 \<and> id_revision (ii_identity d) = revision_new 5 1 \<and>
           id_status (ii_identity d) = 0x30 \<and> id_serial_number (ii_identity d) = 0x808de192 \<and>
           id_product_name (ii_identity d) = lit ''PowerFlex 525 1P 110V   .50HP''))"

definition truncated_reply_is_an_error :: bool where
  "truncated_reply_is_an_error = is_err (parse_list_identity_response slice_bytes (take 60 LIST_IDENTITY_RESPONSE))"

lemma items_decode_numeral: "items_decode B (numeral k) items buf =
   (if buf = [] then Inr (items, buf) else read_q (item_decode B) (\<lambda>item. items_decode B (pred_numeral k) (items @ [item])) buf)"
  by (simp add: numeral_eq_Suc)

lemma discovery_tests: parse_powerflex_reply truncated_reply_is_an_error
  by (simp_all add: parse_powerflex_reply_def truncated_reply_is_an_error_def parse_list_identity_response_def
    LIST_IDENTITY_RESPONSE_def LIST_IDENTITY_ITEM_def slice_eval cpf_decode_def items_decode_numeral item_decode_def identity_item_read_def
    decode_sockaddr_def identity_fields_def revision_decode_def revision_new_def try_get_short_string_def
    from_utf8_lossy_ascii ipv4_def lit_def cong: eval_congs)
end
