(* ===== verification/Tests_Manager.thy ===== *)
theory Tests_Manager
  imports Tests_Objects Tests_Connections Io_Manager
begin

text \<open>
  The unit tests of the connection manager (src/src/io/manager.rs), run on the model. Where a test talks to a target
  over loopback and waits, the model runs the rounds of the IO thread at given moments, with the datagrams the target
  sends as the script of what the socket returns; \<open>SentTo\<close> effects are what the target receives, \<open>Received\<close> and
  \<open>CloseCalled\<close> what the callbacks put into the channels of the test. The random start of the manager's counters is an
  argument of every test.
\<close>

section \<open>Configuration, replies, rounds\<close>

definition O2T_ID :: u32 where
  "O2T_ID = 0xAA000001"

definition RPI :: duration where
  "RPI = from_millis 5"

definition manager_open_reply :: "u32 \<Rightarrow> bytes" where
  "manager_open_reply t2o_id =
     (let d = put_u32_le slice_bytes O2T_ID [];
          d = put_u32_le slice_bytes t2o_id d;
          d = put_u16_le slice_bytes 1 d;
          d = put_u16_le slice_bytes 342 d;
          d = put_u32_le slice_bytes 0x12345 d;
          d = put_u32_le slice_bytes (of_nat (RPI div 1000)) d;
          d = put_u32_le slice_bytes (of_nat (RPI div 1000)) d;
          d = put_u16_le slice_bytes 0 d
      in d)"

definition manager_params :: ConnectionConfig where
  "manager_params =
     (config_new (cpath_assembly slice_bytes 1 150 100) (with_run_idle_header (direction_new 2 RPI)) (direction_new 3 RPI))
       \<lparr>cc_originator_vendor_id := 342, cc_originator_serial_number := 0x12345\<rparr>"

text \<open>A target on loopback, at the port the system gave it, and the socket address item it announces itself by.\<close>

definition sockaddr_items :: "SocketAddrV4 \<Rightarrow> CommonPacketItem list" where
  "sockaddr_items addr = [item_new CPI_O2T_SOCKADDR_INFO (encode_sockaddr slice_bytes addr [])]"

definition fake_target_at :: "Ipv4Addr \<Rightarrow> SocketAddrV4 \<times> CommonPacketItem list" where
  "fake_target_at ip = (let addr = \<lparr>sa_ip = ip, sa_port = 40000\<rparr> in (addr, sockaddr_items addr))"

definition fake_target :: "SocketAddrV4 \<times> CommonPacketItem list" where
  "fake_target = fake_target_at (ipv4 127 0 0 1)"

text \<open>A round of the manager's thread at a moment, over the commands sent so far.\<close>

definition round_at :: "instant \<Rightarrow> ConnectionKey list \<Rightarrow> recv_result list \<Rightarrow> ConnectionManager \<Rightarrow> ConnectionManager" where
  "round_at now order datagrams m =
     (let y = cm_sys m;
          (go, s) = run_round slice_bytes \<lparr>rd_senders = True, rd_queue = queue y, rd_now = now, rd_order = order,
            rd_ready = Some (datagrams \<noteq> []), rd_datagrams = datagrams\<rparr> (io y)
      in m\<lparr>cm_sys := y\<lparr>io := s, queue := [], running := go\<rparr>\<rparr>)"

definition io_effects :: "ConnectionManager \<Rightarrow> io_effect list" where
  "io_effects m = effects (io (cm_sys m))"

section \<open>Evaluation\<close>

lemma manager_open_reply_eq:
  "manager_open_reply t = le32 O2T_ID @ le32 t @ le16 1 @ le16 342 @ le32 0x12345 @ le32 5000 @ le32 5000 @ le16 0"
  by (simp add: manager_open_reply_def RPI_def from_millis_def)

lemma manager_reply_decoded:
  "forward_open_response_decode slice_bytes (manager_open_reply t) = Ok \<lparr>fr_o2t_id = O2T_ID, fr_t2o_id = t, fr_serial = 1,
     fr_vendor = 342, fr_orig_serial = 0x12345, fr_o2t_api = 5000, fr_t2o_api = 5000, fr_application_reply = []\<rparr>"
  using slice.forward_open_response_read_wire [of "\<lparr>fr_o2t_id = O2T_ID, fr_t2o_id = t, fr_serial = 1,
     fr_vendor = 342, fr_orig_serial = 0x12345, fr_o2t_api = 5000, fr_t2o_api = 5000, fr_application_reply = []\<rparr>" 0 "[]"]
  by (simp add: forward_open_response_decode_def run_reader_def manager_open_reply_eq response_wire_def path_fits_def to_le_eval)

abbreviation manager_reply :: "u32 \<Rightarrow> ForwardOpenResponse" where
  "manager_reply t \<equiv> \<lparr>fr_o2t_id = O2T_ID, fr_t2o_id = t, fr_serial = 1, fr_vendor = 342, fr_orig_serial = 0x12345,
     fr_o2t_api = 5000, fr_t2o_api = 5000, fr_application_reply = []\<rparr>"

text \<open>What a Forward Open that the target accepts does, in the normal form of the session.\<close>

lemma open_at:
  assumes "check_config c = Ok large" "length (encoded_path c) < 512" "running (cm_sys m)"
  shows "forward_open slice_bytes (mock_session slice_bytes) c callbacks now
      (mock_at a ((GSC_SUCCESS, manager_open_reply t, sockaddr_items addr) # rest) q, m) =
    (let cfg = open_config c (manager_reply t) (o2t_destination (Some addr) (sa_ip a)) (sa_ip a);
         y = cm_sys m; flag = length (flag_open (io y)); h = open_handle c (manager_reply t) cfg flag
     in (Ok h, mock_at a rest (q @ [\<lparr>rq_service = (if large then SC_LARGE_FORWARD_OPEN else SC_FORWARD_OPEN),
            rq_path = epath_instance CM_CLASS_ID 1, rq_data = forward_open_encode slice_bytes (fst (open_request c m)) large\<rparr>]),
         (snd (open_request c m))\<lparr>cm_sys := y\<lparr>io := snd (flag_new (io y)), queue := queue y @ [Add (conn_new cfg now) callbacks flag],
           handles := (flag, h_key h) # handles y\<rparr>\<rparr>))"
proof -
  obtain req m1 where req: "open_request c m = (req, m1)" by (meson surj_pair)
  have m1: "cm_sys m1 = cm_sys m" "fo_path req = encoded_path c"
    using open_request_fields [of c m] by (simp_all add: req)
  have ok: "\<forall>item \<in> set (sockaddr_items addr). item_ok item" "length (sockaddr_items addr) < 65534"
    by (simp_all add: sockaddr_items_def item_ok_def item_new_def encode_sockaddr_def octets_def Let_def)
  have len: "length (forward_open_encode slice_bytes req large) < 65000" "length (manager_open_reply t) < 65000"
    using length_forward_open [OF slice.bytes_crate_axioms, of req large] assms(2)
    by (simp_all add: m1 manager_open_reply_eq)
  have sa: "reply_sockaddr slice_bytes (sockaddr_items addr) = Ok (Some addr)"
    using reply_sockaddr_item [OF slice.bytes_crate_axioms, of "Some addr"] by (simp add: sockaddr_items_def)
  have remote: "remote_addr (mock_session slice_bytes) s = mock_remote s" for s by (simp add: mock_session_def)
  show ?thesis
    using assms(3)
    by (simp add: forward_open_def assms(1) req request_checked_at len ok manager_reply_decoded sa remote hand_over_def m1
        sender_send_def flag_new_def Let_def)
qed

text \<open>The manager of a test: real connections need a thread, which is running.\<close>

definition test_manager :: "u64 \<Rightarrow> ConnectionManager" where
  "test_manager random = manager_new router_new random"

lemma test_manager_simps [simp]:
  "running (cm_sys (test_manager r))" "queue (cm_sys (test_manager r)) = []" "flag_open (io (cm_sys (test_manager r))) = []"
  "open_count (io (cm_sys (test_manager r))) = 0" "effects (io (cm_sys (test_manager r))) = []"
  "connections (io (cm_sys (test_manager r))) = Map.empty" "cm_router (test_manager r) = router_new"
  by (simp_all add: test_manager_def manager_new_def io_start_def io_init_def)

section \<open>Forward Open\<close>

definition config_data_is_sent_after_the_path :: "u64 \<Rightarrow> bool" where
  "config_data_is_sent_after_the_path random =
     (let session = mock_reply_with_items (manager_open_reply 0) (snd fake_target) mock_new;
          with_config = manager_params\<lparr>cc_config_data := [0xA1, 0xA2, 0xA3]\<rparr>;
          too_big = manager_params\<lparr>cc_config_data := replicate (MAX_CONFIG_DATA + 1) 0\<rparr>
      in case forward_open slice_bytes (mock_session slice_bytes) with_config callbacks_new 0 (session, test_manager random) of
         (r, session, manager) \<Rightarrow>
           (let body = rq_data (requests session ! 0)
            in is_ok r \<and> body ! 35 = 7 \<and> drop (36 + 8) body = [0x80, 2, 0xA1, 0xA2, 0xA3, 0]) \<and>
           (case forward_open slice_bytes (mock_session slice_bytes) too_big callbacks_new 0 (session, manager) of
              (r, session, manager) \<Rightarrow> (case r of Inl (Unsupported _) \<Rightarrow> True | _ \<Rightarrow> False) \<and> length (requests session) = 1))"

definition large_sizes_use_large_forward_open :: "u64 \<Rightarrow> bool" where
  "large_sizes_use_large_forward_open random =
     (let session = mock_reply_with_items (manager_open_reply 0) (snd fake_target) mock_new;
          config = manager_params\<lparr>cc_o2t := direction_new 600 RPI\<rparr>
      in case forward_open slice_bytes (mock_session slice_bytes) config callbacks_new 0 (session, test_manager random) of
         (r, session, manager) \<Rightarrow> is_ok r \<and>
           (let req = requests session ! 0; o2t_params = of_le (take 4 (drop 26 (rq_data req)))
            in rq_service req = SC_LARGE_FORWARD_OPEN \<and> np_size (params_decode o2t_params True) = 602))"

definition rejected_forward_open :: "u64 \<Rightarrow> bool" where
  "rejected_forward_open random =
     (let session = mock_reply_status (GeneralStatusCode 0x01) [] mock_new
      in case forward_open slice_bytes (mock_session slice_bytes) manager_params callbacks_new 0 (session, test_manager random) of
         (r, session, manager) \<Rightarrow> (case r of Inl (Cip _ _ _) \<Rightarrow> True | _ \<Rightarrow> False) \<and> \<not> has_open_connections manager)"

definition o2t_destination_fallbacks :: bool where
  "o2t_destination_fallbacks =
     (let peer = ipv4 10 0 0 5; at_addr = (\<lambda>ip port. Some \<lparr>sa_ip = ip, sa_port = port\<rparr>)
      in o2t_destination None peer = \<lparr>sa_ip = ipv4 10 0 0 5, sa_port = 2222\<rparr> \<and>
         o2t_destination (at_addr (ipv4 0 0 0 0) 3000) peer = \<lparr>sa_ip = ipv4 10 0 0 5, sa_port = 3000\<rparr> \<and>
         o2t_destination (at_addr (ipv4 0 0 0 0) 0) peer = \<lparr>sa_ip = ipv4 10 0 0 5, sa_port = 2222\<rparr> \<and>
         o2t_destination (at_addr (ipv4 10 0 0 9) 0) peer = \<lparr>sa_ip = ipv4 10 0 0 9, sa_port = 2222\<rparr> \<and>
         o2t_destination (at_addr (ipv4 239 1 2 3) 2222) peer = \<lparr>sa_ip = ipv4 239 1 2 3, sa_port = 2222\<rparr>)"

lemma o2t_destination_fallbacks_passes: o2t_destination_fallbacks
  by (simp add: o2t_destination_fallbacks_def o2t_destination_def ipv4_def of_be_def)

lemmas config_eval = manager_params_def config_new_def direction_new_def with_run_idle_header_def RPI_def from_millis_def
  cpath_assembly_def cpath_new_def cpath_class_def cpath_instance_def connection_point_def cpath_logical_def
  wire_size_def has_sequence_count_def encoded_path_def check_config_def Let_def div_ceil_def slice_eval

lemma test_configs:
  "check_config manager_params = Ok False" "length (encoded_path manager_params) = 8"
  "check_config (manager_params\<lparr>cc_config_data := [0xA1, 0xA2, 0xA3]\<rparr>) = Ok False"
  "encoded_path (manager_params\<lparr>cc_config_data := [0xA1, 0xA2, 0xA3]\<rparr>) =
     [0x20, 0x04, 0x24, 1, 0x2C, 150, 0x2C, 100, 0x80, 2, 0xA1, 0xA2, 0xA3, 0]"
  "check_config (manager_params\<lparr>cc_o2t := direction_new 600 RPI\<rparr>) = Ok True"
  "length (encoded_path (manager_params\<lparr>cc_o2t := direction_new 600 RPI\<rparr>)) = 8"
  by (simp_all add: config_eval)

text \<open>The fields of a request at their offsets: the parameters of both directions, the path size and the path.\<close>

lemma request_offsets:
  "drop 35 (forward_open_encode slice_bytes r False) = of_nat (div_ceil (length (fo_path r)) 2) # fo_path r"
  "take 2 (drop 26 (forward_open_encode slice_bytes r False)) = le16 (ucast (params_encode (fo_o2t_params r) False))"
  "take 2 (drop 32 (forward_open_encode slice_bytes r False)) = le16 (ucast (params_encode (fo_t2o_params r) False))"
  "take 4 (drop 26 (forward_open_encode slice_bytes r True)) = le32 (params_encode (fo_o2t_params r) True)"
  by (simp_all add: forward_open_encode_def put_params_def Let_def to_le_eval numeral_eq_Suc)

lemma open_rejected:
  assumes "check_config c = Err e"
  shows "forward_open B S c callbacks now (s, m) = (Err e, s, m)"
  by (simp add: forward_open_def assms)

lemma config_data_is_sent_after_the_path_passes: "config_data_is_sent_after_the_path random"
proof -
  let ?c = "manager_params\<lparr>cc_config_data := [0xA1, 0xA2, 0xA3]\<rparr>"
  obtain e where big: "check_config (manager_params\<lparr>cc_config_data := replicate 511 0\<rparr>) = Err (Unsupported e)"
    by (simp add: check_config_def)
  define body where "body = forward_open_encode slice_bytes (fst (open_request ?c (test_manager random))) False"
  have body: "drop 35 body = 7 # encoded_path ?c"
    by (simp add: body_def request_offsets open_request_fields test_configs div_ceil_def)
  have "drop 44 body = drop 9 (drop 35 body)" by simp
  then have "drop 44 body = drop 8 (encoded_path ?c)" by (simp only: body) simp
  moreover have "body ! 35 = 7" using nth_via_drop [OF body] by simp
  ultimately show ?thesis
    by (simp add: config_data_is_sent_after_the_path_def Let_def fake_target_def fake_target_at_def open_at [where large = False] test_configs body_def [symmetric] open_rejected [OF big])
qed

lemma large_sizes_use_large_forward_open_passes: "large_sizes_use_large_forward_open random"
proof -
  have "params_decode (of_le (le32 (params_encode (network_params (direction_new 600 RPI) 602) True))) True
      = network_params (direction_new 600 RPI) 602"
    by (simp add: network_params_def direction_new_def params_encode_def params_decode_def to_le_eval)
  moreover have "wire_size (manager_params\<lparr>cc_o2t := direction_new 600 RPI\<rparr>) (direction_new 600 RPI) = 602"
    by (simp add: config_eval)
  ultimately show ?thesis
    by (simp add: large_sizes_use_large_forward_open_def fake_target_def fake_target_at_def open_at [where large = True] test_configs request_offsets open_request_fields
      Let_def) (simp add: network_params_def)
qed

lemma rejected_forward_open_passes: "rejected_forward_open random"
proof -
  obtain req m where req: "open_request manager_params (test_manager random) = (req, m)" by (meson surj_pair)
  have fields: "fo_path req = encoded_path manager_params" "cm_sys m = cm_sys (test_manager random)" "cm_router m = router_new"
    using open_request_fields [of manager_params "test_manager random"] by (simp_all add: req)
  have "length (forward_open_encode slice_bytes req False) < 65000"
    using length_forward_open [OF slice.bytes_crate_axioms, of req False] by (simp add: fields test_configs)
  then show ?thesis
    by (simp add: rejected_forward_open_def forward_open_def test_configs req fields request_checked_at has_open_connections_def
      Let_def)
qed

section \<open>Data, timeouts and closing\<close>

text \<open>What the target receives from a packet, and the input its packets bring to the handler of a connection.\<close>

definition target_receives :: "SocketAddrV4 \<Rightarrow> (ConnectedPacket \<Rightarrow> bool) \<Rightarrow> io_effect \<Rightarrow> bool" where
  "target_receives target P e =
     (case e of SentTo a out \<Rightarrow> a = target \<and> passes (decode_connected_packet slice_bytes out) P | _ \<Rightarrow> False)"

definition received_by :: "ConnectionKey \<Rightarrow> io_effect list \<Rightarrow> bytes list" where
  "received_by k es = List.map_filter (\<lambda>e. case e of Received k' i \<Rightarrow> if k' = k then Some (in_data i) else None | _ \<Rightarrow> None) es"

definition exchange_data_then_time_out :: "u64 \<Rightarrow> bool" where
  "exchange_data_then_time_out random =
     (case fake_target of (target, items) \<Rightarrow>
      let session = mock_reply_with_items (manager_open_reply 0) items mock_new;
          callbacks = with_on_close (with_on_receive callbacks_new);
          key = \<lparr>key_peer_ip = ipv4 127 0 0 1, key_t2o_id = 0\<rparr>
      in case forward_open slice_bytes (mock_session slice_bytes) manager_params callbacks 0 (session, test_manager random) of
         (r, session, m) \<Rightarrow> passes r (\<lambda>handle.
         case handle_set_output handle [0x11, 0x22] m of (sent, m) \<Rightarrow>
         let request = requests session ! 0;
             o2t_ncp = of_le (take 2 (drop 26 (rq_data request))) :: u16;
             t2o_ncp = of_le (take 2 (drop 32 (rq_data request))) :: u16;
             m1 = round_at 0 [key] [] m;
             out = encode_connected_packet slice_bytes 0 1 [[1, 0], [7, 8, 9]];
             m2 = round_at (from_millis 1) [key] [Datagram out (Some (ipv4 127 0 0 1)) (from_millis 1)] m1;
             m3 = round_at (from_millis 22) [key] [] m2
         in is_ok sent \<and> rq_service request = SC_FORWARD_OPEN \<and> rq_path request = epath_instance 6 1 \<and>
            o2t_ncp AND 0x1FF = 2 + 2 + 4 \<and> t2o_ncp AND 0x1FF = 3 + 2 \<and> has_open_connections m \<and>
            list_ex (target_receives target (\<lambda>pkt. connection_id pkt = O2T_ID \<and>
              take 4 (drop 2 (cp_data pkt)) = [1, 0, 0, 0] \<and> drop 6 (cp_data pkt) = [0x11, 0x22])) (io_effects m1) \<and>
            received_by key (io_effects m2) = [[7, 8, 9]] \<and>
            CloseCalled (h_flag handle) \<in> set (io_effects m3) \<and> \<not> handle_is_open handle m3 \<and> \<not> has_open_connections m3 \<and>
            (case forward_close slice_bytes (mock_session slice_bytes) handle (session, m3) of
               (r, session, m) \<Rightarrow> is_ok r \<and> length (requests session) = 1)))"

lemmas opened_eval = open_config_def open_handle_def io_key_def o2t_destination_def fake_target_def fake_target_at_def
  manager_params_def config_new_def direction_new_def with_run_idle_header_def has_sequence_count_def from_micros_def

text \<open>The connection of a test after some packets: numbers, the moments of its schedule and of the last packet received.\<close>

definition conn_at :: "Ipv4Addr \<Rightarrow> u32 \<Rightarrow> bytes \<Rightarrow> u32 \<Rightarrow> u16 \<Rightarrow> instant \<Rightarrow> instant \<Rightarrow> nat \<Rightarrow> IoConnection" where
  "conn_at ip t out n count next lr timeout =
     \<lparr>ic_cfg = \<lparr>io_o2t_id = O2T_ID, io_t2o_id = t, io_serial_number = 1, io_o2t_api = 5000000, io_timeout = timeout,
        io_o2t_size = 2, io_t2o_size = 3, io_o2t_fixed = True, io_t2o_fixed = True, io_has_sequence_count = True,
        io_o2t_real_time_format = True, io_t2o_real_time_format = False,
        io_destination = \<lparr>sa_ip = ip, sa_port = 40000\<rparr>, io_peer_ip = ip\<rparr>,
      ic_output = out, ic_run = True, ic_o2t_sequence_number = n, ic_sequence_count = count, ic_next_send = next,
      ic_last_receive = lr, ic_o2t_size_warned = False, ic_t2o_size_warned = False\<rparr>"

lemma conn_at_simps [simp]:
  "ic_output (conn_at ip t out n count next lr timeout) = out"
  "set_output d (conn_at ip t out n count next lr timeout) = conn_at ip t d n count next lr timeout"
  "is_timed_out (conn_at ip t out n count next lr timeout) now \<longleftrightarrow> lr + timeout \<le> now"
  "is_send_due (conn_at ip t out n count next lr timeout) now \<longleftrightarrow> next \<le> now"
  "io_key (ic_cfg (conn_at ip t out n count next lr timeout)) = \<lparr>key_peer_ip = ip, key_t2o_id = t\<rparr>"
  "io_destination (ic_cfg (conn_at ip t out n count next lr timeout)) = \<lparr>sa_ip = ip, sa_port = 40000\<rparr>"
  by (simp_all add: conn_at_def set_output_def is_timed_out_def timeout_at_def is_send_due_def io_key_def)

lemma build_packet_at [simp]:
  "length out = 2 \<Longrightarrow> build_packet slice_bytes now (conn_at ip t out n count next lr timeout) =
     (Some (encode_connected_packet slice_bytes O2T_ID (n + 1) [le16 (count + 1), le32 1, out]),
      conn_at ip t out (n + 1) (count + 1) (advance_schedule 5000000 now next) lr timeout)"
  by (simp add: build_packet_def conn_at_def Let_def)

lemma on_receive_at [simp]:
  "length d = 3 \<Longrightarrow> on_receive slice_bytes \<lparr>connection_id = i, sequence_number = k, cp_data = x # y # d\<rparr> now
       (conn_at ip t out n count next lr timeout) =
     (Some \<lparr>in_sequence_number = k, in_sequence_count = of_le [x, y], in_run_idle_header = 0, in_data = d\<rparr>,
      conn_at ip t out n count next now timeout)"
  by (simp add: on_receive_def receive_header_def conn_at_def slice_eval)

lemma two_zeros: "replicate 2 (0 :: u8) = [0, 0]"
  by (simp add: numeral_2_eq_2)

lemma opened_config:
  "open_config (manager_params\<lparr>cc_timeout_multiplier := k\<rparr>) (manager_reply t) (o2t_destination (Some \<lparr>sa_ip = ip, sa_port = 40000\<rparr>) ip) ip =
     ic_cfg (conn_at ip t [] 0 0 0 0 (from_micros (5000 * (4 * 2 ^ unat k))))"
  by (simp add: opened_eval conn_at_def Let_def)

lemma conn_new_at: "conn_new (ic_cfg (conn_at ip t out n count next lr timeout)) now = conn_at ip t [0, 0] 0 0 now now timeout"
  by (simp add: conn_new_def conn_at_def two_zeros)

definition entry_at :: "IoCallbacks \<Rightarrow> nat \<Rightarrow> IoConnection \<Rightarrow> Entry" where
  "entry_at cb f c = \<lparr>en_conn = c, en_callbacks = cb, en_flag = f\<rparr>"

lemma service_key_at:
  assumes "connections s \<lparr>key_peer_ip = ip, key_t2o_id = t\<rparr> = Some (entry_at cb f (conn_at ip t out n count next lr timeout))"
    and "now < lr + timeout" "cb_on_send cb = None" "length out = 2"
  shows "service_key slice_bytes now \<lparr>key_peer_ip = ip, key_t2o_id = t\<rparr> (ts, s) =
    (ts, if next \<le> now
         then s\<lparr>connections := (connections s)(\<lparr>key_peer_ip = ip, key_t2o_id = t\<rparr> \<mapsto>
             entry_at cb f (conn_at ip t out (n + 1) (count + 1) (advance_schedule 5000000 now next) lr timeout)),
           effects := effects s @ [SentTo \<lparr>sa_ip = ip, sa_port = 40000\<rparr>
             (encode_connected_packet slice_bytes O2T_ID (n + 1) [le16 (count + 1), le32 1, out])]\<rparr>
         else s)"
  using assms fun_upd_triv [of "connections s" "\<lparr>key_peer_ip = ip, key_t2o_id = t\<rparr>"]
  by (cases "next \<le> now") (auto simp: service_key_def service_entry_def entry_at_def fun_upd_idem)

lemma service_key_timed_out:
  assumes "connections s \<lparr>key_peer_ip = ip, key_t2o_id = t\<rparr> = Some (entry_at cb f (conn_at ip t out n count next lr timeout))"
    and "lr + timeout \<le> now"
  shows "service_key slice_bytes now \<lparr>key_peer_ip = ip, key_t2o_id = t\<rparr> (ts, s) = (ts @ [\<lparr>key_peer_ip = ip, key_t2o_id = t\<rparr>], s)"
  using assms by (simp add: service_key_def entry_at_def)

lemma time_out_at:
  assumes "connections s k = Some (entry_at cb f c)" "flag_open s ! f" "cb_on_close cb"
  shows "time_out k s = s\<lparr>connections := (connections s)(k := None), flag_open := (flag_open s)[f := False],
     open_count := open_count s - 1, effects := effects s @ [CloseCalled f]\<rparr>"
  using assms by (simp add: time_out_def entry_at_def flag_close_def)

lemma receive_one_at:
  assumes "connections s \<lparr>key_peer_ip = ip, key_t2o_id = t\<rparr> = Some (entry_at cb f (conn_at ip t out n count next lr timeout))"
    and "length d = 3" "cb_on_receive cb"
  shows "receive_one slice_bytes (encode_connected_packet slice_bytes t k [[x, y], d]) (Some ip) now s =
     s\<lparr>connections := (connections s)(\<lparr>key_peer_ip = ip, key_t2o_id = t\<rparr> \<mapsto> entry_at cb f (conn_at ip t out n count next now timeout)),
       effects := effects s @ [Received \<lparr>key_peer_ip = ip, key_t2o_id = t\<rparr> \<lparr>in_sequence_number = k,
         in_sequence_count = of_le [x, y], in_run_idle_header = 0, in_data = d\<rparr>]\<rparr>"
  using assms slice.decode_connected_packet_encode [of "[[x, y], d]" t k "[]"]
  by (simp add: receive_one_def entry_at_def Let_def)

lemma add_at:
  assumes "connections s \<lparr>key_peer_ip = ip, key_t2o_id = t\<rparr> = None"
  shows "run_command (Add (conn_at ip t out n count next lr timeout) cb f) s =
     s\<lparr>connections := (connections s)(\<lparr>key_peer_ip = ip, key_t2o_id = t\<rparr> \<mapsto> entry_at cb f (conn_at ip t out n count next lr timeout))\<rparr>"
  using assms by (simp add: entry_at_def)

lemma set_output_at:
  assumes "connections s k = Some (entry_at cb f (conn_at ip t out n count next lr timeout))"
  shows "run_command (SetOutput k d) s =
     s\<lparr>connections := (connections s)(k \<mapsto> entry_at cb f (conn_at ip t d n count next lr timeout))\<rparr>"
  using assms by (simp add: entry_at_def update_conn_def)

lemma test_system: "cm_sys (test_manager random) = \<lparr>io = \<lparr>connections = Map.empty, flag_open = [], open_count = 0, effects = []\<rparr>,
   queue = [], handles = [], closing = [], running = True\<rparr>"
  by (simp add: test_manager_def manager_new_def io_start_def io_init_def)

lemma default_multiplier: "manager_params\<lparr>cc_timeout_multiplier := 0\<rparr> = manager_params"
  by (simp add: manager_params_def config_new_def)

lemmas opened_default = opened_config [where k = 0, unfolded default_multiplier, simplified]

lemma callbacks_at [simp]:
  "cb_on_send (with_on_receive callbacks_new) = None" "cb_on_send (with_on_close (with_on_receive callbacks_new)) = None"
  "cb_on_receive (with_on_receive callbacks_new)" "cb_on_receive (with_on_close (with_on_receive callbacks_new))"
  "cb_on_close (with_on_close (with_on_receive callbacks_new))"
  by (simp_all add: with_on_receive_def with_on_close_def callbacks_new_def)

lemmas thread_eval = round_at_def run_round_def service_connections_def service_key_at service_key_timed_out time_out_at
  receive_one_at add_at set_output_at

declare run_command.simps [simp del]

text \<open>The manager of a test with one connection: what its thread holds, the commands waiting and the effects so far.\<close>

definition handle_at :: "Ipv4Addr \<Rightarrow> IoConnectionHandle" where
  "handle_at ip = open_handle manager_params (manager_reply 0) (ic_cfg (conn_at ip 0 [] 0 0 0 0 (from_micros 20000))) 0"

lemma handle_at_simps [simp]:
  "h_key (handle_at ip) = \<lparr>key_peer_ip = ip, key_t2o_id = 0\<rparr>" "h_flag (handle_at ip) = 0"
  "h_close_request (handle_at ip) = \<lparr>fc_serial = 1, fc_vendor = 342, fc_orig_serial = 0x12345, fc_path = [0x20, 4, 0x24, 1, 0x2C, 150, 0x2C, 100]\<rparr>"
  by (simp_all add: handle_at_def open_handle_def config_eval)

definition with_system :: "ConnectionManager \<Rightarrow> Entry option \<Rightarrow> bool \<Rightarrow> Command list \<Rightarrow> io_effect list \<Rightarrow> ConnectionManager" where
  "with_system m e open_now q es = m\<lparr>cm_sys := \<lparr>io = \<lparr>connections = Map.empty(\<lparr>key_peer_ip = ipv4 127 0 0 1, key_t2o_id = 0\<rparr> := e),
     flag_open = [open_now], open_count = (if open_now then 1 else 0), effects = es\<rparr>, queue = q,
     handles = [(0, \<lparr>key_peer_ip = ipv4 127 0 0 1, key_t2o_id = 0\<rparr>)], closing = [], running = True\<rparr>\<rparr>"

lemma with_system_simps [simp]:
  "has_open_connections (with_system m e b q es) \<longleftrightarrow> b" "handle_is_open (handle_at ip) (with_system m e b q es) \<longleftrightarrow> b"
  "io_effects (with_system m e b q es) = es" "cm_router (with_system m e b q es) = cm_router m"
  "handle_set_output (handle_at (ipv4 127 0 0 1)) d (with_system m e b q es) =
     (Ok (), with_system m e b (q @ [SetOutput \<lparr>key_peer_ip = ipv4 127 0 0 1, key_t2o_id = 0\<rparr> d]) es)"
  by (simp_all add: with_system_def has_open_connections_def handle_is_open_def flag_is_open_def io_effects_def
      handle_set_output_def sender_send_def)

lemma opened:
  "forward_open slice_bytes (mock_session slice_bytes) manager_params cb 0
      (mock_at \<lparr>sa_ip = ipv4 127 0 0 1, sa_port = 44818\<rparr>
        ((GSC_SUCCESS, manager_open_reply 0, sockaddr_items \<lparr>sa_ip = ipv4 127 0 0 1, sa_port = 40000\<rparr>) # rest) q, test_manager random) =
   (Ok (handle_at (ipv4 127 0 0 1)), mock_at \<lparr>sa_ip = ipv4 127 0 0 1, sa_port = 44818\<rparr> rest (q @ [\<lparr>rq_service = SC_FORWARD_OPEN,
      rq_path = epath_instance 6 1,
      rq_data = forward_open_encode slice_bytes (fst (open_request manager_params (test_manager random))) False\<rparr>]),
    with_system (snd (open_request manager_params (test_manager random))) None True
      [Add (conn_at (ipv4 127 0 0 1) 0 [0, 0] 0 0 0 0 (from_micros 20000)) cb 0] [])"
  by (simp add: open_at [where large = False] test_configs opened_default test_system flag_new_def Let_def conn_new_at
      with_system_def)
    (simp add: handle_at_def open_handle_def io_key_def conn_at_def)

lemma round_first:
  assumes "cb_on_send cb = None"
  shows "round_at 0 [\<lparr>key_peer_ip = ipv4 127 0 0 1, key_t2o_id = 0\<rparr>] []
     (with_system m None True [Add (conn_at (ipv4 127 0 0 1) 0 [0, 0] 0 0 0 0 (from_micros 20000)) cb 0,
       SetOutput \<lparr>key_peer_ip = ipv4 127 0 0 1, key_t2o_id = 0\<rparr> [x, y]] []) =
   with_system m (Some (entry_at cb 0 (conn_at (ipv4 127 0 0 1) 0 [x, y] 1 1 5000000 0 (from_micros 20000)))) True []
     [SentTo \<lparr>sa_ip = ipv4 127 0 0 1, sa_port = 40000\<rparr> (encode_connected_packet slice_bytes O2T_ID 1 [le16 1, le32 1, [x, y]])]"
  using assms by (simp add: with_system_def thread_eval from_micros_def advance_schedule_def)

lemma round_receive:
  assumes "cb_on_send cb = None" "cb_on_receive cb" "length d = 3" "0 < n" "n < 5000000"
  shows "round_at n [\<lparr>key_peer_ip = ipv4 127 0 0 1, key_t2o_id = 0\<rparr>]
      [Datagram (encode_connected_packet slice_bytes 0 k [[c1, c2], d]) (Some (ipv4 127 0 0 1)) n]
     (with_system m (Some (entry_at cb 0 (conn_at (ipv4 127 0 0 1) 0 out 1 1 5000000 0 (from_micros 20000)))) True [] es) =
   with_system m (Some (entry_at cb 0 (conn_at (ipv4 127 0 0 1) 0 out 1 1 5000000 n (from_micros 20000)))) True []
     (es @ [Received \<lparr>key_peer_ip = ipv4 127 0 0 1, key_t2o_id = 0\<rparr> \<lparr>in_sequence_number = k,
         in_sequence_count = of_le [c1, c2], in_run_idle_header = 0, in_data = d\<rparr>])"
  using assms by (simp add: with_system_def thread_eval from_micros_def service_key_def entry_at_def service_entry_def)

lemma round_time_out:
  assumes "cb_on_close cb" "lr + 20000000 \<le> n"
  shows "round_at n [\<lparr>key_peer_ip = ipv4 127 0 0 1, key_t2o_id = 0\<rparr>] []
     (with_system m (Some (entry_at cb 0 (conn_at (ipv4 127 0 0 1) 0 out k c next lr (from_micros 20000)))) True [] es) =
   with_system m None False [] (es @ [CloseCalled 0])"
  using assms by (simp add: with_system_def thread_eval from_micros_def)

lemma close_timed_out:
  "forward_close B S (handle_at (ipv4 127 0 0 1)) (s, with_system m None False [] es) =
     (Ok (), s, m\<lparr>cm_sys := (cm_sys (with_system m None False [] es))\<lparr>handles := []\<rparr>\<rparr>)"
  by (simp add: forward_close_def take_back_def with_system_def flag_close_def)

lemma default_request:
  "take 2 (drop 26 (forward_open_encode slice_bytes (fst (open_request manager_params m)) False)) = le16 0x4808"
  "take 2 (drop 32 (forward_open_encode slice_bytes (fst (open_request manager_params m)) False)) = le16 0x4805"
  by (simp_all add: request_offsets open_request_fields config_eval network_params_def params_encode_def)

lemma packet_received [simp]:
  "length s + (length h + length d) < 65536 \<Longrightarrow> target_receives a P (SentTo a (encode_connected_packet slice_bytes i k [s, h, d])) \<longleftrightarrow>
     P \<lparr>connection_id = i, sequence_number = k, cp_data = s @ h @ d\<rparr>"
  using slice.decode_connected_packet_encode [of "[s, h, d]" i k "[]"]
  by (simp add: target_receives_def passes_def)

lemma exchange_data_then_time_out_passes: "exchange_data_then_time_out random"
proof -
  have "from_millis 22 = 22000000" "from_millis 1 = 1000000" by (simp_all add: from_millis_def)
  then show ?thesis
    by (simp add: exchange_data_then_time_out_def fake_target_def fake_target_at_def opened default_request round_first
        round_receive round_time_out close_timed_out received_by_def passes_def octets_def Let_def) (simp add: to_le_eval)
qed

text \<open>The device answers the close; the thread then drops the connection and sends nothing more, at whatever moments.\<close>

definition forward_close_stops_sending :: "u64 \<Rightarrow> instant list \<Rightarrow> bool" where
  "forward_close_stops_sending random later =
     (case fake_target of (target, items) \<Rightarrow>
      let session = mock_reply [] (mock_reply_with_items (manager_open_reply 0) items mock_new);
          callbacks = with_on_close (with_on_receive callbacks_new);
          key = \<lparr>key_peer_ip = ipv4 127 0 0 1, key_t2o_id = 0\<rparr>
      in case forward_open slice_bytes (mock_session slice_bytes) manager_params callbacks 0 (session, test_manager random) of
         (r, session, m) \<Rightarrow> passes r (\<lambda>handle.
         let m1 = round_at 0 [key] [] m
         in list_ex (target_receives target (\<lambda>_. True)) (io_effects m1) \<and>
         (case forward_close slice_bytes (mock_session slice_bytes) handle (session, m1) of
            (r, session, m2) \<Rightarrow>
            let close = requests session ! 1;
                m3 = fold (\<lambda>now. round_at now [] []) later (round_at 1 [] [] m2)
            in is_ok r \<and> \<not> has_open_connections m2 \<and> rq_service close = SC_FORWARD_CLOSE \<and>
               take 2 (drop 2 (rq_data close)) = le16 1 \<and> rq_data close ! 10 = 4 \<and>
               \<not> list_ex (\<lambda>e. e = CloseCalled (h_flag handle)) (io_effects m2) \<and> io_effects m3 = io_effects m1)))"

lemma round_open:
  assumes "cb_on_send cb = None"
  shows "round_at 0 [\<lparr>key_peer_ip = ipv4 127 0 0 1, key_t2o_id = 0\<rparr>] []
     (with_system m None True [Add (conn_at (ipv4 127 0 0 1) 0 [x, y] 0 0 0 0 (from_micros 20000)) cb 0] []) =
   with_system m (Some (entry_at cb 0 (conn_at (ipv4 127 0 0 1) 0 [x, y] 1 1 5000000 0 (from_micros 20000)))) True []
     [SentTo \<lparr>sa_ip = ipv4 127 0 0 1, sa_port = 40000\<rparr> (encode_connected_packet slice_bytes O2T_ID 1 [le16 1, le32 1, [x, y]])]"
  using assms by (simp add: with_system_def thread_eval from_micros_def advance_schedule_def)

lemma close_data:
  "forward_close_encode slice_bytes \<lparr>fc_serial = 1, fc_vendor = 342, fc_orig_serial = 74565, fc_path = p\<rparr>
     = [0, 0] @ le16 1 @ le16 342 @ le32 74565 @ [of_nat (div_ceil (length p) 2), 0] @ p"
  by (simp add: forward_close_encode_def Let_def)

lemma close_open:
  "forward_close slice_bytes (mock_session slice_bytes) (handle_at (ipv4 127 0 0 1))
     (mock_at a ((GSC_SUCCESS, [], []) # rest) q, with_system m e True [] es) =
   (Ok (), mock_at a rest (q @ [\<lparr>rq_service = SC_FORWARD_CLOSE, rq_path = epath_instance 6 1,
      rq_data = forward_close_encode slice_bytes (h_close_request (handle_at (ipv4 127 0 0 1)))\<rparr>]),
    m\<lparr>cm_sys := (cm_sys (with_system m e False [Remove \<lparr>key_peer_ip = ipv4 127 0 0 1, key_t2o_id = 0\<rparr>] es))\<lparr>handles := []\<rparr>\<rparr>)"
  by (simp add: forward_close_def take_back_def with_system_def flag_close_def sender_send_def close_data request_checked_at)

lemma rounds_after_close:
  "round_at now [] [] (m\<lparr>cm_sys := (cm_sys (with_system m e False [Remove \<lparr>key_peer_ip = ipv4 127 0 0 1, key_t2o_id = 0\<rparr>] es))\<lparr>handles := []\<rparr>\<rparr>)
    = m\<lparr>cm_sys := (cm_sys (with_system m None False [] es))\<lparr>handles := []\<rparr>\<rparr>"
  "fold (\<lambda>now. round_at now [] []) later (m\<lparr>cm_sys := (cm_sys (with_system m None False [] es))\<lparr>handles := []\<rparr>\<rparr>)
    = m\<lparr>cm_sys := (cm_sys (with_system m None False [] es))\<lparr>handles := []\<rparr>\<rparr>"
proof -
  show "round_at now [] [] (m\<lparr>cm_sys := (cm_sys (with_system m e False [Remove \<lparr>key_peer_ip = ipv4 127 0 0 1, key_t2o_id = 0\<rparr>] es))\<lparr>handles := []\<rparr>\<rparr>)
    = m\<lparr>cm_sys := (cm_sys (with_system m None False [] es))\<lparr>handles := []\<rparr>\<rparr>"
    by (simp add: with_system_def round_at_def run_round_def service_connections_def run_command.simps)
  show "fold (\<lambda>now. round_at now [] []) later (m\<lparr>cm_sys := (cm_sys (with_system m None False [] es))\<lparr>handles := []\<rparr>\<rparr>)
    = m\<lparr>cm_sys := (cm_sys (with_system m None False [] es))\<lparr>handles := []\<rparr>\<rparr>"
    by (induction later) (simp_all add: with_system_def round_at_def run_round_def service_connections_def)
qed

lemma closed_simps [simp]:
  "io_effects (m\<lparr>cm_sys := (cm_sys (with_system m e b q es))\<lparr>handles := hs\<rparr>\<rparr>) = es"
  "has_open_connections (m\<lparr>cm_sys := (cm_sys (with_system m e b q es))\<lparr>handles := hs\<rparr>\<rparr>) \<longleftrightarrow> b"
  by (simp_all add: io_effects_def with_system_def has_open_connections_def)

lemma forward_close_stops_sending_passes: "forward_close_stops_sending random later"
  by (simp add: forward_close_stops_sending_def fake_target_def fake_target_at_def opened round_open close_open rounds_after_close
      passes_def octets_def close_data div_ceil_def Let_def) (simp add: to_le_eval)

section \<open>Two devices with one T->O id\<close>

definition open_device :: "Ipv4Addr \<Rightarrow> ConnectionManager \<Rightarrow> IoConnectionHandle result \<times> ConnectionManager" where
  "open_device ip m =
     (case fake_target_at ip of (target, items) \<Rightarrow>
      let session = mock_reply_with_items (manager_open_reply 0) items (with_remote \<lparr>sa_ip = ip, sa_port = 44818\<rparr> mock_new);
          config = manager_params\<lparr>cc_timeout_multiplier := 7\<rparr>
      in case forward_open slice_bytes (mock_session slice_bytes) config (with_on_receive callbacks_new) 0 (session, m) of
           (r, session, m) \<Rightarrow> (r, m))"

definition same_t2o_id_on_two_devices :: "u64 \<Rightarrow> bool" where
  "same_t2o_id_on_two_devices random =
     (let ip1 = ipv4 127 0 0 1; ip2 = ipv4 127 0 0 2;
          packet = (\<lambda>i. encode_connected_packet slice_bytes 0 1 [[1, 0], replicate 3 i]);
          heard_from = (\<lambda>h m. received_by \<lparr>key_peer_ip = handle_peer_ip h, key_t2o_id = handle_t2o_connection_id h\<rparr> (io_effects m))
      in case open_device ip1 (test_manager random) of (r1, m) \<Rightarrow> passes r1 (\<lambda>h1.
         case open_device ip2 m of (r2, m) \<Rightarrow> passes r2 (\<lambda>h2.
         let order = [\<lparr>key_peer_ip = ip1, key_t2o_id = 0\<rparr>, \<lparr>key_peer_ip = ip2, key_t2o_id = 0\<rparr>];
             m = round_at 1 order [Datagram (packet 0) (Some ip1) 2, Datagram (packet 1) (Some ip2) 3] m
         in handle_t2o_connection_id h1 = 0 \<and> handle_peer_ip h1 = ip1 \<and>
            handle_t2o_connection_id h2 = 0 \<and> handle_peer_ip h2 = ip2 \<and>
            heard_from h1 m = [replicate 3 0] \<and> heard_from h2 m = [replicate 3 1] \<and>
            handle_is_open h1 m \<and> handle_is_open h2 m)))"

lemma long_timeout:
  "check_config (manager_params\<lparr>cc_timeout_multiplier := 7\<rparr>) = Ok False"
  "encoded_path (manager_params\<lparr>cc_timeout_multiplier := 7\<rparr>) = encoded_path manager_params"
  by (simp_all add: config_eval)

lemma open_device_at:
  assumes "running (cm_sys m)"
  shows "open_device ip m =
    (let y = cm_sys m; flag = length (flag_open (io y)); c = manager_params\<lparr>cc_timeout_multiplier := 7\<rparr>;
         h = open_handle c (manager_reply 0) (ic_cfg (conn_at ip 0 [] 0 0 0 0 2560000000)) flag
     in (Ok h, (snd (open_request c m))\<lparr>cm_sys := y\<lparr>io := snd (flag_new (io y)),
           queue := queue y @ [Add (conn_at ip 0 [0, 0] 0 0 0 0 2560000000) (with_on_receive callbacks_new) flag],
           handles := (flag, \<lparr>key_peer_ip = ip, key_t2o_id = 0\<rparr>) # handles y\<rparr>\<rparr>))"
proof -
  have "h_key (open_handle c r (ic_cfg (conn_at ip 0 [] 0 0 0 0 t)) f) = \<lparr>key_peer_ip = ip, key_t2o_id = 0\<rparr>" for c r t f
    by (simp add: open_handle_def)
  then show ?thesis
    using assms
    by (simp add: open_device_def fake_target_at_def open_at [where large = False] long_timeout test_configs opened_config conn_new_at
      from_micros_def Let_def)
qed

lemma same_t2o_id_on_two_devices_passes: "same_t2o_id_on_two_devices random"
proof -
  have ips: "ipv4 127 0 0 2 \<noteq> ipv4 127 0 0 1" by (simp add: ipv4_def of_be_def)
  have handles: "handle_peer_ip (open_handle c r (ic_cfg (conn_at ip 0 [] 0 0 0 0 t)) f) = ip"
    "handle_t2o_connection_id (open_handle c r (ic_cfg (conn_at ip 0 [] 0 0 0 0 t)) f) = 0"
    "handle_is_open (open_handle c r (ic_cfg (conn_at ip 0 [] 0 0 0 0 t)) f) m = flag_open (io (cm_sys m)) ! f" for c r ip t f m
    by (simp_all add: handle_peer_ip_def handle_t2o_connection_id_def open_handle_def handle_is_open_def flag_is_open_def)
  show ?thesis
    by (simp add: same_t2o_id_on_two_devices_def open_device_at flag_new_def handles passes_def Let_def)
      (simp add: thread_eval test_system io_effects_def received_by_def ips ips [symmetric] advance_schedule_def octets_def)
qed

declare run_command.simps [simp]

end
