(* ===== verification/Tests_Eds.thy ===== *)
theory Tests_Eds
  imports Tests_Wire Eds Eds_Append
begin

text \<open>
  The unit tests of EDS files, run on the model: the parser (src/src/eds/parse.rs) and the typed access with the
  conversion of connections (src/src/eds/mod.rs), on the sample file the crate carries.
\<close>

text \<open>A text by its lines; \<open>err.contains(s)\<close> for the message of an error.\<close>

definition text_lines :: "rstr list \<Rightarrow> rstr" where
  "text_lines ls = concat (map (\<lambda>l. l @ [10]) ls)"

definition contains :: "rstr \<Rightarrow> rstr \<Rightarrow> bool" where
  "contains t sub = list_ex (\<lambda>i. take (length sub) (drop i t) = sub) [0..<length t + 1]"

definition err_contains :: "'a result \<Rightarrow> string \<Rightarrow> bool" where
  "err_contains r sub = (case r of Inl e \<Rightarrow> contains (display_error e) (lit sub) | Inr _ \<Rightarrow> False)"

section \<open>parse.rs\<close>

definition TAB :: rstr where
  "TAB = [9]"

definition parse_test_text :: rstr where
  \<open>parse_test_text = text_lines
    [lit ''$ header comment'',
     lit ''[File]'',
     TAB @ lit ''DescText = "EDS for a test";   $ trailing comment'',
     TAB @ lit ''Revision = 2.3;'',
     lit ''[Connection Manager]'',
     TAB @ lit ''Connection1 ='',
     TAB @ TAB @ lit ''0x84010002,   $ comment, with a comma; and a semicolon'',
     TAB @ TAB @ lit ''Param4,,Assem150,'',
     TAB @ TAB @ lit ''"Exclusive " "Owner",'',
     TAB @ TAB @ lit ''"20 04 24 97";'']\<close>

definition has_fields :: "EdsEntry option \<Rightarrow> Field list \<Rightarrow> bool" where
  "has_fields e fs = returns e (\<lambda>e. e_fields e = fs)"

definition sections_entries_and_fields :: bool where
  "sections_entries_and_fields =
     passes (parse parse_test_text) (\<lambda>sections.
       length sections = 2 \<and>
       has_fields (section_get (sections ! 0) (lit ''desctext'')) [Field_Str (lit ''EDS for a test'')] \<and>
       has_fields (section_get (sections ! 0) (lit ''Revision'')) [Field_Token (lit ''2.3'')] \<and>
       returns (section_get (sections ! 1) (lit ''Connection1'')) (\<lambda>conn. e_line conn = 6 \<and>
         e_fields conn = [Field_Token (lit ''0x84010002''), Field_Token (lit ''Param4''), Field_Empty,
           Field_Token (lit ''Assem150''), Field_Str (lit ''Exclusive Owner''), Field_Str (lit ''20 04 24 97'')]))"

definition errors_have_line_numbers :: bool where
  \<open>errors_have_line_numbers =
     (let r = parse (text_lines [lit ''[A]'', lit ''  Key = 1,'', lit ''  2''])
      in err_contains r ''line 2'' \<and> err_contains r ''no terminating'' \<and>
         err_contains (parse (lit ''Key = 1;'')) ''before any section'' \<and>
         err_contains (parse (text_lines [lit ''[A]'', lit '' Key = "open''])) ''unterminated string'')\<close>

definition parse_integers :: bool where
  "parse_integers =
     (parse_int (lit ''0x44640405'') = Some 0x44640405 \<and> parse_int (lit '' 20000 '') = Some 20000 \<and>
      parse_int (lit ''Param4'') = None)"

lemma parse_tests: sections_entries_and_fields errors_have_line_numbers parse_integers
  by code_simp+

section \<open>mod.rs\<close>

text \<open>
  Trimmed from the OpENer sample application's EDS. The file is written in pieces that end between two entries,
  which the parser reads one after the other (\<open>parse_piece\<close>).
\<close>

definition SAMPLE_1 :: rstr where
  \<open>SAMPLE_1 = text_lines
    [[],
     lit ''[Device]'',
     lit ''        VendCode = 1;'',
     lit ''        VendName = "Rockwell Automation";'',
     lit ''        ProdType = 12;'',
     lit ''        ProdCode = 65001;'',
     lit ''        MajRev = 2;'',
     lit ''        MinRev = 3;'',
     lit ''        ProdName = "OpENer PC";'',
     lit ''        Catalog = "OpENer-2.x";'',
     []]\<close>

definition SAMPLE_2 :: rstr where
  \<open>SAMPLE_2 = text_lines
    [lit ''[Params]'',
     lit ''        Param1 ='',
     lit ''                0, ,, 0x0000, 0xD1, 1, "Input Data", "", "",'',
     lit ''                ,,0, ,,,, ,,,, ;'']\<close>

definition SAMPLE_3 :: rstr where
  \<open>SAMPLE_3 = text_lines
    [lit ''        Param4 ='',
     lit ''                0,                      $ reserved, shall equal 0'',
     lit ''                ,,                      $ Link Path Size, Link Path'',
     lit ''                0x0000,                 $ Descriptor'',
     lit ''                0xC8,                   $ Data Type'',
     lit ''                4,                      $ Data Size in bytes'',
     lit ''                "RPI",                  $ name'',
     lit ''                "",                     $ units'',
     lit ''                "New Help String",      $ help string'',
     lit ''                20000,,30000,           $ min, max, default data values'',
     lit ''                ,,,,                    $ mult, div, base, offset scaling'',
     lit ''                ,,,,                    $ mult, div, base, offset links'',
     lit ''                ;                       $ decimal places'']\<close>

definition SAMPLE_4 :: rstr where
  \<open>SAMPLE_4 = text_lines
    [lit ''        Param9 ='',
     lit ''                0, ,, 0x0000, 0xC6, 1, "Config instance", "", "",'',
     lit ''                ,,0x97, ,,,, ,,,, ;'',
     []]\<close>

definition SAMPLE_5 :: rstr where
  \<open>SAMPLE_5 = text_lines
    [lit ''[Assembly]'',
     lit ''        Assem100 = "Input Assembly", "", 32, 0x0000, ,, 8,Param1, 8,Param1;'',
     lit ''        Assem150 = "Output Assembly", "", , 0x0000, ,, 128,Param1, 128,Param1;'',
     lit ''        Assem151 = "Config Assembly", "", 10, 0x0000, ,, ;'',
     []]\<close>

definition SAMPLE_6 :: rstr where
  \<open>SAMPLE_6 = text_lines
    [lit ''[Connection Manager]'',
     lit ''        Connection1 ='',
     lit ''                0x84010002,'',
     lit ''                0x44640405,'',
     lit ''                Param4,,Assem150,       $ O->T RPI, size, format'',
     lit ''                Param4,,Assem100,       $ T->O RPI, size, format'',
     lit ''                ,,                      $ config #1 size, format'',
     lit ''                ,Assem151,              $ config #2 size, format'',
     lit ''                "Exlusive Owner",       $ Connection Name'',
     lit ''                "",                     $ help string'',
     lit ''                "20 04 24 97 2C 96 2C 64";    $ Path'']\<close>

definition SAMPLE_7 :: rstr where
  \<open>SAMPLE_7 = text_lines
    [lit ''        Connection2 ='',
     lit ''                0x02010002, 0x44640305,'',
     lit ''                5000,0,,                $ O->T: fixed 5 ms RPI, heartbeat'',
     lit ''                Param4,,Assem100,'',
     lit ''                ,, ,Assem151,'',
     lit ''                "Input Only", "",'',
     lit ''                "20 04 24 [Param9] 2C 98 2C 64";'']\<close>

definition SAMPLE :: rstr where
  "SAMPLE = SAMPLE_1 @ SAMPLE_2 @ SAMPLE_3 @ SAMPLE_4 @ SAMPLE_5 @ SAMPLE_6 @ SAMPLE_7"

text \<open>What the parser makes of it.\<close>

definition sample_VendCode :: EdsEntry where
  "sample_VendCode = \<lparr>e_keyword = lit ''VendCode'', e_fields =
     [Field_Token (lit ''1'')],
     e_line = 3\<rparr>"

definition sample_VendName :: EdsEntry where
  "sample_VendName = \<lparr>e_keyword = lit ''VendName'', e_fields =
     [Field_Str (lit ''Rockwell Automation'')],
     e_line = 4\<rparr>"

definition sample_ProdType :: EdsEntry where
  "sample_ProdType = \<lparr>e_keyword = lit ''ProdType'', e_fields =
     [Field_Token (lit ''12'')],
     e_line = 5\<rparr>"

definition sample_ProdCode :: EdsEntry where
  "sample_ProdCode = \<lparr>e_keyword = lit ''ProdCode'', e_fields =
     [Field_Token (lit ''65001'')],
     e_line = 6\<rparr>"

definition sample_MajRev :: EdsEntry where
  "sample_MajRev = \<lparr>e_keyword = lit ''MajRev'', e_fields =
     [Field_Token (lit ''2'')],
     e_line = 7\<rparr>"

definition sample_MinRev :: EdsEntry where
  "sample_MinRev = \<lparr>e_keyword = lit ''MinRev'', e_fields =
     [Field_Token (lit ''3'')],
     e_line = 8\<rparr>"

definition sample_ProdName :: EdsEntry where
  "sample_ProdName = \<lparr>e_keyword = lit ''ProdName'', e_fields =
     [Field_Str (lit ''OpENer PC'')],
     e_line = 9\<rparr>"

definition sample_Catalog :: EdsEntry where
  "sample_Catalog = \<lparr>e_keyword = lit ''Catalog'', e_fields =
     [Field_Str (lit ''OpENer-2.x'')],
     e_line = 10\<rparr>"

definition sample_Param1 :: EdsEntry where
  "sample_Param1 = \<lparr>e_keyword = lit ''Param1'', e_fields =
     [Field_Token (lit ''0''), Field_Empty, Field_Empty, Field_Token (lit ''0x0000''),
      Field_Token (lit ''0xD1''), Field_Token (lit ''1''), Field_Str (lit ''Input Data''), Field_Str [],
      Field_Str [], Field_Empty, Field_Empty, Field_Token (lit ''0''), Field_Empty, Field_Empty, Field_Empty,
      Field_Empty, Field_Empty, Field_Empty, Field_Empty, Field_Empty, Field_Empty],
     e_line = 13\<rparr>"

definition sample_Param4 :: EdsEntry where
  "sample_Param4 = \<lparr>e_keyword = lit ''Param4'', e_fields =
     [Field_Token (lit ''0''), Field_Empty, Field_Empty, Field_Token (lit ''0x0000''),
      Field_Token (lit ''0xC8''), Field_Token (lit ''4''), Field_Str (lit ''RPI''), Field_Str [],
      Field_Str (lit ''New Help String''), Field_Token (lit ''20000''), Field_Empty,
      Field_Token (lit ''30000''), Field_Empty, Field_Empty, Field_Empty, Field_Empty, Field_Empty,
      Field_Empty, Field_Empty, Field_Empty, Field_Empty],
     e_line = 16\<rparr>"

definition sample_Param9 :: EdsEntry where
  "sample_Param9 = \<lparr>e_keyword = lit ''Param9'', e_fields =
     [Field_Token (lit ''0''), Field_Empty, Field_Empty, Field_Token (lit ''0x0000''),
      Field_Token (lit ''0xC6''), Field_Token (lit ''1''), Field_Str (lit ''Config instance''), Field_Str [],
      Field_Str [], Field_Empty, Field_Empty, Field_Token (lit ''0x97''), Field_Empty, Field_Empty,
      Field_Empty, Field_Empty, Field_Empty, Field_Empty, Field_Empty, Field_Empty, Field_Empty],
     e_line = 29\<rparr>"

definition sample_Assem100 :: EdsEntry where
  "sample_Assem100 = \<lparr>e_keyword = lit ''Assem100'', e_fields =
     [Field_Str (lit ''Input Assembly''), Field_Str [], Field_Token (lit ''32''),
      Field_Token (lit ''0x0000''), Field_Empty, Field_Empty, Field_Token (lit ''8''),
      Field_Token (lit ''Param1''), Field_Token (lit ''8''), Field_Token (lit ''Param1'')],
     e_line = 34\<rparr>"

definition sample_Assem150 :: EdsEntry where
  "sample_Assem150 = \<lparr>e_keyword = lit ''Assem150'', e_fields =
     [Field_Str (lit ''Output Assembly''), Field_Str [], Field_Empty, Field_Token (lit ''0x0000''),
      Field_Empty, Field_Empty, Field_Token (lit ''128''), Field_Token (lit ''Param1''),
      Field_Token (lit ''128''), Field_Token (lit ''Param1'')],
     e_line = 35\<rparr>"

definition sample_Assem151 :: EdsEntry where
  "sample_Assem151 = \<lparr>e_keyword = lit ''Assem151'', e_fields =
     [Field_Str (lit ''Config Assembly''), Field_Str [], Field_Token (lit ''10''),
      Field_Token (lit ''0x0000''), Field_Empty, Field_Empty, Field_Empty],
     e_line = 36\<rparr>"

definition sample_Connection1 :: EdsEntry where
  "sample_Connection1 = \<lparr>e_keyword = lit ''Connection1'', e_fields =
     [Field_Token (lit ''0x84010002''), Field_Token (lit ''0x44640405''), Field_Token (lit ''Param4''),
      Field_Empty, Field_Token (lit ''Assem150''), Field_Token (lit ''Param4''), Field_Empty,
      Field_Token (lit ''Assem100''), Field_Empty, Field_Empty, Field_Empty, Field_Token (lit ''Assem151''),
      Field_Str (lit ''Exlusive Owner''), Field_Str [], Field_Str (lit ''20 04 24 97 2C 96 2C 64'')],
     e_line = 39\<rparr>"

definition sample_Connection2 :: EdsEntry where
  "sample_Connection2 = \<lparr>e_keyword = lit ''Connection2'', e_fields =
     [Field_Token (lit ''0x02010002''), Field_Token (lit ''0x44640305''), Field_Token (lit ''5000''),
      Field_Token (lit ''0''), Field_Empty, Field_Token (lit ''Param4''), Field_Empty,
      Field_Token (lit ''Assem100''), Field_Empty, Field_Empty, Field_Empty, Field_Token (lit ''Assem151''),
      Field_Str (lit ''Input Only''), Field_Str [], Field_Str (lit ''20 04 24 [Param9] 2C 98 2C 64'')],
     e_line = 49\<rparr>"

definition sample_section_device :: "nat \<Rightarrow> EdsSection" where
  "sample_section_device n = \<lparr>s_name = lit ''Device'', s_entries = take n
     [sample_VendCode, sample_VendName, sample_ProdType, sample_ProdCode, sample_MajRev, sample_MinRev,
      sample_ProdName, sample_Catalog]\<rparr>"

definition sample_section_params :: "nat \<Rightarrow> EdsSection" where
  "sample_section_params n = \<lparr>s_name = lit ''Params'', s_entries = take n
     [sample_Param1, sample_Param4, sample_Param9]\<rparr>"

definition sample_section_assembly :: "nat \<Rightarrow> EdsSection" where
  "sample_section_assembly n = \<lparr>s_name = lit ''Assembly'', s_entries = take n
     [sample_Assem100, sample_Assem150, sample_Assem151]\<rparr>"

definition sample_section_connection :: "nat \<Rightarrow> EdsSection" where
  "sample_section_connection n = \<lparr>s_name = lit ''Connection Manager'', s_entries = take n
     [sample_Connection1, sample_Connection2]\<rparr>"

definition sample_sections :: "EdsSection list" where
  "sample_sections = [sample_section_device 8, sample_section_params 3,
     sample_section_assembly 3, sample_section_connection 2]"

lemma sample_piece_1:
  "parse_sections [] (SAMPLE_1, 1) = Ok [sample_section_device 8]"
  by code_simp

lemma sample_piece_2:
  "parse_sections [sample_section_device 8] (SAMPLE_2, 12) = Ok [sample_section_device 8, sample_section_params 1]"
  by code_simp

lemma sample_piece_3:
  "parse_sections [sample_section_device 8, sample_section_params 1] (SAMPLE_3, 16) = Ok [sample_section_device 8, sample_section_params 2]"
  by code_simp

lemma sample_piece_4:
  "parse_sections [sample_section_device 8, sample_section_params 2] (SAMPLE_4, 29) = Ok [sample_section_device 8, sample_section_params 3]"
  by code_simp

lemma sample_piece_5:
  "parse_sections [sample_section_device 8, sample_section_params 3] (SAMPLE_5, 33) = Ok [sample_section_device 8, sample_section_params 3, sample_section_assembly 3]"
  by code_simp

lemma sample_piece_6:
  "parse_sections [sample_section_device 8, sample_section_params 3, sample_section_assembly 3] (SAMPLE_6, 38) = Ok [sample_section_device 8, sample_section_params 3,
     sample_section_assembly 3, sample_section_connection 1]"
  by code_simp

lemma sample_piece_7:
  "parse_sections [sample_section_device 8, sample_section_params 3,
     sample_section_assembly 3, sample_section_connection 1] (SAMPLE_7, 49) = Ok [sample_section_device 8, sample_section_params 3,
     sample_section_assembly 3, sample_section_connection 2]"
  by code_simp

lemmas sample_pieces = sample_piece_1 sample_piece_2 sample_piece_3 sample_piece_4 sample_piece_5 sample_piece_6 sample_piece_7

lemma sample_lines:
  "newlines SAMPLE_1 = 11" "ends_line SAMPLE_1"
  "newlines SAMPLE_2 = 4" "ends_line SAMPLE_2"
  "newlines SAMPLE_3 = 13" "ends_line SAMPLE_3"
  "newlines SAMPLE_4 = 4" "ends_line SAMPLE_4"
  "newlines SAMPLE_5 = 5" "ends_line SAMPLE_5"
  "newlines SAMPLE_6 = 11" "ends_line SAMPLE_6"
  "newlines SAMPLE_7 = 7" "ends_line SAMPLE_7"
  by code_simp+

lemma SAMPLE_sections: "parse SAMPLE = Ok sample_sections"
proof -
  note step = parse_piece [OF sample_pieces(1) sample_lines(2,1)] parse_piece [OF sample_pieces(2) sample_lines(4,3)]
    parse_piece [OF sample_pieces(3) sample_lines(6,5)] parse_piece [OF sample_pieces(4) sample_lines(8,7)]
    parse_piece [OF sample_pieces(5) sample_lines(10,9)] parse_piece [OF sample_pieces(6) sample_lines(12,11)]
  show ?thesis
    by (simp add: parse_def SAMPLE_def step [simplified] sample_pieces(7) [simplified] sample_sections_def)
qed

text \<open>\<open>Eds::parse(SAMPLE).unwrap()\<close>, and assertions on it.\<close>

definition with_sample :: "(Eds \<Rightarrow> bool) \<Rightarrow> bool" where
  "with_sample P = passes (eds_parse SAMPLE) P"

definition eds_test_device :: bool where
  "eds_test_device = with_sample (\<lambda>eds. passes (eds_device eds) (\<lambda>d.
     ed_vendor_id d = 1 \<and> ed_product_type d = 12 \<and> ed_product_code d = 65001 \<and>
     ed_major_revision d = 2 \<and> ed_minor_revision d = 3 \<and>
     ed_product_name d = lit ''OpENer PC'' \<and> ed_catalog d = lit ''OpENer-2.x''))"

definition assemblies_and_params :: bool where
  "assemblies_and_params = with_sample (\<lambda>eds.
     passes (eds_assembly eds 100) (\<lambda>a. ea_size a = 32) \<and>
     passes (eds_assembly eds 150) (\<lambda>a. ea_size a = 32) \<and>
     passes (eds_param eds 4) (\<lambda>rpi. ep_data_type rpi = CipDataType 0xC8 \<and>
       ep_min rpi = Some (lit ''20000'') \<and> ep_max rpi = None \<and> default_int rpi = Some 30000))"

definition exclusive_owner_connection :: bool where
  "exclusive_owner_connection = with_sample (\<lambda>eds. passes (eds_connection eds 1) (\<lambda>c.
     ec_name c = lit ''Exlusive Owner'' \<and> ec_path c = cpath_assembly slice_bytes 151 150 100 \<and>
     edir_size (ec_o2t c) = 32 \<and> edir_size (ec_t2o c) = 32 \<and> ec_config_assembly c = Some 151 \<and>
     edir_rpi (ec_o2t c) = Some \<lparr>rpi_min = Some 20000, rpi_max = None, rpi_default = Some 30000\<rparr> \<and>
     passes (to_connection_config c) (\<lambda>config.
       config = config_new (cpath_assembly slice_bytes 151 150 100)
         (with_run_idle_header (direction_new 32 (1000000 * 30))) (direction_new 32 (1000000 * 30)))))"

definition param_reference_in_path_and_literal_rpi :: bool where
  "param_reference_in_path_and_literal_rpi = with_sample (\<lambda>eds. passes (eds_connection eds 2) (\<lambda>c.
     display_cpath (ec_path c) = lit ''20 04 24 97 2C 98 2C 64'' \<and> edir_size (ec_o2t c) = 0 \<and>
     returns (edir_rpi (ec_o2t c)) (\<lambda>rpi. rpi_default rpi = Some 5000) \<and>
     passes (to_connection_config c) (\<lambda>config.
       dir_rpi (cc_o2t config) = 1000000 * 5 \<and> \<not> dir_run_idle_header (cc_o2t config)) \<and>
     passes (eds_connections eds) (\<lambda>cs. length cs = 2)))"

definition missing_entries_are_errors :: bool where
  \<open>missing_entries_are_errors =
     (with_sample (\<lambda>eds. is_err (eds_connection eds 7) \<and> is_err (eds_assembly eds 1)) \<and>
      passes (eds_parse (lit ''[Connection Manager]'' @ [10] @
          lit '' Connection1 = 0x2, 0x5, ,,, ,,, ,,,, "x", "", "20 ZZ";''))
        (\<lambda>bad. err_contains (eds_connection bad 1) ''ZZ''))\<close>

lemma with_sample_eq: "with_sample P = P \<lparr>eds_sections = sample_sections\<rparr>"
  by (simp add: with_sample_def eds_parse_def SAMPLE_sections passes_def)

lemma eds_test_device_passes: eds_test_device
  unfolding eds_test_device_def with_sample_eq by code_simp

lemma assemblies_and_params_passes: assemblies_and_params
  unfolding assemblies_and_params_def with_sample_eq by code_simp

lemma exclusive_owner_connection_passes: exclusive_owner_connection
  unfolding exclusive_owner_connection_def with_sample_eq by code_simp

lemma param_reference_in_path_and_literal_rpi_passes: param_reference_in_path_and_literal_rpi
  unfolding param_reference_in_path_and_literal_rpi_def with_sample_eq by code_simp

lemma missing_entries_are_errors_passes: missing_entries_are_errors
  unfolding missing_entries_are_errors_def with_sample_eq by code_simp

end
