(* ===== verification/Tests_PowerFlex.thy ===== *)
theory Tests_PowerFlex
  imports Tests_Objects PowerFlex525
begin

text \<open>
  The unit tests of the PowerFlex 525 (src/src/vendor/ra/powerflex525/fault_code.rs, fault_object.rs, fault_parameter.rs,
  fault_manager.rs), run on the model with exact rational arithmetic for \<open>f64\<close>.
\<close>

section \<open>fault_code.rs\<close>

definition table_is_sorted :: bool where
  "table_is_sorted = list_all (\<lambda>(w0, w1). fst w0 < fst w1) (zip FAULTS (tl FAULTS))"

definition fault_lookup :: bool where
  "fault_lookup =
     (returns (fault_description 4) (\<lambda>d. fault_text d = lit ''UnderVoltage'') \<and>
      returns (fault_description 0) (\<lambda>d. fault_text d = lit ''No Fault'') \<and> fault_description 1 = None)"

lemma fault_description_at:
  "i < length FAULTS \<Longrightarrow> fst (FAULTS ! i) = code \<Longrightarrow> fault_description code = Some (snd (FAULTS ! i))"
  using binary_search_by_key_Ok [OF faults_sorted, of code i] by (simp add: fault_description_def)

lemma fault_description_absent:
  assumes "\<forall>e \<in> set FAULTS. fst e \<noteq> code"
  shows "fault_description code = None"
proof -
  have "binary_search_by_key FAULTS code \<noteq> Ok i" for i
    using binary_search_by_key_Ok [OF faults_sorted, of code i] assms nth_mem by metis
  then show ?thesis by (cases "binary_search_by_key FAULTS code") (auto simp: fault_description_def)
qed

lemma fault_entries:
  "3 < length FAULTS" "FAULTS ! 0 = (0, fault_row 0 (lit ''No Fault'') (lit ''No fault present.''))"
  "fst (FAULTS ! 3) = 4" "fault_text (snd (FAULTS ! 3)) = lit ''UnderVoltage''"
  by (simp_all add: FAULTS_def FAULTS_1_def fault_row_def)

lemma fault_code_tests: table_is_sorted fault_lookup
proof -
  show table_is_sorted by (simp add: table_is_sorted_def FAULTS_defs)
  have "fault_description 0 = Some (snd (FAULTS ! 0))"
    using fault_entries by (intro fault_description_at) auto
  moreover have "fault_description 4 = Some (snd (FAULTS ! 3))"
    using fault_entries by (intro fault_description_at) auto
  moreover have "fault_description 1 = None"
    by (rule fault_description_absent) (simp add: FAULTS_defs)
  ultimately show fault_lookup using fault_entries by (simp add: fault_lookup_def returns_def fault_row_def)
qed

section \<open>fault_object.rs\<close>

definition read_full_information :: bool where
  "read_full_information =
     (let d = [0x0D, 0x00, 1, 2] @ (as_bytes (lit ''Ground Fault'') @ [0, 0, 0, 0]) @ le64 0x0102030405060708 @ [0x03, 0x00]
      in case fault_object_read slice_bytes (mock_session slice_bytes) router_new 1 (mock_replies [d]) of (r, s) \<Rightarrow>
         passes r (\<lambda>obj. let info = dfo_full_information obj in
           fi_fault_code info = 13 \<and> fi_dsi_port info = 1 \<and> fi_dsi_device_object info = 2 \<and>
           fi_fault_text info = lit ''Ground Fault'' \<and> fi_timer_value info = 0x0102030405060708 \<and>
           fi_is_valid_data info \<and> fi_is_real_time info) \<and>
         rq_path (requests s ! 0) = epath_attribute 0x97 1 0)"

lemma read_full_information_passes: read_full_information
proof -
  have "le64 (0x0102030405060708 :: u64) = [8, 7, 6, 5, 4, 3, 2, 1]" by (simp add: to_le_def upt_rec)
  moreover have "try_get_u64_le slice_bytes (a # b # c # d # e # f # g # h # r) = Inr (of_le [a, b, c, d, e, f, g, h], r)"
    for a b c d e f g h r by (simp add: slice_bytes_def try_take_def)
  ultimately show ?thesis
    by (simp add: read_full_information_def fault_object_read_def full_information_fields_def mock_eval slice_eval as_bytes_def
      encode_char_def lit_def slift_def sret_def from_utf8_lossy_ascii trim_end_matches_def Let_def cong: eval_congs)
qed

section \<open>fault_parameter.rs\<close>

definition read_with_details :: bool where
  "read_with_details =
     (let s = mock_replies [[4, 0], [0x40, 0x01], [0xE8, 0x03], [0x70, 0x17]]
      in case fault_parameter_read slice_bytes rat_arith (mock_session slice_bytes) router_new 4 True s of (r, s) \<Rightarrow>
         passes r (\<lambda>p. fd_fault_code (dfp_fault_details p) = 4 \<and> fd_bus_voltage (dfp_fault_details p) = 320 \<and>
           fd_current (dfp_fault_details p) = 10 \<and> fd_frequency (dfp_fault_details p) = 60 \<and>
           returns (dfp_fault_description p) (\<lambda>d. fault_text d = lit ''UnderVoltage'')) \<and>
         map (\<lambda>r. instance_id (rq_path r)) (requests s) = [Some 604, Some 654, Some 644, Some 634])"

definition no_fault_skips_details :: bool where
  "no_fault_skips_details =
     (case fault_parameter_read slice_bytes rat_arith (mock_session slice_bytes) router_new 1 True (mock_replies [[0, 0]]) of
        (r, s) \<Rightarrow> passes r (\<lambda>p. fd_fault_code (dfp_fault_details p) = 0) \<and> length (requests s) = 1)"

definition fault_number_out_of_range :: bool where
  "fault_number_out_of_range =
     (is_err (fst (fault_parameter_read slice_bytes rat_arith (mock_session slice_bytes) router_new 0 False mock_new)) \<and>
      is_err (fst (fault_parameter_read slice_bytes rat_arith (mock_session slice_bytes) router_new 11 False mock_new)))"

lemma parameter_tables:
  "length CODE_PARAMS = 10" "CODE_PARAMS ! 3 = 604" "BUS_VOLTS_PARAMS ! 3 = 654" "CURRENT_PARAMS ! 3 = 644"
  "FREQUENCY_PARAMS ! 3 = 634"
  by (simp_all add: CODE_PARAMS_def BUS_VOLTS_PARAMS_def CURRENT_PARAMS_def FREQUENCY_PARAMS_def)

lemmas fault_eval = fault_parameter_read_def queue_index_def read_param_def slift_def sret_def parameter_tables f_scale_def f_ten_pow_def
  rat_arith_def

lemma fault_parameter_tests: read_with_details no_fault_skips_details fault_number_out_of_range
proof -
  have "fault_description 4 = Some (snd (FAULTS ! 3))" using fault_entries by (intro fault_description_at) auto
  then show read_with_details
    using fault_entries
    by (simp add: read_with_details_def fault_eval mock_eval slice_eval epath_attribute_def cong: eval_congs)
qed (simp_all add: no_fault_skips_details_def fault_number_out_of_range_def fault_eval mock_eval slice_eval cong: eval_congs)

section \<open>fault_manager.rs\<close>

text \<open>The handler of the test pushes the fault code to the list it shares with the test.\<close>

definition reads_until_empty_then_clears :: bool where
  "reads_until_empty_then_clears =
     (let s = mock_replies [[2, 0], [3, 0], [0, 0], []];
          mgr = on_new_fault (\<lambda>f seen. seen @ [fd_fault_code (dfp_fault_details f)]) [] (fault_manager_new True False)
      in case handle_fault_parameters slice_bytes rat_arith (mock_session slice_bytes) router_new (mgr, s) of (r, mgr, s) \<Rightarrow>
         passes r (\<lambda>faults. length faults = 2) \<and>
         returns (fm_on_new_fault mgr) (\<lambda>(_, seen). seen = [2, 3]) \<and>
         (let clear = last (requests s)
          in rq_service clear = SC_SET_ATTRIBUTE_SINGLE \<and> rq_path clear = epath_attribute 0x97 0 3 \<and> rq_data clear = [2]))"

definition empty_queue_is_not_cleared :: bool where
  "empty_queue_is_not_cleared =
     (case handle_fault_parameters slice_bytes rat_arith (mock_session slice_bytes) router_new
         (fault_manager_default :: (rat, unit) DpiFaultManager, mock_replies [[0, 0]]) of (r, mgr, s) \<Rightarrow>
        passes r (\<lambda>faults. faults = []) \<and> length (requests s) = 1)"

lemmas manager_eval = handle_fault_parameters_def read_faults.simps FAULT_NUMBERS_def fault_manager_default_def fault_manager_new_def
  on_new_fault_def call_fault_handler_def write_command_def

lemma fault_manager_tests: reads_until_empty_then_clears empty_queue_is_not_cleared
  by (simp_all add: reads_until_empty_then_clears_def empty_queue_is_not_cleared_def manager_eval fault_eval mock_eval slice_eval
    Let_def cong: eval_congs)
end
