(* ===== verification/Spec2Isabelle.thy ===== *)
theory Spec2Isabelle
  imports Tcp_Session Mock_Session Tcp_Request Conn_Params Conn_Path Forward_Open Io_Connection Io_Thread Io_Manager Exchange Cadence Io_Startup
    File_Object Eds Eds_Append Identity_Object Discovery Parameter_Object Fault_Code PowerFlex525
    Example_Programs Example_Implicit
    Tests_Wire Tests_Connections Tests_Manager Tests_Eds Tests_Objects Tests_PowerFlex
begin

text \<open>
  A verification library for eipscanner, a Rust library that speaks EtherNet/IP to industrial devices: explicit
  (request and reply) messages over a TCP session, implicit (cyclic) input and output over UDP, discovery,
  EDS files, and objects of some devices. This theory holds the properties that span components; the others
  stand at the end of the theory of their component, each after the text that numbers it.

  \<^bold>\<open>The parts and their theories.\<close> Each layer calls the one before it.
  \<^item> Prelude (results, the \<open>?\<close> operator, actions that fail and change a state), Rust_Text (strings, UTF-8,
    number formats and parsing of the standard library), Wire_Code (code.rs, cip/types.rs: the \<open>wire_code!\<close>
    newtypes with their names), Errors (error.rs), Bytes_Buf (codec.rs and the crate \<open>bytes\<close>), Wire_Format
    (the interface of an encoder and its decoder).
  \<^item> Epath (cip/epath.rs, cip/revision.rs), Encapsulation (eip/encaps.rs, eip/cpf.rs, eip/sockaddr.rs),
    Message_Router (cip/message_router.rs, message_router.rs, and the session contract of session.rs).
  \<^item> Tcp_Session (session.rs) and Mock_Session (test_support.rs), the two sessions. \<open>mock_session\<close> is a device that
    decodes each request, records it and answers from a queue, so a theorem over it says what a device
    understands of a request and what the library makes of the answer. Tcp_Request follows a TCP session from bytes to bytes.
  \<^item> Conn_Params, Conn_Path, Forward_Open (cip/connection_manager): parameters of connections, their paths,
    and the Forward Open and Close messages.
  \<^item> Io_Connection (io/connection.rs): schedule, packets and timeout of one connection. Io_Thread (io/thread.rs):
    the thread that owns the table of connections, its commands and passes, and the interleaving with the
    threads that hold handles (\<open>io_step\<close>). Io_Manager (io/manager.rs): opening and closing. Io_Startup (io/rt.rs,
    \<open>spawn\<close> and \<open>Drop\<close> of io/thread.rs): start and end of the thread, and the wait. Exchange composes them:
    from Forward Open to the data on the wire; Cadence follows a connection over many rounds.
  \<^item> File_Object (objects/file.rs): the upload. Identity_Object, Parameter_Object (objects/identity.rs,
    objects/parameter.rs). Discovery (discovery.rs, netif.rs).
  \<^item> Eds_Parse, Eds (eds/parse.rs, eds/mod.rs): the parser of EDS files, and the conversion of their connection
    entries into the configuration that \<open>forward_open\<close> takes. Eds_Append: the parser reads a file piece by piece.
  \<^item> Fault_Code, PowerFlex525 (vendor/ra/powerflex525). Message_Router also holds vendor/yaskawa/mp3300iec.rs.
  \<^item> Example_Programs, Example_Implicit (src/examples): what the example programs do with the library and print.
  \<^item> Tests_Wire, Tests_Connections, Tests_Manager, Tests_Eds, Tests_Objects, Tests_PowerFlex: the unit tests of the
    crate, each a definition that says what the Rust test asserts and a lemma that the model passes it.

  \<^bold>\<open>How the model corresponds to the code.\<close> Structs are records, enums datatypes, integers words of their
  width (a signed one is its two's complement word), usize and durations (in nanoseconds) naturals. A
  \<open>Result\<close> is a sum with the error on the left; \<open>Panicked\<close> is the error of a panic, so its absence can be stated.
  A method on \<open>&mut self\<close> returns the new state; a call through \<open>&dyn Session\<close> is an action on the state of the
  session. A reader over a buffer returns the value and the rest. Arithmetic on words wraps, as in a release
  build. A handler that changes its captured variables is a function with its state or a codatatype. What the
  outside world does (bytes that arrive, datagrams, the clock, the iteration order of a hash map) is an
  argument: a script the theorems quantify over.

  \<^bold>\<open>Parameters.\<close> The crate \<open>bytes\<close> is \<open>bytes_api\<close>, its documented behaviour the locale \<open>bytes_crate\<close>, interpreted on
  slices; \<open>libc\<close> and the standard library's sockets and threads are \<open>os_api\<close> and \<open>libc\<close>; IEEE arithmetic is
  \<open>f64_api\<close>. Witnesses instantiate them.

  \<^bold>\<open>Interfaces.\<close> \<open>wire_format\<close> (what is encoded is read back, with what follows it left over) and its extension
  \<open>fixed_width_format\<close> are given for the items, socket addresses, revisions and the connection manager's messages
  by sublocales of \<open>bytes_crate\<close>; \<open>session_contract\<close> (a delivered reply carries success; the session keeps its handle and
  its peer) is interpreted on both sessions.

  \<^bold>\<open>What the lemmas show.\<close> Round trips of every wire format, with the bounds under which they hold; the
  explicit request path end to end, over any session and over TCP from bytes to bytes; that a reply is accepted only with the right handle; that Forward Open
  asks for and hands over exactly what was configured and granted; invariants of the shared state of the
  threads over every interleaving (counter, flags, keys, no connection lost); that the passes of the thread do
  not depend on the order of the table and that its wait is never late; that output set through a handle reaches the
  device and the device's input the handler; numbering, phase and cadence of the packets;
  that an upload ends with the device's file; that the EDS parser reads its grammar and never panics; that
  objects, discovery and fault queues are read as the devices hold them. The flaws that came up are theorems too.

  \<^bold>\<open>Loops.\<close> Every loop over data is structural or has a measure; \<open>epath_decode\<close> and the blocking \<open>upload\<close>, which may
  run forever, are partial functions into \<open>option\<close>, and that they return is proved. No fuel is used.

  \<^bold>\<open>Not modelled.\<close> Logging and \<open>Debug\<close> output; socket options whose results are only passed on; the joining of a
  thread; reading an EDS file from disk before its parsing; the command lines of the examples (clap); the integration
  test, which runs against an external adapter; the unit tests of the operating system (the wait on real sockets,
  the interface list) and of the crate \<open>bytes\<close> (\<open>f32\<close>, \<open>f64\<close>).
\<close>

section \<open>From an EDS file to an open connection\<close>

text \<open>The packet interval \<open>to_connection_config\<close> takes: the default, else the minimum, else 10 ms.\<close>

definition chosen_rpi :: "EdsDirection \<Rightarrow> u32" where
  "chosen_rpi d =
     (case edir_rpi d of
        None \<Rightarrow> 10000
      | Some r \<Rightarrow> (case (rpi_default r, rpi_min r) of (Some v, _) \<Rightarrow> v | (None, Some v) \<Rightarrow> v | (None, None) \<Rightarrow> 10000))"

lemma config_direction_fields:
  assumes "config_direction ec shift fb dir name = Ok d"
  shows "dir_size d = of_nat (edir_size dir)" "dir_rpi d = from_micros (unat (chosen_rpi dir))"
  using assms
  by (auto simp: config_direction_def Let_def rbind_eq_Inr chosen_rpi_def split: if_splits option.splits)

lemma to_connection_config_fields:
  assumes "to_connection_config ec = Ok c"
  shows "cc_path c = ec_path ec" "cc_config_data c = []" "cc_timeout_multiplier c = 0" "cc_transport_class c \<in> {Class0, Class1}"
    "dir_size (cc_o2t c) = of_nat (edir_size (ec_o2t ec))" "dir_size (cc_t2o c) = of_nat (edir_size (ec_t2o ec))"
    "dir_rpi (cc_o2t c) = from_micros (unat (chosen_rpi (ec_o2t ec)))" "dir_rpi (cc_t2o c) = from_micros (unat (chosen_rpi (ec_t2o ec)))"
  using assms config_direction_fields
  by (auto simp: to_connection_config_def Let_def rbind_eq_Inr config_new_def split: if_splits)

lemma wire_size_le: "wire_size c d \<le> 6 + unat (dir_size d)"
  by (simp add: wire_size_def)

lemma eds_config_checked:
  assumes "to_connection_config ec = Ok c" "edir_size (ec_o2t ec) < 65530" "edir_size (ec_t2o ec) < 65530"
  shows "\<exists>large. check_config c = Ok large"
  using to_connection_config_fields [OF assms(1)] assms(2,3) wire_size_le [of c "cc_o2t c"] wire_size_le [of c "cc_t2o c"]
  by (auto simp: check_config_def Let_def unat_of_nat_small)

lemma micros_from_micros: "micros (from_micros (unat (v :: u32))) = v"
  using word_less_bound [of v] by (simp add: micros_def from_micros_def min_def)


text \<open>C4: From an EDS connection entry to an open connection: when the entry converts to a configuration and the
  sizes it names fit, \<open>forward_open\<close> with that configuration succeeds against a device that accepts it, and
  the device reads from the one request the path of the EDS file, both sizes with exactly the sequence count
  and run/idle header the configuration adds, and the packet intervals the file prefers (default, else
  minimum, else 10 ms), in microseconds.\<close>
theorem eds_connection_opens:
  assumes "bytes_crate B" "to_connection_config ec = Ok c"
    and "edir_size (ec_o2t ec) < 65530" "edir_size (ec_t2o ec) < 65530" "path_fits (path_bytes (ec_path ec))"
    and "running (cm_sys m)" "replies s = (GSC_SUCCESS, response_wire rp rsv @ rest, []) # rs"
    and "path_fits (fr_application_reply rp)" "length rest < 60000"
  shows "\<exists>h s' m' large d req. forward_open B (mock_session B) c callbacks now (s, m) = (Ok h, s', m')
    \<and> requests s' = requests s @ [\<lparr>rq_service = (if large then SC_LARGE_FORWARD_OPEN else SC_FORWARD_OPEN),
        rq_path = epath_instance CM_CLASS_ID 1, rq_data = d\<rparr>]
    \<and> target_reads_open B large d = Ok (req, []) \<and> fo_path req = path_bytes (ec_path ec)
    \<and> unat (np_size (fo_o2t_params req)) = (if has_sequence_count (cc_transport_class c) then 2 else 0)
        + (if dir_run_idle_header (cc_o2t c) then 4 else 0) + edir_size (ec_o2t ec)
    \<and> unat (np_size (fo_t2o_params req)) = (if has_sequence_count (cc_transport_class c) then 2 else 0)
        + (if dir_run_idle_header (cc_t2o c) then 4 else 0) + edir_size (ec_t2o ec)
    \<and> fo_o2t_rpi req = chosen_rpi (ec_o2t ec) \<and> fo_t2o_rpi req = chosen_rpi (ec_t2o ec)"
proof -
  note f = to_connection_config_fields [OF assms(2)]
  obtain large where large: "check_config c = Ok large" using eds_config_checked [OF assms(2-4)] by blast
  have path: "encoded_path c = path_bytes (ec_path ec)" by (simp add: encoded_path_def f)
  let ?req = "fst (open_request c m)"
  have req: "fo_path ?req = path_bytes (ec_path ec)" "fo_o2t_rpi ?req = chosen_rpi (ec_o2t ec)"
    "fo_t2o_rpi ?req = chosen_rpi (ec_t2o ec)"
    by (simp_all add: open_request_def Let_def path f micros_from_micros split: prod.split)
  have sizes: "wire_size c (cc_o2t c) = (if has_sequence_count (cc_transport_class c) then 2 else 0)
        + (if dir_run_idle_header (cc_o2t c) then 4 else 0) + edir_size (ec_o2t ec)"
    "wire_size c (cc_t2o c) = (if has_sequence_count (cc_transport_class c) then 2 else 0)
        + (if dir_run_idle_header (cc_t2o c) then 4 else 0) + edir_size (ec_t2o ec)"
    using assms(3,4) by (simp_all add: wire_size_def f unat_of_nat_small)
  from forward_open_device [OF assms(1) large assms(5) [folded path] assms(6,7,8,9), of None callbacks now] req sizes
  show ?thesis by (simp split del: if_split) blast
qed

lemma eds_connection_opens_witness:
  "\<exists>h s' m' c. to_connection_config sample_eds_connection = Ok c
    \<and> forward_open slice_bytes (mock_session slice_bytes) c callbacks_new 0
        (mock_reply (response_wire sample_reply 0) mock_new, sample_manager) = (Ok h, s', m')"
proof -
  obtain c where c: "to_connection_config sample_eds_connection = Ok c"
    by (simp add: to_connection_config_def sample_eds_connection_def sample_eds_direction_def config_direction_def
        eds_bit_def)
  have "path_fits (path_bytes (ec_path sample_eds_connection))" "path_fits (fr_application_reply sample_reply)"
    by (simp_all add: sample_eds_connection_def sample_reply_def path_fits_def)
  from eds_connection_opens [OF slice.bytes_crate_axioms c _ _ this(1) _ _ this(2), of sample_manager
      "mock_reply (response_wire sample_reply 0) mock_new" 0 "[]" "[]" callbacks_new 0] c
  show ?thesis
    by (auto simp: sample_eds_connection_def sample_eds_direction_def sample_manager_def manager_new_def io_start_def
        mock_reply_def mock_reply_status_def mock_new_def)
qed

text \<open>A size of an EDS file is cut to 16 bits without an error: the configuration of a connection whose file
  names 65536 bytes or more carries the size modulo 65536, and is accepted by the checks of \<open>forward_open\<close>.\<close>
theorem eds_size_truncated:
  assumes "to_connection_config ec = Ok c"
  shows "unat (dir_size (cc_o2t c)) = edir_size (ec_o2t ec) mod 65536
    \<and> unat (dir_size (cc_t2o c)) = edir_size (ec_t2o ec) mod 65536
    \<and> (edir_size (ec_o2t ec) mod 65536 < 65530 \<longrightarrow> edir_size (ec_t2o ec) mod 65536 < 65530 \<longrightarrow> is_ok (check_config c))"
  using to_connection_config_fields [OF assms] wire_size_le [of c "cc_o2t c"] wire_size_le [of c "cc_t2o c"]
  by (auto simp: check_config_def Let_def unat_of_nat)

lemma eds_size_truncated_witness:
  "\<exists>c. to_connection_config (sample_eds_connection\<lparr>ec_o2t := sample_eds_direction 65536\<rparr>) = Ok c
     \<and> dir_size (cc_o2t c) = 0 \<and> is_ok (check_config c)"
proof -
  obtain c where c: "to_connection_config (sample_eds_connection\<lparr>ec_o2t := sample_eds_direction 65536\<rparr>) = Ok c"
    by (simp add: to_connection_config_def sample_eds_connection_def sample_eds_direction_def config_direction_def
        eds_bit_def)
  from eds_size_truncated [OF this] c show ?thesis
    by (simp add: sample_eds_connection_def sample_eds_direction_def unat_eq_zero)
qed

end
